(* ===== verification/Prelude.thy ===== *)
theory Prelude
  imports Main "HOL-Library.Word" "HOL-Library.Sublist"
    "HOL-Library.Char_ord" "HOL-Library.List_Lexorder" "HOL-Library.Product_Lexorder"
begin

text \<open>
  What every component shares: the collections of rewrite rules the component proofs draw
  on, the integer widths of the program, and the operations of the Rust standard library
  that the program calls on strings, integers, sorted maps and vectors, with their laws.

  A Rust \<open>String\<close> is a list of its UTF-8 bytes (\<open>string\<close>, one \<open>char\<close> per byte), so
  \<open>len\<close> is \<open>length\<close> and the order of \<open>String\<close> is the lexicographic order of
  \<open>List_Lexorder\<close>.  Case folding and trimming are modelled on ASCII: a byte of a multi-byte
  character is never an ASCII letter or an ASCII blank, so those are left alone; the Unicode
  blanks and the Unicode case pairs of \<open>trim\<close> and \<open>to_lowercase\<close> are not modelled.
\<close>

named_theorems effect_simps \<open>how the operations on programs act on each kind of program\<close>
named_theorems client_defs \<open>definitions of API requests and of the ways replies are read\<close>
named_theorems const_defs \<open>the string constants of the program\<close>

type_synonym i32 = "32 word"
type_synonym i64 = "64 word"
type_synonym u32 = "32 word"
type_synonym usize = "64 word"

section \<open>Options and lists\<close>

definition is_some_and :: "('a \<Rightarrow> bool) \<Rightarrow> 'a option \<Rightarrow> bool" where
  "is_some_and P x = (case x of None \<Rightarrow> False | Some y \<Rightarrow> P y)"

lemma is_some_and_simps [simp]:
  "is_some_and P None = False"
  "is_some_and P (Some y) = P y"
  by (simp_all add: is_some_and_def)

lemma is_some_and_iff: "is_some_and P x \<longleftrightarrow> (\<exists>y. x = Some y \<and> P y)"
  by (cases x) auto

fun unwrap_or :: "'a option \<Rightarrow> 'a \<Rightarrow> 'a" where
  "unwrap_or None d = d"
| "unwrap_or (Some x) d = x"

fun or_else :: "'a option \<Rightarrow> 'a option \<Rightarrow> 'a option" where
  "or_else None y = y"
| "or_else (Some x) y = Some x"

lemma map_sum_iff [simp]:
  "map_sum f g x = Inr y \<longleftrightarrow> (\<exists>z. x = Inr z \<and> y = g z)"
  "map_sum f g x = Inl e \<longleftrightarrow> (\<exists>d. x = Inl d \<and> e = f d)"
  by (cases x; auto)+

text \<open>\<open>Vec::dedup\<close>: runs of equal neighbours are collapsed; this is \<open>remdups_adj\<close>.\<close>

lemma sorted_remdups_adj_distinct: "sorted xs \<Longrightarrow> distinct (remdups_adj xs)"
  for xs :: "'a::linorder list"
  by (induction xs rule: remdups_adj.induct) (auto simp: less_le)

lemma sorted_dedup_sort:
  "sorted (remdups_adj (sort xs)) \<and> distinct (remdups_adj (sort xs))
    \<and> set (remdups_adj (sort xs)) = set xs"
  for xs :: "'a::linorder list"
  by (simp add: sorted_remdups_adj sorted_remdups_adj_distinct)

lemma find_SomeD: "find P xs = Some x \<Longrightarrow> x \<in> set xs \<and> P x"
  by (auto simp: find_Some_iff)

section \<open>Sorted maps\<close>

text \<open>
  \<open>BTreeMap\<close>: an association list with strictly increasing keys.  \<open>insert\<close> overwrites, iteration is
  in key order.
\<close>

fun bt_insert :: "'k::linorder \<Rightarrow> 'v \<Rightarrow> ('k \<times> 'v) list \<Rightarrow> ('k \<times> 'v) list" where
  "bt_insert k v [] = [(k, v)]"
| "bt_insert k v ((a, b) # m) =
     (if k < a then (k, v) # (a, b) # m
      else if k = a then (k, v) # m
      else (a, b) # bt_insert k v m)"

definition bt_wf :: "('k::linorder \<times> 'v) list \<Rightarrow> bool" where
  "bt_wf m \<longleftrightarrow> sorted_wrt (<) (map fst m)"

lemma map_of_bt_insert [simp]: "map_of (bt_insert k v m) = (map_of m)(k \<mapsto> v)"
  by (induction k v m rule: bt_insert.induct) auto

lemma keys_bt_insert [simp]: "fst ` set (bt_insert k v m) = insert k (fst ` set m)"
  by (induction k v m rule: bt_insert.induct) auto

lemma bt_wf_insert [simp]: "bt_wf m \<Longrightarrow> bt_wf (bt_insert k v m)"
  unfolding bt_wf_def
proof (induction k v m rule: bt_insert.induct)
  case (2 k v a b m)
  have "x \<in> insert k (fst ` set m)" if "x \<in> fst ` set (bt_insert k v m)" for x
    using that by simp
  then show ?case using 2 by (auto simp del: keys_bt_insert) fastforce+
qed simp

lemma bt_wf_Nil [simp]: "bt_wf []"
  by (simp add: bt_wf_def)

lemma map_of_fold_insert:
  "map_of (fold (\<lambda>(k, v). bt_insert k v) kvs m) = map_of m ++ map_of (rev kvs)"
  by (induction kvs arbitrary: m) (auto simp: fun_eq_iff map_add_def split: option.split)

lemma map_of_rev_wf: "bt_wf m \<Longrightarrow> map_of (rev m) = map_of m"
proof -
  assume "bt_wf m"
  then have "distinct (map fst m)" by (simp add: bt_wf_def strict_sorted_iff)
  then show ?thesis by (metis distinct_rev map_of_inject_set rev_map set_rev)
qed

section \<open>Strings\<close>

definition strip_prefix :: "string \<Rightarrow> string \<Rightarrow> string option" where
  "strip_prefix p s = (if prefix p s then Some (drop (length p) s) else None)"

definition strip_suffix :: "string \<Rightarrow> string \<Rightarrow> string option" where
  "strip_suffix p s = (if suffix p s then Some (take (length s - length p) s) else None)"

lemma strip_prefix_append [simp]: "strip_prefix p (p @ s) = Some s"
  by (simp add: strip_prefix_def)

lemma strip_prefix_Some_iff: "strip_prefix p s = Some t \<longleftrightarrow> s = p @ t"
  by (auto simp: strip_prefix_def prefix_def)

lemma strip_prefix_char:
  "strip_prefix [c] s = (case s of [] \<Rightarrow> None | x # xs \<Rightarrow> if x = c then Some xs else None)"
  by (auto simp: strip_prefix_def split: list.splits)

lemma strip_suffix_append [simp]: "strip_suffix p (s @ p) = Some s"
  by (simp add: strip_suffix_def suffix_def)

lemma strip_suffix_Some_iff: "strip_suffix p s = Some t \<longleftrightarrow> s = t @ p"
  by (auto simp: strip_suffix_def suffix_def)

lemma strip_suffix_None_iff: "strip_suffix p s = None \<longleftrightarrow> \<not> suffix p s"
  by (auto simp: strip_suffix_def)

text \<open>\<open>str::split\<close> on one character: at least one piece, the separators removed.\<close>

fun split_char :: "char \<Rightarrow> string \<Rightarrow> string list" where
  "split_char c [] = [[]]"
| "split_char c (x # xs) =
     (if x = c then [] # split_char c xs
      else (case split_char c xs of [] \<Rightarrow> [[x]] | y # ys \<Rightarrow> (x # y) # ys))"

definition is_ascii_blank :: "char \<Rightarrow> bool" where
  "is_ascii_blank c \<longleftrightarrow>
     c \<in> {CHR 0x09, CHR 0x0A, CHR 0x0B, CHR 0x0C, CHR 0x0D, CHR '' ''}"

definition trim :: "string \<Rightarrow> string" where
  "trim s = rev (dropWhile is_ascii_blank (rev (dropWhile is_ascii_blank s)))"

definition trim_end_char :: "char \<Rightarrow> string \<Rightarrow> string" where
  "trim_end_char c s = rev (dropWhile (\<lambda>x. x = c) (rev s))"

definition ascii_lower :: "char \<Rightarrow> char" where
  "ascii_lower c =
     (let n = (of_char c :: nat) in if 65 \<le> n \<and> n \<le> 90 then char_of (n + 32) else c)"

definition to_ascii_lowercase :: "string \<Rightarrow> string" where
  "to_ascii_lowercase s = map ascii_lower s"

definition eq_ignore_ascii_case :: "string \<Rightarrow> string \<Rightarrow> bool" where
  "eq_ignore_ascii_case a b \<longleftrightarrow> to_ascii_lowercase a = to_ascii_lowercase b"

lemma ascii_lower_idem [simp]: "ascii_lower (ascii_lower c) = ascii_lower c"
proof -
  have "(of_char c :: nat) < 256" by simp
  then show ?thesis by (auto simp: ascii_lower_def Let_def)
qed

lemma to_ascii_lowercase_idem [simp]:
  "to_ascii_lowercase (to_ascii_lowercase s) = to_ascii_lowercase s"
  by (simp add: to_ascii_lowercase_def)

fun join :: "string \<Rightarrow> string list \<Rightarrow> string" where
  "join sep [] = []"
| "join sep [s] = s"
| "join sep (s # t # ss) = s @ sep @ join sep (t # ss)"

text \<open>A text between single quotes (byte 39).\<close>

definition quoted :: "string \<Rightarrow> string" where
  "quoted s = CHR 0x27 # s @ [CHR 0x27]"

section \<open>Decimal integers\<close>

definition digit_char :: "nat \<Rightarrow> char" where
  "digit_char d = char_of (48 + d)"

definition char_digit :: "char \<Rightarrow> nat option" where
  "char_digit c =
     (let n = (of_char c :: nat) in if 48 \<le> n \<and> n \<le> 57 then Some (n - 48) else None)"

lemma char_digit_digit_char [simp]: "d < 10 \<Longrightarrow> char_digit (digit_char d) = Some d"
  by (simp add: char_digit_def digit_char_def Let_def)

lemma digit_char_not_sign: "d < 10 \<Longrightarrow> digit_char d \<noteq> CHR ''-'' \<and> digit_char d \<noteq> CHR ''+''"
proof -
  assume d: "d < 10"
  then have "char_digit (digit_char d) = Some d" by simp
  moreover have "char_digit (CHR ''-'') = None" "char_digit (CHR ''+'') = None"
    by (simp_all add: char_digit_def)
  ultimately show ?thesis by auto
qed

fun show_nat :: "nat \<Rightarrow> string" where
  "show_nat n =
     (if n < 10 then [digit_char n] else show_nat (n div 10) @ [digit_char (n mod 10)])"

declare show_nat.simps [simp del]

definition show_int :: "int \<Rightarrow> string" where
  "show_int i = (if i < 0 then CHR ''-'' # show_nat (nat (- i)) else show_nat (nat i))"

definition show_i64 :: "i64 \<Rightarrow> string" where
  "show_i64 w = show_int (sint w)"

definition show_i32 :: "i32 \<Rightarrow> string" where
  "show_i32 w = show_int (sint w)"

definition show_u32 :: "u32 \<Rightarrow> string" where
  "show_u32 w = show_nat (unat w)"

text \<open>
  \<open>i64::from_str\<close>: an optional sign, then decimal digits, read from the left with the range
  checked at every digit, as the checked loop of the standard library does.
\<close>

datatype int_error = IntEmpty | InvalidDigit | PosOverflow | NegOverflow

definition i64_min :: int where "i64_min = - (2 ^ 63)"
definition i64_max :: int where "i64_max = 2 ^ 63 - 1"

fun parse_pos :: "int \<Rightarrow> string \<Rightarrow> int_error + int" where
  "parse_pos acc [] = Inr acc"
| "parse_pos acc (c # cs) =
     (case char_digit c of
        None \<Rightarrow> Inl InvalidDigit
      | Some d \<Rightarrow>
          if acc * 10 + int d > i64_max then Inl PosOverflow
          else parse_pos (acc * 10 + int d) cs)"

fun parse_neg :: "int \<Rightarrow> string \<Rightarrow> int_error + int" where
  "parse_neg acc [] = Inr acc"
| "parse_neg acc (c # cs) =
     (case char_digit c of
        None \<Rightarrow> Inl InvalidDigit
      | Some d \<Rightarrow>
          if acc * 10 - int d < i64_min then Inl NegOverflow
          else parse_neg (acc * 10 - int d) cs)"

definition parse_i64 :: "string \<Rightarrow> int_error + i64" where
  "parse_i64 s =
     map_sum id word_of_int
       (case s of
          [] \<Rightarrow> Inl IntEmpty
        | c # cs \<Rightarrow>
            if c = CHR ''+'' \<and> cs \<noteq> [] then parse_pos 0 cs
            else if c = CHR ''-'' \<and> cs \<noteq> [] then parse_neg 0 cs
            else parse_pos 0 (c # cs))"

lemma show_nat_induct [case_names step]:
  fixes n :: nat
  assumes "\<And>n. (10 \<le> n \<Longrightarrow> P (n div 10)) \<Longrightarrow> P n"
  shows "P n"
  by (induction n rule: show_nat.induct) (use assms in \<open>metis not_less\<close>)

lemma show_nat_not_Nil [simp]: "show_nat n \<noteq> []"
  by (subst show_nat.simps) simp

lemma parse_pos_append:
  "parse_pos acc (xs @ ys) =
     (case parse_pos acc xs of Inl e \<Rightarrow> Inl e | Inr v \<Rightarrow> parse_pos v ys)"
  by (induction acc xs rule: parse_pos.induct) (auto split: option.splits)

lemma parse_neg_append:
  "parse_neg acc (xs @ ys) =
     (case parse_neg acc xs of Inl e \<Rightarrow> Inl e | Inr v \<Rightarrow> parse_neg v ys)"
  by (induction acc xs rule: parse_neg.induct) (auto split: option.splits)

lemma parse_pos_show_nat: "int n \<le> i64_max \<Longrightarrow> parse_pos 0 (show_nat n) = Inr (int n)"
proof (induction n rule: show_nat_induct)
  case (step n)
  show ?case
  proof (cases "n < 10")
    case True
    then show ?thesis using step.prems by (simp add: show_nat.simps [of n])
  next
    case False
    have "int (n div 10) \<le> i64_max" using step.prems by linarith
    then have ih: "parse_pos 0 (show_nat (n div 10)) = Inr (int (n div 10))"
      using step.IH False by simp
    have dec: "int (n div 10) * 10 + int (n mod 10) = int n" by presburger
    have "n mod 10 < 10" by simp
    with False ih dec step.prems show ?thesis
      by (subst show_nat.simps) (simp add: parse_pos_append del: of_nat_mod of_nat_div)
  qed
qed

lemma parse_neg_show_nat: "i64_min \<le> - int n \<Longrightarrow> parse_neg 0 (show_nat n) = Inr (- int n)"
proof (induction n rule: show_nat_induct)
  case (step n)
  show ?case
  proof (cases "n < 10")
    case True
    then show ?thesis using step.prems by (simp add: show_nat.simps [of n])
  next
    case False
    have "i64_min \<le> - int (n div 10)" using step.prems by linarith
    then have ih: "parse_neg 0 (show_nat (n div 10)) = Inr (- int (n div 10))"
      using step.IH False by simp
    have dec: "- int (n div 10) * 10 - int (n mod 10) = - int n" by presburger
    have "n mod 10 < 10" by simp
    with False ih dec step.prems show ?thesis
      by (subst show_nat.simps) (simp add: parse_neg_append del: of_nat_mod of_nat_div)
  qed
qed

lemma show_nat_hd_digit: "\<exists>d < 10. hd (show_nat n) = digit_char d"
proof (induction n rule: show_nat_induct)
  case (step n)
  show ?case
  proof (cases "n < 10")
    case True
    then show ?thesis by (auto simp: show_nat.simps [of n])
  next
    case False
    then show ?thesis using step by (subst (1) show_nat.simps) (simp add: hd_append)
  qed
qed

theorem parse_i64_show_i64 [simp]: "parse_i64 (show_i64 w) = Inr w"
proof -
  have lo: "i64_min \<le> sint w" and hi: "sint w \<le> i64_max"
    using sint_greater_eq [of w] sint_less [of w] by (simp_all add: i64_min_def i64_max_def)
  show ?thesis
  proof (cases "sint w < 0")
    case True
    then have "parse_neg 0 (show_nat (nat (- sint w))) = Inr (sint w)"
      using parse_neg_show_nat [of "nat (- sint w)"] lo by simp
    with True show ?thesis
      by (simp add: parse_i64_def show_i64_def show_int_def)
  next
    case False
    then have p: "parse_pos 0 (show_nat (nat (sint w))) = Inr (sint w)"
      using parse_pos_show_nat [of "nat (sint w)"] hi by simp
    obtain d where d: "d < 10" "hd (show_nat (nat (sint w))) = digit_char d"
      using show_nat_hd_digit by blast
    obtain c cs where "show_nat (nat (sint w)) = c # cs"
      by (cases "show_nat (nat (sint w))") auto
    with d digit_char_not_sign [OF d(1)] p False show ?thesis
      by (simp add: parse_i64_def show_i64_def show_int_def)
  qed
qed

lemma show_i64_inject [simp]: "show_i64 a = show_i64 b \<longleftrightarrow> a = b"
  by (metis Inr_inject parse_i64_show_i64)

text \<open>Printed numbers: distinct, and made of digits only.\<close>

lemma show_nat_digits: "c \<in> set (show_nat n) \<Longrightarrow> \<exists>d < 10. c = digit_char d"
proof (induction n rule: show_nat_induct)
  case (step n)
  then show ?case
    by (subst (asm) (2) show_nat.simps) (auto split: if_splits intro: exI [of _ "n mod 10"])
qed

lemma show_nat_no_hyphen: "CHR ''-'' \<notin> set (show_nat n)"
  using show_nat_digits digit_char_not_sign by metis

lemma show_nat_inject [simp]: "show_nat a = show_nat b \<longleftrightarrow> a = b"
proof -
  have "foldl (\<lambda>v c. v * 10 + the (char_digit c)) 0 (show_nat n) = n" for n
  proof (induction n rule: show_nat_induct)
    case (step n)
    then show ?case by (subst show_nat.simps) simp
  qed
  then show ?thesis by metis
qed

text \<open>Two texts with the same first separator agree on both sides of it.\<close>

lemma append_sep_inject:
  "c \<notin> set x \<Longrightarrow> c \<notin> set y \<Longrightarrow> x @ c # u = y @ c # v \<longleftrightarrow> x = y \<and> u = v"
proof (induction x arbitrary: y)
  case Nil
  then show ?case by (cases y) auto
next
  case (Cons z x)
  then show ?case by (cases y) auto
qed

end
