(* ===== verification/Effects.thy ===== *)
theory Effects
  imports Prelude
begin

text \<open>
  Programs with effects.  The handlers of the controller are \<open>async\<close> functions that talk to
  services (the Kubernetes API, the BinaryLane API), to the clock, to the random source and to
  memory shared between tasks.  None of that is code of the repository, so a handler is
  modelled as the tree of what it does: \<open>Done x\<close> has returned \<open>x\<close>, \<open>Ask c k\<close> issues the
  request \<open>c\<close> and goes on as \<open>k r\<close> when the environment answers \<open>r\<close>, \<open>Panic\<close> is a Rust panic,
  \<open>Hang\<close> is a loop cut off by its fuel.  The environment is a parameter: a list of requests and
  replies (\<open>after\<close>), or a function on a world (\<open>run\<close>).

  \<open>safe G Q h p\<close> is the proof obligation used throughout: with the calls of \<open>h\<close> already made, and
  whatever the environment replies, \<open>p\<close> issues a request only when the guard \<open>G\<close> allows it after
  the calls made so far, and ends in an outcome that satisfies \<open>Q\<close>.
\<close>

datatype ('c, 'r, 'a) prog =
    Done 'a
  | Ask 'c "'r \<Rightarrow> ('c, 'r, 'a) prog"
  | Panic string
  | Hang

datatype 'a outcome = Returned 'a | Panicked string | Hung

type_synonym ('c, 'r) history = "('c \<times> 'r) list"

section \<open>Sequencing\<close>

text \<open>\<open>bind\<close> is sequencing, \<open>attempt\<close> is the operator \<open>?\<close> on a \<open>Result\<close>, \<open>ask\<close> one request.\<close>

primrec bind :: "('c, 'r, 'a) prog \<Rightarrow> ('a \<Rightarrow> ('c, 'r, 'b) prog) \<Rightarrow> ('c, 'r, 'b) prog" where
  "bind (Done x) f = f x"
| "bind (Ask c k) f = Ask c (\<lambda>r. bind (k r) f)"
| "bind (Panic s) f = Panic s"
| "bind Hang f = Hang"

definition ask :: "'c \<Rightarrow> ('r \<Rightarrow> 'a) \<Rightarrow> ('c, 'r, 'a) prog" where
  "ask c read = Ask c (\<lambda>r. Done (read r))"

definition attempt ::
  "('c, 'r, 'e + 'a) prog \<Rightarrow> ('a \<Rightarrow> ('c, 'r, 'e + 'b) prog) \<Rightarrow> ('c, 'r, 'e + 'b) prog" where
  "attempt p f = bind p (\<lambda>x. case x of Inl e \<Rightarrow> Done (Inl e) | Inr y \<Rightarrow> f y)"

definition map_err :: "('e \<Rightarrow> 'f) \<Rightarrow> ('c, 'r, 'e + 'a) prog \<Rightarrow> ('c, 'r, 'f + 'a) prog" where
  "map_err g p = bind p (\<lambda>x. Done (map_sum g id x))"

text \<open>A \<open>for\<close> loop over a list whose body may return early with an error.\<close>

fun for_each :: "'a list \<Rightarrow> ('a \<Rightarrow> ('c, 'r, 'e + unit) prog) \<Rightarrow> ('c, 'r, 'e + unit) prog" where
  "for_each [] body = Done (Inr ())"
| "for_each (x # xs) body = attempt (body x) (\<lambda>_. for_each xs body)"

lemma bind_ask [simp]: "bind (ask c read) f = Ask c (\<lambda>r. f (read r))"
  by (simp add: ask_def)

lemma bind_Done [simp]: "bind p Done = p"
  by (induction p) auto

lemma bind_assoc: "bind (bind p f) g = bind p (\<lambda>x. bind (f x) g)"
  by (induction p) auto

lemma attempt_simps [simp]:
  "attempt (Done (Inl e)) f = Done (Inl e)"
  "attempt (Done (Inr x)) f = f x"
  "attempt (Panic s) f = Panic s"
  "attempt Hang f = Hang"
  "attempt (Ask c k) f = Ask c (\<lambda>r. attempt (k r) f)"
  by (simp_all add: attempt_def)

lemma attempt_ask [simp]:
  "attempt (ask c read) f =
     Ask c (\<lambda>r. case read r of Inl e \<Rightarrow> Done (Inl e) | Inr y \<Rightarrow> f y)"
  by (simp add: attempt_def)

lemma map_err_simps [simp]:
  "map_err g (Done x) = Done (map_sum g id x)"
  "map_err g (Panic s) = Panic s"
  "map_err g Hang = Hang"
  "map_err g (Ask c k) = Ask c (\<lambda>r. map_err g (k r))"
  by (simp_all add: map_err_def)

lemma map_err_ask: "map_err g (ask c read) = ask c (\<lambda>r. map_sum g id (read r))"
  by (simp add: ask_def)

section \<open>Runs\<close>

text \<open>\<open>after p h\<close>: what is left of \<open>p\<close> once it has made the calls of \<open>h\<close> and got its replies.\<close>

fun after :: "('c, 'r, 'a) prog \<Rightarrow> ('c, 'r) history \<Rightarrow> ('c, 'r, 'a) prog option" where
  "after p [] = Some p"
| "after (Ask c k) ((c', r) # h) = (if c = c' then after (k r) h else None)"
| "after (Done x) (e # h) = None"
| "after (Panic s) (e # h) = None"
| "after Hang (e # h) = None"

primrec run ::
  "('c, 'r, 'a) prog \<Rightarrow> ('w \<Rightarrow> 'c \<Rightarrow> 'r \<times> 'w) \<Rightarrow> 'w \<Rightarrow> 'a outcome \<times> ('c, 'r) history \<times> 'w" where
  "run (Done x) env w = (Returned x, [], w)"
| "run (Ask c k) env w =
     (let (r, w') = env w c; (x, h, w'') = run (k r) env w' in (x, (c, r) # h, w''))"
| "run (Panic s) env w = (Panicked s, [], w)"
| "run Hang env w = (Hung, [], w)"

lemma run_bind:
  "run (bind p f) env w =
     (case run p env w of (out, h, w') \<Rightarrow>
        (case out of
           Returned x \<Rightarrow> (case run (f x) env w' of (y, h', w'') \<Rightarrow> (y, h @ h', w''))
         | Panicked s \<Rightarrow> (Panicked s, h, w')
         | Hung \<Rightarrow> (Hung, h, w')))"
  by (induction p arbitrary: w) (auto split: prod.split outcome.split)

fun finished :: "('c, 'r, 'a) prog \<Rightarrow> 'a outcome option" where
  "finished (Done x) = Some (Returned x)"
| "finished (Panic s) = Some (Panicked s)"
| "finished Hang = Some Hung"
| "finished (Ask c k) = None"

text \<open>Splitting and joining runs.\<close>

lemma after_append: "after p (h @ h') = Option.bind (after p h) (\<lambda>q. after q h')"
  by (induction p h rule: after.induct) auto

lemma after_bind_Done:
  "after p h = Some (Done x) \<Longrightarrow> after (bind p f) (h @ h') = after (f x) h'"
  by (induction p h rule: after.induct) (auto split: if_splits)

lemma after_attempt:
  "after p h = Some (Done (Inr x)) \<Longrightarrow> after (attempt p f) (h @ h') = after (f x) h'"
  "after p h = Some (Done (Inl e)) \<Longrightarrow> after (attempt p f) h = Some (Done (Inl e))"
proof -
  show "after (attempt p f) (h @ h') = after (f x) h'" if "after p h = Some (Done (Inr x))"
    using that by (simp add: attempt_def after_bind_Done)
  show "after (attempt p f) h = Some (Done (Inl e))" if "after p h = Some (Done (Inl e))"
    unfolding attempt_def by (subst after_bind_Done [OF that, where h' = "[]", simplified]) simp
qed

lemma after_bind_DoneE:
  assumes "after (bind p f) h = Some (Done y)"
  obtains x h1 h2 where "h = h1 @ h2" "after p h1 = Some (Done x)" "after (f x) h2 = Some (Done y)"
proof -
  have "\<exists>x h1 h2. h = h1 @ h2 \<and> after p h1 = Some (Done x) \<and> after (f x) h2 = Some (Done y)"
    using assms
  proof (induction p arbitrary: h)
    case (Done x)
    then show ?case by (intro exI [of _ x] exI [of _ "[]"] exI [of _ h]) simp
  next
    case (Ask c k)
    then obtain r t where h: "h = (c, r) # t" and t: "after (bind (k r) f) t = Some (Done y)"
      by (cases h) (auto split: if_splits)
    from Ask.IH [OF rangeI t] obtain x h1 h2 where "t = h1 @ h2" "after (k r) h1 = Some (Done x)"
      "after (f x) h2 = Some (Done y)" by blast
    then show ?case by (intro exI [of _ x] exI [of _ "(c, r) # h1"] exI [of _ h2]) (simp add: h)
  next
    case (Panic s)
    then show ?case by (cases h) simp_all
  next
    case Hang
    then show ?case by (cases h) simp_all
  qed
  with that show thesis by blast
qed

lemma after_attempt_DoneE:
  assumes "after (attempt p f) h = Some (Done (Inr y))"
  obtains x h1 h2 where "h = h1 @ h2" "after p h1 = Some (Done (Inr x))"
    "after (f x) h2 = Some (Done (Inr y))"
proof -
  from assms obtain z h1 h2 where z: "h = h1 @ h2" "after p h1 = Some (Done z)"
    "after (case z of Inl e \<Rightarrow> Done (Inl e) | Inr y \<Rightarrow> f y) h2 = Some (Done (Inr y))"
    unfolding attempt_def by (rule after_bind_DoneE)
  show thesis
  proof (cases z)
    case (Inl e)
    with z(3) show thesis by (cases h2) simp_all
  next
    case (Inr x)
    with z that show thesis by simp
  qed
qed

lemma after_run:
  "run p env w = (x, h, w') \<Longrightarrow> \<exists>q. after p h = Some q \<and> finished q = Some x"
proof (induction p arbitrary: x h w w')
  case (Ask c k)
  obtain r w1 where "env w c = (r, w1)" by fastforce
  then show ?case using Ask by (auto split: prod.splits)
qed auto

section \<open>Guarded programs\<close>

primrec safe ::
  "(('c, 'r) history \<Rightarrow> 'c \<Rightarrow> bool) \<Rightarrow> ('a outcome \<Rightarrow> ('c, 'r) history \<Rightarrow> bool)
    \<Rightarrow> ('c, 'r) history \<Rightarrow> ('c, 'r, 'a) prog \<Rightarrow> bool" where
  "safe G Q h (Done x) = Q (Returned x) h"
| "safe G Q h (Ask c k) = (G h c \<and> (\<forall>r. safe G Q (h @ [(c, r)]) (k r)))"
| "safe G Q h (Panic s) = Q (Panicked s) h"
| "safe G Q h Hang = Q Hung h"

definition then_post ::
  "('b outcome \<Rightarrow> ('c, 'r) history \<Rightarrow> bool) \<Rightarrow> ('a \<Rightarrow> ('c, 'r) history \<Rightarrow> bool)
    \<Rightarrow> 'a outcome \<Rightarrow> ('c, 'r) history \<Rightarrow> bool" where
  "then_post Q F out h =
     (case out of Returned x \<Rightarrow> F x h | Panicked s \<Rightarrow> Q (Panicked s) h | Hung \<Rightarrow> Q Hung h)"

lemma then_post_simps [simp]:
  "then_post Q F (Returned x) h = F x h"
  "then_post Q F (Panicked s) h = Q (Panicked s) h"
  "then_post Q F Hung h = Q Hung h"
  by (simp_all add: then_post_def)

lemma safe_bind [effect_simps]:
  "safe G Q h (bind p f) = safe G (then_post Q (\<lambda>x h'. safe G Q h' (f x))) h p"
  by (induction p arbitrary: h) auto

lemma safe_attempt [effect_simps]:
  "safe G Q h (attempt p f) =
     safe G (then_post Q (\<lambda>x h'. case x of Inl e \<Rightarrow> Q (Returned (Inl e)) h'
                                  | Inr y \<Rightarrow> safe G Q h' (f y))) h p"
  unfolding attempt_def safe_bind
  by (intro arg_cong [where f = "\<lambda>Q. safe G Q h p"] ext)
     (simp add: then_post_def split: outcome.split sum.split)

lemma safe_map_err [effect_simps]:
  "safe G Q h (map_err g p) =
     safe G (then_post Q (\<lambda>x h'. Q (Returned (map_sum g id x)) h')) h p"
  by (simp add: map_err_def safe_bind)

lemma safe_ask [effect_simps]:
  "safe G Q h (ask c read) \<longleftrightarrow> G h c \<and> (\<forall>r. Q (Returned (read r)) (h @ [(c, r)]))"
  by (simp add: ask_def)

lemma safe_mono:
  assumes "safe G Q h p"
    and "\<And>h c. G h c \<Longrightarrow> G' h c" and "\<And>x h. Q x h \<Longrightarrow> Q' x h"
  shows "safe G' Q' h p"
  using assms by (induction p arbitrary: h) auto

text \<open>The same, keeping track of the fact that the history only grows.\<close>

lemma safe_extends:
  assumes "safe G Q h p"
  shows "safe G (\<lambda>x h'. Q x h' \<and> (\<exists>t. h' = h @ t)) h p"
  using assms
proof (induction p arbitrary: h)
  case (Ask c k)
  have "safe G (\<lambda>x h'. Q x h' \<and> (\<exists>t. h' = h @ t)) (h @ [(c, r)]) (k r)" for r
    using Ask.IH [of "k r" "h @ [(c, r)]"] Ask.prems by (auto intro: safe_mono)
  then show ?case using Ask.prems by simp
qed auto

lemma safe_after:
  "safe G Q h p \<Longrightarrow> after p t = Some q \<Longrightarrow> safe G Q (h @ t) q"
proof (induction p t arbitrary: h rule: after.induct)
  case (2 c k c' r t)
  then show ?case by (auto split: if_splits dest: meta_spec [of _ "h @ [(c, r)]"])
qed auto

lemma safe_guard:
  assumes "safe G Q [] p" and "after p (t @ (c, r) # u) = Some q"
  shows "G t c"
proof -
  from assms(2) obtain q' where q': "after p t = Some q'" and ask: "after q' ((c, r) # u) = Some q"
    by (auto simp: after_append bind_eq_Some_conv)
  from safe_after [OF assms(1) q'] have "safe G Q t q'" by simp
  with ask show ?thesis by (cases q') (auto split: if_splits)
qed

lemma safe_post:
  assumes "safe G Q [] p" and "after p t = Some q" and "finished q = Some x"
  shows "Q x t"
  using safe_after [OF assms(1,2)] assms(3) by (cases q) auto

text \<open>The rule for loops: the invariant knows which elements are done.\<close>

lemma safe_for_each_done:
  assumes step: "\<And>ds x es h. xs = ds @ x # es \<Longrightarrow> I ds h \<Longrightarrow>
      safe G (then_post Q (\<lambda>y h'. case y of Inl e \<Rightarrow> Q (Returned (Inl e)) h' | Inr _ \<Rightarrow> I (ds @ [x]) h'))
        h (body x)"
    and fin: "\<And>h. I xs h \<Longrightarrow> Q (Returned (Inr ())) h"
    and "I [] h"
  shows "safe G Q h (for_each xs body)"
proof -
  have "safe G Q h (for_each es body)" if "I ds h" and "xs = ds @ es" for ds es h
    using that
  proof (induction es arbitrary: ds h)
    case Nil
    then show ?case using fin by simp
  next
    case (Cons x es)
    have tail: "safe G Q h' (for_each es body)" if "I (ds @ [x]) h'" for h'
      using Cons.IH [OF that] Cons.prems(2) by simp
    show ?case
      unfolding for_each.simps safe_attempt
      by (rule safe_mono [OF step [OF Cons.prems(2,1)]])
         (use tail in \<open>auto simp: then_post_def split: outcome.splits sum.splits\<close>)
  qed
  with assms(3) show ?thesis by simp
qed

lemma safe_for_each:
  assumes "\<And>x h. x \<in> set xs \<Longrightarrow> I h \<Longrightarrow>
      safe G (then_post Q (\<lambda>y h'. case y of Inl e \<Rightarrow> Q (Returned (Inl e)) h' | Inr _ \<Rightarrow> I h')) h (body x)"
    and "\<And>h. I h \<Longrightarrow> Q (Returned (Inr ())) h"
    and "I h"
  shows "safe G Q h (for_each xs body)"
  by (rule safe_for_each_done [where I = "\<lambda>_. I"]) (use assms in auto)

text \<open>\<open>within P p\<close>: every call of every run of \<open>p\<close> satisfies \<open>P\<close>, whatever came before it.\<close>

primrec within :: "('c \<Rightarrow> bool) \<Rightarrow> ('c, 'r, 'a) prog \<Rightarrow> bool" where
  "within P (Done x) = True"
| "within P (Ask c k) = (P c \<and> (\<forall>r. within P (k r)))"
| "within P (Panic s) = True"
| "within P Hang = True"

lemma within_safe: "within P p \<Longrightarrow> safe (\<lambda>_. P) (\<lambda>_ _. True) h p"
  by (induction p arbitrary: h) auto

lemma within_ask [simp]: "within P (ask c read) \<longleftrightarrow> P c"
  by (simp add: ask_def)

lemma within_bind: "within P p \<Longrightarrow> (\<And>x. within P (f x)) \<Longrightarrow> within P (bind p f)"
  by (induction p) auto

lemma within_attempt: "within P p \<Longrightarrow> (\<And>x. within P (f x)) \<Longrightarrow> within P (attempt p f)"
  unfolding attempt_def by (auto intro!: within_bind split: sum.split)

lemma within_map_err [simp]: "within P (map_err g p) \<longleftrightarrow> within P p"
  unfolding map_err_def by (induction p) auto

lemma within_for_each: "(\<And>x. x \<in> set xs \<Longrightarrow> within P (body x)) \<Longrightarrow> within P (for_each xs body)"
  by (induction xs) (auto intro!: within_attempt)

lemmas within_intros = within_bind within_attempt within_for_each

lemma within_mono: "within P p \<Longrightarrow> (\<And>c. P c \<Longrightarrow> P' c) \<Longrightarrow> within P' p"
  by (induction p) auto

lemma within_guard:
  assumes "within P p" and "after p (t @ (c, r) # u) = Some q"
  shows "P c"
  using safe_guard [OF within_safe [OF assms(1)] assms(2)] .

lemma within_history:
  assumes "within P p" and "after p t = Some q" and "(c, r) \<in> set t"
  shows "P c"
proof -
  from assms(3) obtain a b where t: "t = a @ (c, r) # b" by (auto simp: in_set_conv_decomp)
  have "after p (a @ (c, r) # b) = Some q" using assms(2) t by simp
  then show ?thesis by (rule within_guard [OF assms(1)])
qed

text \<open>What a program has returned is the end of the run that led there.\<close>

lemma safe_trace:
  assumes "within P p"
  shows "safe (\<lambda>_. P) (\<lambda>x h'. \<exists>t q. h' = h @ t \<and> after p t = Some q \<and> finished q = Some x) h p"
  using assms
proof (induction p arbitrary: h)
  case (Ask c k)
  have "safe (\<lambda>_. P) (\<lambda>x h'. \<exists>t q. h' = h @ t \<and> after (Ask c k) t = Some q \<and> finished q = Some x)
      (h @ [(c, r)]) (k r)" for r
  proof (rule safe_mono [OF Ask.IH [of "k r" "h @ [(c, r)]"]])
    fix x h'
    assume "\<exists>t q. h' = (h @ [(c, r)]) @ t \<and> after (k r) t = Some q \<and> finished q = Some x"
    then obtain t q where "h' = h @ (c, r) # t" "after (k r) t = Some q" "finished q = Some x" by auto
    then show "\<exists>t q. h' = h @ t \<and> after (Ask c k) t = Some q \<and> finished q = Some x"
      by (intro exI [of _ "(c, r) # t"]) auto
  qed (use Ask.prems in auto)
  with Ask.prems show ?case by simp
qed auto

text \<open>
  A program that keeps a guard from every history that satisfies \<open>J\<close>, and \<open>J\<close> with it.
\<close>

definition keeps :: 
  "(('c, 'r) history \<Rightarrow> 'c \<Rightarrow> bool) \<Rightarrow> (('c, 'r) history \<Rightarrow> bool) \<Rightarrow> ('c, 'r, 'a) prog \<Rightarrow> bool" where
  "keeps G J p \<longleftrightarrow> (\<forall>h. J h \<longrightarrow> safe G (\<lambda>_. J) h p)"

lemma keeps_Done [simp]: "keeps G J (Done x)"
  by (simp add: keeps_def)

lemma keeps_Ask:
  "(\<And>h. J h \<Longrightarrow> G h c) \<Longrightarrow> (\<And>h r. J h \<Longrightarrow> J (h @ [(c, r)])) \<Longrightarrow> (\<And>r. keeps G J (k r)) \<Longrightarrow>
    keeps G J (Ask c k)"
  by (simp add: keeps_def)

lemma keeps_ask:
  "(\<And>h. J h \<Longrightarrow> G h c) \<Longrightarrow> (\<And>h r. J h \<Longrightarrow> J (h @ [(c, r)])) \<Longrightarrow> keeps G J (ask c read)"
  by (simp add: ask_def keeps_Ask)

lemma keeps_bind: "keeps G J p \<Longrightarrow> (\<And>x. keeps G J (f x)) \<Longrightarrow> keeps G J (bind p f)"
  unfolding keeps_def safe_bind
  by (auto simp: then_post_def split: outcome.split intro: safe_mono)

lemma keeps_attempt: "keeps G J p \<Longrightarrow> (\<And>x. keeps G J (f x)) \<Longrightarrow> keeps G J (attempt p f)"
  unfolding attempt_def by (auto intro!: keeps_bind split: sum.split)

lemma keeps_for_each: "(\<And>x. x \<in> set xs \<Longrightarrow> keeps G J (body x)) \<Longrightarrow> keeps G J (for_each xs body)"
  by (induction xs) (auto intro!: keeps_attempt)

lemmas keeps_intros = keeps_bind keeps_attempt keeps_for_each

text \<open>
  A program that makes only harmless calls keeps every invariant that survives those calls.
\<close>

lemma keeps_within:
  assumes "within P p" and "\<And>h c. J h \<Longrightarrow> P c \<Longrightarrow> G h c"
    and "\<And>h c r. J h \<Longrightarrow> P c \<Longrightarrow> J (h @ [(c, r)])"
  shows "keeps G J p"
  unfolding keeps_def
proof (intro allI impI)
  fix h assume "J h"
  with assms(1) show "safe G (\<lambda>_. J) h p"
    by (induction p arbitrary: h) (auto simp: assms(2,3))
qed

text \<open>A first part that makes only harmless calls, and what is known of it once it has returned.\<close>

lemma safe_attempt_run:
  assumes "within P p" and harmless: "\<And>h c. P c \<Longrightarrow> G h c"
    and "next": "\<And>t y. after p t = Some (Done (Inr y)) \<Longrightarrow> safe G (\<lambda>_ _. True) (h @ t) (f y)"
  shows "safe G (\<lambda>_ _. True) h (attempt p f)"
  unfolding safe_attempt
proof (rule safe_mono [OF safe_trace [OF assms(1)]])
  fix x h' assume "\<exists>t q. h' = h @ t \<and> after p t = Some q \<and> finished q = Some x"
  then obtain t q where t: "h' = h @ t" "after p t = Some q" "finished q = Some x" by blast
  show "then_post (\<lambda>_ _. True) (\<lambda>x h'. case x of Inl e \<Rightarrow> True | Inr y \<Rightarrow> safe G (\<lambda>_ _. True) h' (f y)) x h'"
  proof (cases x)
    case (Returned y)
    with t(3) have "q = Done y" by (cases q) auto
    with t Returned "next" [of t] show ?thesis by (auto split: sum.split)
  qed simp_all
qed (use harmless in auto)

text \<open>The same for a first part whose result satisfies \<open>R\<close>.\<close>

lemma safe_and_then:
  assumes "safe G (\<lambda>x h'. case x of Returned (Inr y) \<Rightarrow> R y h' | _ \<Rightarrow> True) h p"
    and "\<And>y h'. R y h' \<Longrightarrow> safe G (\<lambda>_ _. True) h' (f y)"
  shows "safe G (\<lambda>_ _. True) h (attempt p f)"
  unfolding safe_attempt
  by (rule safe_mono [OF assms(1)])
     (auto simp: then_post_def assms(2) split: outcome.splits sum.splits)

text \<open>\<open>ends G R h p\<close>: \<open>p\<close> keeps the guard, and where it ends with a value, \<open>R\<close> holds of it.\<close>

abbreviation ends ::
  "(('c, 'r) history \<Rightarrow> 'c \<Rightarrow> bool) \<Rightarrow> ('a \<Rightarrow> ('c, 'r) history \<Rightarrow> bool) \<Rightarrow> ('c, 'r) history
    \<Rightarrow> ('c, 'r, 'e + 'a) prog \<Rightarrow> bool" where
  "ends G R h p \<equiv> safe G (\<lambda>x h'. case x of Returned (Inr y) \<Rightarrow> R y h' | _ \<Rightarrow> True) h p"

lemma ends_attempt:
  assumes "ends G R h p" and "\<And>y h'. R y h' \<Longrightarrow> ends G S h' (f y)"
  shows "ends G S h (attempt p f)"
  unfolding safe_attempt
proof (rule safe_mono [OF assms(1)])
  fix x h' assume x: "case x of Returned (Inr y) \<Rightarrow> R y h' | _ \<Rightarrow> True"
  show "then_post (\<lambda>x h'. case x of Returned (Inr y) \<Rightarrow> S y h' | _ \<Rightarrow> True) (\<lambda>x h'. case x of
      Inl e \<Rightarrow> (case Returned (Inl e) of Returned (Inr y) \<Rightarrow> S y h' | _ \<Rightarrow> True)
    | Inr y \<Rightarrow> ends G S h' (f y)) x h'"
  proof (cases x)
    case (Returned y)
    with x assms(2) show ?thesis by (cases y) simp_all
  qed simp_all
qed

lemma ends_run:
  assumes "within P p" and "\<And>h c. P c \<Longrightarrow> G h c"
    and "\<And>t y. after p t = Some (Done (Inr y)) \<Longrightarrow> R y (h @ t)"
  shows "ends G R h p"
proof (rule safe_mono [OF safe_trace [OF assms(1)]])
  fix x h' assume "\<exists>t q. h' = h @ t \<and> after p t = Some q \<and> finished q = Some x"
  then obtain t q where t: "h' = h @ t" "after p t = Some q" "finished q = Some x" by blast
  then show "case x of Returned (Inr y) \<Rightarrow> R y h' | _ \<Rightarrow> True"
    by (cases q) (auto split: sum.split intro!: assms(3))
qed (use assms(2) in auto)

text \<open>Panics: a program none of whose runs panics.\<close>

primrec panic_free :: "('c, 'r, 'a) prog \<Rightarrow> bool" where
  "panic_free (Done x) = True"
| "panic_free (Ask c k) = (\<forall>r. panic_free (k r))"
| "panic_free (Panic s) = False"
| "panic_free Hang = True"

lemma panic_free_ask [simp]: "panic_free (ask c read)"
  by (simp add: ask_def)

lemma panic_free_bind: "panic_free p \<Longrightarrow> (\<And>x. panic_free (f x)) \<Longrightarrow> panic_free (bind p f)"
  by (induction p) auto

lemma panic_free_attempt: "panic_free p \<Longrightarrow> (\<And>x. panic_free (f x)) \<Longrightarrow> panic_free (attempt p f)"
  unfolding attempt_def by (auto intro!: panic_free_bind split: sum.split)

lemma panic_free_map_err [simp]: "panic_free (map_err g p) \<longleftrightarrow> panic_free p"
  unfolding map_err_def by (induction p) auto

lemma panic_free_for_each:
  "(\<And>x. x \<in> set xs \<Longrightarrow> panic_free (body x)) \<Longrightarrow> panic_free (for_each xs body)"
  by (induction xs) (auto intro!: panic_free_attempt)

lemmas panic_free_intros = panic_free_bind panic_free_attempt panic_free_for_each

lemma panic_free_after:
  "panic_free p \<Longrightarrow> after p t = Some q \<Longrightarrow> finished q \<noteq> Some (Panicked s)"
proof (induction p t rule: after.induct)
  case (1 p)
  then show ?case by (cases p) auto
qed (auto split: if_splits)

section \<open>Interleaving\<close>

text \<open>
  The tasks of the process run concurrently: in any step one task that waits for a reply gets
  one.  The log says which task made which call; each task sees its own calls only.
\<close>

type_synonym ('c, 'r) log = "(nat \<times> 'c \<times> 'r) list"

inductive pool_step ::
  "('c, 'r, 'a) prog list \<Rightarrow> (nat \<times> 'c \<times> 'r) \<Rightarrow> ('c, 'r, 'a) prog list \<Rightarrow> bool" where
  reply: "i < length ps \<Longrightarrow> ps ! i = Ask c k \<Longrightarrow> pool_step ps (i, c, r) (ps[i := k r])"

inductive_cases pool_stepE: "pool_step ps e qs"

inductive_simps pool_step_iff: "pool_step ps (i, c, r) qs"

inductive pool_run ::
  "('c, 'r, 'a) prog list \<Rightarrow> ('c, 'r) log \<Rightarrow> ('c, 'r, 'a) prog list \<Rightarrow> bool" where
  stop: "pool_run ps [] ps"
| more: "pool_run ps es qs \<Longrightarrow> pool_step qs e rs \<Longrightarrow> pool_run ps (es @ [e]) rs"

definition calls_of :: "nat \<Rightarrow> ('c, 'r) log \<Rightarrow> ('c, 'r) history" where
  "calls_of i es = map snd (filter (\<lambda>e. fst e = i) es)"

lemma calls_of_simps [simp]:
  "calls_of i [] = []"
  "calls_of i (es @ fs) = calls_of i es @ calls_of i fs"
  "calls_of i ((j, c, r) # es) = (if j = i then (c, r) # calls_of i es else calls_of i es)"
  by (simp_all add: calls_of_def)

lemma pool_run_after:
  assumes "pool_run ps es qs" and "i < length ps"
  shows "length qs = length ps \<and> after (ps ! i) (calls_of i es) = Some (qs ! i)"
  using assms
proof (induction rule: pool_run.induct)
  case (more ps es qs e rs)
  then show ?case
    by (auto elim!: pool_stepE simp: after_append nth_list_update)
qed simp

text \<open>
  A guard that every task keeps on its own is kept by every interleaving: the calls of one
  task in a log are a run of that task.
\<close>

lemma pool_run_prefix:
  assumes "pool_run ps (es @ e # fs) rs"
  shows "\<exists>qs qs'. pool_run ps es qs \<and> pool_step qs e qs'"
  using assms
proof (induction "es @ e # fs" rs arbitrary: fs rule: pool_run.induct)
  case (more ps es' qs e' rs)
  then show ?case
    by (cases fs rule: rev_cases) auto
qed simp

lemma pool_guard:
  assumes "pool_run ps (es @ (i, c, r) # fs) rs" and "i < length ps"
    and "safe G Q [] (ps ! i)"
  shows "G (calls_of i es) c"
proof -
  from assms(1) obtain qs qs' where qs: "pool_run ps es qs" and s: "pool_step qs (i, c, r) qs'"
    by (blast dest: pool_run_prefix)
  from pool_run_after [OF qs assms(2)] have "after (ps ! i) (calls_of i es) = Some (qs ! i)"
    by simp
  from safe_after [OF assms(3) this] have "safe G Q (calls_of i es) (qs ! i)" by simp
  with s show ?thesis by (auto elim!: pool_stepE)
qed

end
