(* ===== verification/Utf8.thy ===== *)
theory Utf8
  imports Prelude
begin

text \<open>
  Decoding of bytes as UTF-8, as \<open>String::from_utf8\<close> and \<open>String::from_utf8_lossy\<close> of the
  standard library do it.  Secrets hold bytes; the handlers read them one way or the other, and
  the two differ on bytes that are not UTF-8: the first fails, the second substitutes U+FFFD for
  every maximal ill-formed piece.
\<close>

definition byte :: "char \<Rightarrow> nat" where
  "byte c = of_char c"

definition is_cont :: "char \<Rightarrow> bool" where
  "is_cont c \<longleftrightarrow> 128 \<le> byte c \<and> byte c \<le> 191"

definition second_of_3 :: "char \<Rightarrow> char \<Rightarrow> bool" where
  "second_of_3 b c \<longleftrightarrow>
     (if byte b = 224 then 160 \<le> byte c \<and> byte c \<le> 191
      else if byte b = 237 then 128 \<le> byte c \<and> byte c \<le> 159
      else is_cont c)"

definition second_of_4 :: "char \<Rightarrow> char \<Rightarrow> bool" where
  "second_of_4 b c \<longleftrightarrow>
     (if byte b = 240 then 144 \<le> byte c \<and> byte c \<le> 191
      else if byte b = 244 then 128 \<le> byte c \<and> byte c \<le> 143
      else is_cont c)"

text \<open>
  One step: whether the bytes start with a well-formed character, and how many bytes it (or the
  ill-formed piece) takes.
\<close>

fun tail_step :: "nat \<Rightarrow> nat \<Rightarrow> string \<Rightarrow> bool \<times> nat" where
  "tail_step 0 n cs = (True, n)"
| "tail_step (Suc k) n [] = (False, n)"
| "tail_step (Suc k) n (c # cs) = (if is_cont c then tail_step k (Suc n) cs else (False, n))"

fun utf8_step :: "string \<Rightarrow> bool \<times> nat" where
  "utf8_step [] = (True, 0)"
| "utf8_step (b # cs) =
     (if byte b < 128 then (True, 1)
      else if 194 \<le> byte b \<and> byte b \<le> 223 then tail_step 1 1 cs
      else if 224 \<le> byte b \<and> byte b \<le> 239 then
        (case cs of [] \<Rightarrow> (False, 1)
         | c # ds \<Rightarrow> if second_of_3 b c then tail_step 1 2 ds else (False, 1))
      else if 240 \<le> byte b \<and> byte b \<le> 244 then
        (case cs of [] \<Rightarrow> (False, 1)
         | c # ds \<Rightarrow> if second_of_4 b c then tail_step 2 2 ds else (False, 1))
      else (False, 1))"

lemma tail_step_ge: "n \<le> snd (tail_step k n cs)"
  by (induction k n cs rule: tail_step.induct) auto

lemma utf8_step_pos: "s \<noteq> [] \<Longrightarrow> 0 < snd (utf8_step s)"
proof (cases s)
  case (Cons b cs)
  have "0 < snd (tail_step k (Suc n) ds)" for k n ds
    using tail_step_ge [of "Suc n" k ds] by simp
  then show ?thesis
    by (simp add: Cons numeral_2_eq_2 split: list.split)
qed simp

lemma utf8_step_less:
  assumes "(ok, n) = utf8_step s" and "s \<noteq> []"
  shows "length s - n < length s"
proof -
  have "0 < n" using utf8_step_pos [OF assms(2)] assms(1) by (metis snd_conv)
  then show ?thesis using assms(2) by simp
qed

definition replacement :: string where
  "replacement = [CHR 0xEF, CHR 0xBF, CHR 0xBD]"

function utf8_valid :: "string \<Rightarrow> bool" where
  "utf8_valid s =
     (if s = [] then True
      else (let (ok, n) = utf8_step s in ok \<and> utf8_valid (drop n s)))"
  by pat_completeness auto
termination
  by (relation "measure length") (simp_all add: utf8_step_less)

function from_utf8_lossy :: "string \<Rightarrow> string" where
  "from_utf8_lossy s =
     (if s = [] then []
      else (let (ok, n) = utf8_step s in
              (if ok then take n s else replacement) @ from_utf8_lossy (drop n s)))"
  by pat_completeness auto
termination
  by (relation "measure length") (simp_all add: utf8_step_less)

declare utf8_valid.simps [simp del] from_utf8_lossy.simps [simp del]

definition from_utf8 :: "string \<Rightarrow> string option" where
  "from_utf8 bs = (if utf8_valid bs then Some bs else None)"

text \<open>
  What the error of \<open>from_utf8\<close> prints: where the well-formed part ends, and how long the ill-formed
  piece is unless the bytes just end too early.
\<close>

function utf8_error_from :: "nat \<Rightarrow> string \<Rightarrow> string" where
  "utf8_error_from pos s =
     (if s = [] then []
      else (let (ok, n) = utf8_step s in
        if ok then utf8_error_from (pos + n) (drop n s)
        else if n = length s \<and> 194 \<le> byte (hd s) \<and> byte (hd s) \<le> 244
        then ''incomplete utf-8 byte sequence from index '' @ show_nat pos
        else ''invalid utf-8 sequence of '' @ show_nat n @ '' bytes from index '' @ show_nat pos))"
  by pat_completeness auto
termination
  by (relation "measure (\<lambda>(pos, s). length s)") (simp_all add: utf8_step_less)

declare utf8_error_from.simps [simp del]

definition utf8_error :: "string \<Rightarrow> string" where
  "utf8_error bs = utf8_error_from 0 bs"

text \<open>On well-formed bytes the two agree.\<close>

lemma from_utf8_lossy_valid: "utf8_valid s \<Longrightarrow> from_utf8_lossy s = s"
proof (induction s rule: utf8_valid.induct)
  case (1 s)
  show ?case
  proof (cases "s = []")
    case True
    then show ?thesis by (simp add: from_utf8_lossy.simps)
  next
    case False
    obtain ok n where st: "utf8_step s = (ok, n)" by fastforce
    with False "1.prems" have "ok" "utf8_valid (drop n s)"
      by (simp_all add: utf8_valid.simps [of s])
    with "1.IH" [OF False] st show ?thesis
      by (simp add: from_utf8_lossy.simps [of s])
  qed
qed

lemma utf8_valid_Nil [simp]: "utf8_valid []"
  by (simp add: utf8_valid.simps)

lemma utf8_valid_ascii: "\<forall>c \<in> set s. byte c < 128 \<Longrightarrow> utf8_valid s"
proof (induction s)
  case (Cons c s)
  then show ?case by (simp add: utf8_valid.simps [of "c # s"])
qed simp

end
