(* ===== verification/Kube_Types.thy ===== *)
theory Kube_Types
  imports Prelude
begin

text \<open>
  The Kubernetes objects the controller reads and writes, with the fields it uses, and the JSON
  of its patches.  These types belong to the \<open>k8s-openapi\<close> crate and \<open>serde_json\<close>; the source
  only reads and builds their values.  A \<open>BTreeMap<String, String>\<close> is an association list in
  key order.  \<open>JTaint\<close> and \<open>JTime\<close> stand for the JSON that the libraries produce for a taint and
  for a time stamp.
\<close>

type_synonym str_map = "(string \<times> string) list"

record owner_ref =
  or_api_version :: string
  or_kind :: string
  or_name :: string
  or_uid :: string

record obj_meta =
  m_name :: "string option"
  m_generate_name :: "string option"
  m_namespace :: "string option"
  m_uid :: "string option"
  m_labels :: "str_map option"
  m_annotations :: "str_map option"
  m_finalizers :: "string list option"
  m_deletion_timestamp :: "string option"
  m_owner_references :: "owner_ref list option"

definition empty_meta :: obj_meta where
  "empty_meta =
     \<lparr>m_name = None, m_generate_name = None, m_namespace = None, m_uid = None,
      m_labels = None, m_annotations = None, m_finalizers = None,
      m_deletion_timestamp = None, m_owner_references = None\<rparr>"

record taint =
  t_key :: string
  t_value :: "string option"
  t_effect :: string
  t_time_added :: "string option"

record node_address =
  na_type :: string
  na_address :: string

record node_condition =
  nc_type :: string
  nc_status :: string

record node_spec =
  ns_provider_id :: "string option"
  ns_taints :: "taint list option"

record node_status =
  nst_addresses :: "node_address list option"
  nst_conditions :: "node_condition list option"

record node =
  n_meta :: obj_meta
  n_spec :: "node_spec option"
  n_status :: "node_status option"

record secret =
  s_meta :: obj_meta
  s_data :: "(string \<times> string) list option"
  s_string_data :: "str_map option"

record config_map =
  cm_meta :: obj_meta
  cm_data :: "str_map option"

record service_port =
  sp_protocol :: "string option"
  sp_port :: i32
  sp_node_port :: "i32 option"

record service_spec =
  ss_type :: "string option"
  ss_ports :: "service_port list option"

record service =
  sv_meta :: obj_meta
  sv_spec :: "service_spec option"

record event =
  ev_meta :: obj_meta
  ev_involved_api_version :: string
  ev_involved_kind :: string
  ev_involved_name :: string
  ev_involved_uid :: "string option"
  ev_reason :: string
  ev_message :: string
  ev_type :: string
  ev_component :: string
  ev_timestamp :: nat
  ev_count :: i32
  ev_action :: string

datatype json =
    JNull
  | JBool bool
  | JInt int
  | JStr string
  | JArr "json list"
  | JObj "(string \<times> json) list"
  | JTaint taint
  | JTime nat

definition json_str_map :: "str_map \<Rightarrow> json" where
  "json_str_map m = JObj (map (\<lambda>(k, v). (k, JStr v)) m)"

definition json_strs :: "string list \<Rightarrow> json" where
  "json_strs xs = JArr (map JStr xs)"

lemma json_strs_inject [simp]: "json_strs xs = json_strs ys \<longleftrightarrow> xs = ys"
proof -
  have "inj JStr" by (simp add: inj_def)
  then show ?thesis by (simp add: json_strs_def inj_map_eq_map)
qed

text \<open>Reading a patch: the value under a path of object keys.\<close>

fun json_at :: "string list \<Rightarrow> json \<Rightarrow> json option" where
  "json_at [] j = Some j"
| "json_at (k # ks) (JObj fs) = Option.bind (map_of fs k) (json_at ks)"
| "json_at (k # ks) j = None"

section \<open>Reading metadata\<close>

definition meta_label :: "obj_meta \<Rightarrow> string \<Rightarrow> string option" where
  "meta_label m k = Option.bind (m_labels m) (\<lambda>l. map_of l k)"

definition meta_annotation :: "obj_meta \<Rightarrow> string \<Rightarrow> string option" where
  "meta_annotation m k = Option.bind (m_annotations m) (\<lambda>a. map_of a k)"

text \<open>\<open>labels.as_ref().is_some_and(|l| l.contains_key(k))\<close> and the same for annotations.\<close>

definition has_label :: "obj_meta \<Rightarrow> string \<Rightarrow> bool" where
  "has_label m k \<longleftrightarrow> is_some_and (\<lambda>l. map_of l k \<noteq> None) (m_labels m)"

definition has_annotation :: "obj_meta \<Rightarrow> string \<Rightarrow> bool" where
  "has_annotation m k \<longleftrightarrow> is_some_and (\<lambda>a. map_of a k \<noteq> None) (m_annotations m)"

lemma has_label_iff: "has_label m k \<longleftrightarrow> meta_label m k \<noteq> None"
  by (cases "m_labels m") (auto simp: has_label_def meta_label_def)

lemma has_annotation_iff: "has_annotation m k \<longleftrightarrow> meta_annotation m k \<noteq> None"
  by (cases "m_annotations m") (auto simp: has_annotation_def meta_annotation_def)

section \<open>Finalizers\<close>

text \<open>
  The node and the service controllers guard their external resources with a finalizer each.
  The three operations on the list of finalizers are the same code in both: test, append,
  filter out.
\<close>

definition has_finalizer :: "string \<Rightarrow> obj_meta \<Rightarrow> bool" where
  "has_finalizer f m \<longleftrightarrow> is_some_and (\<lambda>fs. \<exists>x \<in> set fs. x = f) (m_finalizers m)"

definition finalizers_with :: "string \<Rightarrow> obj_meta \<Rightarrow> string list" where
  "finalizers_with f m = unwrap_or (m_finalizers m) [] @ [f]"

definition finalizers_without :: "string \<Rightarrow> obj_meta \<Rightarrow> string list" where
  "finalizers_without f m = unwrap_or (map_option (filter (\<lambda>x. x \<noteq> f)) (m_finalizers m)) []"

definition finalizers_patch :: "string list \<Rightarrow> json" where
  "finalizers_patch fs = JObj [(''metadata'', JObj [(''finalizers'', json_strs fs)])]"

lemma finalizers_patch_inject [simp]: "finalizers_patch fs = finalizers_patch gs \<longleftrightarrow> fs = gs"
  by (auto simp: finalizers_patch_def json_strs_def inj_map_eq_map inj_def)

lemma finalizer_in_lists [simp]:
  "f \<in> set (finalizers_with f m)" "f \<notin> set (finalizers_without f m)"
  by (cases "m_finalizers m"; simp add: finalizers_with_def finalizers_without_def)+

definition set_finalizers :: "string list \<Rightarrow> obj_meta \<Rightarrow> obj_meta" where
  "set_finalizers fs m = m\<lparr>m_finalizers := Some fs\<rparr>"

lemma has_finalizer_set [simp]: "has_finalizer f (set_finalizers fs m) \<longleftrightarrow> f \<in> set fs"
  by (auto simp: has_finalizer_def set_finalizers_def)

text \<open>The contract of a finalizer, independent of which object carries it.\<close>

locale finalizer =
  fixes has :: "obj_meta \<Rightarrow> bool"
    and adding :: "obj_meta \<Rightarrow> string list"
    and removing :: "obj_meta \<Rightarrow> string list"
    and name :: string
  assumes has_after_adding: "has (set_finalizers (adding m) m)"
    and has_not_after_removing: "\<not> has (set_finalizers (removing m) m)"
    and others_adding: "f \<noteq> name \<Longrightarrow> f \<in> set (adding m) \<longleftrightarrow> has_finalizer f m"
    and others_removing: "filter (\<lambda>f. f \<noteq> name) (unwrap_or (m_finalizers m) []) = removing m"
begin

lemma adding_then_removing:
  assumes "\<not> name \<in> set (unwrap_or (m_finalizers m) [])"
  shows "set (removing (set_finalizers (adding m) m)) = set (unwrap_or (m_finalizers m) [])"
proof -
  have "f \<in> set (adding m) \<longleftrightarrow> f \<in> set (unwrap_or (m_finalizers m) [])" if "f \<noteq> name" for f
    using others_adding [OF that]
    by (cases "m_finalizers m") (auto simp: has_finalizer_def)
  moreover have "removing (set_finalizers (adding m) m) = filter (\<lambda>f. f \<noteq> name) (adding m)"
    using others_removing [of "set_finalizers (adding m) m"] by (simp add: set_finalizers_def)
  ultimately show ?thesis using assms by (auto; metis)
qed

lemma removing_keeps: "f \<noteq> name \<Longrightarrow> f \<in> set (removing m) \<longleftrightarrow> has_finalizer f m"
  using others_removing [of m, symmetric]
  by (cases "m_finalizers m") (auto simp: has_finalizer_def)

lemma removing_gone: "name \<notin> set (removing m)"
  using others_removing [of m, symmetric] by auto

end

lemma finalizer_ops: "finalizer (has_finalizer f) (finalizers_with f) (finalizers_without f) f"
proof unfold_locales
  fix m g
  show "has_finalizer f (set_finalizers (finalizers_with f m) m)"
    by (simp add: finalizers_with_def)
  show "\<not> has_finalizer f (set_finalizers (finalizers_without f m) m)"
    by (cases "m_finalizers m") (simp_all add: finalizers_without_def)
  show "g \<in> set (finalizers_with f m) \<longleftrightarrow> has_finalizer g m" if "g \<noteq> f"
    using that by (cases "m_finalizers m") (auto simp: finalizers_with_def has_finalizer_def)
  show "filter (\<lambda>g. g \<noteq> f) (unwrap_or (m_finalizers m) []) = finalizers_without f m"
    by (cases "m_finalizers m") (simp_all add: finalizers_without_def)
qed

end
