(* ===== verification/Crd.thy ===== *)
theory Crd
  imports Kube_Types
begin

text \<open>
  The custom resource \<open>AutoScalingGroup\<close> (\<open>src/src/crd.rs\<close>): its spec, its status, the template
  of the nodes it produces and the variables of its cloud-init template.
\<close>

record secret_ref =
  sr_name :: string
  sr_namespace :: "string option"
  sr_key :: "string option"

record node_template_meta =
  nm_labels :: "str_map option"
  nm_annotations :: "str_map option"

record node_taint =
  ntt_key :: string
  ntt_value :: "string option"
  ntt_effect :: string

record node_template_spec =
  nts_taints :: "node_taint list option"

record node_template =
  nt_metadata :: "node_template_meta option"
  nt_spec :: "node_template_spec option"

record key_selector =
  ks_name :: string
  ks_namespace :: "string option"
  ks_key :: string

record template_variable_source =
  tvs_secret_key_ref :: "key_selector option"
  tvs_config_map_key_ref :: "key_selector option"

record template_variable =
  tv_name :: string
  tv_value :: "string option"
  tv_value_from :: "template_variable_source option"

record asg_spec =
  as_min_size :: i32
  as_max_size :: i32
  as_size :: string
  as_region :: string
  as_image :: string
  as_vcpus :: "i32 option"
  as_memory_mb :: "i32 option"
  as_disk_gb :: "i32 option"
  as_name_prefix :: string
  as_password_secret_ref :: "secret_ref option"
  as_user_data :: "string option"
  as_template_variables :: "template_variable list"
  as_template :: "node_template option"

record asg_status =
  ast_replicas :: i32
  ast_last_scale_up :: "nat option"
  ast_last_scale_down :: "nat option"

record asg =
  asg_meta :: obj_meta
  asg_spec :: asg_spec
  asg_status :: "asg_status option"

definition default_status :: asg_status where
  "default_status = \<lparr>ast_replicas = 0, ast_last_scale_up = None, ast_last_scale_down = None\<rparr>"

text \<open>The JSON of a status: camel case names, absent time stamps skipped.\<close>

definition json_status :: "asg_status \<Rightarrow> json" where
  "json_status s =
     JObj ([(''replicas'', JInt (sint (ast_replicas s)))]
       @ (case ast_last_scale_up s of None \<Rightarrow> [] | Some t \<Rightarrow> [(''lastScaleUp'', JTime t)])
       @ (case ast_last_scale_down s of None \<Rightarrow> [] | Some t \<Rightarrow> [(''lastScaleDown'', JTime t)]))"

end
