(* ===== verification/Bl_Types.thy ===== *)
theory Bl_Types
  imports Prelude
begin

text \<open>
  The data of the BinaryLane API client (\<open>binarylane-client/src/lib.rs\<close>): what the API returns
  and what the client sends.
\<close>

definition DEFAULT_API_BASE :: string where
  "DEFAULT_API_BASE = ''https://api.binarylane.com.au/v2''"

definition PROVIDER_NAME :: string where
  [const_defs]: "PROVIDER_NAME = ''binarylane''"

record client =
  cl_token :: string
  cl_api_base :: string

record region =
  rg_slug :: string

record image =
  im_slug :: string

record network_v4 =
  nv_ip_address :: string
  nv_net_type :: string

record networks =
  nw_v4 :: "network_v4 list"

record server =
  srv_id :: i64
  srv_name :: string
  srv_status :: string
  srv_size_slug :: string
  srv_region :: region
  srv_image :: image
  srv_networks :: networks
  srv_vpc_id :: "i64 option"

record listed_image =
  li_id :: i64
  li_slug :: "string option"
  li_name :: string
  li_distribution :: string
  li_status :: string

record listed_size =
  ls_slug :: string
  ls_vcpus :: i32
  ls_memory :: i32
  ls_disk :: i32

record listed_region =
  lr_slug :: string

record create_server_request =
  cs_name :: string
  cs_size :: string
  cs_image :: string
  cs_region :: string
  cs_user_data :: "string option"
  cs_ssh_keys :: "string list option"
  cs_password :: "string option"

record forwarding_rule =
  fr_entry_protocol :: string
  fr_entry_port :: i32
  fr_target_protocol :: string
  fr_target_port :: i32

record load_balancer =
  lb_id :: i64
  lb_name_of :: string
  lb_ip :: string
  lb_status :: string
  lb_forwarding_rules :: "forwarding_rule list"
  lb_server_ids :: "i64 list"
  lb_region :: region

record health_check =
  hc_protocol :: string
  hc_port :: i32
  hc_path :: "string option"
  hc_check_interval_seconds :: i32
  hc_response_timeout_seconds :: i32
  hc_unhealthy_threshold :: i32
  hc_healthy_threshold :: i32

record create_load_balancer_request =
  cl_name :: string
  cl_region :: string
  cl_forwarding_rules :: "forwarding_rule list"
  cl_health_check :: "health_check option"
  cl_server_ids :: "i64 list"

record update_load_balancer_request =
  ul_name :: string
  ul_forwarding_rules :: "forwarding_rule list"
  ul_health_check :: "health_check option"
  ul_server_ids :: "i64 list"

record domain =
  dm_id :: i64
  dm_name :: string
  dm_ttl :: i64

record domain_record =
  dr_id :: i64
  dr_record_type :: string
  dr_name :: string
  dr_data :: string
  dr_priority :: "i64 option"
  dr_port :: "i64 option"
  dr_weight :: "i64 option"
  dr_ttl :: i64

record create_domain_record_request =
  cd_record_type :: string
  cd_name :: string
  cd_data :: string
  cd_priority :: "i64 option"
  cd_port :: "i64 option"
  cd_weight :: "i64 option"

end
