(* ===== verification/Api.thy ===== *)
theory Api
  imports Effects Utf8 Crd Bl_Types
begin

text \<open>
  The requests the program makes of its environment and the replies it gets: calls of the
  \<open>kube\<close> crate on the Kubernetes API, HTTP requests to BinaryLane, reads of the clock and of the
  random source, and accesses to the memory cells shared by tasks (the catalog behind a
  \<open>RwLock\<close>, the size list behind a \<open>Mutex\<close>).  What the services answer is not modelled: every
  theorem is about all replies, or about the replies its hypotheses name.

  A reply is read by the function of the kind the code expects (\<open>as_node\<close>, \<open>as_response\<close>, ...);
  a reply of another kind is what the client libraries report as an error of decoding.
\<close>

section \<open>Errors\<close>

text \<open>
  \<open>kube::Error\<close>: an answer of the API server with its code, or anything else; the text is what
  its \<open>Display\<close> prints.  \<open>anyhow::Error\<close>: a cause under layers of context.
\<close>

datatype kube_error = KApi nat string | KOther string

datatype err =
    EKube kube_error
  | EHttp string
  | EDecode string
  | EParse int_error
  | EBail string
  | EContext string err

fun show_kube :: "kube_error \<Rightarrow> string" where
  "show_kube (KApi c t) = t"
| "show_kube (KOther t) = t"

fun show_int_error :: "int_error \<Rightarrow> string" where
  "show_int_error IntEmpty = ''cannot parse integer from empty string''"
| "show_int_error InvalidDigit = ''invalid digit found in string''"
| "show_int_error PosOverflow = ''number too large to fit in target type''"
| "show_int_error NegOverflow = ''number too small to fit in target type''"

text \<open>\<open>{e}\<close> prints the outermost layer, \<open>{e:#}\<close> the whole chain.\<close>

fun show_err :: "err \<Rightarrow> string" where
  "show_err (EKube k) = show_kube k"
| "show_err (EHttp t) = t"
| "show_err (EDecode t) = t"
| "show_err (EParse p) = show_int_error p"
| "show_err (EBail t) = t"
| "show_err (EContext c e) = c"

fun show_err_chain :: "err \<Rightarrow> string" where
  "show_err_chain (EContext c e) = c @ '': '' @ show_err_chain e"
| "show_err_chain e = show_err e"

section \<open>Requests\<close>

datatype http_method = GET | POST | PUT | DELETE

datatype http_body =
    NoBody
  | BCreateServer create_server_request
  | BCreateLoadBalancer create_load_balancer_request
  | BUpdateLoadBalancer update_load_balancer_request
  | BCreateDomainRecord create_domain_record_request
  | BDomainNames "string list"

record http_request =
  rq_method :: http_method
  rq_url :: string
  rq_headers :: "(string \<times> string) list"
  rq_query :: "(string \<times> string) list"
  rq_body :: http_body

datatype resource = Nodes | Secrets string | ConfigMaps string | Services string | Events string | Asgs

datatype kube_object = ONode node | OSecret secret | OEvent event

datatype patch = Merge json | Apply json

record patch_params =
  pp_manager :: string
  pp_force :: bool

definition apply_params :: "string \<Rightarrow> patch_params" where
  "apply_params m = \<lparr>pp_manager = m, pp_force = False\<rparr>"

definition forced :: "patch_params \<Rightarrow> patch_params" where
  "forced p = p\<lparr>pp_force := True\<rparr>"

record catalog =
  cat_sizes :: "listed_size list"
  cat_regions :: "listed_region list"
  cat_images :: "listed_image list"
  cat_fetched_at :: nat

datatype cell = CatalogCell | SizeCell

datatype content = CatalogIs "catalog option" | SizesAre "listed_size list option"

datatype call =
    KGet resource string
  | KGetOpt resource string
  | KList resource "string option"
  | KCreate resource kube_object
  | KPatch resource string patch_params patch
  | KPatchStatus resource string patch_params patch
  | KDelete resource string
  | Http http_request
  | StoreState
  | InstantNow
  | UtcNow
  | SystemNow
  | RandomAlnum nat
  | HashOrder "string list"
  | MemRead cell
  | MemLock cell
  | MemStore content
  | MemUnlock cell

section \<open>Replies\<close>

type_synonym links = "string option option"

datatype payload =
    PServer server
  | PServers "server list" links
  | PImages "listed_image list" links
  | PSizes "listed_size list" links
  | PRegions "listed_region list" links
  | PDomains "domain list" links
  | PRecords "domain_record list" links
  | PRecord domain_record
  | PLoadBalancer load_balancer
  | PUndecodable string

record http_response =
  rs_code :: nat
  rs_status :: string
  rs_text :: "string option"
  rs_json :: payload

datatype reply =
    RNode node
  | RNodes "node list"
  | RSecret secret
  | RSecretOpt "secret option"
  | RConfigMapOpt "config_map option"
  | RService service
  | REvent
  | RAsg asg
  | RDeleted
  | RKubeError kube_error
  | RResponse http_response
  | RTransportError string
  | RAsgs "asg list"
  | RInstant nat
  | RSystem "nat option"
  | RChars string
  | ROrder "string list"
  | RContent content
  | RUnit

type_synonym hist = "(call, reply) history"
type_synonym 'a eff = "(call, reply, 'a) prog"
type_synonym 'a io = "(call, reply, err + 'a) prog"
type_synonym 'a kio = "(call, reply, kube_error + 'a) prog"

definition decode_error :: kube_error where
  "decode_error = KOther ''error deserializing response''"

fun as_node :: "reply \<Rightarrow> kube_error + node" where
  "as_node (RNode n) = Inr n"
| "as_node (RKubeError e) = Inl e"
| "as_node _ = Inl decode_error"

fun as_nodes :: "reply \<Rightarrow> kube_error + node list" where
  "as_nodes (RNodes ns) = Inr ns"
| "as_nodes (RKubeError e) = Inl e"
| "as_nodes _ = Inl decode_error"

fun as_secret :: "reply \<Rightarrow> kube_error + secret" where
  "as_secret (RSecret s) = Inr s"
| "as_secret (RKubeError e) = Inl e"
| "as_secret _ = Inl decode_error"

fun as_secret_opt :: "reply \<Rightarrow> kube_error + secret option" where
  "as_secret_opt (RSecretOpt s) = Inr s"
| "as_secret_opt (RKubeError e) = Inl e"
| "as_secret_opt _ = Inl decode_error"

fun as_config_map_opt :: "reply \<Rightarrow> kube_error + config_map option" where
  "as_config_map_opt (RConfigMapOpt s) = Inr s"
| "as_config_map_opt (RKubeError e) = Inl e"
| "as_config_map_opt _ = Inl decode_error"

fun as_service :: "reply \<Rightarrow> kube_error + service" where
  "as_service (RService s) = Inr s"
| "as_service (RKubeError e) = Inl e"
| "as_service _ = Inl decode_error"

fun as_event :: "reply \<Rightarrow> kube_error + unit" where
  "as_event REvent = Inr ()"
| "as_event (RKubeError e) = Inl e"
| "as_event _ = Inl decode_error"

fun as_asg :: "reply \<Rightarrow> kube_error + asg" where
  "as_asg (RAsg a) = Inr a"
| "as_asg (RKubeError e) = Inl e"
| "as_asg _ = Inl decode_error"

fun as_deleted :: "reply \<Rightarrow> kube_error + unit" where
  "as_deleted RDeleted = Inr ()"
| "as_deleted (RKubeError e) = Inl e"
| "as_deleted _ = Inl decode_error"

fun as_response :: "reply \<Rightarrow> err + http_response" where
  "as_response (RResponse rs) = Inr rs"
| "as_response (RTransportError t) = Inl (EHttp t)"
| "as_response _ = Inl (EHttp ''error sending request'')"

fun as_asgs :: "reply \<Rightarrow> asg list" where
  "as_asgs (RAsgs xs) = xs"
| "as_asgs _ = []"

fun as_instant :: "reply \<Rightarrow> nat" where
  "as_instant (RInstant t) = t"
| "as_instant _ = 0"

fun as_system :: "reply \<Rightarrow> nat option" where
  "as_system (RSystem t) = t"
| "as_system _ = None"

text \<open>
  The order in which a \<open>HashSet\<close> is iterated is random: a reply too.  A reply that is not an order
  of the set asked about counts as the order of the question.
\<close>

definition is_order :: "string list \<Rightarrow> string list \<Rightarrow> bool" where
  "is_order xs ys \<longleftrightarrow> distinct ys \<and> set ys = set xs"

fun as_order :: "string list \<Rightarrow> reply \<Rightarrow> string list" where
  "as_order xs (ROrder ys) = (if is_order xs ys then ys else remdups xs)"
| "as_order xs _ = remdups xs"

lemma as_order_set [simp]: "set (as_order xs r) = set xs" "distinct (as_order xs r)"
  by (cases r; simp add: is_order_def)+

fun as_catalog :: "reply \<Rightarrow> catalog option" where
  "as_catalog (RContent (CatalogIs c)) = c"
| "as_catalog _ = None"

fun as_sizes :: "reply \<Rightarrow> listed_size list option" where
  "as_sizes (RContent (SizesAre c)) = c"
| "as_sizes _ = None"

section \<open>Calls of the Kubernetes API\<close>

definition api_get_node :: "string \<Rightarrow> node kio" where
  [client_defs]: "api_get_node n = ask (KGet Nodes n) as_node"

definition api_list_nodes :: "string option \<Rightarrow> node list kio" where
  [client_defs]: "api_list_nodes sel = ask (KList Nodes sel) as_nodes"

definition api_create_node :: "node \<Rightarrow> node kio" where
  [client_defs]: "api_create_node n = ask (KCreate Nodes (ONode n)) as_node"

definition api_patch_node :: "string \<Rightarrow> patch_params \<Rightarrow> patch \<Rightarrow> node kio" where
  [client_defs]: "api_patch_node n pp p = ask (KPatch Nodes n pp p) as_node"

definition api_patch_node_status :: "string \<Rightarrow> patch_params \<Rightarrow> patch \<Rightarrow> node kio" where
  [client_defs]: "api_patch_node_status n pp p = ask (KPatchStatus Nodes n pp p) as_node"

definition api_delete_node :: "string \<Rightarrow> unit kio" where
  [client_defs]: "api_delete_node n = ask (KDelete Nodes n) as_deleted"

definition api_get_secret :: "string \<Rightarrow> string \<Rightarrow> secret kio" where
  [client_defs]: "api_get_secret ns n = ask (KGet (Secrets ns) n) as_secret"

definition api_get_secret_opt :: "string \<Rightarrow> string \<Rightarrow> secret option kio" where
  [client_defs]: "api_get_secret_opt ns n = ask (KGetOpt (Secrets ns) n) as_secret_opt"

definition api_create_secret :: "string \<Rightarrow> secret \<Rightarrow> secret kio" where
  [client_defs]: "api_create_secret ns s = ask (KCreate (Secrets ns) (OSecret s)) as_secret"

definition api_patch_secret :: "string \<Rightarrow> string \<Rightarrow> patch_params \<Rightarrow> patch \<Rightarrow> secret kio" where
  [client_defs]: "api_patch_secret ns n pp p = ask (KPatch (Secrets ns) n pp p) as_secret"

definition api_delete_secret :: "string \<Rightarrow> string \<Rightarrow> unit kio" where
  [client_defs]: "api_delete_secret ns n = ask (KDelete (Secrets ns) n) as_deleted"

definition api_get_config_map_opt :: "string \<Rightarrow> string \<Rightarrow> config_map option kio" where
  [client_defs]: "api_get_config_map_opt ns n = ask (KGetOpt (ConfigMaps ns) n) as_config_map_opt"

definition api_patch_service :: "string \<Rightarrow> string \<Rightarrow> patch_params \<Rightarrow> patch \<Rightarrow> service kio" where
  [client_defs]: "api_patch_service ns n pp p = ask (KPatch (Services ns) n pp p) as_service"

definition api_patch_service_status :: "string \<Rightarrow> string \<Rightarrow> patch_params \<Rightarrow> patch \<Rightarrow> service kio" where
  [client_defs]: "api_patch_service_status ns n pp p = ask (KPatchStatus (Services ns) n pp p) as_service"

definition api_create_event :: "string \<Rightarrow> event \<Rightarrow> unit kio" where
  [client_defs]: "api_create_event ns e = ask (KCreate (Events ns) (OEvent e)) as_event"

definition api_patch_asg_status :: "string \<Rightarrow> patch_params \<Rightarrow> patch \<Rightarrow> asg kio" where
  [client_defs]: "api_patch_asg_status n pp p = ask (KPatchStatus Asgs n pp p) as_asg"

text \<open>\<open>.await.context(c)?\<close> on a call of the Kubernetes API and on an inner \<open>Result\<close>.\<close>

definition kube_context :: "string \<Rightarrow> 'a kio \<Rightarrow> 'a io" where
  "kube_context c p = map_err (\<lambda>e. EContext c (EKube e)) p"

definition with_context :: "string \<Rightarrow> 'a io \<Rightarrow> 'a io" where
  "with_context c p = map_err (EContext c) p"

lemma safe_kube_context [effect_simps]:
  "safe G Q h (kube_context c (ask k read)) \<longleftrightarrow>
     G h k \<and> (\<forall>r. Q (Returned (map_sum (\<lambda>e. EContext c (EKube e)) id (read r))) (h @ [(k, r)]))"
  by (simp add: kube_context_def effect_simps)

lemma safe_with_context [effect_simps]:
  "safe G Q h (with_context c p) =
     safe G (then_post Q (\<lambda>x h'. Q (Returned (map_sum (EContext c) id x)) h')) h p"
  by (simp add: with_context_def effect_simps)

lemma panic_free_context [simp]:
  "panic_free (kube_context c p) \<longleftrightarrow> panic_free p"
  "panic_free (with_context c q) \<longleftrightarrow> panic_free q"
  by (simp_all add: kube_context_def with_context_def)

lemma within_context [simp]:
  "within P (kube_context c p) \<longleftrightarrow> within P p"
  "within P (with_context c q) \<longleftrightarrow> within P q"
  by (simp_all add: kube_context_def with_context_def)

end
