(* ===== verification/Bl_Client.thy ===== *)
theory Bl_Client
  imports Api
begin

text \<open>
  The BinaryLane API client (\<open>binarylane-client/src/lib.rs\<close>): one definition per method of
  \<open>Client\<close>, with the request it sends and its reading of the status and of the body.  The listing
  methods are loops over pages; \<open>list_pages\<close> is that loop, cut off by fuel, and the locale
  \<open>paged_endpoint\<close> is what every listing method promises.
\<close>

section \<open>Provider ids and passwords\<close>

definition provider_prefix :: string where
  "provider_prefix = PROVIDER_NAME @ '':///''"

definition server_provider_id :: "i64 \<Rightarrow> string" where
  "server_provider_id server_id = provider_prefix @ show_i64 server_id"

definition parse_provider_id :: "string \<Rightarrow> i64 option" where
  "parse_provider_id pid =
     (case strip_prefix provider_prefix pid of
        None \<Rightarrow> None
      | Some rest \<Rightarrow> (case parse_i64 rest of Inl _ \<Rightarrow> None | Inr n \<Rightarrow> Some n))"

text \<open>The random source panics when the operating system gives no entropy.\<close>

definition generate_server_password :: "string eff" where
  "generate_server_password =
     Ask (RandomAlnum 36) (\<lambda>r. case r of RChars s \<Rightarrow> Done (''BlcA1'' @ s) | _ \<Rightarrow> Panic ''OsRng'')"

lemma parse_provider_id_server_provider_id [simp]:
  "parse_provider_id (server_provider_id n) = Some n"
  by (simp add: parse_provider_id_def server_provider_id_def)

lemma parse_provider_id_Some_iff:
  "parse_provider_id pid = Some n \<longleftrightarrow>
     (\<exists>s. pid = provider_prefix @ s \<and> parse_i64 s = Inr n)"
  by (auto simp: parse_provider_id_def strip_prefix_Some_iff split: option.splits sum.splits)

lemma parse_provider_id_Nil [simp]: "parse_provider_id [] = None"
  by (simp add: parse_provider_id_def strip_prefix_def provider_prefix_def PROVIDER_NAME_def)

lemma server_provider_id_inject [simp]:
  "server_provider_id a = server_provider_id b \<longleftrightarrow> a = b"
  by (simp add: server_provider_id_def)

section \<open>Requests and responses\<close>

definition request :: "client \<Rightarrow> http_method \<Rightarrow> string \<Rightarrow> http_request" where
  "request cl m path =
     \<lparr>rq_method = m, rq_url = cl_api_base cl @ path,
      rq_headers = [(''Authorization'', ''Bearer '' @ cl_token cl),
                    (''Content-Type'', ''application/json'')],
      rq_query = [], rq_body = NoBody\<rparr>"

definition new_client :: "string \<Rightarrow> client" where
  "new_client token = \<lparr>cl_token = token, cl_api_base = DEFAULT_API_BASE\<rparr>"

definition is_success :: "http_response \<Rightarrow> bool" where
  "is_success rs \<longleftrightarrow> 200 \<le> rs_code rs \<and> rs_code rs < 300"

text \<open>\<open>bail!("{what}: {status}: {body}")\<close>; an unreadable body counts as empty.\<close>

definition bail_status :: "string \<Rightarrow> http_response \<Rightarrow> err" where
  "bail_status what rs =
     EBail (what @ '': '' @ rs_status rs @ '': '' @ unwrap_or (rs_text rs) [])"

fun decode_text :: "payload \<Rightarrow> string" where
  "decode_text (PUndecodable t) = t"
| "decode_text _ = ''error decoding response body''"

definition decode :: "(payload \<Rightarrow> 'a option) \<Rightarrow> string \<Rightarrow> http_response \<Rightarrow> err + 'a" where
  "decode read c rs =
     (case read (rs_json rs) of
        Some x \<Rightarrow> Inr x
      | None \<Rightarrow> Inl (EContext c (EDecode (decode_text (rs_json rs)))))"

definition read_reply :: "string \<Rightarrow> (http_response \<Rightarrow> err + 'a) \<Rightarrow> reply \<Rightarrow> err + 'a" where
  "read_reply c f r =
     (case as_response r of Inl e \<Rightarrow> Inl (EContext c e) | Inr rs \<Rightarrow> f rs)"

definition http_call :: "http_request \<Rightarrow> string \<Rightarrow> (http_response \<Rightarrow> err + 'a) \<Rightarrow> 'a io" where
  "http_call rq c f =
     attempt (with_context c (ask (Http rq) as_response)) (\<lambda>rs. Done (f rs))"

lemma http_call_ask [client_defs]: "http_call rq c f = ask (Http rq) (read_reply c f)"
  by (simp add: http_call_def with_context_def map_err_ask ask_def read_reply_def fun_eq_iff
      split: sum.split)

fun p_server :: "payload \<Rightarrow> server option" where
  "p_server (PServer s) = Some s" | "p_server _ = None"

fun p_servers :: "payload \<Rightarrow> (server list \<times> links) option" where
  "p_servers (PServers xs l) = Some (xs, l)" | "p_servers _ = None"

fun p_images :: "payload \<Rightarrow> (listed_image list \<times> links) option" where
  "p_images (PImages xs l) = Some (xs, l)" | "p_images _ = None"

fun p_sizes :: "payload \<Rightarrow> (listed_size list \<times> links) option" where
  "p_sizes (PSizes xs l) = Some (xs, l)" | "p_sizes _ = None"

fun p_regions :: "payload \<Rightarrow> (listed_region list \<times> links) option" where
  "p_regions (PRegions xs l) = Some (xs, l)" | "p_regions _ = None"

fun p_domains :: "payload \<Rightarrow> (domain list \<times> links) option" where
  "p_domains (PDomains xs l) = Some (xs, l)" | "p_domains _ = None"

fun p_records :: "payload \<Rightarrow> (domain_record list \<times> links) option" where
  "p_records (PRecords xs l) = Some (xs, l)" | "p_records _ = None"

fun p_record :: "payload \<Rightarrow> domain_record option" where
  "p_record (PRecord x) = Some x" | "p_record _ = None"

fun p_load_balancer :: "payload \<Rightarrow> load_balancer option" where
  "p_load_balancer (PLoadBalancer x) = Some x" | "p_load_balancer _ = None"

section \<open>Servers\<close>

definition read_get_server :: "i64 \<Rightarrow> http_response \<Rightarrow> err + server option" where
  "read_get_server server_id rs =
     (if rs_code rs = 404 then Inr None
      else if \<not> is_success rs then Inl (bail_status (''getting server '' @ show_i64 server_id) rs)
      else map_sum id Some (decode p_server ''decoding server'' rs))"

definition get_server :: "client \<Rightarrow> i64 \<Rightarrow> server option io" where
  "get_server cl server_id =
     http_call (request cl GET (''/servers/'' @ show_i64 server_id)) ''getting server''
       (read_get_server server_id)"

definition read_server_by_hostname :: "string \<Rightarrow> http_response \<Rightarrow> err + server option" where
  "read_server_by_hostname hostname rs =
     (if \<not> is_success rs then Inl (bail_status (''getting server by hostname '' @ hostname) rs)
      else map_sum id (\<lambda>(servers, _). case servers of [] \<Rightarrow> None | s # _ \<Rightarrow> Some s)
             (decode p_servers ''decoding server'' rs))"

definition hostname_request :: "client \<Rightarrow> string \<Rightarrow> http_request" where
  "hostname_request cl hostname = (request cl GET ''/servers'')\<lparr>rq_query := [(''hostname'', hostname)]\<rparr>"

definition get_server_by_hostname :: "client \<Rightarrow> string \<Rightarrow> server option io" where
  "get_server_by_hostname cl hostname =
     http_call (hostname_request cl hostname) ''getting server by hostname''
       (read_server_by_hostname hostname)"

definition read_create_server :: "http_response \<Rightarrow> err + server" where
  "read_create_server rs =
     (if \<not> is_success rs then Inl (bail_status ''creating server'' rs)
      else decode p_server ''decoding server'' rs)"

definition create_server_call :: "client \<Rightarrow> create_server_request \<Rightarrow> http_request" where
  "create_server_call cl req = (request cl POST ''/servers'')\<lparr>rq_body := BCreateServer req\<rparr>"

definition create_server :: "client \<Rightarrow> create_server_request \<Rightarrow> server io" where
  "create_server cl req = http_call (create_server_call cl req) ''creating server'' read_create_server"

definition read_delete_server :: "i64 \<Rightarrow> http_response \<Rightarrow> err + unit" where
  "read_delete_server server_id rs =
     (if rs_code rs = 404 then Inr ()
      else if \<not> is_success rs then Inl (bail_status (''deleting server '' @ show_i64 server_id) rs)
      else Inr ())"

definition delete_server_call :: "client \<Rightarrow> i64 \<Rightarrow> http_request" where
  "delete_server_call cl server_id = request cl DELETE (''/servers/'' @ show_i64 server_id)"

definition delete_server :: "client \<Rightarrow> i64 \<Rightarrow> unit io" where
  "delete_server cl server_id =
     http_call (delete_server_call cl server_id) ''deleting server'' (read_delete_server server_id)"

section \<open>Load balancers\<close>

definition read_get_load_balancer :: "i64 \<Rightarrow> http_response \<Rightarrow> err + load_balancer option" where
  "read_get_load_balancer lb rs =
     (if rs_code rs = 404 then Inr None
      else if \<not> is_success rs then Inl (bail_status (''getting load balancer '' @ show_i64 lb) rs)
      else map_sum id Some (decode p_load_balancer ''decoding load balancer'' rs))"

definition load_balancer_path :: "i64 \<Rightarrow> string" where
  "load_balancer_path lb = ''/load_balancers/'' @ show_i64 lb"

definition get_load_balancer :: "client \<Rightarrow> i64 \<Rightarrow> load_balancer option io" where
  "get_load_balancer cl lb =
     http_call (request cl GET (load_balancer_path lb)) ''getting load balancer''
       (read_get_load_balancer lb)"

definition read_create_load_balancer :: "http_response \<Rightarrow> err + load_balancer" where
  "read_create_load_balancer rs =
     (if \<not> is_success rs then Inl (bail_status ''creating load balancer'' rs)
      else decode p_load_balancer ''decoding load balancer'' rs)"

definition create_load_balancer_call ::
  "client \<Rightarrow> create_load_balancer_request \<Rightarrow> http_request" where
  "create_load_balancer_call cl req =
     (request cl POST ''/load_balancers'')\<lparr>rq_body := BCreateLoadBalancer req\<rparr>"

definition bl_create_load_balancer ::
  "client \<Rightarrow> create_load_balancer_request \<Rightarrow> load_balancer io" where
  "bl_create_load_balancer cl req =
     http_call (create_load_balancer_call cl req) ''creating load balancer''
       read_create_load_balancer"

definition read_update_load_balancer :: "i64 \<Rightarrow> http_response \<Rightarrow> err + load_balancer" where
  "read_update_load_balancer lb rs =
     (if \<not> is_success rs then Inl (bail_status (''updating load balancer '' @ show_i64 lb) rs)
      else decode p_load_balancer ''decoding load balancer'' rs)"

definition update_load_balancer_call ::
  "client \<Rightarrow> i64 \<Rightarrow> update_load_balancer_request \<Rightarrow> http_request" where
  "update_load_balancer_call cl lb req =
     (request cl PUT (load_balancer_path lb))\<lparr>rq_body := BUpdateLoadBalancer req\<rparr>"

definition update_load_balancer ::
  "client \<Rightarrow> i64 \<Rightarrow> update_load_balancer_request \<Rightarrow> load_balancer io" where
  "update_load_balancer cl lb req =
     http_call (update_load_balancer_call cl lb req) ''updating load balancer''
       (read_update_load_balancer lb)"

definition read_delete_load_balancer :: "i64 \<Rightarrow> http_response \<Rightarrow> err + unit" where
  "read_delete_load_balancer lb rs =
     (if \<not> is_success rs then Inl (bail_status (''deleting load balancer '' @ show_i64 lb) rs)
      else Inr ())"

definition delete_load_balancer_call :: "client \<Rightarrow> i64 \<Rightarrow> http_request" where
  "delete_load_balancer_call cl lb = request cl DELETE (load_balancer_path lb)"

definition delete_load_balancer :: "client \<Rightarrow> i64 \<Rightarrow> unit io" where
  "delete_load_balancer cl lb =
     http_call (delete_load_balancer_call cl lb) ''deleting load balancer''
       (read_delete_load_balancer lb)"

section \<open>Domain records\<close>

definition domain_records_path :: "string \<Rightarrow> string" where
  "domain_records_path dn = ''/domains/'' @ dn @ ''/records''"

definition read_create_domain_record :: "string \<Rightarrow> http_response \<Rightarrow> err + domain_record" where
  "read_create_domain_record dn rs =
     (if \<not> is_success rs then Inl (bail_status (''creating domain record in '' @ dn) rs)
      else decode p_record ''decoding domain record'' rs)"

definition create_domain_record_call ::
  "client \<Rightarrow> string \<Rightarrow> create_domain_record_request \<Rightarrow> http_request" where
  "create_domain_record_call cl dn req =
     (request cl POST (domain_records_path dn))\<lparr>rq_body := BCreateDomainRecord req\<rparr>"

definition create_domain_record ::
  "client \<Rightarrow> string \<Rightarrow> create_domain_record_request \<Rightarrow> domain_record io" where
  "create_domain_record cl dn req =
     http_call (create_domain_record_call cl dn req) ''creating domain record''
       (read_create_domain_record dn)"

definition read_delete_domain_record :: "string \<Rightarrow> i64 \<Rightarrow> http_response \<Rightarrow> err + unit" where
  "read_delete_domain_record dn rid rs =
     (if \<not> is_success rs
      then Inl (bail_status (''deleting domain record '' @ show_i64 rid @ '' in '' @ dn) rs)
      else Inr ())"

definition delete_domain_record_call :: "client \<Rightarrow> string \<Rightarrow> i64 \<Rightarrow> http_request" where
  "delete_domain_record_call cl dn rid =
     request cl DELETE (domain_records_path dn @ ''/'' @ show_i64 rid)"

definition delete_domain_record :: "client \<Rightarrow> string \<Rightarrow> i64 \<Rightarrow> unit io" where
  "delete_domain_record cl dn rid =
     http_call (delete_domain_record_call cl dn rid) ''deleting domain record''
       (read_delete_domain_record dn rid)"

definition read_refresh_nameserver_cache :: "http_response \<Rightarrow> err + unit" where
  "read_refresh_nameserver_cache rs =
     (if \<not> is_success rs then Inl (bail_status ''refreshing nameserver cache'' rs) else Inr ())"

definition refresh_nameserver_call :: "client \<Rightarrow> string list \<Rightarrow> http_request" where
  "refresh_nameserver_call cl names =
     (request cl POST ''/domains/refresh_nameserver_cache'')\<lparr>rq_body := BDomainNames names\<rparr>"

definition refresh_nameserver_cache :: "client \<Rightarrow> string list \<Rightarrow> unit io" where
  "refresh_nameserver_cache cl names =
     http_call (refresh_nameserver_call cl names) ''refreshing nameserver cache''
       read_refresh_nameserver_cache"

section \<open>Listing: the page loop\<close>

text \<open>
  \<open>loop { fetch page; all.extend(items); if next is none { break } page += 1 }\<close>.  The page number
  is a \<open>u32\<close> that wraps in the release build; the fuel bounds the number of pages fetched.
\<close>

fun has_next :: "links \<Rightarrow> bool" where
  "has_next (Some (Some u)) = True"
| "has_next _ = False"

fun list_pages ::
  "nat \<Rightarrow> (u32 \<Rightarrow> ('a list \<times> links) io) \<Rightarrow> u32 \<Rightarrow> 'a list \<Rightarrow> 'a list io" where
  "list_pages 0 fetch page all = Hang"
| "list_pages (Suc n) fetch page all =
     attempt (fetch page) (\<lambda>(items, links).
       if has_next links then list_pages n fetch (page + 1) (all @ items)
       else Done (Inr (all @ items)))"

definition page_path :: "string \<Rightarrow> u32 \<Rightarrow> string" where
  "page_path path page = path @ ''?page='' @ show_u32 page @ ''&per_page=100''"

definition read_page ::
  "string \<Rightarrow> string \<Rightarrow> (payload \<Rightarrow> ('a list \<times> links) option) \<Rightarrow> http_response
    \<Rightarrow> err + 'a list \<times> links" where
  "read_page what dec read rs =
     (if \<not> is_success rs then Inl (bail_status what rs) else decode read dec rs)"

definition list_servers :: "client \<Rightarrow> nat \<Rightarrow> server list io" where
  "list_servers cl fuel =
     list_pages fuel (\<lambda>page. http_call (request cl GET (page_path ''/servers'' page))
       ''listing servers'' (read_page ''listing servers'' ''decoding servers'' p_servers)) 1 []"

definition list_images :: "client \<Rightarrow> nat \<Rightarrow> listed_image list io" where
  "list_images cl fuel =
     list_pages fuel (\<lambda>page. http_call (request cl GET (page_path ''/images'' page))
       ''listing images'' (read_page ''listing images'' ''decoding images'' p_images)) 1 []"

definition list_sizes :: "client \<Rightarrow> nat \<Rightarrow> listed_size list io" where
  "list_sizes cl fuel =
     list_pages fuel (\<lambda>page. http_call (request cl GET (page_path ''/sizes'' page))
       ''listing sizes'' (read_page ''listing sizes'' ''decoding sizes'' p_sizes)) 1 []"

definition list_regions :: "client \<Rightarrow> nat \<Rightarrow> listed_region list io" where
  "list_regions cl fuel =
     list_pages fuel (\<lambda>page. http_call (request cl GET (page_path ''/regions'' page))
       ''listing regions'' (read_page ''listing regions'' ''decoding regions'' p_regions)) 1 []"

definition list_domains :: "client \<Rightarrow> nat \<Rightarrow> domain list io" where
  "list_domains cl fuel =
     list_pages fuel (\<lambda>page. http_call (request cl GET (page_path ''/domains'' page))
       ''listing domains'' (read_page ''listing domains'' ''decoding domains'' p_domains)) 1 []"

definition list_domain_records :: "client \<Rightarrow> nat \<Rightarrow> string \<Rightarrow> domain_record list io" where
  "list_domain_records cl fuel dn =
     list_pages fuel (\<lambda>page. http_call (request cl GET (page_path (domain_records_path dn) page))
       ''listing domain records''
       (read_page (''listing domain records for '' @ dn) ''decoding domain records'' p_records)) 1 []"

subsection \<open>What a listing method promises\<close>

fun page_calls :: "(u32 \<Rightarrow> call) \<Rightarrow> u32 \<Rightarrow> reply list \<Rightarrow> hist" where
  "page_calls call_of page [] = []"
| "page_calls call_of page (r # rs) = (call_of page, r) # page_calls call_of (page + 1) rs"

text \<open>The replies of a listing of \<open>n\<close> pages: all but the last have a link to the next one.\<close>

fun pages_of :: "(reply \<Rightarrow> err + 'a list \<times> links) \<Rightarrow> reply list \<Rightarrow> 'a list list option" where
  "pages_of read [] = None"
| "pages_of read (r # rs) =
     (case read r of
        Inl e \<Rightarrow> None
      | Inr (items, links) \<Rightarrow>
          if has_next links then map_option ((#) items) (pages_of read rs)
          else if rs = [] then Some [items] else None)"

lemma list_pages_complete:
  assumes "pages_of read rs = Some iss" and "length rs \<le> fuel"
  shows "after (list_pages fuel (\<lambda>p. ask (call_of p) read) page all) (page_calls call_of page rs)
          = Some (Done (Inr (all @ concat iss)))"
  using assms
proof (induction read rs arbitrary: fuel page all iss rule: pages_of.induct)
  case (2 read r rs)
  then obtain n where "fuel = Suc n" by (cases fuel) auto
  with 2 show ?case
    by (auto split: sum.splits if_splits prod.splits)
qed simp

lemma list_pages_only_gets:
  assumes "\<And>h p. G h (call_of p)" and "\<And>x h. Q x h"
  shows "safe G Q h (list_pages fuel (\<lambda>p. ask (call_of p) read) page all)"
  by (induction fuel arbitrary: page all h)
     (auto simp: assms split: sum.split)

locale paged_endpoint =
  fixes list_all :: "nat \<Rightarrow> (call, reply, err + 'a list) prog"
    and call_of :: "u32 \<Rightarrow> call"
    and read :: "reply \<Rightarrow> err + 'a list \<times> links"
  assumes is_loop: "list_all fuel = list_pages fuel (\<lambda>p. ask (call_of p) read) 1 []"
    and is_get: "\<exists>rq. call_of p = Http rq \<and> rq_method rq = GET"
begin

text \<open>With as much fuel as there are pages, the result is all items in order.\<close>

lemma complete:
  assumes "pages_of read rs = Some iss" and "length rs \<le> fuel"
  shows "after (list_all fuel) (page_calls call_of 1 rs) = Some (Done (Inr (concat iss)))"
  using list_pages_complete [OF assms] by (simp add: is_loop)

lemma more_fuel:
  assumes "after (list_all fuel) h = Some (Done x)"
  shows "after (list_all (fuel + k)) h = Some (Done x)"
proof -
  have "after (list_pages (fuel + k) f page all) h = Some (Done x)"
    if "after (list_pages fuel f page all) h = Some (Done x)" and f: "f = (\<lambda>p. ask (call_of p) read)"
    for f page all
    using that
  proof (induction fuel arbitrary: page all h)
    case 0
    then show ?case by (cases h) auto
  next
    case (Suc n)
    then show ?case
      by (cases h) (auto split: if_splits sum.splits prod.splits)
  qed
  with assms show ?thesis by (simp add: is_loop)
qed

text \<open>A listing only reads: every request is a \<open>GET\<close>.\<close>

lemma only_gets:
  assumes "\<And>h rq. rq_method rq = GET \<Longrightarrow> G h (Http rq)"
  shows "safe G (\<lambda>_ _. True) h (list_all fuel)"
  unfolding is_loop
  by (rule list_pages_only_gets) (use assms is_get in \<open>metis\<close>, simp)

text \<open>The first page that fails ends the listing with its error.\<close>

lemma first_error:
  assumes "read r = Inl e"
  shows "after (list_all (Suc n)) [(call_of 1, r)] = Some (Done (Inl e))"
  by (simp add: is_loop assms)

end

abbreviation page_call :: "client \<Rightarrow> string \<Rightarrow> u32 \<Rightarrow> call" where
  "page_call cl path p \<equiv> Http (request cl GET (page_path path p))"

abbreviation page_reader ::
  "string \<Rightarrow> string \<Rightarrow> string \<Rightarrow> (payload \<Rightarrow> ('a list \<times> links) option) \<Rightarrow> reply
    \<Rightarrow> err + 'a list \<times> links" where
  "page_reader c what dec read \<equiv> read_reply c (read_page what dec read)"

interpretation servers: paged_endpoint "list_servers cl" "page_call cl ''/servers''"
    "page_reader ''listing servers'' ''listing servers'' ''decoding servers'' p_servers" for cl
  by unfold_locales (simp_all add: list_servers_def http_call_ask request_def)

interpretation images: paged_endpoint "list_images cl" "page_call cl ''/images''"
    "page_reader ''listing images'' ''listing images'' ''decoding images'' p_images" for cl
  by unfold_locales (simp_all add: list_images_def http_call_ask request_def)

interpretation sizes: paged_endpoint "list_sizes cl" "page_call cl ''/sizes''"
    "page_reader ''listing sizes'' ''listing sizes'' ''decoding sizes'' p_sizes" for cl
  by unfold_locales (simp_all add: list_sizes_def http_call_ask request_def)

interpretation regions: paged_endpoint "list_regions cl" "page_call cl ''/regions''"
    "page_reader ''listing regions'' ''listing regions'' ''decoding regions'' p_regions" for cl
  by unfold_locales (simp_all add: list_regions_def http_call_ask request_def)

interpretation domains: paged_endpoint "list_domains cl" "page_call cl ''/domains''"
    "page_reader ''listing domains'' ''listing domains'' ''decoding domains'' p_domains" for cl
  by unfold_locales (simp_all add: list_domains_def http_call_ask request_def)

interpretation records: paged_endpoint "\<lambda>fuel. list_domain_records cl fuel dn"
    "page_call cl (domain_records_path dn)"
    "page_reader ''listing domain records'' (''listing domain records for '' @ dn)
       ''decoding domain records'' p_records" for cl dn
  by unfold_locales (simp_all add: list_domain_records_def http_call_ask request_def)

section \<open>Guards on client calls\<close>

lemma safe_http_call [effect_simps]:
  "safe G Q h (http_call rq c f) \<longleftrightarrow>
     G h (Http rq) \<and> (\<forall>r. Q (Returned (read_reply c f r)) (h @ [(Http rq, r)]))"
  by (simp add: http_call_ask effect_simps)

lemma within_http_call [simp]: "within P (http_call rq c f) \<longleftrightarrow> P (Http rq)"
  by (simp add: http_call_ask)

lemma within_list_pages [simp]:
  assumes "\<And>page. within P (fetch page)"
  shows "within P (list_pages fuel fetch page all)"
  by (induction fuel arbitrary: page all) (auto intro!: within_attempt assms)

lemma panic_free_http_call [simp]: "panic_free (http_call rq c f)"
  by (simp add: http_call_ask)

lemma panic_free_list_pages [simp]:
  assumes "\<And>page. panic_free (fetch page)"
  shows "panic_free (list_pages fuel fetch page all)"
  by (induction fuel arbitrary: page all) (auto intro!: panic_free_attempt assms)

lemma within_generate_server_password [simp]:
  "within P generate_server_password \<longleftrightarrow> P (RandomAlnum 36)"
  by (auto simp: generate_server_password_def split: reply.split)

lemmas client_calls =
  get_server_def get_server_by_hostname_def create_server_def delete_server_def
  get_load_balancer_def bl_create_load_balancer_def update_load_balancer_def
  delete_load_balancer_def create_domain_record_def delete_domain_record_def
  refresh_nameserver_cache_def

lemma safe_generate_server_password [effect_simps]:
  "safe G Q h generate_server_password \<longleftrightarrow>
     G h (RandomAlnum 36) \<and>
     (\<forall>r. case r of RChars s \<Rightarrow> Q (Returned (''BlcA1'' @ s)) (h @ [(RandomAlnum 36, r)])
          | _ \<Rightarrow> Q (Panicked ''OsRng'') (h @ [(RandomAlnum 36, r)]))"
  by (simp add: generate_server_password_def split: reply.split)

text \<open>Different methods send different requests.\<close>

lemma request_simps [simp]:
  "rq_method (request cl m p) = m"
  "rq_body (request cl m p) = NoBody"
  "rq_url (request cl m p) = cl_api_base cl @ p"
  by (simp_all add: request_def)

lemma request_inject [simp]:
  "request cl m p = request cl m' p' \<longleftrightarrow> m = m' \<and> p = p'"
  by (auto simp: request_def)

lemma create_server_call_inject [simp]:
  "create_server_call cl a = create_server_call cl b \<longleftrightarrow> a = b"
  "rq_method (create_server_call cl a) = POST"
  by (auto simp: create_server_call_def request_def)

section \<open>Properties\<close>

text \<open>
  The provider id written for a server is read back as that server, for every 64-bit id,
  so the id on a Node names one server only.
\<close>

theorem provider_id_roundtrip:
  "parse_provider_id (server_provider_id n) = Some n
   \<and> (server_provider_id n = server_provider_id m \<longleftrightarrow> n = m)"
  by simp

text \<open>
  C33: a listing whose pages are answered without an error, each page but the last one with a link
  to the next, ends with the items of all pages in order; as much fuel as there are pages is
  enough.  This is the statement for the records of a domain, which the webhook compares with
  the desired ones.
\<close>

theorem listing_returns_every_page:
  assumes "pages_of (page_reader ''listing domain records'' (''listing domain records for '' @ dn)
      ''decoding domain records'' p_records) rs = Some iss"
    and "length rs \<le> fuel"
  shows "after (list_domain_records cl fuel dn)
      (page_calls (page_call cl (domain_records_path dn)) 1 rs) = Some (Done (Inr (concat iss)))"
  using assms by (rule records.complete)

definition sample_page :: "domain_record list \<Rightarrow> links \<Rightarrow> reply" where
  "sample_page xs next =
     RResponse \<lparr>rs_code = 200, rs_status = ''200 OK'', rs_text = None, rs_json = PRecords xs next\<rparr>"

theorem listing_returns_every_page_witness:
  "\<forall>cl x y. after (list_domain_records cl 2 ''a.b'')
     (page_calls (page_call cl (domain_records_path ''a.b'')) 1
       [sample_page [x] (Some (Some ''next'')), sample_page [y] None]) = Some (Done (Inr [x, y]))"
proof (intro allI)
  fix cl x y
  have "pages_of (page_reader ''listing domain records'' (''listing domain records for '' @ ''a.b'')
      ''decoding domain records'' p_records)
      [sample_page [x] (Some (Some ''next'')), sample_page [y] None] = Some [[x], [y]]"
    by (simp add: sample_page_def read_reply_def read_page_def is_success_def decode_def)
  from listing_returns_every_page [OF this, of 2 cl]
  show "after (list_domain_records cl 2 ''a.b'')
     (page_calls (page_call cl (domain_records_path ''a.b'')) 1
       [sample_page [x] (Some (Some ''next'')), sample_page [y] None]) = Some (Done (Inr [x, y]))"
    by simp
qed

text \<open>
  Deleting a server succeeds exactly on a 2xx answer or a 404, so the deletion of a server
  that is gone is not an error; deleting a load balancer succeeds on a 2xx answer only.
\<close>

theorem delete_outcomes:
  "(read_delete_server sid rs = Inr () \<longleftrightarrow> rs_code rs = 404 \<or> 200 \<le> rs_code rs \<and> rs_code rs < 300)
   \<and> (read_delete_load_balancer lb rs = Inr () \<longleftrightarrow> 200 \<le> rs_code rs \<and> rs_code rs < 300)"
  by (simp add: read_delete_server_def read_delete_load_balancer_def is_success_def)

end
