(* ===== verification/Controllers.thy ===== *)
theory Controllers
  imports Bl_Client
begin

text \<open>
  What the controllers share (\<open>src/controllers/mod.rs\<close>): the label, annotation and taint names,
  the names of the per-node Secrets and the way back from a Secret to its Node, the selection of
  the controllers to run, the cached catalog of sizes, regions and images, and the contract that
  every reconciler of Nodes keeps: it touches no object but its own Node and that Node's Secrets.
\<close>

section \<open>Names\<close>

definition FINALIZER :: string where
  [const_defs]: "FINALIZER = ''blc.samcday.com/server-cleanup''"

definition UNINITIALIZED_TAINT :: string where
  [const_defs]: "UNINITIALIZED_TAINT = ''node.cloudprovider.kubernetes.io/uninitialized''"

definition LABEL_ASG :: string where
  [const_defs]: "LABEL_ASG = ''blc.samcday.com/asg''"

definition LABEL_SERVER_ID :: string where
  [const_defs]: "LABEL_SERVER_ID = ''bl.samcday.com/server-id''"

definition LABEL_SIZE :: string where
  [const_defs]: "LABEL_SIZE = ''bl.samcday.com/size''"

definition LABEL_REGION :: string where
  [const_defs]: "LABEL_REGION = ''bl.samcday.com/region''"

definition LABEL_IMAGE :: string where
  [const_defs]: "LABEL_IMAGE = ''bl.samcday.com/image''"

definition ANNOTATION_ADOPT :: string where
  [const_defs]: "ANNOTATION_ADOPT = ''bl.samcday.com/adopt''"

definition LABEL_HOSTNAME :: string where
  [const_defs]: "LABEL_HOSTNAME = ''kubernetes.io/hostname''"

definition LABEL_ARCH :: string where
  [const_defs]: "LABEL_ARCH = ''kubernetes.io/arch''"

definition LABEL_OS :: string where
  [const_defs]: "LABEL_OS = ''kubernetes.io/os''"

definition LABEL_INSTANCE_TYPE :: string where
  [const_defs]: "LABEL_INSTANCE_TYPE = ''node.kubernetes.io/instance-type''"

definition LABEL_CLOUD_PROVIDER :: string where
  [const_defs]: "LABEL_CLOUD_PROVIDER = ''node.kubernetes.io/cloud-provider''"

definition LABEL_TOPOLOGY_REGION :: string where
  [const_defs]: "LABEL_TOPOLOGY_REGION = ''topology.kubernetes.io/region''"

definition RESERVED_LABELS :: "string list" where
  "RESERVED_LABELS =
     [LABEL_ASG, LABEL_SERVER_ID, LABEL_SIZE, LABEL_REGION, LABEL_IMAGE, LABEL_HOSTNAME,
      LABEL_ARCH, LABEL_OS, LABEL_INSTANCE_TYPE, LABEL_CLOUD_PROVIDER, LABEL_TOPOLOGY_REGION]"

definition RESERVED_TAINT_KEYS :: "string list" where
  "RESERVED_TAINT_KEYS = [UNINITIALIZED_TAINT]"

definition node_password_secret_name :: "string \<Rightarrow> string" where
  "node_password_secret_name node_name = node_name @ ''-node-password''"

definition user_data_secret_name :: "string \<Rightarrow> string" where
  "user_data_secret_name node_name = node_name @ ''-user-data''"

definition secret_to_node_mapper :: "secret \<Rightarrow> string option" where
  "secret_to_node_mapper s =
     Option.bind (m_name (s_meta s)) (\<lambda>name.
       or_else (strip_suffix ''-node-password'' name) (strip_suffix ''-user-data'' name))"

lemma reserved_labels_distinct: "distinct RESERVED_LABELS"
  by (simp add: RESERVED_LABELS_def const_defs)

lemma not_suffix_user_data: "\<not> suffix ''-node-password'' (s @ ''-user-data'')"
proof
  assume "suffix ''-node-password'' (s @ ''-user-data'')"
  then obtain t where "s @ ''-user-data'' = t @ ''-node-password''" by (auto simp: suffix_def)
  then have "last (s @ ''-user-data'') = last (t @ ''-node-password'')" by simp
  then show False by simp
qed

text \<open>The mapper inverts both ways of naming a Secret, and accepts no other name.\<close>

lemma secret_to_node_mapper_iff:
  "secret_to_node_mapper s = Some n \<longleftrightarrow>
     m_name (s_meta s) = Some (node_password_secret_name n) \<or>
     m_name (s_meta s) = Some (user_data_secret_name n)"
proof (cases "m_name (s_meta s)")
  case (Some name)
  show ?thesis
  proof (cases "strip_suffix ''-node-password'' name")
    case None
    then have "\<not> suffix ''-node-password'' name" by (simp add: strip_suffix_None_iff)
    then have "name \<noteq> n @ ''-node-password''" by (auto simp: suffix_def)
    with Some None show ?thesis
      by (simp add: secret_to_node_mapper_def node_password_secret_name_def
          user_data_secret_name_def strip_suffix_Some_iff)
  next
    case (Some t)
    then have name: "name = t @ ''-node-password''" by (simp add: strip_suffix_Some_iff)
    then have "suffix ''-node-password'' name" by (simp add: suffix_def)
    with not_suffix_user_data [of n] have "name \<noteq> n @ ''-user-data''" by auto
    with Some name \<open>m_name (s_meta s) = Some name\<close> show ?thesis
      by (auto simp: secret_to_node_mapper_def node_password_secret_name_def
          user_data_secret_name_def)
  qed
qed (simp add: secret_to_node_mapper_def)

lemma secret_names_inject [simp]:
  "node_password_secret_name a = node_password_secret_name b \<longleftrightarrow> a = b"
  "user_data_secret_name a = user_data_secret_name b \<longleftrightarrow> a = b"
  by (simp_all add: node_password_secret_name_def user_data_secret_name_def)

lemma secret_names_disjoint [simp]:
  "node_password_secret_name a \<noteq> user_data_secret_name b"
  "user_data_secret_name b \<noteq> node_password_secret_name a"
proof -
  show "node_password_secret_name a \<noteq> user_data_secret_name b"
    using not_suffix_user_data [of b]
    by (auto simp: node_password_secret_name_def user_data_secret_name_def suffix_def)
  then show "user_data_secret_name b \<noteq> node_password_secret_name a" by metis
qed

section \<open>Which controllers run\<close>

definition DEFAULT_CONTROLLERS :: "string list" where
  "DEFAULT_CONTROLLERS =
     [''node-sync'', ''node-deletion'', ''node-bind'', ''node-provision'', ''service'']"

definition spec_parts :: "string \<Rightarrow> string list" where
  "spec_parts spec = filter (\<lambda>s. s \<noteq> []) (map trim (split_char (CHR '','') spec))"

fun resolve_part :: "string \<Rightarrow> string set \<times> string set \<Rightarrow> string set \<times> string set" where
  "resolve_part part (result, exclusions) =
     (if part = ''*'' then (result \<union> set DEFAULT_CONTROLLERS, exclusions)
      else (case strip_prefix ''-'' part of
              Some excluded \<Rightarrow> (result, insert excluded exclusions)
            | None \<Rightarrow> (insert part result, exclusions)))"

definition resolve_controllers :: "string \<Rightarrow> string set" where
  "resolve_controllers spec =
     (let (result, exclusions) = fold resolve_part (spec_parts spec) ({}, {})
      in result - exclusions)"

definition included :: "string \<Rightarrow> string list \<Rightarrow> bool" where
  "included n parts \<longleftrightarrow>
     n \<in> set parts \<and> n \<noteq> ''*'' \<and> strip_prefix ''-'' n = None
     \<or> ''*'' \<in> set parts \<and> n \<in> set DEFAULT_CONTROLLERS"

lemma fold_resolve_part:
  "fold resolve_part parts (R, E) =
     (R \<union> {n. included n parts}, E \<union> {n. CHR ''-'' # n \<in> set parts})"
proof (induction parts arbitrary: R E)
  case Nil
  then show ?case by (simp add: included_def)
next
  case (Cons p parts)
  show ?case
    by (cases p) (auto simp: Cons.IH included_def strip_prefix_char)
qed

section \<open>Reconcilers\<close>

datatype action = AwaitChange | Requeue nat

datatype reconcile_error = KubeError kube_error | OtherError err

record reconcile_ctx =
  rc_bl :: client
  rc_secret_namespace :: string
  rc_fuel :: nat
  rc_name_any :: "obj_meta \<Rightarrow> string"

type_synonym reconciled = "(call, reply, reconcile_error + action) prog"

abbreviation no_panic :: "'a outcome \<Rightarrow> hist \<Rightarrow> bool" where
  "no_panic x h \<equiv> \<forall>s. x \<noteq> Panicked s"

definition error_policy :: "reconcile_error \<Rightarrow> action" where
  "error_policy e = Requeue 30"

text \<open>A context for the witnesses: \<open>name_any\<close> reads \<open>metadata.name\<close>.\<close>

definition sample_ctx :: reconcile_ctx where
  "sample_ctx = \<lparr>rc_bl = \<lparr>cl_token = ''t'', cl_api_base = ''b''\<rparr>, rc_secret_namespace = ''ns'',
     rc_fuel = 10, rc_name_any = (\<lambda>m. unwrap_or (m_name m) [])\<rparr>"

lemma sample_ctx_simps [simp]:
  "rc_secret_namespace sample_ctx = ''ns''" "rc_name_any sample_ctx m = unwrap_or (m_name m) []"
  by (simp_all add: sample_ctx_def)

definition sample_response :: "nat \<Rightarrow> payload \<Rightarrow> reply" where
  "sample_response code p =
     RResponse \<lparr>rs_code = code, rs_status = [], rs_text = None, rs_json = p\<rparr>"

definition sample_server :: "i64 \<Rightarrow> server" where
  "sample_server sid =
     \<lparr>srv_id = sid, srv_name = ''n'', srv_status = ''active'', srv_size_slug = ''std-1vcpu'',
      srv_region = \<lparr>rg_slug = ''syd''\<rparr>, srv_image = \<lparr>im_slug = ''debian''\<rparr>,
      srv_networks = \<lparr>nw_v4 = []\<rparr>, srv_vpc_id = None\<rparr>"

definition bound_node :: "string \<Rightarrow> i64 \<Rightarrow> node" where
  "bound_node name sid =
     \<lparr>n_meta = empty_meta\<lparr>m_name := Some name, m_uid := Some ''u''\<rparr>,
      n_spec = Some \<lparr>ns_provider_id = Some (server_provider_id sid), ns_taints = None\<rparr>,
      n_status = None\<rparr>"

text \<open>\<open>if let Err(e) = p.await { return Err(e.into()); } Ok(a)\<close>, and a conditional step.\<close>

definition then_action :: "unit io \<Rightarrow> action \<Rightarrow> reconciled" where
  "then_action p a = attempt (map_err OtherError p) (\<lambda>_. Done (Inr a))"

definition do_when :: "bool \<Rightarrow> 'a io \<Rightarrow> unit io" where
  "do_when b p = (if b then attempt p (\<lambda>_. Done (Inr ())) else Done (Inr ()))"

lemma do_when_simps [simp]:
  "do_when False p = Done (Inr ())"
  "do_when True p = attempt p (\<lambda>_. Done (Inr ()))"
  by (simp_all add: do_when_def)

lemma safe_then_action [effect_simps]:
  "safe G Q h (then_action p a) =
     safe G (then_post Q (\<lambda>x h'. case x of Inl e \<Rightarrow> Q (Returned (Inl (OtherError e))) h'
                                  | Inr _ \<Rightarrow> Q (Returned (Inr a)) h')) h p"
  unfolding then_action_def safe_attempt safe_map_err
  by (intro arg_cong [where f = "\<lambda>Q. safe G Q h p"] ext)
     (simp add: then_post_def split: outcome.split sum.split)

lemma within_then_action [simp]: "within P p \<Longrightarrow> within P (then_action p a)"
  by (auto simp: then_action_def intro!: within_attempt)

lemma within_do_when [simp]: "(b \<Longrightarrow> within P p) \<Longrightarrow> within P (do_when b p)"
  by (auto simp: do_when_def intro!: within_attempt)

definition controller_params :: patch_params where
  "controller_params = apply_params ''binarylane-controller''"

text \<open>The patch that binds a Node to a server, sent by \<open>node_bind\<close> and by \<open>node_provision\<close>.\<close>

definition provider_patch :: "i64 \<Rightarrow> json" where
  "provider_patch server_id =
     JObj [(''metadata'', JObj [(''labels'', JObj [(LABEL_SERVER_ID, JStr (show_i64 server_id))])]),
           (''spec'', JObj [(''providerID'', JStr (server_provider_id server_id))])]"

definition provider_id_of :: "node \<Rightarrow> string" where
  "provider_id_of node = unwrap_or (Option.bind (n_spec node) ns_provider_id) []"

definition has_provision_labels :: "obj_meta \<Rightarrow> bool" where
  "has_provision_labels m \<longleftrightarrow>
     has_label m LABEL_SIZE \<or> has_label m LABEL_REGION \<or> has_label m LABEL_IMAGE"

section \<open>The catalog\<close>

record catalog_snapshot =
  sn_sizes :: "listed_size list"
  sn_regions :: "listed_region list"
  sn_images :: "listed_image list"

definition snapshot :: "catalog \<Rightarrow> catalog_snapshot" where
  "snapshot c = \<lparr>sn_sizes = cat_sizes c, sn_regions = cat_regions c, sn_images = cat_images c\<rparr>"

text \<open>Instants are in nanoseconds; \<open>elapsed\<close> is zero for an instant in the future.\<close>

definition catalog_fresh :: "catalog \<Rightarrow> nat \<Rightarrow> bool" where
  "catalog_fresh c now \<longleftrightarrow> now - cat_fetched_at c < 300 * 10 ^ 9"

fun if_fresh :: "catalog option \<Rightarrow> (catalog_snapshot \<Rightarrow> 'a eff) \<Rightarrow> 'a eff \<Rightarrow> 'a eff" where
  "if_fresh None hit miss = miss"
| "if_fresh (Some c) hit miss =
     Ask InstantNow (\<lambda>r. if catalog_fresh c (as_instant r) then hit (snapshot c) else miss)"

definition refresh_catalog :: "reconcile_ctx \<Rightarrow> catalog_snapshot io" where
  "refresh_catalog ctx =
     attempt (list_sizes (rc_bl ctx) (rc_fuel ctx)) (\<lambda>sizes.
     attempt (list_regions (rc_bl ctx) (rc_fuel ctx)) (\<lambda>regions.
     attempt (list_images (rc_bl ctx) (rc_fuel ctx)) (\<lambda>images.
     Ask InstantNow (\<lambda>t.
     Ask (MemStore (CatalogIs (Some
           \<lparr>cat_sizes = sizes, cat_regions = regions, cat_images = images,
            cat_fetched_at = as_instant t\<rparr>))) (\<lambda>_.
     Done (Inr \<lparr>sn_sizes = sizes, sn_regions = regions, sn_images = images\<rparr>))))))"

definition bl_catalog :: "reconcile_ctx \<Rightarrow> (call, reply, reconcile_error + catalog_snapshot) prog" where
  "bl_catalog ctx =
     Ask (MemRead CatalogCell) (\<lambda>r.
       if_fresh (as_catalog r) (\<lambda>s. Done (Inr s))
         (Ask (MemLock CatalogCell) (\<lambda>r'.
           bind (if_fresh (as_catalog r') (\<lambda>s. Done (Inr s))
                   (map_err OtherError (refresh_catalog ctx)))
             (\<lambda>x. Ask (MemUnlock CatalogCell) (\<lambda>_. Done x)))))"

subsection \<open>The lock on the cell\<close>

primrec held_from :: "cell \<Rightarrow> bool \<Rightarrow> hist \<Rightarrow> bool" where
  "held_from c b [] = b"
| "held_from c b (e # h) =
     held_from c (if fst e = MemLock c then True else if fst e = MemUnlock c then False else b) h"

abbreviation held :: "cell \<Rightarrow> hist \<Rightarrow> bool" where
  "held c h \<equiv> held_from c False h"

lemma held_from_append [simp]: "held_from c b (h @ h') = held_from c (held_from c b h) h'"
  by (induction h arbitrary: b) auto

text \<open>
  The discipline of a lock: a run locks the cell at most once and does not release it twice; the cell
  is written, and the API is asked, only while it is held; and it is released before the result is
  returned.
\<close>

definition takes_of :: "cell \<Rightarrow> hist \<Rightarrow> nat" where
  "takes_of x h = length (filter (\<lambda>e. fst e = MemLock x) h)"

lemma takes_of_simps [simp]:
  "takes_of x [] = 0" "takes_of x (e # h) = (if fst e = MemLock x then 1 else 0) + takes_of x h"
  "takes_of x (g @ h) = takes_of x g + takes_of x h"
  by (simp_all add: takes_of_def)

definition lock_guard :: "cell \<Rightarrow> hist \<Rightarrow> call \<Rightarrow> bool" where
  "lock_guard x h c =
     (case c of
        MemLock y \<Rightarrow> y = x \<longrightarrow> takes_of x h = 0
      | MemUnlock y \<Rightarrow> y = x \<longrightarrow> held x h
      | MemStore _ \<Rightarrow> held x h
      | Http rq \<Rightarrow> held x h \<and> rq_method rq = GET
      | _ \<Rightarrow> True)"

lemma second_take:
  assumes "\<not> takes_of x h \<le> 1"
  obtains t c r u where "h = t @ (c, r) # u" "c = MemLock x" "takes_of x t \<noteq> 0"
proof -
  have "\<exists>t r u. h = t @ (MemLock x, r) # u \<and> takes_of x t \<noteq> 0"
    using assms
  proof (induction h rule: rev_induct)
    case (snoc e h)
    show ?case
    proof (cases "takes_of x h \<le> 1")
      case True
      with snoc.prems have "fst e = MemLock x" "takes_of x h \<noteq> 0" by (auto split: if_splits)
      then show ?thesis by (intro exI [of _ h] exI [of _ "snd e"] exI [of _ "[]"]) (cases e; simp)
    next
      case False
      with snoc.IH obtain t r u where "h = t @ (MemLock x, r) # u" "takes_of x t \<noteq> 0" by blast
      then show ?thesis by (intro exI [of _ t] exI [of _ r] exI [of _ "u @ [e]"]) simp
    qed
  qed simp
  with that show thesis by blast
qed

definition lock_post :: "cell \<Rightarrow> 'a outcome \<Rightarrow> hist \<Rightarrow> bool" where
  "lock_post x out h \<longleftrightarrow> (\<forall>y. out = Returned y \<longrightarrow> \<not> held x h)"

lemma list_pages_lock:
  assumes "held x h" and "\<And>p. \<exists>rq. call_of p = Http rq \<and> rq_method rq = GET"
  shows "safe (lock_guard x) (\<lambda>_ h'. held x h') h (list_pages fuel (\<lambda>p. ask (call_of p) read) page all)"
  using assms(1)
proof (induction fuel arbitrary: page all h)
  case (Suc n)
  obtain rq where rq: "call_of page = Http rq" "rq_method rq = GET" using assms(2) by blast
  show ?case
    using Suc by (auto simp: rq lock_guard_def split: sum.split)
qed simp

lemma listing_lock:
  assumes "held x h" and "paged_endpoint listing call_of read"
    and "\<And>y h. held x h \<Longrightarrow> F y h"
  shows "safe (lock_guard x) (then_post (\<lambda>_ h'. held x h') F) h (listing fuel)"
proof -
  have "listing fuel = list_pages fuel (\<lambda>p. ask (call_of p) read) 1 []"
    using assms(2) by (simp add: paged_endpoint_def)
  moreover have "\<exists>rq. call_of p = Http rq \<and> rq_method rq = GET" for p
    using assms(2) by (simp add: paged_endpoint_def)
  ultimately show ?thesis
    using list_pages_lock [OF assms(1), of call_of fuel read 1 "[]"] assms(3)
    by (auto intro!: safe_mono [OF list_pages_lock [OF assms(1)]] simp: then_post_def
        split: outcome.split)
qed

lemma refresh_catalog_lock:
  assumes "held CatalogCell h" and "\<And>x h. held CatalogCell h \<Longrightarrow> Q x h"
  shows "safe (lock_guard CatalogCell) Q h (refresh_catalog ctx)"
proof -
  have "safe (lock_guard CatalogCell) (\<lambda>_ h'. held CatalogCell h') h (refresh_catalog ctx)"
    unfolding refresh_catalog_def safe_attempt
    by (rule listing_lock [OF assms(1) sizes.paged_endpoint_axioms])
       (auto simp: effect_simps lock_guard_def split: sum.split
         intro!: listing_lock [OF _ regions.paged_endpoint_axioms]
           listing_lock [OF _ images.paged_endpoint_axioms])
  then show ?thesis by (rule safe_mono) (auto simp: assms(2))
qed

lemma safe_if_fresh [effect_simps]:
  "safe G Q h (if_fresh c hit miss) =
     (case c of
        None \<Rightarrow> safe G Q h miss
      | Some cat \<Rightarrow>
          G h InstantNow \<and>
          (\<forall>r. safe G Q (h @ [(InstantNow, r)])
                (if catalog_fresh cat (as_instant r) then hit (snapshot cat) else miss)))"
  by (cases c) auto

lemma bl_catalog_lock:
  "safe (lock_guard CatalogCell) (lock_post CatalogCell) [] (bl_catalog ctx)"
  unfolding bl_catalog_def
  by (auto simp: effect_simps lock_guard_def [of CatalogCell _ "MemRead _"]
      lock_guard_def [of CatalogCell _ "MemLock _"] lock_guard_def [of CatalogCell _ "MemUnlock _"]
      lock_guard_def [of CatalogCell _ InstantNow] lock_post_def then_post_def
      intro!: refresh_catalog_lock split: option.split outcome.split)

text \<open>The calls the catalog makes.\<close>

fun catalog_call :: "call \<Rightarrow> bool" where
  "catalog_call (Http rq) = (rq_method rq = GET)"
| "catalog_call InstantNow = True"
| "catalog_call (MemRead c) = True"
| "catalog_call (MemLock c) = True"
| "catalog_call (MemStore c) = True"
| "catalog_call (MemUnlock c) = True"
| "catalog_call _ = False"

lemma within_bl_catalog: "within catalog_call (bl_catalog ctx)"
proof -
  have hit: "within catalog_call (if_fresh c hit miss)"
    if "\<And>s. within catalog_call (hit s)" and "within catalog_call miss"
    for c and hit :: "catalog_snapshot \<Rightarrow> 'a eff" and miss
    using that by (cases c) auto
  show ?thesis
    unfolding bl_catalog_def refresh_catalog_def list_sizes_def list_regions_def list_images_def
    by (auto intro!: hit within_bind within_attempt)
qed

lemma panic_free_bl_catalog: "panic_free (bl_catalog ctx)"
proof -
  have hit: "panic_free (if_fresh c hit miss)" if "\<And>s. panic_free (hit s)" and "panic_free miss"
    for c and hit :: "catalog_snapshot \<Rightarrow> 'a eff" and miss
    using that by (cases c) auto
  show ?thesis
    unfolding bl_catalog_def refresh_catalog_def list_sizes_def list_regions_def list_images_def
    by (auto intro!: hit panic_free_intros)
qed

section \<open>The scope of a reconciler of Nodes\<close>

text \<open>
  The objects a reconciler of the Node \<open>name\<close> may touch: that Node, the two Secrets named after
  it in the controller's namespace, and events about it.  BinaryLane requests, the clock, the
  random source and the catalog are not Kubernetes objects.
\<close>

fun node_scope :: "reconcile_ctx \<Rightarrow> string \<Rightarrow> call \<Rightarrow> bool" where
  "node_scope ctx name (KGet Nodes n) = (n = name)"
| "node_scope ctx name (KPatch Nodes n pp p) = (n = name)"
| "node_scope ctx name (KPatchStatus Nodes n pp p) = (n = name)"
| "node_scope ctx name (KDelete Nodes n) = (n = name)"
| "node_scope ctx name (KGetOpt (Secrets ns) n) =
     (ns = rc_secret_namespace ctx \<and>
      n \<in> {node_password_secret_name name, user_data_secret_name name})"
| "node_scope ctx name (KPatch (Secrets ns) n pp p) =
     (ns = rc_secret_namespace ctx \<and>
      n \<in> {node_password_secret_name name, user_data_secret_name name})"
| "node_scope ctx name (KDelete (Secrets ns) n) =
     (ns = rc_secret_namespace ctx \<and>
      n \<in> {node_password_secret_name name, user_data_secret_name name})"
| "node_scope ctx name (KCreate (Events ns) (OEvent e)) = (ev_involved_name e = name)"
| "node_scope ctx name (Http rq) = True"
| "node_scope ctx name InstantNow = True"
| "node_scope ctx name UtcNow = True"
| "node_scope ctx name (RandomAlnum k) = True"
| "node_scope ctx name (MemRead c) = True"
| "node_scope ctx name (MemLock c) = True"
| "node_scope ctx name (MemStore c) = True"
| "node_scope ctx name (MemUnlock c) = True"
| "node_scope ctx name c = False"

text \<open>The writes to the cluster that would matter to another Node.\<close>

fun writes_node :: "call \<Rightarrow> string option" where
  "writes_node (KPatch Nodes n pp p) = Some n"
| "writes_node (KPatchStatus Nodes n pp p) = Some n"
| "writes_node (KDelete Nodes n) = Some n"
| "writes_node c = None"

fun writes_secret :: "call \<Rightarrow> (string \<times> string) option" where
  "writes_secret (KPatch (Secrets ns) n pp p) = Some (ns, n)"
| "writes_secret (KDelete (Secrets ns) n) = Some (ns, n)"
| "writes_secret c = None"

lemma node_scope_writes_node: "node_scope ctx name c \<Longrightarrow> writes_node c = Some n \<Longrightarrow> n = name"
  by (induction ctx name c rule: node_scope.induct) auto

lemma node_scope_writes_secret:
  "node_scope ctx name c \<Longrightarrow> writes_secret c = Some (ns, n) \<Longrightarrow>
     ns = rc_secret_namespace ctx \<and>
     n \<in> {node_password_secret_name name, user_data_secret_name name}"
  by (induction ctx name c rule: node_scope.induct) auto

locale node_reconciler =
  fixes reconcile :: "reconcile_ctx \<Rightarrow> node \<Rightarrow> reconciled"
  assumes in_scope:
    "within (node_scope ctx (rc_name_any ctx (n_meta node))) (reconcile ctx node)"
begin

lemma writes_own_node:
  assumes "after (reconcile ctx node) (h @ (c, r) # h') = Some q" and "writes_node c = Some n"
  shows "n = rc_name_any ctx (n_meta node)"
  using within_guard [OF in_scope assms(1)] assms(2) by (rule node_scope_writes_node)

lemma writes_own_secrets:
  assumes "after (reconcile ctx node) (h @ (c, r) # h') = Some q"
    and "writes_secret c = Some (ns, s)"
  shows "ns = rc_secret_namespace ctx \<and>
    s \<in> {node_password_secret_name (rc_name_any ctx (n_meta node)),
         user_data_secret_name (rc_name_any ctx (n_meta node))}"
  using within_guard [OF in_scope assms(1)] assms(2) by (rule node_scope_writes_secret)

lemma in_pool:
  assumes "pool_run ps (es @ (i, c, r) # fs) qs" and "i < length ps"
    and "ps ! i = reconcile ctx node"
  shows "node_scope ctx (rc_name_any ctx (n_meta node)) c"
  using pool_guard [OF assms(1,2)] within_safe [OF in_scope [of ctx node]] assms(3) by metis

end

section \<open>Properties\<close>

text \<open>
  The controllers that run are exactly those the specification includes, by name or as a
  default through \<open>*\<close>, less those it excludes with a leading hyphen, wherever in the list
  the exclusion stands.
\<close>

theorem resolve_controllers_iff:
  "n \<in> resolve_controllers spec \<longleftrightarrow>
     (n \<in> set (spec_parts spec) \<and> n \<noteq> ''*'' \<and> \<not> prefix ''-'' n
      \<or> ''*'' \<in> set (spec_parts spec) \<and> n \<in> set DEFAULT_CONTROLLERS)
     \<and> CHR ''-'' # n \<notin> set (spec_parts spec)"
proof -
  have "strip_prefix ''-'' n = None \<longleftrightarrow> \<not> prefix ''-'' n"
    by (cases n) (auto simp: strip_prefix_char)
  then show ?thesis
    by (simp add: resolve_controllers_def fold_resolve_part included_def)
qed

text \<open>
  A Secret is mapped to a Node exactly when its name is one of the two names given to the
  Secrets of that Node, and no Secret has a name of two Nodes.
\<close>

theorem secret_mapper_inverts_names:
  "(secret_to_node_mapper s = Some n \<longleftrightarrow>
     m_name (s_meta s) \<in> {Some (node_password_secret_name n), Some (user_data_secret_name n)})
   \<and> ({node_password_secret_name n, user_data_secret_name n}
       \<inter> {node_password_secret_name m, user_data_secret_name m} \<noteq> {} \<longleftrightarrow> n = m)"
  by (auto simp: secret_to_node_mapper_iff)

text \<open>
  C27: every run of the catalog takes the write lock at most once, asks BinaryLane and stores only
  while it holds it, sends \<open>GET\<close> requests only, and has released the lock when it returns.
\<close>

theorem catalog_locking:
  assumes "after (bl_catalog ctx) h = Some p"
  shows "takes_of CatalogCell h \<le> 1
    \<and> (\<forall>t c r u. h = t @ (c, r) # u \<longrightarrow>
         ((\<exists>v. c = MemStore v) \<longrightarrow> held CatalogCell t)
         \<and> (\<forall>rq. c = Http rq \<longrightarrow> held CatalogCell t \<and> rq_method rq = GET))
    \<and> (\<forall>x. p = Done x \<longrightarrow> \<not> held CatalogCell h)"
proof -
  have guard: "lock_guard CatalogCell t c" if "h = t @ (c, r) # u" for t c r u
    using safe_guard [OF bl_catalog_lock] assms that by metis
  have "takes_of CatalogCell h \<le> 1"
  proof (rule ccontr)
    assume "\<not> takes_of CatalogCell h \<le> 1"
    then obtain t c r u where h: "h = t @ (c, r) # u" "c = MemLock CatalogCell" "takes_of CatalogCell t \<noteq> 0"
      by (rule second_take)
    with guard [OF h(1)] show False by (simp add: lock_guard_def)
  qed
  moreover have "\<not> held CatalogCell h" if "p = Done x" for x
    using safe_post [OF bl_catalog_lock assms] that by (simp add: lock_post_def)
  ultimately show ?thesis using guard by (fastforce simp: lock_guard_def)
qed

definition sample_catalog :: "nat \<Rightarrow> catalog" where
  "sample_catalog t = \<lparr>cat_sizes = [], cat_regions = [], cat_images = [], cat_fetched_at = t\<rparr>"

text \<open>Another task has refreshed the catalog while this one waited for the lock.\<close>

definition recheck_run :: hist where
  "recheck_run =
     [(MemRead CatalogCell, RContent (CatalogIs None)),
      (MemLock CatalogCell, RContent (CatalogIs (Some (sample_catalog 0)))), (InstantNow, RInstant 5),
      (MemUnlock CatalogCell, RUnit)]"

theorem catalog_locking_witness:
  "takes_of CatalogCell recheck_run \<le> 1 \<and> \<not> held CatalogCell recheck_run"
proof -
  have "after (bl_catalog sample_ctx) recheck_run = Some (Done (Inr (snapshot (sample_catalog 0))))"
    by (simp add: bl_catalog_def catalog_fresh_def sample_catalog_def recheck_run_def)
  from catalog_locking [OF this] show ?thesis by simp
qed

text \<open>
  A catalog fetched less than 300 seconds ago is returned as it is, after the read of the
  cell and of the clock, with no lock taken and no request sent; an older one, or none, is never
  returned from the read of the cell: the lock is taken next.
\<close>

theorem fresh_catalog_is_served:
  "after (bl_catalog ctx)
     [(MemRead CatalogCell, RContent (CatalogIs (Some cat))), (InstantNow, RInstant now)]
   = (if now - cat_fetched_at cat < 300 * 10 ^ 9 then Some (Done (Inr (snapshot cat)))
      else after (bl_catalog ctx) [(MemRead CatalogCell, RContent (CatalogIs None))])"
  by (simp add: bl_catalog_def catalog_fresh_def)

end
