(* ===== verification/Node_Sync.thy ===== *)
theory Node_Sync
  imports Controllers
begin

text \<open>
  The \<open>node-sync\<close> controller (\<open>src/controllers/node_sync.rs\<close>): it copies the addresses, the size
  and the region of the bound server to the Node and removes the uninitialized taint.
\<close>

section \<open>The controller\<close>

definition address_json :: "string \<Rightarrow> string \<Rightarrow> json" where
  "address_json ty addr = JObj [(''type'', JStr ty), (''address'', JStr addr)]"

fun network_address :: "server \<Rightarrow> network_v4 \<Rightarrow> json list" where
  "network_address server net =
     (if nv_net_type net = ''public'' then [address_json ''ExternalIP'' (nv_ip_address net)]
      else if nv_net_type net = ''private'' \<and> srv_vpc_id server \<noteq> None
        then [address_json ''InternalIP'' (nv_ip_address net)]
      else [])"

definition desired_addresses :: "server \<Rightarrow> json list" where
  "desired_addresses server =
     concat (map (network_address server) (nw_v4 (srv_networks server)))
       @ [address_json ''Hostname'' (srv_name server)]"

definition desired_labels :: "server \<Rightarrow> (string \<times> string) list" where
  "desired_labels server =
     [(LABEL_INSTANCE_TYPE, srv_size_slug server),
      (LABEL_TOPOLOGY_REGION, rg_slug (srv_region server)),
      (LABEL_CLOUD_PROVIDER, PROVIDER_NAME)]"

text \<open>The loop over the desired labels; the flag is \<open>needs_update\<close>.\<close>

fun sync_labels :: "(string \<times> string) list \<Rightarrow> str_map \<times> bool \<Rightarrow> str_map \<times> bool" where
  "sync_labels [] (labels, changed) = (labels, changed)"
| "sync_labels ((k, v) # ds) (labels, changed) =
     (if map_of labels k \<noteq> Some v then sync_labels ds (bt_insert k v labels, True)
      else sync_labels ds (labels, changed))"

definition node_labels :: "node \<Rightarrow> str_map" where
  "node_labels node = unwrap_or (m_labels (n_meta node)) []"

definition node_taints :: "node \<Rightarrow> taint list" where
  "node_taints node = unwrap_or (Option.bind (n_spec node) ns_taints) []"

definition has_uninit_taint :: "node \<Rightarrow> bool" where
  "has_uninit_taint node \<longleftrightarrow> (\<exists>t \<in> set (node_taints node). t_key t = UNINITIALIZED_TAINT)"

definition kept_taints :: "node \<Rightarrow> taint list" where
  "kept_taints node = filter (\<lambda>t. t_key t \<noteq> UNINITIALIZED_TAINT) (node_taints node)"

definition current_addresses :: "node \<Rightarrow> json list" where
  "current_addresses node =
     (case n_status node of
        None \<Rightarrow> []
      | Some s \<Rightarrow>
          (case nst_addresses s of
             None \<Rightarrow> []
           | Some addrs \<Rightarrow> map (\<lambda>a. address_json (na_type a) (na_address a)) addrs))"

definition sync_patch :: "str_map \<Rightarrow> taint list \<Rightarrow> json" where
  "sync_patch labels taints =
     JObj [(''metadata'', JObj [(''labels'', json_str_map labels)]),
           (''spec'', JObj [(''taints'', JArr (map JTaint taints))])]"

definition addresses_patch :: "json list \<Rightarrow> json" where
  "addresses_patch addrs = JObj [(''status'', JObj [(''addresses'', JArr addrs)])]"

definition sync_node_with :: "node \<Rightarrow> string \<Rightarrow> server \<Rightarrow> unit io" where
  "sync_node_with node name server =
     (let (labels, labels_changed) = sync_labels (desired_labels server) (node_labels node, False);
          needs_update = (labels_changed \<or> has_uninit_taint node);
          needs_status_update = (current_addresses node \<noteq> desired_addresses server)
      in if \<not> needs_update \<and> \<not> needs_status_update then Done (Inr ())
         else
           attempt (do_when needs_update
             (kube_context ''patching node''
               (api_patch_node name controller_params
                 (Merge (sync_patch labels (kept_taints node)))))) (\<lambda>_.
           do_when needs_status_update
             (kube_context ''patching node status''
               (api_patch_node_status name controller_params
                 (Merge (addresses_patch (desired_addresses server)))))))"

definition sync_reconcile_node :: "reconcile_ctx \<Rightarrow> node \<Rightarrow> string \<Rightarrow> i64 \<Rightarrow> unit io" where
  "sync_reconcile_node ctx node name server_id =
     attempt (with_context ''getting server'' (get_server (rc_bl ctx) server_id)) (\<lambda>server.
       case server of
         None \<Rightarrow> Done (Inr ())
       | Some server \<Rightarrow> sync_node_with node name server)"

definition node_sync_reconcile :: "reconcile_ctx \<Rightarrow> node \<Rightarrow> reconciled" where
  "node_sync_reconcile ctx node =
     (if m_deletion_timestamp (n_meta node) \<noteq> None then Done (Inr AwaitChange)
      else
        (case parse_provider_id (provider_id_of node) of
           None \<Rightarrow> Done (Inr AwaitChange)
         | Some server_id \<Rightarrow>
             then_action
               (sync_reconcile_node ctx node (rc_name_any ctx (n_meta node)) server_id)
               (Requeue 300)))"

section \<open>What it does to a Node\<close>

text \<open>What it means to be in step with a server.\<close>

definition synced :: "server \<Rightarrow> node \<Rightarrow> bool" where
  "synced server node \<longleftrightarrow>
     (\<forall>(k, v) \<in> set (desired_labels server). map_of (node_labels node) k = Some v)
     \<and> \<not> has_uninit_taint node
     \<and> current_addresses node = desired_addresses server"

definition synced_labels :: "server \<Rightarrow> node \<Rightarrow> str_map" where
  "synced_labels server node = fst (sync_labels (desired_labels server) (node_labels node, False))"

section \<open>Merge patches\<close>







section \<open>What a pass does to a Node\<close>



lemma sync_labels_changed:
  "distinct (map fst ds) \<Longrightarrow>
     snd (sync_labels ds (labels, b)) \<longleftrightarrow> b \<or> (\<exists>(k, v) \<in> set ds. map_of labels k \<noteq> Some v)"
proof (induction ds "(labels, b)" arbitrary: labels b rule: sync_labels.induct)
  case (2 k v ds labels changed)
  have "map_of (bt_insert k v labels) k' = map_of labels k'" if "(k', v') \<in> set ds" for k' v'
    using 2(3) that by (auto simp: rev_image_eqI)
  with 2 show ?case by auto
qed simp

lemma desired_labels_distinct: "distinct (map fst (desired_labels server))"
  by (simp add: desired_labels_def const_defs)







lemma sync_node_with_synced:
  "synced server node \<Longrightarrow> sync_node_with node name server = Done (Inr ())"
  using sync_labels_changed [OF desired_labels_distinct, of server "node_labels node" False]
  by (fastforce simp: synced_def sync_node_with_def Let_def split: prod.splits)

lemma sync_node_with_not_synced:
  assumes "\<not> synced server node"
  shows "finished (sync_node_with node name server) = None"
proof -
  obtain labels ch where sl: "sync_labels (desired_labels server) (node_labels node, False) = (labels, ch)"
    by fastforce
  have "ch \<longleftrightarrow> (\<exists>(k, v) \<in> set (desired_labels server). map_of (node_labels node) k \<noteq> Some v)"
    using sync_labels_changed [OF desired_labels_distinct, of server "node_labels node" False] sl
    by simp
  with assms have "ch \<or> has_uninit_taint node \<or> current_addresses node \<noteq> desired_addresses server"
    by (auto simp: synced_def)
  then show ?thesis
    by (cases "ch \<or> has_uninit_taint node")
       (auto simp: sync_node_with_def sl kube_context_def map_err_ask client_defs attempt_ask)
qed

definition sync_guard :: "reconcile_ctx \<Rightarrow> node \<Rightarrow> hist \<Rightarrow> call \<Rightarrow> bool" where
  "sync_guard ctx node h c =
     (case c of
        Http rq \<Rightarrow> rq_method rq = GET
      | KPatch res n pp p \<Rightarrow>
          (\<exists>server sid r.
             res = Nodes \<and> m_deletion_timestamp (n_meta node) = None
             \<and> parse_provider_id (provider_id_of node) = Some sid
             \<and> h = [(Http (request (rc_bl ctx) GET (''/servers/'' @ show_i64 sid)), r)]
             \<and> read_reply ''getting server'' (read_get_server sid) r = Inr (Some server)
             \<and> p = Merge (sync_patch (synced_labels server node) (kept_taints node)))
      | KPatchStatus res n pp p \<Rightarrow>
          (\<exists>server. p = Merge (addresses_patch (desired_addresses server)))
      | _ \<Rightarrow> False)"

lemma node_sync_guarded: "safe (sync_guard ctx node) (\<lambda>x _. \<forall>s. x \<noteq> Panicked s) [] (node_sync_reconcile ctx node)"
  by (auto simp: node_sync_reconcile_def sync_reconcile_node_def sync_node_with_def sync_guard_def
      synced_labels_def client_calls client_defs effect_simps Let_def do_when_def
      split: option.split sum.split prod.split)

section \<open>Scope\<close>

interpretation node_sync: node_reconciler node_sync_reconcile
proof
  fix ctx node
  show "within (node_scope ctx (rc_name_any ctx (n_meta node))) (node_sync_reconcile ctx node)"
    by (auto simp: node_sync_reconcile_def sync_reconcile_node_def sync_node_with_def
        client_calls client_defs Let_def
        intro!: within_intros within_then_action within_do_when
        split: option.split sum.split prod.split bool.split)
qed

section \<open>Properties\<close>

definition server_lookup :: "reconcile_ctx \<Rightarrow> i64 \<Rightarrow> call" where
  "server_lookup ctx sid = Http (request (rc_bl ctx) GET (''/servers/'' @ show_i64 sid))"

lemma synced_pass_is_idle:
  assumes "m_deletion_timestamp (n_meta node) = None"
    and "parse_provider_id (provider_id_of node) = Some sid"
    and "read_reply ''getting server'' (read_get_server sid) r = Inr (Some server)"
    and "synced server node"
  shows "after (node_sync_reconcile ctx node) [(server_lookup ctx sid, r)] = Some (Done (Inr (Requeue 300)))"
  using assms
  by (simp add: node_sync_reconcile_def sync_reconcile_node_def server_lookup_def then_action_def
      client_calls client_defs with_context_def map_err_ask sync_node_with_synced)

text \<open>
  C14: for a live Node bound to a server that BinaryLane returns, the pass ends right after the
  lookup, with nothing patched, exactly when the Node is in step with the server: the three
  labels have the values of the server, the uninitialized taint is gone and the addresses in the
  status are those of the server.
\<close>

theorem sync_idle_iff_synced:
  assumes "m_deletion_timestamp (n_meta node) = None"
    and "parse_provider_id (provider_id_of node) = Some sid"
    and "read_reply ''getting server'' (read_get_server sid) r = Inr (Some server)"
  shows "after (node_sync_reconcile ctx node) [(server_lookup ctx sid, r)]
      = Some (Done (Inr (Requeue 300))) \<longleftrightarrow> synced server node"
proof (cases "synced server node")
  case True
  with synced_pass_is_idle [OF assms] show ?thesis by simp
next
  case False
  from sync_node_with_not_synced [OF False] obtain c k
    where "sync_node_with node (rc_name_any ctx (n_meta node)) server = Ask c k"
    by (metis finished.elims option.distinct(1))
  with assms False show ?thesis
    by (simp add: node_sync_reconcile_def sync_reconcile_node_def server_lookup_def then_action_def
        client_calls client_defs with_context_def map_err_ask)
qed

theorem sync_idle_iff_synced_witness:
  "after (node_sync_reconcile sample_ctx (bound_node ''n'' 7))
     [(server_lookup sample_ctx 7, sample_response 200 (PServer (sample_server 7)))]
      = Some (Done (Inr (Requeue 300))) \<longleftrightarrow> synced (sample_server 7) (bound_node ''n'' 7)"
  by (rule sync_idle_iff_synced)
     (simp_all add: bound_node_def empty_meta_def provider_id_of_def read_reply_def
       read_get_server_def sample_response_def is_success_def decode_def)






text \<open>
  The spec patch of a pass is the one of the state described above: it carries the labels
  of the synchronised Node and its taints without the uninitialized one, and it is sent for a
  live, bound Node after BinaryLane has returned its server.
\<close>

theorem sync_patch_describes_server:
  assumes "after (node_sync_reconcile ctx node) (h @ (KPatch res n pp p, r) # u) = Some q"
  shows "res = Nodes \<and> n = rc_name_any ctx (n_meta node)
    \<and> m_deletion_timestamp (n_meta node) = None
    \<and> (\<exists>server sid r0. parse_provider_id (provider_id_of node) = Some sid
        \<and> h = [(server_lookup ctx sid, r0)]
        \<and> read_reply ''getting server'' (read_get_server sid) r0 = Inr (Some server)
        \<and> p = Merge (sync_patch (synced_labels server node) (kept_taints node)))"
proof -
  have "node_scope ctx (rc_name_any ctx (n_meta node)) (KPatch res n pp p)"
    by (rule within_guard [OF node_sync.in_scope assms])
  moreover have "sync_guard ctx node h (KPatch res n pp p)"
    by (rule safe_guard [OF node_sync_guarded assms])
  ultimately show ?thesis
    by (cases res) (auto simp: sync_guard_def server_lookup_def)
qed

theorem sync_patch_describes_server_witness:
  "parse_provider_id (provider_id_of (bound_node ''n'' 7)) = Some 7
   \<and> m_deletion_timestamp (n_meta (bound_node ''n'' 7)) = None"
proof -
  let ?node = "bound_node ''n'' 7"
  obtain labels where
    "sync_labels (desired_labels (sample_server 7)) (node_labels ?node, False) = (labels, True)"
    by (simp add: desired_labels_def sample_server_def node_labels_def bound_node_def empty_meta_def
        const_defs)
  then have "\<exists>q. after (node_sync_reconcile sample_ctx ?node)
      ([(server_lookup sample_ctx 7, sample_response 200 (PServer (sample_server 7)))]
       @ (KPatch Nodes ''n'' controller_params (Merge (sync_patch labels (kept_taints ?node))),
          RNode ?node) # []) = Some q"
    by (simp add: node_sync_reconcile_def sync_reconcile_node_def sync_node_with_def server_lookup_def
        bound_node_def empty_meta_def provider_id_of_def sample_response_def read_reply_def
        read_get_server_def is_success_def decode_def then_action_def client_calls client_defs
        with_context_def kube_context_def map_err_ask sample_ctx_def)
  then obtain q where "after (node_sync_reconcile sample_ctx ?node)
      ([(server_lookup sample_ctx 7, sample_response 200 (PServer (sample_server 7)))]
       @ (KPatch Nodes ''n'' controller_params (Merge (sync_patch labels (kept_taints ?node))),
          RNode ?node) # []) = Some q" by blast
  from sync_patch_describes_server [OF this] show ?thesis
    by (simp add: bound_node_def provider_id_of_def)
qed

end
