(* ===== verification/Node_Bind.thy ===== *)
theory Node_Bind
  imports Controllers
begin

text \<open>
  The \<open>node-bind\<close> controller (\<open>src/controllers/node_bind.rs\<close>): a Node with the adopt annotation
  and no server id is bound to the server that has the Node's name as its host name.
\<close>

definition bind_node :: "reconcile_ctx \<Rightarrow> string \<Rightarrow> bool io" where
  "bind_node ctx name =
     attempt (with_context ''looking up server by hostname''
               (get_server_by_hostname (rc_bl ctx) name)) (\<lambda>server.
       case server of
         None \<Rightarrow> Done (Inr False)
       | Some server \<Rightarrow>
           attempt (kube_context ''patching node with provider ID''
                     (api_patch_node name controller_params (Merge (provider_patch (srv_id server)))))
             (\<lambda>_. Done (Inr True)))"

definition node_bind_reconcile :: "reconcile_ctx \<Rightarrow> node \<Rightarrow> reconciled" where
  "node_bind_reconcile ctx node =
     (if \<not> has_annotation (n_meta node) ANNOTATION_ADOPT then Done (Inr AwaitChange)
      else if has_label (n_meta node) LABEL_SERVER_ID then Done (Inr AwaitChange)
      else
        bind (bind_node ctx (rc_name_any ctx (n_meta node))) (\<lambda>x.
          case x of
            Inr True \<Rightarrow> Done (Inr AwaitChange)
          | Inr False \<Rightarrow> Done (Inr (Requeue 30))
          | Inl e \<Rightarrow> Done (Inl (OtherError e))))"

text \<open>
  The only patch is the one of the server that the host name lookup found, and it is sent only
  for a Node that asks for adoption and has no server yet.
\<close>

definition bind_guard :: "reconcile_ctx \<Rightarrow> node \<Rightarrow> hist \<Rightarrow> call \<Rightarrow> bool" where
  "bind_guard ctx node h c =
     (let name = rc_name_any ctx (n_meta node) in
      case c of
        KPatch res n pp p \<Rightarrow>
          has_annotation (n_meta node) ANNOTATION_ADOPT
          \<and> \<not> has_label (n_meta node) LABEL_SERVER_ID
          \<and> res = Nodes \<and> n = name
          \<and> (\<exists>r server.
               h = [(Http (hostname_request (rc_bl ctx) name), r)]
               \<and> read_reply ''getting server by hostname'' (read_server_by_hostname name) r
                   = Inr (Some server)
               \<and> p = Merge (provider_patch (srv_id server)))
      | Http rq \<Rightarrow> rq_method rq = GET
      | _ \<Rightarrow> False)"

lemma node_bind_guarded:
  "safe (bind_guard ctx node) (\<lambda>x _. \<forall>s. x \<noteq> Panicked s) [] (node_bind_reconcile ctx node)"
  by (auto simp: node_bind_reconcile_def bind_node_def client_calls client_defs effect_simps
      bind_guard_def Let_def hostname_request_def
      split: option.split sum.split bool.split)

interpretation node_bind: node_reconciler node_bind_reconcile
proof
  fix ctx node
  show "within (node_scope ctx (rc_name_any ctx (n_meta node))) (node_bind_reconcile ctx node)"
    by (auto simp: node_bind_reconcile_def bind_node_def
        client_calls client_defs Let_def
        intro!: within_intros within_then_action within_do_when
        split: option.split sum.split prod.split bool.split)
qed

section \<open>Properties\<close>

definition adopting_node :: node where
  "adopting_node =
     \<lparr>n_meta = empty_meta\<lparr>m_name := Some ''n'', m_annotations := Some [(ANNOTATION_ADOPT, [])]\<rparr>,
      n_spec = None, n_status = None\<rparr>"

text \<open>
  C13: the controller patches nothing but the Node it is called for, only when that Node has the
  adopt annotation and no server id label yet, and only after the lookup by host name, its first
  and only request to BinaryLane, has answered with a server: the patch binds that server.
\<close>

theorem bind_patches_the_server_found:
  assumes "after (node_bind_reconcile ctx node) (h @ (KPatch res n pp p, r) # u) = Some q"
  shows "has_annotation (n_meta node) ANNOTATION_ADOPT \<and> \<not> has_label (n_meta node) LABEL_SERVER_ID
    \<and> res = Nodes \<and> n = rc_name_any ctx (n_meta node)
    \<and> (\<exists>r server. h = [(Http (hostname_request (rc_bl ctx) n), r)]
        \<and> read_reply ''getting server by hostname'' (read_server_by_hostname n) r = Inr (Some server)
        \<and> p = Merge (provider_patch (srv_id server)))"
  using safe_guard [OF node_bind_guarded assms] by (auto simp: bind_guard_def Let_def)

theorem bind_patches_the_server_found_witness:
  "has_annotation (n_meta adopting_node) ANNOTATION_ADOPT"
proof -
  have "\<exists>q. after (node_bind_reconcile sample_ctx adopting_node)
      ([(Http (hostname_request (rc_bl sample_ctx) ''n''),
         sample_response 200 (PServers [sample_server 7] None))]
       @ (KPatch Nodes ''n'' controller_params (Merge (provider_patch 7)), RNode adopting_node) # [])
      = Some q"
    by (simp add: node_bind_reconcile_def bind_node_def adopting_node_def sample_ctx_def
        sample_response_def has_annotation_def has_label_def empty_meta_def client_calls client_defs
        with_context_def kube_context_def map_err_ask read_reply_def read_server_by_hostname_def
        is_success_def decode_def sample_server_def)
  then show ?thesis using bind_patches_the_server_found by blast
qed

end
