(* ===== verification/Node_Deletion.thy ===== *)
theory Node_Deletion
  imports Controllers
begin

text \<open>
  The \<open>node-deletion\<close> controller (\<open>src/controllers/node_deletion.rs\<close>): it puts the cleanup
  finalizer on Nodes that have, or may get, a server; when such a Node is deleted it deletes the
  server and the Node's Secrets and only then gives the Node up; when the server of a Node is
  gone it deletes the Node; and it tethers the Secrets to their Node.
\<close>

section \<open>The controller\<close>

definition delete_secret_if_exists :: "reconcile_ctx \<Rightarrow> string \<Rightarrow> unit io" where
  "delete_secret_if_exists ctx name =
     bind (api_delete_secret (rc_secret_namespace ctx) name) (\<lambda>x.
       case x of
         Inr _ \<Rightarrow> Done (Inr ())
       | Inl e \<Rightarrow>
           (case e of
              KApi code t \<Rightarrow>
                if code = 404 then Done (Inr ())
                else Done (Inl (EContext (''deleting secret '' @ name) (EKube e)))
            | KOther t \<Rightarrow> Done (Inl (EContext (''deleting secret '' @ name) (EKube e)))))"

definition deletion_result :: "string \<Rightarrow> reply \<Rightarrow> err + unit" where
  "deletion_result name r =
     (case as_deleted r of
        Inr _ \<Rightarrow> Inr ()
      | Inl e \<Rightarrow>
          if \<exists>t. e = KApi 404 t then Inr ()
          else Inl (EContext (''deleting secret '' @ name) (EKube e)))"

lemma delete_secret_ask [client_defs]:
  "delete_secret_if_exists ctx name =
     ask (KDelete (Secrets (rc_secret_namespace ctx)) name) (deletion_result name)"
  by (auto simp: delete_secret_if_exists_def api_delete_secret_def ask_def deletion_result_def
      fun_eq_iff split: sum.split kube_error.split)

definition owner_patch :: "string \<Rightarrow> string \<Rightarrow> string \<Rightarrow> json" where
  "owner_patch secret_name node_name node_uid =
     JObj [(''apiVersion'', JStr ''v1''), (''kind'', JStr ''Secret''),
           (''metadata'', JObj [(''name'', JStr secret_name),
             (''ownerReferences'', JArr [JObj [
                (''apiVersion'', JStr ''v1''), (''kind'', JStr ''Node''),
                (''name'', JStr node_name), (''uid'', JStr node_uid),
                (''blockOwnerDeletion'', JBool False)]])])]"

definition owned_by :: "string \<Rightarrow> secret \<Rightarrow> bool" where
  "owned_by node_name s \<longleftrightarrow>
     is_some_and (\<lambda>refs. \<exists>r \<in> set refs. or_kind r = ''Node'' \<and> or_name r = node_name)
       (m_owner_references (s_meta s))"

definition tether_secret_to_node :: "reconcile_ctx \<Rightarrow> string \<Rightarrow> string \<Rightarrow> string \<Rightarrow> unit eff" where
  "tether_secret_to_node ctx secret_name node_name node_uid =
     bind (api_get_secret_opt (rc_secret_namespace ctx) secret_name) (\<lambda>x.
       case x of
         Inl _ \<Rightarrow> Done ()
       | Inr None \<Rightarrow> Done ()
       | Inr (Some s) \<Rightarrow>
           if owned_by node_name s then Done ()
           else bind (api_patch_secret (rc_secret_namespace ctx) secret_name
                        (forced (apply_params ''binarylane-controller-node''))
                        (Apply (owner_patch secret_name node_name node_uid)))
                  (\<lambda>_. Done ()))"

definition cleanup_deleted ::
  "reconcile_ctx \<Rightarrow> node \<Rightarrow> string \<Rightarrow> i64 option \<Rightarrow> unit io" where
  "cleanup_deleted ctx node name server_id =
     attempt (case server_id of
                None \<Rightarrow> Done (Inr ())
              | Some sid \<Rightarrow> with_context ''deleting server'' (delete_server (rc_bl ctx) sid)) (\<lambda>_.
     attempt (delete_secret_if_exists ctx (node_password_secret_name name)) (\<lambda>_.
     attempt (delete_secret_if_exists ctx (user_data_secret_name name)) (\<lambda>_.
     attempt (kube_context ''removing finalizer''
               (api_patch_node name controller_params
                 (Merge (finalizers_patch (finalizers_without FINALIZER (n_meta node)))))) (\<lambda>_.
     Done (Inr ())))))"

definition remove_orphan :: "reconcile_ctx \<Rightarrow> string \<Rightarrow> unit io" where
  "remove_orphan ctx name =
     attempt (delete_secret_if_exists ctx (node_password_secret_name name)) (\<lambda>_.
     attempt (delete_secret_if_exists ctx (user_data_secret_name name)) (\<lambda>_.
     attempt (kube_context ''deleting node'' (api_delete_node name)) (\<lambda>_.
     Done (Inr ()))))"

definition ensure_finalizer_and_tether ::
  "reconcile_ctx \<Rightarrow> node \<Rightarrow> string \<Rightarrow> i64 option \<Rightarrow> unit io" where
  "ensure_finalizer_and_tether ctx node name server_id =
     attempt (do_when ((server_id \<noteq> None \<or> has_provision_labels (n_meta node)
                      \<or> has_annotation (n_meta node) ANNOTATION_ADOPT)
                     \<and> \<not> has_finalizer FINALIZER (n_meta node))
               (kube_context ''adding finalizer''
                 (api_patch_node name controller_params
                   (Merge (finalizers_patch (finalizers_with FINALIZER (n_meta node))))))) (\<lambda>_.
     case m_uid (n_meta node) of
       None \<Rightarrow> Done (Inr ())
     | Some uid \<Rightarrow>
         bind (tether_secret_to_node ctx (node_password_secret_name name) name uid) (\<lambda>_.
         bind (tether_secret_to_node ctx (user_data_secret_name name) name uid) (\<lambda>_.
         Done (Inr ()))))"

definition deletion_reconcile_node ::
  "reconcile_ctx \<Rightarrow> node \<Rightarrow> string \<Rightarrow> i64 option \<Rightarrow> unit io" where
  "deletion_reconcile_node ctx node name server_id =
     (if m_deletion_timestamp (n_meta node) \<noteq> None \<and> has_finalizer FINALIZER (n_meta node)
      then cleanup_deleted ctx node name server_id
      else
        (case server_id of
           None \<Rightarrow> ensure_finalizer_and_tether ctx node name server_id
         | Some sid \<Rightarrow>
             attempt (with_context ''getting server'' (get_server (rc_bl ctx) sid)) (\<lambda>server.
               if server = None then remove_orphan ctx name
               else ensure_finalizer_and_tether ctx node name server_id)))"

definition node_deletion_reconcile :: "reconcile_ctx \<Rightarrow> node \<Rightarrow> reconciled" where
  "node_deletion_reconcile ctx node =
     (let server_id = parse_provider_id (provider_id_of node) in
      if server_id = None \<and> \<not> has_finalizer FINALIZER (n_meta node)
         \<and> \<not> has_provision_labels (n_meta node)
      then Done (Inr AwaitChange)
      else then_action
             (deletion_reconcile_node ctx node (rc_name_any ctx (n_meta node)) server_id)
             (Requeue 300))"

interpretation node_cleanup: finalizer "has_finalizer FINALIZER" "finalizers_with FINALIZER"
    "finalizers_without FINALIZER" FINALIZER
  by (rule finalizer_ops)

section \<open>What must have happened before a Node is given up\<close>

text \<open>What has been acknowledged in a history.\<close>

definition server_deleted :: "reconcile_ctx \<Rightarrow> i64 \<Rightarrow> hist \<Rightarrow> bool" where
  "server_deleted ctx sid h \<longleftrightarrow>
     (\<exists>r. (Http (delete_server_call (rc_bl ctx) sid), r) \<in> set h
        \<and> read_reply ''deleting server'' (read_delete_server sid) r = Inr ())"

definition server_gone :: "reconcile_ctx \<Rightarrow> i64 \<Rightarrow> hist \<Rightarrow> bool" where
  "server_gone ctx sid h \<longleftrightarrow>
     (\<exists>r. (Http (request (rc_bl ctx) GET (''/servers/'' @ show_i64 sid)), r) \<in> set h
        \<and> read_reply ''getting server'' (read_get_server sid) r = Inr None)"

definition secret_deleted :: "reconcile_ctx \<Rightarrow> string \<Rightarrow> hist \<Rightarrow> bool" where
  "secret_deleted ctx name h \<longleftrightarrow>
     (\<exists>r. (KDelete (Secrets (rc_secret_namespace ctx)) name, r) \<in> set h
        \<and> deletion_result name r = Inr ())"

definition secrets_deleted :: "reconcile_ctx \<Rightarrow> string \<Rightarrow> hist \<Rightarrow> bool" where
  "secrets_deleted ctx name h \<longleftrightarrow>
     secret_deleted ctx (node_password_secret_name name) h
     \<and> secret_deleted ctx (user_data_secret_name name) h"

lemma deleted_simps [simp]:
  "\<not> server_deleted ctx sid []"
  "server_deleted ctx sid ((c, r) # h) \<longleftrightarrow>
     c = Http (delete_server_call (rc_bl ctx) sid)
       \<and> read_reply ''deleting server'' (read_delete_server sid) r = Inr ()
     \<or> server_deleted ctx sid h"
  "\<not> server_gone ctx sid []"
  "server_gone ctx sid (h @ h') \<longleftrightarrow> server_gone ctx sid h \<or> server_gone ctx sid h'"
  "server_gone ctx sid ((c, r) # h) \<longleftrightarrow>
     c = Http (request (rc_bl ctx) GET (''/servers/'' @ show_i64 sid))
       \<and> read_reply ''getting server'' (read_get_server sid) r = Inr None
     \<or> server_gone ctx sid h"
  "\<not> secret_deleted ctx name []"
  "secret_deleted ctx name (h @ h') \<longleftrightarrow> secret_deleted ctx name h \<or> secret_deleted ctx name h'"
  "secret_deleted ctx name ((c, r) # h) \<longleftrightarrow>
     c = KDelete (Secrets (rc_secret_namespace ctx)) name \<and> deletion_result name r = Inr ()
     \<or> secret_deleted ctx name h"
  by (auto simp: server_deleted_def server_gone_def secret_deleted_def)

definition deletion_guard :: "reconcile_ctx \<Rightarrow> node \<Rightarrow> hist \<Rightarrow> call \<Rightarrow> bool" where
  "deletion_guard ctx node h c =
     (let name = rc_name_any ctx (n_meta node);
          server_id = parse_provider_id (provider_id_of node) in
      case c of
        KPatch Nodes n pp (Merge j) \<Rightarrow>
          j = finalizers_patch (finalizers_with FINALIZER (n_meta node))
            \<and> \<not> has_finalizer FINALIZER (n_meta node)
            \<and> (server_id \<noteq> None \<or> has_provision_labels (n_meta node))
          \<or> j = finalizers_patch (finalizers_without FINALIZER (n_meta node))
            \<and> m_deletion_timestamp (n_meta node) \<noteq> None
            \<and> (\<forall>sid. server_id = Some sid \<longrightarrow> server_deleted ctx sid h)
            \<and> secrets_deleted ctx name h
      | KDelete Nodes n \<Rightarrow>
          (\<exists>sid. server_id = Some sid \<and> server_gone ctx sid h) \<and> secrets_deleted ctx name h
      | KPatch (Secrets ns) n pp p \<Rightarrow> True
      | KDelete (Secrets ns) n \<Rightarrow>
          (\<exists>sid. server_id = Some sid \<and> server_gone ctx sid h)
          \<or> m_deletion_timestamp (n_meta node) \<noteq> None
            \<and> (\<forall>sid. server_id = Some sid \<longrightarrow> server_deleted ctx sid h)
      | KGetOpt (Secrets ns) n \<Rightarrow> True
      | Http rq \<Rightarrow>
          rq_method rq = GET
          \<or> m_deletion_timestamp (n_meta node) \<noteq> None \<and> has_finalizer FINALIZER (n_meta node)
            \<and> (\<exists>sid. server_id = Some sid \<and> rq = delete_server_call (rc_bl ctx) sid)
      | _ \<Rightarrow> False)"

lemma cleanup_deleted_guarded:
  assumes "m_deletion_timestamp (n_meta node) \<noteq> None" and "has_finalizer FINALIZER (n_meta node)"
    and "server_id = parse_provider_id (provider_id_of node)"
    and "\<And>x h'. no_panic x h' \<Longrightarrow> Q x h'"
  shows "safe (deletion_guard ctx node) Q []
    (cleanup_deleted ctx node (rc_name_any ctx (n_meta node)) server_id)"
  using assms
  by (auto simp: cleanup_deleted_def client_calls client_defs effect_simps deletion_guard_def
      secrets_deleted_def Let_def split: option.split sum.split)

lemma remove_orphan_guarded:
  assumes "parse_provider_id (provider_id_of node) = Some sid" and "server_gone ctx sid h"
    and "\<And>x h'. no_panic x h' \<Longrightarrow> Q x h'"
  shows "safe (deletion_guard ctx node) Q h (remove_orphan ctx (rc_name_any ctx (n_meta node)))"
  using assms
  by (auto simp: remove_orphan_def client_defs effect_simps deletion_guard_def
      secrets_deleted_def Let_def split: sum.split)

lemma ensure_finalizer_guarded:
  assumes "server_id = parse_provider_id (provider_id_of node)"
    and "server_id \<noteq> None \<or> has_finalizer FINALIZER (n_meta node) \<or> has_provision_labels (n_meta node)"
    and "\<And>x h'. no_panic x h' \<Longrightarrow> Q x h'"
  shows "safe (deletion_guard ctx node) Q h
    (ensure_finalizer_and_tether ctx node (rc_name_any ctx (n_meta node)) server_id)"
  using assms
  by (auto simp: ensure_finalizer_and_tether_def tether_secret_to_node_def client_defs effect_simps
      deletion_guard_def Let_def do_when_def split: option.split sum.split)

lemma node_deletion_guarded:
  "safe (deletion_guard ctx node) no_panic [] (node_deletion_reconcile ctx node)"
proof -
  have get: "deletion_guard ctx node h (Http (request cl GET p))" for h cl p
    by (simp add: deletion_guard_def Let_def)
  show ?thesis
    unfolding node_deletion_reconcile_def deletion_reconcile_node_def
    by (auto simp: Let_def effect_simps client_calls get then_post_def
        split: option.split sum.split outcome.split
        intro!: cleanup_deleted_guarded remove_orphan_guarded ensure_finalizer_guarded)
qed

section \<open>Progress\<close>

text \<open>
  When every request is acknowledged, one pass over a deleted Node ends, and the last call it
  has made is the patch that gives the Node up.
\<close>

definition acknowledged :: "call \<Rightarrow> reply \<Rightarrow> bool" where
  "acknowledged c r \<longleftrightarrow>
     (case c of
        Http rq \<Rightarrow> \<exists>rs. r = RResponse rs \<and> (is_success rs \<or> rs_code rs = 404)
      | KDelete res n \<Rightarrow> r = RDeleted \<or> (\<exists>t. r = RKubeError (KApi 404 t))
      | KPatch Nodes n pp p \<Rightarrow> \<exists>n'. r = RNode n'
      | _ \<Rightarrow> True)"

definition deletion_calls :: "reconcile_ctx \<Rightarrow> node \<Rightarrow> call list" where
  "deletion_calls ctx node =
     (let name = rc_name_any ctx (n_meta node) in
      (case parse_provider_id (provider_id_of node) of
         None \<Rightarrow> []
       | Some sid \<Rightarrow> [Http (delete_server_call (rc_bl ctx) sid)])
      @ [KDelete (Secrets (rc_secret_namespace ctx)) (node_password_secret_name name),
         KDelete (Secrets (rc_secret_namespace ctx)) (user_data_secret_name name),
         KPatch Nodes name controller_params
           (Merge (finalizers_patch (finalizers_without FINALIZER (n_meta node))))])"

section \<open>Scope\<close>

interpretation node_deletion: node_reconciler node_deletion_reconcile
proof
  fix ctx node
  show "within (node_scope ctx (rc_name_any ctx (n_meta node))) (node_deletion_reconcile ctx node)"
    by (auto simp: node_deletion_reconcile_def deletion_reconcile_node_def cleanup_deleted_def
        remove_orphan_def ensure_finalizer_and_tether_def tether_secret_to_node_def
        client_calls client_defs Let_def
        intro!: within_intros within_then_action within_do_when
        split: option.split sum.split prod.split bool.split)
qed

section \<open>Properties\<close>

definition deleted_node :: node where
  "deleted_node =
     (bound_node ''n'' 7)\<lparr>n_meta := empty_meta\<lparr>m_name := Some ''n'',
        m_deletion_timestamp := Some ''now'', m_finalizers := Some [''other'', FINALIZER]\<rparr>\<rparr>"

definition deleted_node_run :: hist where
  "deleted_node_run =
     [(Http (delete_server_call (rc_bl sample_ctx) 7), sample_response 204 (PUndecodable [])),
      (KDelete (Secrets ''ns'') (node_password_secret_name ''n''), RDeleted),
      (KDelete (Secrets ''ns'') (user_data_secret_name ''n''), RKubeError (KApi 404 []))]"

lemmas sample_run =
  sample_ctx_def sample_response_def bound_node_def provider_id_of_def empty_meta_def
  has_finalizer_def then_action_def with_context_def kube_context_def map_err_ask client_calls
  client_defs read_reply_def is_success_def

text \<open>
  C1: the cleanup finalizer of a Node is released only when the Node is being deleted, after
  BinaryLane has acknowledged the deletion of the server the Node is bound to (if any) and the
  API server that of both its Secrets; the other finalizers are kept, in order.
\<close>

theorem finalizer_released_after_cleanup:
  assumes "after (node_deletion_reconcile ctx node)
      (h @ (KPatch Nodes n pp (Merge (finalizers_patch fs)), r) # u) = Some q"
    and "FINALIZER \<notin> set fs"
  shows "n = rc_name_any ctx (n_meta node)
    \<and> fs = filter (\<lambda>f. f \<noteq> FINALIZER) (unwrap_or (m_finalizers (n_meta node)) [])
    \<and> m_deletion_timestamp (n_meta node) \<noteq> None
    \<and> (\<forall>sid. parse_provider_id (provider_id_of node) = Some sid \<longrightarrow> server_deleted ctx sid h)
    \<and> secrets_deleted ctx n h"
proof -
  have n: "n = rc_name_any ctx (n_meta node)"
    by (rule node_deletion.writes_own_node [OF assms(1)]) simp
  have "deletion_guard ctx node h (KPatch Nodes n pp (Merge (finalizers_patch fs)))"
    by (rule safe_guard [OF node_deletion_guarded assms(1)])
  with assms(2) n show ?thesis
    using node_cleanup.others_removing [of "n_meta node"]
    by (auto simp: deletion_guard_def Let_def)
qed

theorem finalizer_released_after_cleanup_witness:
  "server_deleted sample_ctx 7 deleted_node_run \<and> secrets_deleted sample_ctx ''n'' deleted_node_run"
proof -
  have "\<exists>q. after (node_deletion_reconcile sample_ctx deleted_node)
      (deleted_node_run @ (KPatch Nodes ''n'' controller_params
        (Merge (finalizers_patch [''other''])), RNode deleted_node) # []) = Some q"
    by (simp add: node_deletion_reconcile_def deletion_reconcile_node_def cleanup_deleted_def
        deleted_node_def deleted_node_run_def deletion_result_def read_delete_server_def
        finalizers_without_def FINALIZER_def sample_run)
  moreover have "FINALIZER \<notin> set [''other'']" by (simp add: FINALIZER_def)
  ultimately show ?thesis
    using finalizer_released_after_cleanup [of sample_ctx deleted_node deleted_node_run]
    by (fastforce simp: deleted_node_def bound_node_def provider_id_of_def)
qed

text \<open>
  C8: a Node object is deleted only when it is bound to a server, BinaryLane has just answered
  that the server is gone, and both Secrets of the Node are deleted.
\<close>

theorem node_deleted_only_if_server_gone:
  assumes "after (node_deletion_reconcile ctx node) (h @ (KDelete Nodes n, r) # u) = Some q"
  shows "n = rc_name_any ctx (n_meta node)
    \<and> (\<exists>sid. parse_provider_id (provider_id_of node) = Some sid \<and> server_gone ctx sid h)
    \<and> secrets_deleted ctx n h"
proof -
  have "n = rc_name_any ctx (n_meta node)"
    by (rule node_deletion.writes_own_node [OF assms]) simp
  then show ?thesis
    using safe_guard [OF node_deletion_guarded assms] by (simp add: deletion_guard_def Let_def)
qed

definition orphan_run :: hist where
  "orphan_run =
     [(Http (request (rc_bl sample_ctx) GET (''/servers/'' @ show_i64 7)),
        sample_response 404 (PUndecodable [])),
      (KDelete (Secrets ''ns'') (node_password_secret_name ''n''), RDeleted),
      (KDelete (Secrets ''ns'') (user_data_secret_name ''n''), RDeleted)]"

theorem node_deleted_only_if_server_gone_witness:
  "\<exists>sid. server_gone sample_ctx sid orphan_run"
proof -
  have "\<exists>q. after (node_deletion_reconcile sample_ctx (bound_node ''n'' 7))
      (orphan_run @ (KDelete Nodes ''n'', RDeleted) # []) = Some q"
    by (simp add: node_deletion_reconcile_def deletion_reconcile_node_def remove_orphan_def
        orphan_run_def deletion_result_def read_get_server_def sample_run)
  then show ?thesis
    using node_deleted_only_if_server_gone [of sample_ctx "bound_node ''n'' 7" orphan_run] by blast
qed

text \<open>
  C9: the only request other than \<open>GET\<close> that the controller sends to BinaryLane deletes the
  server the Node is bound to, and it is sent only for a Node that is being deleted and still
  has the cleanup finalizer.
\<close>

theorem server_deleted_only_for_deleted_node:
  assumes "after (node_deletion_reconcile ctx node) (h @ (Http rq, r) # u) = Some q"
    and "rq_method rq \<noteq> GET"
  shows "m_deletion_timestamp (n_meta node) \<noteq> None \<and> has_finalizer FINALIZER (n_meta node)
    \<and> (\<exists>sid. parse_provider_id (provider_id_of node) = Some sid
         \<and> rq = delete_server_call (rc_bl ctx) sid)"
  using safe_guard [OF node_deletion_guarded assms(1)] assms(2)
  by (simp add: deletion_guard_def Let_def)

theorem server_deleted_only_for_deleted_node_witness:
  "has_finalizer FINALIZER (n_meta deleted_node)"
proof -
  have "\<exists>q. after (node_deletion_reconcile sample_ctx deleted_node)
      ([] @ (Http (delete_server_call (rc_bl sample_ctx) 7), sample_response 204 (PUndecodable [])) # [])
        = Some q"
    by (simp add: node_deletion_reconcile_def deletion_reconcile_node_def cleanup_deleted_def
        deleted_node_def sample_run read_delete_server_def)
  moreover have "rq_method (delete_server_call (rc_bl sample_ctx) 7) \<noteq> GET"
    by (simp add: delete_server_call_def)
  ultimately show ?thesis using server_deleted_only_for_deleted_node by blast
qed

text \<open>
  C10: when every request is acknowledged (a 404 counts), one pass over a deleted Node makes
  exactly these calls, in this order: delete the server, delete the two Secrets, release the
  finalizer; and it ends without an error.
\<close>

theorem deleted_node_is_released:
  assumes "m_deletion_timestamp (n_meta node) \<noteq> None" and "has_finalizer FINALIZER (n_meta node)"
    and "map fst h = deletion_calls ctx node" and "\<forall>(c, r) \<in> set h. acknowledged c r"
  shows "after (node_deletion_reconcile ctx node) h = Some (Done (Inr (Requeue 300)))"
proof -
  have reads: "acknowledged (KDelete res n) r \<Longrightarrow> deletion_result m r = Inr ()"
    "acknowledged (Http (delete_server_call cl sid)) r \<Longrightarrow>
       read_reply t (read_delete_server sid) r = Inr ()"
    "acknowledged (KPatch Nodes n pp p) r \<Longrightarrow> as_node r \<noteq> Inl e" for res n r m cl sid t pp p e
    by (auto simp: acknowledged_def deletion_result_def read_reply_def read_delete_server_def)
  show ?thesis
    using assms reads
    by (auto simp: node_deletion_reconcile_def deletion_reconcile_node_def cleanup_deleted_def
        deletion_calls_def Let_def then_action_def client_calls client_defs map_eq_Cons_conv
        kube_context_def with_context_def map_err_ask split: option.splits sum.split)
qed

theorem deleted_node_is_released_witness:
  "after (node_deletion_reconcile sample_ctx deleted_node)
     (deleted_node_run @ [(KPatch Nodes ''n'' controller_params
        (Merge (finalizers_patch [''other''])), RNode deleted_node)])
   = Some (Done (Inr (Requeue 300)))"
proof (rule deleted_node_is_released)
  show "m_deletion_timestamp (n_meta deleted_node) \<noteq> None" by (simp add: deleted_node_def)
  show "has_finalizer FINALIZER (n_meta deleted_node)"
    by (simp add: deleted_node_def has_finalizer_def)
qed (simp_all add: deleted_node_run_def deletion_calls_def deleted_node_def bound_node_def
    provider_id_of_def sample_ctx_def finalizers_without_def FINALIZER_def empty_meta_def
    acknowledged_def sample_response_def is_success_def Let_def)

text \<open>
  The finalizer is added only to a Node that is bound to a server or carries a provisioning
  label; the adopt annotation alone, which the code also tests for, never leads to it.
\<close>

theorem finalizer_added_only_if_bound_or_candidate:
  assumes "after (node_deletion_reconcile ctx node)
      (h @ (KPatch Nodes n pp (Merge (finalizers_patch fs)), r) # u) = Some q"
    and "FINALIZER \<in> set fs"
  shows "\<not> has_finalizer FINALIZER (n_meta node)
    \<and> fs = unwrap_or (m_finalizers (n_meta node)) [] @ [FINALIZER]
    \<and> (parse_provider_id (provider_id_of node) \<noteq> None \<or> has_provision_labels (n_meta node))"
  using safe_guard [OF node_deletion_guarded assms(1)] assms(2)
  by (auto simp: deletion_guard_def Let_def finalizers_with_def [symmetric])

definition candidate_node :: node where
  "candidate_node =
     \<lparr>n_meta = empty_meta\<lparr>m_name := Some ''n'', m_labels := Some [(LABEL_SIZE, ''s'')]\<rparr>,
      n_spec = None, n_status = None\<rparr>"

theorem finalizer_added_only_if_bound_or_candidate_witness:
  "\<not> has_finalizer FINALIZER (n_meta candidate_node)"
proof -
  have "\<exists>q. after (node_deletion_reconcile sample_ctx candidate_node)
      ([] @ (KPatch Nodes ''n'' controller_params (Merge (finalizers_patch [FINALIZER])),
        RNode candidate_node) # []) = Some q"
    by (simp add: node_deletion_reconcile_def deletion_reconcile_node_def
        ensure_finalizer_and_tether_def candidate_node_def sample_run finalizers_with_def
        has_provision_labels_def has_label_def)
  then show ?thesis using finalizer_added_only_if_bound_or_candidate by fastforce
qed

end
