(* ===== verification/Node_Provision.thy ===== *)
theory Node_Provision
  imports Controllers
begin

text \<open>
  The \<open>node-provision\<close> controller (\<open>src/controllers/node_provision.rs\<close>): a Node that carries the
  size, region and image labels and has no server gets one.  The labels are checked against the
  catalog first; a configuration that fails is remembered in an annotation and not tried again.
\<close>

section \<open>The configuration\<close>

definition ANNOTATION_PROVISION_FAILED :: string where
  [const_defs]: "ANNOTATION_PROVISION_FAILED = ''bl.samcday.com/provision-failed-config''"

definition provision_keys :: "string list" where
  "provision_keys = [LABEL_SIZE, LABEL_REGION, LABEL_IMAGE]"

definition config_hash :: "obj_meta \<Rightarrow> string" where
  "config_hash m = join ''|'' (map (\<lambda>k. unwrap_or (meta_label m k) []) provision_keys)"

definition missing_labels :: "obj_meta \<Rightarrow> string list" where
  "missing_labels m = filter (\<lambda>k. meta_label m k = None) provision_keys"

definition already_failed :: "obj_meta \<Rightarrow> bool" where
  "already_failed m \<longleftrightarrow>
     is_some_and (\<lambda>v. v = config_hash m) (meta_annotation m ANNOTATION_PROVISION_FAILED)"

definition unknown_message :: "string \<Rightarrow> string \<Rightarrow> string list \<Rightarrow> string" where
  "unknown_message what x available =
     ''unknown '' @ what @ '' '' @ quoted x @ '' (available: '' @ join '', '' available @ '')''"

definition image_slugs :: "catalog_snapshot \<Rightarrow> string list" where
  "image_slugs cat = List.map_filter li_slug (sn_images cat)"

definition config_problem ::
  "catalog_snapshot \<Rightarrow> string \<Rightarrow> string \<Rightarrow> string \<Rightarrow> string option" where
  "config_problem cat sz region img =
     (if \<not> (\<exists>s \<in> set (sn_sizes cat). ls_slug s = sz)
      then Some (unknown_message ''size'' sz (map ls_slug (sn_sizes cat)))
      else if \<not> (\<exists>r \<in> set (sn_regions cat). lr_slug r = region)
      then Some (unknown_message ''region'' region (map lr_slug (sn_regions cat)))
      else if \<not> (\<exists>i \<in> set (sn_images cat). li_slug i = Some img)
      then Some (unknown_message ''image'' img (image_slugs cat))
      else None)"

section \<open>Annotations and events\<close>

definition failed_patch :: "json \<Rightarrow> json" where
  "failed_patch v =
     JObj [(''metadata'', JObj [(''annotations'', JObj [(ANNOTATION_PROVISION_FAILED, v)])])]"

definition provision_event ::
  "string \<Rightarrow> string option \<Rightarrow> string \<Rightarrow> string \<Rightarrow> string \<Rightarrow> nat \<Rightarrow> event" where
  "provision_event node_name node_uid event_type reason message now =
     \<lparr>ev_meta = empty_meta\<lparr>m_generate_name := Some ''binarylane-controller-'',
                           m_namespace := Some ''default''\<rparr>,
      ev_involved_api_version = ''v1'', ev_involved_kind = ''Node'', ev_involved_name = node_name,
      ev_involved_uid = node_uid, ev_reason = reason, ev_message = message, ev_type = event_type,
      ev_component = ''binarylane-controller'', ev_timestamp = now, ev_count = 1,
      ev_action = ''Provision''\<rparr>"

definition emit_event ::
  "string \<Rightarrow> string option \<Rightarrow> string \<Rightarrow> string \<Rightarrow> string \<Rightarrow> unit eff" where
  "emit_event node_name node_uid event_type reason message =
     Ask UtcNow (\<lambda>t.
       bind (api_create_event ''default''
               (provision_event node_name node_uid event_type reason message (as_instant t)))
         (\<lambda>_. Done ()))"

definition set_provision_failed ::
  "string \<Rightarrow> string option \<Rightarrow> string \<Rightarrow> string \<Rightarrow> string \<Rightarrow> unit eff" where
  "set_provision_failed name node_uid hash reason message =
     bind (api_patch_node name controller_params (Merge (failed_patch (JStr hash)))) (\<lambda>_.
       emit_event name node_uid ''Warning'' ''ProvisionFailed'' message)"

definition clear_provision_failed :: "string \<Rightarrow> unit eff" where
  "clear_provision_failed name =
     bind (api_patch_node name controller_params (Merge (failed_patch JNull))) (\<lambda>_. Done ())"

section \<open>Provisioning one Node\<close>

definition ensure_finalizer :: "string \<Rightarrow> unit io" where
  "ensure_finalizer name =
     attempt (kube_context ''getting node for finalizer'' (api_get_node name)) (\<lambda>current.
       do_when (\<not> has_finalizer FINALIZER (n_meta current))
         (kube_context ''adding finalizer''
           (api_patch_node name controller_params
             (Merge (finalizers_patch (finalizers_with FINALIZER (n_meta current)))))))"

definition secret_text :: "string \<Rightarrow> secret \<Rightarrow> string option" where
  "secret_text key s = map_option from_utf8_lossy (Option.bind (s_data s) (\<lambda>d. map_of d key))"

definition password_patch :: "string \<Rightarrow> string \<Rightarrow> json" where
  "password_patch secret_name p =
     JObj [(''apiVersion'', JStr ''v1''), (''kind'', JStr ''Secret''),
           (''metadata'', JObj [(''name'', JStr secret_name),
             (''labels'', JObj [(''app.kubernetes.io/managed-by'', JStr ''binarylane-controller'')])]),
           (''type'', JStr ''Opaque''),
           (''stringData'', JObj [(''password'', JStr p)])]"

text \<open>A read that fails counts as no Secret, as in the code's \<open>match ... { _ => None }\<close>.\<close>

fun stored_password :: "kube_error + secret option \<Rightarrow> string option" where
  "stored_password (Inr (Some s)) = secret_text ''password'' s"
| "stored_password _ = None"

definition node_password :: "reconcile_ctx \<Rightarrow> string \<Rightarrow> string io" where
  "node_password ctx name =
     (let sn = node_password_secret_name name; ns = rc_secret_namespace ctx in
      bind (api_get_secret_opt ns sn) (\<lambda>x.
        case stored_password x of
          Some p \<Rightarrow> Done (Inr p)
        | None \<Rightarrow>
            bind generate_server_password (\<lambda>p.
              attempt (kube_context ''creating password secret''
                (api_patch_secret ns sn (forced controller_params) (Apply (password_patch sn p))))
                (\<lambda>_. Done (Inr p)))))"

definition node_user_data :: "reconcile_ctx \<Rightarrow> string \<Rightarrow> string option io" where
  "node_user_data ctx name =
     attempt (kube_context ''getting user-data secret''
       (api_get_secret_opt (rc_secret_namespace ctx) (user_data_secret_name name)))
       (\<lambda>s. Done (Inr (Option.bind s (secret_text ''user-data''))))"

definition node_server_request ::
  "string \<Rightarrow> string \<Rightarrow> string \<Rightarrow> string \<Rightarrow> string option \<Rightarrow> string \<Rightarrow> create_server_request" where
  "node_server_request name sz region img user_data password =
     \<lparr>cs_name = name, cs_size = sz, cs_image = img, cs_region = region,
      cs_user_data = user_data, cs_ssh_keys = None, cs_password = Some password\<rparr>"

definition find_or_create_server ::
  "reconcile_ctx \<Rightarrow> string \<Rightarrow> create_server_request \<Rightarrow> server io" where
  "find_or_create_server ctx name req =
     attempt (with_context ''checking for existing server'' (get_server_by_hostname (rc_bl ctx) name))
       (\<lambda>found. case found of
          Some existing \<Rightarrow> Done (Inr existing)
        | None \<Rightarrow> with_context ''creating server'' (create_server (rc_bl ctx) req))"

definition created_message :: "server \<Rightarrow> string" where
  "created_message srv =
     ''Created BinaryLane server '' @ show_i64 (srv_id srv) @ '' ('' @ srv_size_slug srv @ '', ''
       @ rg_slug (srv_region srv) @ '')''"

definition provision_node ::
  "reconcile_ctx \<Rightarrow> string \<Rightarrow> string \<Rightarrow> string \<Rightarrow> string \<Rightarrow> string option \<Rightarrow> unit io" where
  "provision_node ctx name sz region img node_uid =
     attempt (ensure_finalizer name) (\<lambda>_.
     attempt (node_password ctx name) (\<lambda>password.
     attempt (node_user_data ctx name) (\<lambda>user_data.
     attempt (find_or_create_server ctx name
               (node_server_request name sz region img user_data password)) (\<lambda>srv.
     attempt (kube_context ''patching node with provider ID''
               (api_patch_node name controller_params (Merge (provider_patch (srv_id srv))))) (\<lambda>_.
     bind (emit_event name node_uid ''Normal'' ''ServerCreated'' (created_message srv)) (\<lambda>_.
     Done (Inr ())))))))"

section \<open>The controller\<close>

definition reject_config :: "node \<Rightarrow> string \<Rightarrow> string \<Rightarrow> reconciled" where
  "reject_config node name message =
     bind (set_provision_failed name (m_uid (n_meta node)) (config_hash (n_meta node))
             ''InvalidConfig'' message)
       (\<lambda>_. Done (Inr AwaitChange))"

definition try_provision ::
  "reconcile_ctx \<Rightarrow> node \<Rightarrow> string \<Rightarrow> string \<Rightarrow> string \<Rightarrow> string \<Rightarrow> reconciled" where
  "try_provision ctx node name sz region img =
     bind (provision_node ctx name sz region img (m_uid (n_meta node))) (\<lambda>x.
       case x of
         Inl e \<Rightarrow>
           bind (emit_event name (m_uid (n_meta node)) ''Warning'' ''ProvisionError''
                   (''server creation failed: '' @ show_err_chain e))
             (\<lambda>_. Done (Inl (OtherError e)))
       | Inr _ \<Rightarrow> bind (clear_provision_failed name) (\<lambda>_. Done (Inr AwaitChange)))"

definition node_provision_reconcile :: "reconcile_ctx \<Rightarrow> node \<Rightarrow> reconciled" where
  "node_provision_reconcile ctx node =
     (let m = n_meta node; name = rc_name_any ctx m in
      if has_label m LABEL_SERVER_ID then Done (Inr AwaitChange)
      else if m_deletion_timestamp m \<noteq> None then Done (Inr AwaitChange)
      else if \<not> has_provision_labels m then Done (Inr AwaitChange)
      else if already_failed m then Done (Inr AwaitChange)
      else if missing_labels m \<noteq> []
        then reject_config node name
               (''missing required labels: '' @ join '', '' (missing_labels m))
      else
        (let sz = unwrap_or (meta_label m LABEL_SIZE) [];
             region = unwrap_or (meta_label m LABEL_REGION) [];
             img = unwrap_or (meta_label m LABEL_IMAGE) [] in
         attempt (bl_catalog ctx) (\<lambda>cat.
           case config_problem cat sz region img of
             Some message \<Rightarrow> reject_config node name message
           | None \<Rightarrow> try_provision ctx node name sz region img)))"

section \<open>What must have happened before a server is created\<close>

definition node_config :: "node \<Rightarrow> string \<times> string \<times> string" where
  "node_config node =
     (unwrap_or (meta_label (n_meta node) LABEL_SIZE) [],
      unwrap_or (meta_label (n_meta node) LABEL_REGION) [],
      unwrap_or (meta_label (n_meta node) LABEL_IMAGE) [])"

definition config_checked :: "reconcile_ctx \<Rightarrow> node \<Rightarrow> hist \<Rightarrow> bool" where
  "config_checked ctx node h \<longleftrightarrow>
     missing_labels (n_meta node) = []
     \<and> (\<exists>h0 h1 cat. h = h0 @ h1 \<and> after (bl_catalog ctx) h0 = Some (Done (Inr cat))
         \<and> (case node_config node of (sz, region, img) \<Rightarrow>
              config_problem cat sz region img = None))"

definition finalizer_in_place :: "string \<Rightarrow> hist \<Rightarrow> bool" where
  "finalizer_in_place name h \<longleftrightarrow>
     (\<exists>r nd. (KGet Nodes name, r) \<in> set h \<and> as_node r = Inr nd
       \<and> (has_finalizer FINALIZER (n_meta nd)
          \<or> (\<exists>r' nd'. (KPatch Nodes name controller_params
                 (Merge (finalizers_patch (finalizers_with FINALIZER (n_meta nd)))), r') \<in> set h
               \<and> as_node r' = Inr nd')))"

definition password_persisted :: "reconcile_ctx \<Rightarrow> string \<Rightarrow> string \<Rightarrow> hist \<Rightarrow> bool" where
  "password_persisted ctx name p h \<longleftrightarrow>
     (\<exists>r. (KGetOpt (Secrets (rc_secret_namespace ctx)) (node_password_secret_name name), r) \<in> set h
        \<and> stored_password (as_secret_opt r) = Some p)
     \<or> (\<exists>r s. (KPatch (Secrets (rc_secret_namespace ctx)) (node_password_secret_name name)
            (forced controller_params)
            (Apply (password_patch (node_password_secret_name name) p)), r) \<in> set h
          \<and> as_secret r = Inr s)"

definition no_server_found :: "reconcile_ctx \<Rightarrow> string \<Rightarrow> hist \<Rightarrow> bool" where
  "no_server_found ctx name h \<longleftrightarrow>
     (\<exists>r. (Http (hostname_request (rc_bl ctx) name), r) \<in> set h
        \<and> read_reply ''getting server by hostname'' (read_server_by_hostname name) r = Inr None)"

definition only_gets :: "hist \<Rightarrow> bool" where
  "only_gets h \<longleftrightarrow> (\<forall>rq r. (Http rq, r) \<in> set h \<longrightarrow> rq_method rq = GET)"

definition server_obtained :: "reconcile_ctx \<Rightarrow> string \<Rightarrow> i64 \<Rightarrow> hist \<Rightarrow> bool" where
  "server_obtained ctx name sid h \<longleftrightarrow>
     (\<exists>rq r srv. (Http rq, r) \<in> set h \<and> srv_id srv = sid
        \<and> (rq = hostname_request (rc_bl ctx) name
             \<and> read_reply ''getting server by hostname'' (read_server_by_hostname name) r
                 = Inr (Some srv)
           \<or> rq_method rq = POST
             \<and> read_reply ''creating server'' read_create_server r = Inr srv))"

text \<open>What has happened stays so.\<close>

lemma happened_mono:
  "finalizer_in_place name h \<Longrightarrow> set h \<subseteq> set h' \<Longrightarrow> finalizer_in_place name h'"
  "password_persisted ctx name p h \<Longrightarrow> set h \<subseteq> set h' \<Longrightarrow> password_persisted ctx name p h'"
  unfolding finalizer_in_place_def password_persisted_def by blast+

lemma config_checked_append: "config_checked ctx node h \<Longrightarrow> config_checked ctx node (h @ t)"
  unfolding config_checked_def by (metis append_assoc)

lemma only_gets_simps [simp]:
  "only_gets (h @ h') \<longleftrightarrow> only_gets h \<and> only_gets h'"
  "only_gets []"
  "only_gets ((c, r) # h) \<longleftrightarrow> (\<forall>rq. c = Http rq \<longrightarrow> rq_method rq = GET) \<and> only_gets h"
  unfolding only_gets_def by auto

definition create_guard :: "reconcile_ctx \<Rightarrow> node \<Rightarrow> hist \<Rightarrow> create_server_request \<Rightarrow> bool" where
  "create_guard ctx node h req \<longleftrightarrow>
     (let name = rc_name_any ctx (n_meta node) in
      \<exists>sz region img ud p. node_config node = (sz, region, img)
        \<and> req = node_server_request name sz region img ud p
        \<and> config_checked ctx node h \<and> finalizer_in_place name h \<and> password_persisted ctx name p h
        \<and> no_server_found ctx name h \<and> only_gets h)"

definition provision_guard :: "reconcile_ctx \<Rightarrow> node \<Rightarrow> hist \<Rightarrow> call \<Rightarrow> bool" where
  "provision_guard ctx node h c =
     (case c of
        Http rq \<Rightarrow>
          rq_method rq = GET
          \<or> (\<exists>req. rq = create_server_call (rc_bl ctx) req \<and> create_guard ctx node h req)
      | KPatch Nodes n pp p \<Rightarrow>
          (\<forall>sid. p = Merge (provider_patch sid) \<longrightarrow>
             server_obtained ctx (rc_name_any ctx (n_meta node)) sid h)
      | KPatch res n pp p \<Rightarrow> (\<exists>j. p = Apply j)
      | _ \<Rightarrow> True)"

lemma patches_differ [simp]:
  "provider_patch sid \<noteq> finalizers_patch fs" "provider_patch sid \<noteq> failed_patch v"
  "finalizers_patch fs \<noteq> provider_patch sid" "failed_patch v \<noteq> provider_patch sid"
  by (simp_all add: provider_patch_def finalizers_patch_def failed_patch_def)

lemma provider_patch_inject [simp]: "provider_patch a = provider_patch b \<longleftrightarrow> a = b"
  by (simp add: provider_patch_def)

lemma emit_event_guarded [simp]:
  "safe (provision_guard ctx node) Q h (emit_event name uid ty reason msg) \<longleftrightarrow>
     (\<forall>t r. Q (Returned ()) (h @ [(UtcNow, t), (KCreate (Events ''default'') (OEvent
              (provision_event name uid ty reason msg (as_instant t))), r)]))"
  by (simp add: emit_event_def client_defs provision_guard_def)

text \<open>The stages of provisioning; each says what holds of the history when it has succeeded.\<close>

definition stage ::
  "hist \<Rightarrow> ('a \<Rightarrow> hist \<Rightarrow> bool) \<Rightarrow> (err + 'a) outcome \<Rightarrow> hist \<Rightarrow> bool" where
  "stage h F x h' \<longleftrightarrow>
     (\<exists>t. h' = h @ t) \<and> (\<forall>s. x = Panicked s \<longrightarrow> s = ''OsRng'') \<and> (\<forall>y. x = Returned (Inr y) \<longrightarrow> F y h')"

lemma stage_finalizer:
  assumes "only_gets h"
  shows "safe (provision_guard ctx node) (stage h (\<lambda>_ h'. only_gets h' \<and> finalizer_in_place name h')) h
    (ensure_finalizer name)"
  using assms
  by (auto simp: ensure_finalizer_def client_defs effect_simps do_when_def provision_guard_def
      stage_def finalizer_in_place_def split: sum.split)

lemma stage_password:
  assumes "only_gets h"
  shows "safe (provision_guard ctx node)
    (stage h (\<lambda>p h'. only_gets h' \<and> password_persisted ctx name p h')) h (node_password ctx name)"
  using assms
  by (auto simp: node_password_def client_defs effect_simps provision_guard_def Let_def
      stage_def password_persisted_def split: sum.split option.split reply.split)

lemma stage_user_data:
  assumes "only_gets h"
  shows "safe (provision_guard ctx node) (stage h (\<lambda>_ h'. only_gets h')) h (node_user_data ctx name)"
  using assms
  by (auto simp: node_user_data_def client_defs effect_simps provision_guard_def stage_def
      split: sum.split)

lemma lookup_facts:
  "read_reply ''getting server by hostname'' (read_server_by_hostname name) r = Inr None \<Longrightarrow>
     no_server_found ctx name (h @ [(Http (hostname_request (rc_bl ctx) name), r)])"
  "read_reply ''getting server by hostname'' (read_server_by_hostname name) r = Inr (Some srv) \<Longrightarrow>
     server_obtained ctx name (srv_id srv) (h @ [(Http (hostname_request (rc_bl ctx) name), r)])"
  "read_reply ''creating server'' read_create_server r = Inr srv \<Longrightarrow>
     server_obtained ctx name (srv_id srv)
       (h @ [e, (Http (create_server_call (rc_bl ctx) req), r)])"
  "rq_method (hostname_request cl name) = GET"
  unfolding no_server_found_def server_obtained_def hostname_request_def
  by (auto; metis create_server_call_inject(2))+

lemma stage_server:
  assumes "\<And>h'. no_server_found ctx name (h @ h') \<Longrightarrow> only_gets h' \<Longrightarrow>
      create_guard ctx node (h @ h') req"
  shows "safe (provision_guard ctx node) (stage h (\<lambda>srv h'. server_obtained ctx name (srv_id srv) h'))
    h (find_or_create_server ctx name req)"
  by (auto simp: find_or_create_server_def client_calls effect_simps provision_guard_def
      stage_def lookup_facts intro: assms split: sum.split option.split)

lemma stage_then:
  assumes "safe G (stage h F) h p"
    and post: "\<And>x h'. \<forall>s. x = Panicked s \<longrightarrow> s = ''OsRng'' \<Longrightarrow> Q x h'"
    and next_stage: "\<And>y t. F y (h @ t) \<Longrightarrow> safe G Q (h @ t) (f y)"
  shows "safe G Q h (attempt p f)"
  unfolding safe_attempt
  by (rule safe_mono [OF assms(1)])
     (auto simp: stage_def then_post_def intro: post next_stage split: outcome.split sum.split)

lemma provision_node_guarded:
  assumes cat: "config_checked ctx node h" and gets: "only_gets h"
    and config: "node_config node = (sz, region, img)"
    and name: "name = rc_name_any ctx (n_meta node)"
    and post: "\<And>x h'. \<forall>s. x = Panicked s \<longrightarrow> s = ''OsRng'' \<Longrightarrow> Q x h'"
  shows "safe (provision_guard ctx node) Q h (provision_node ctx name sz region img uid)"
  unfolding provision_node_def
proof (rule stage_then [OF stage_finalizer [OF gets] post], assumption)
  fix t1 assume f: "only_gets (h @ t1) \<and> finalizer_in_place name (h @ t1)"
  let ?rest = "\<lambda>req. attempt (find_or_create_server ctx name req) (\<lambda>srv.
      attempt (kube_context ''patching node with provider ID''
                (api_patch_node name controller_params (Merge (provider_patch (srv_id srv))))) (\<lambda>_.
      bind (emit_event name uid ''Normal'' ''ServerCreated'' (created_message srv)) (\<lambda>_.
      Done (Inr ()))))"
  have rest: "safe (provision_guard ctx node) Q h' (?rest req)"
    if "\<And>t. no_server_found ctx name (h' @ t) \<Longrightarrow> only_gets t \<Longrightarrow> create_guard ctx node (h' @ t) req"
    for h' req
    by (rule stage_then [OF stage_server [OF that] post])
       (auto simp: client_defs effect_simps provision_guard_def name [symmetric] post split: sum.split)
  show "safe (provision_guard ctx node) Q (h @ t1) (attempt (node_password ctx name) (\<lambda>password.
      attempt (node_user_data ctx name) (\<lambda>user_data.
      ?rest (node_server_request name sz region img user_data password))))"
  proof (rule stage_then [OF stage_password [OF conjunct1 [OF f]] post], assumption)
    fix p t2
    assume p: "only_gets ((h @ t1) @ t2) \<and> password_persisted ctx name p ((h @ t1) @ t2)"
    show "safe (provision_guard ctx node) Q ((h @ t1) @ t2) (attempt (node_user_data ctx name)
        (\<lambda>user_data. ?rest (node_server_request name sz region img user_data p)))"
    proof (rule stage_then [OF stage_user_data [OF conjunct1 [OF p]] post], assumption, rule rest)
      fix ud t3 t4
      assume gets3: "only_gets (((h @ t1) @ t2) @ t3)"
        and none: "no_server_found ctx name ((((h @ t1) @ t2) @ t3) @ t4)" and gets4: "only_gets t4"
      from cat have "config_checked ctx node ((((h @ t1) @ t2) @ t3) @ t4)"
        by (simp add: config_checked_append)
      moreover have "finalizer_in_place name ((((h @ t1) @ t2) @ t3) @ t4)"
        by (rule happened_mono(1) [OF conjunct2 [OF f]]) auto
      moreover have "password_persisted ctx name p ((((h @ t1) @ t2) @ t3) @ t4)"
        by (rule happened_mono(2) [OF conjunct2 [OF p]]) auto
      moreover from gets3 gets4 have "only_gets ((((h @ t1) @ t2) @ t3) @ t4)" by simp
      ultimately show "create_guard ctx node ((((h @ t1) @ t2) @ t3) @ t4)
          (node_server_request name sz region img ud p)"
        unfolding create_guard_def Let_def name [symmetric] using none config by blast
    qed
  qed
qed

text \<open>The whole handler.\<close>

lemma gets_of_catalog: "after (bl_catalog ctx) h = Some p \<Longrightarrow> only_gets h"
  unfolding only_gets_def using within_history [OF within_bl_catalog] by fastforce

lemma reject_config_guarded:
  assumes "\<And>x h'. \<forall>s. x = Panicked s \<longrightarrow> s = ''OsRng'' \<Longrightarrow> Q x h'"
  shows "safe (provision_guard ctx node) Q h (reject_config node name msg)"
  by (simp add: reject_config_def set_provision_failed_def client_defs effect_simps
      provision_guard_def assms split: resource.split)

lemma try_provision_guarded:
  assumes "config_checked ctx node h" and "only_gets h" and "node_config node = (sz, region, img)"
  shows "safe (provision_guard ctx node) (\<lambda>x _. \<forall>s. x = Panicked s \<longrightarrow> s = ''OsRng'') h
    (try_provision ctx node (rc_name_any ctx (n_meta node)) sz region img)"
  unfolding try_provision_def safe_bind
  by (rule provision_node_guarded [OF assms refl])
     (auto simp: then_post_def clear_provision_failed_def client_defs effect_simps
       provision_guard_def split: outcome.split sum.split)

lemma node_provision_guarded:
  "safe (provision_guard ctx node) (\<lambda>x _. \<forall>s. x = Panicked s \<longrightarrow> s = ''OsRng'') []
     (node_provision_reconcile ctx node)"
proof -
  obtain sz region img where config: "node_config node = (sz, region, img)" by (metis prod_cases3)
  have after_catalog: "safe (provision_guard ctx node) (\<lambda>x _. \<forall>s. x = Panicked s \<longrightarrow> s = ''OsRng'') []
      (attempt (bl_catalog ctx) (\<lambda>cat.
         case config_problem cat sz region img of
           Some message \<Rightarrow> reject_config node (rc_name_any ctx (n_meta node)) message
         | None \<Rightarrow> try_provision ctx node (rc_name_any ctx (n_meta node)) sz region img))"
    if complete: "missing_labels (n_meta node) = []"
    unfolding safe_attempt
  proof (rule safe_mono [OF safe_trace [OF within_bl_catalog]])
    fix h c assume "catalog_call c"
    then show "provision_guard ctx node h c"
      by (auto simp: provision_guard_def elim!: catalog_call.elims)
  next
    fix x h
    assume "\<exists>t q. h = [] @ t \<and> after (bl_catalog ctx) t = Some q \<and> finished q = Some x"
    then obtain q where q: "after (bl_catalog ctx) h = Some q" "finished q = Some x" by auto
    show "then_post (\<lambda>x _. \<forall>s. x = Panicked s \<longrightarrow> s = ''OsRng'') (\<lambda>y h'.
        case y of Inl e \<Rightarrow> \<forall>s. Returned (Inl e) = Panicked s \<longrightarrow> s = ''OsRng''
        | Inr cat \<Rightarrow> safe (provision_guard ctx node) (\<lambda>x _. \<forall>s. x = Panicked s \<longrightarrow> s = ''OsRng'') h'
            (case config_problem cat sz region img of
               Some message \<Rightarrow> reject_config node (rc_name_any ctx (n_meta node)) message
             | None \<Rightarrow> try_provision ctx node (rc_name_any ctx (n_meta node)) sz region img)) x h"
    proof (cases x)
      case (Returned y)
      show ?thesis
      proof (cases y)
        case (Inr cat)
        with q Returned have "after (bl_catalog ctx) h = Some (Done (Inr cat))" by (cases q) auto
        then have "config_checked ctx node h" if "config_problem cat sz region img = None"
          using that complete config by (auto simp: config_checked_def intro: exI [of _ "[]"])
        with q Inr Returned show ?thesis
          by (auto simp: config split: option.split
              intro!: reject_config_guarded try_provision_guarded gets_of_catalog)
      qed (simp add: Returned)
    qed (use panic_free_after [OF panic_free_bl_catalog q(1)] q in auto)
  qed
  show ?thesis
    unfolding node_provision_reconcile_def Let_def
    using after_catalog config
    by (auto simp: node_config_def intro!: reject_config_guarded)
qed

section \<open>Scope\<close>

interpretation node_provision: node_reconciler node_provision_reconcile
proof
  fix ctx and node :: node
  let ?scope = "node_scope ctx (rc_name_any ctx (n_meta node))"
  have catalog: "within ?scope (bl_catalog ctx)"
    by (rule within_mono [OF within_bl_catalog]) (auto elim!: catalog_call.elims)
  show "within ?scope (node_provision_reconcile ctx node)"
    by (auto simp: node_provision_reconcile_def reject_config_def try_provision_def
        set_provision_failed_def clear_provision_failed_def emit_event_def provision_node_def
        ensure_finalizer_def node_password_def node_user_data_def find_or_create_server_def
        provision_event_def client_calls client_defs Let_def
        intro!: within_intros within_do_when catalog
        split: option.split sum.split)
qed

section \<open>Which configurations are tried again\<close>

lemma join_bar_inject:
  assumes "CHR ''|'' \<notin> set a" "CHR ''|'' \<notin> set a'" "CHR ''|'' \<notin> set b" "CHR ''|'' \<notin> set b'"
  shows "join ''|'' [a, b, c] = join ''|'' [a', b', c'] \<longleftrightarrow> a = a' \<and> b = b' \<and> c = c'"
  using assms by (auto simp: append_sep_inject)

section \<open>Properties\<close>

definition sample_labels :: str_map where
  "sample_labels = [(LABEL_SIZE, ''s''), (LABEL_REGION, ''r''), (LABEL_IMAGE, ''i'')]"

definition labelled_node :: node where
  "labelled_node =
     \<lparr>n_meta = empty_meta\<lparr>m_name := Some ''n'', m_labels := Some sample_labels,
        m_finalizers := Some [FINALIZER]\<rparr>, n_spec = None, n_status = None\<rparr>"

definition stocked_catalog :: catalog where
  "stocked_catalog =
     \<lparr>cat_sizes = [\<lparr>ls_slug = ''s'', ls_vcpus = 1, ls_memory = 1024, ls_disk = 20\<rparr>],
      cat_regions = [\<lparr>lr_slug = ''r''\<rparr>],
      cat_images = [\<lparr>li_id = 1, li_slug = Some ''i'', li_name = [], li_distribution = [], li_status = []\<rparr>],
      cat_fetched_at = 0\<rparr>"

definition catalog_run :: hist where
  "catalog_run =
     [(MemRead CatalogCell, RContent (CatalogIs (Some stocked_catalog))), (InstantNow, RInstant 5)]"

definition create_run :: hist where
  "create_run = catalog_run @
     [(KGet Nodes ''n'', RNode labelled_node),
      (KGetOpt (Secrets ''ns'') (node_password_secret_name ''n''),
        RSecretOpt (Some \<lparr>s_meta = empty_meta, s_data = Some [(''password'', ''pw'')],
                         s_string_data = None\<rparr>)),
      (KGetOpt (Secrets ''ns'') (user_data_secret_name ''n''), RSecretOpt None),
      (Http (hostname_request (rc_bl sample_ctx) ''n''), sample_response 200 (PServers [] None))]"

lemma catalog_run_done:
  "after (bl_catalog sample_ctx) catalog_run = Some (Done (Inr (snapshot stocked_catalog)))"
  by (simp add: catalog_run_def bl_catalog_def catalog_fresh_def stocked_catalog_def)

lemma labelled_node_facts:
  "meta_label (n_meta labelled_node) LABEL_SIZE = Some ''s''"
  "meta_label (n_meta labelled_node) LABEL_REGION = Some ''r''"
  "meta_label (n_meta labelled_node) LABEL_IMAGE = Some ''i''"
  "meta_label (n_meta labelled_node) LABEL_SERVER_ID = None"
  "has_finalizer FINALIZER (n_meta labelled_node)"
  "m_deletion_timestamp (n_meta labelled_node) = None" "\<not> already_failed (n_meta labelled_node)"
  "m_name (n_meta labelled_node) = Some ''n''"
  "config_problem (snapshot stocked_catalog) ''s'' ''r'' ''i'' = None"
  "from_utf8_lossy ''pw'' = ''pw''"
proof -
  show "from_utf8_lossy ''pw'' = ''pw''"
    by (rule from_utf8_lossy_valid [OF utf8_valid_ascii]) (simp add: byte_def)
  show "config_problem (snapshot stocked_catalog) ''s'' ''r'' ''i'' = None"
    by (simp add: config_problem_def snapshot_def stocked_catalog_def)
qed (simp_all add: meta_label_def labelled_node_def sample_labels_def const_defs empty_meta_def
    has_finalizer_def already_failed_def meta_annotation_def sample_ctx_def)

lemmas provision_run_simps =
  node_provision_reconcile_def Let_def has_label_iff has_provision_labels_def labelled_node_facts
  missing_labels_def provision_keys_def after_attempt(1) [OF catalog_run_done] try_provision_def
  provision_node_def ensure_finalizer_def node_password_def secret_text_def node_user_data_def
  find_or_create_server_def client_calls client_defs kube_context_def with_context_def map_err_ask
  sample_response_def read_reply_def is_success_def decode_def read_server_by_hostname_def
  read_create_server_def sample_server_def

definition create_call :: call where
  "create_call = Http (create_server_call (rc_bl sample_ctx)
     (node_server_request ''n'' ''s'' ''r'' ''i'' None ''pw''))"

lemma create_run_ends:
  "\<exists>q. after (node_provision_reconcile sample_ctx labelled_node) (create_run @ (create_call, r) # []) = Some q"
  by (simp add: create_run_def create_call_def provision_run_simps)

lemma bind_run_ends:
  "\<exists>q. after (node_provision_reconcile sample_ctx labelled_node)
     ((create_run @ [(create_call, sample_response 200 (PServer (sample_server 7)))])
      @ (KPatch Nodes ''n'' controller_params (Merge (provider_patch 7)), RNode labelled_node) # []) = Some q"
  by (simp add: create_run_def create_call_def provision_run_simps)

text \<open>
  C2: BinaryLane is asked to create a server only when all of this has happened in the same
  pass: the three labels are present and name a size, a region and an image of the catalog; the
  Node has the cleanup finalizer, as read or as just patched; the password that is sent is the
  one stored in the Node's Secret or one the API server has accepted to store; the lookup by host
  name has found no server.  It is the first request of the pass that is not a \<open>GET\<close>, so a pass
  creates at most one server.
\<close>

theorem server_created_only_when_ready:
  assumes "after (node_provision_reconcile ctx node) (h @ (Http rq, r) # u) = Some q"
    and "rq_method rq \<noteq> GET" and "name = rc_name_any ctx (n_meta node)"
  shows "\<exists>sz region img ud p. node_config node = (sz, region, img)
    \<and> rq = create_server_call (rc_bl ctx) (node_server_request name sz region img ud p)
    \<and> config_checked ctx node h \<and> finalizer_in_place name h \<and> password_persisted ctx name p h
    \<and> no_server_found ctx name h \<and> only_gets h"
  using safe_guard [OF node_provision_guarded assms(1)] assms(2,3)
  unfolding provision_guard_def create_guard_def Let_def by (simp del: create_server_call_inject(1)) blast

theorem server_created_only_when_ready_witness:
  "password_persisted sample_ctx ''n'' ''pw'' create_run"
proof -
  obtain q where run: "after (node_provision_reconcile sample_ctx labelled_node)
     (create_run @ (create_call, RUnit) # []) = Some q"
    using create_run_ends by blast
  have "\<exists>sz region img ud p. node_config labelled_node = (sz, region, img)
    \<and> create_server_call (rc_bl sample_ctx) (node_server_request ''n'' ''s'' ''r'' ''i'' None ''pw'')
      = create_server_call (rc_bl sample_ctx) (node_server_request ''n'' sz region img ud p)
    \<and> config_checked sample_ctx labelled_node create_run \<and> finalizer_in_place ''n'' create_run
    \<and> password_persisted sample_ctx ''n'' p create_run
    \<and> no_server_found sample_ctx ''n'' create_run \<and> only_gets create_run"
    by (rule server_created_only_when_ready [OF run [unfolded create_call_def]])
       (simp_all add: labelled_node_facts)
  then show ?thesis by (auto simp: node_server_request_def)
qed

text \<open>
  C12: the Node is bound to a server, in a pass, only after BinaryLane has returned that server
  for the Node's host name or has created it in the same pass.
\<close>

theorem provision_binds_server_obtained:
  assumes "after (node_provision_reconcile ctx node)
      (h @ (KPatch res n pp (Merge (provider_patch sid)), r) # u) = Some q"
  shows "res = Nodes \<and> n = rc_name_any ctx (n_meta node) \<and> server_obtained ctx n sid h"
proof -
  have "node_scope ctx (rc_name_any ctx (n_meta node)) (KPatch res n pp (Merge (provider_patch sid)))"
    by (rule within_guard [OF node_provision.in_scope assms])
  moreover have "provision_guard ctx node h (KPatch res n pp (Merge (provider_patch sid)))"
    by (rule safe_guard [OF node_provision_guarded assms])
  ultimately show ?thesis by (cases res) (auto simp: provision_guard_def)
qed

theorem provision_binds_server_obtained_witness:
  "server_obtained sample_ctx ''n'' 7
     (create_run @ [(create_call, sample_response 200 (PServer (sample_server 7)))])"
  using bind_run_ends provision_binds_server_obtained by blast

lemma no_labels_iff: "missing_labels m = provision_keys \<longleftrightarrow> \<not> has_provision_labels m"
  by (auto simp: missing_labels_def provision_keys_def has_provision_labels_def has_label_iff)

text \<open>
  A pass does nothing exactly for the Nodes that have a server id label, are being deleted,
  carry none of the three labels, or carry the annotation with the fingerprint of their present
  labels.
\<close>

theorem provision_idle_iff:
  "finished (node_provision_reconcile ctx node) = Some (Returned (Inr AwaitChange)) \<longleftrightarrow>
     has_label (n_meta node) LABEL_SERVER_ID
     \<or> (\<exists>t. m_deletion_timestamp (n_meta node) = Some t)
     \<or> missing_labels (n_meta node) = provision_keys
     \<or> meta_annotation (n_meta node) ANNOTATION_PROVISION_FAILED = Some (config_hash (n_meta node))"
  by (auto simp: node_provision_reconcile_def Let_def already_failed_def is_some_and_iff
      no_labels_iff reject_config_def set_provision_failed_def bl_catalog_def client_defs)

text \<open>
  The fingerprint tells configurations apart: for label values without the separator, which
  no label value of Kubernetes contains, equal fingerprints mean equal size, region and image, so
  a Node whose labels were changed after a failure is tried again.
\<close>

theorem config_hash_inject:
  assumes "\<forall>k \<in> set provision_keys. CHR ''|'' \<notin> set (unwrap_or (meta_label (n_meta a) k) [])"
    and "\<forall>k \<in> set provision_keys. CHR ''|'' \<notin> set (unwrap_or (meta_label (n_meta b) k) [])"
  shows "config_hash (n_meta a) = config_hash (n_meta b) \<longleftrightarrow> node_config a = node_config b"
  using assms
  by (simp add: config_hash_def provision_keys_def node_config_def join_bar_inject del: join.simps)

theorem config_hash_inject_witness:
  "config_hash (n_meta labelled_node) \<noteq> config_hash (n_meta (labelled_node\<lparr>n_meta := empty_meta\<rparr>))"
proof -
  have "config_hash (n_meta labelled_node) = config_hash (n_meta (labelled_node\<lparr>n_meta := empty_meta\<rparr>))
      \<longleftrightarrow> node_config labelled_node = node_config (labelled_node\<lparr>n_meta := empty_meta\<rparr>)"
    by (rule config_hash_inject)
       (simp_all add: provision_keys_def meta_label_def labelled_node_def sample_labels_def
         empty_meta_def const_defs)
  then show ?thesis
    by (simp add: node_config_def meta_label_def labelled_node_def sample_labels_def
        empty_meta_def const_defs)
qed

definition incomplete_node :: node where
  "incomplete_node =
     \<lparr>n_meta = empty_meta\<lparr>m_name := Some ''n'', m_labels := Some [(LABEL_SIZE, ''s'')]\<rparr>,
      n_spec = None, n_status = None\<rparr>"

text \<open>
  C26: take a Node that is not being deleted, has no server id label, carries at least one of the
  three provisioning labels and is not yet annotated with the fingerprint of its labels.  If one of
  the three is missing, or the catalog the pass obtains has no such size, region or image, the pass
  writes the annotation with the fingerprint, then one event, and ends there, whatever the API
  server answers to those calls: no server is asked for.
\<close>

theorem bad_config_is_annotated:
  assumes "\<not> has_label m LABEL_SERVER_ID" and "m_deletion_timestamp m = None"
    and "has_provision_labels m" and "\<not> already_failed m" and "m = n_meta node"
    and "if missing_labels m \<noteq> [] then h = []
         else after (bl_catalog ctx) h = Some (Done (Inr cat))
           \<and> (case node_config node of (sz, region, img) \<Rightarrow> config_problem cat sz region img \<noteq> None)"
  shows "\<exists>message. after (node_provision_reconcile ctx node)
      (h @ [(KPatch Nodes (rc_name_any ctx m) controller_params
              (Merge (failed_patch (JStr (config_hash m)))), r0),
            (UtcNow, r1),
            (KCreate (Events ''default'') (OEvent (provision_event (rc_name_any ctx m) (m_uid m)
               ''Warning'' ''ProvisionFailed'' message (as_instant r1))), r2)])
      = Some (Done (Inr AwaitChange))"
proof (cases "missing_labels m = []")
  case True
  with assms obtain sz region img message where "node_config node = (sz, region, img)"
    and "after (bl_catalog ctx) h = Some (Done (Inr cat))"
    and "config_problem cat sz region img = Some message" by (auto split: prod.splits)
  with True assms show ?thesis
    by (intro exI [of _ message])
       (simp add: node_provision_reconcile_def Let_def node_config_def after_attempt
        reject_config_def set_provision_failed_def emit_event_def client_defs)
next
  case False
  with assms show ?thesis
    by (intro exI [of _ "''missing required labels: '' @ join '', '' (missing_labels m)"])
       (simp add: node_provision_reconcile_def Let_def
        reject_config_def set_provision_failed_def emit_event_def client_defs)
qed

theorem bad_config_is_annotated_witness:
  "\<exists>message. after (node_provision_reconcile sample_ctx incomplete_node)
      ([] @ [(KPatch Nodes ''n'' controller_params
               (Merge (failed_patch (JStr (config_hash (n_meta incomplete_node))))), RNode incomplete_node),
            (UtcNow, RInstant 1),
            (KCreate (Events ''default'') (OEvent (provision_event ''n'' None
               ''Warning'' ''ProvisionFailed'' message (as_instant (RInstant 1)))), REvent)])
      = Some (Done (Inr AwaitChange))"
proof -
  let ?m = "n_meta incomplete_node"
  have node: "rc_name_any sample_ctx ?m = ''n''" "m_uid ?m = None"
    by (simp_all add: sample_ctx_def incomplete_node_def empty_meta_def)
  have "\<not> has_label ?m LABEL_SERVER_ID" "m_deletion_timestamp ?m = None" "has_provision_labels ?m"
    "\<not> already_failed ?m" "missing_labels ?m \<noteq> []"
    by (simp_all add: incomplete_node_def empty_meta_def has_label_def has_provision_labels_def
         already_failed_def meta_annotation_def missing_labels_def provision_keys_def meta_label_def
         const_defs)
  then show ?thesis
    using bad_config_is_annotated [where m = ?m and node = incomplete_node and h = "[]"
        and ctx = sample_ctx and cat = undefined and ?r0.0 = "RNode incomplete_node"
        and ?r1.0 = "RInstant 1" and ?r2.0 = REvent] node by simp
qed

text \<open>
  When the password Secret cannot be read, for whatever reason, a new password is drawn and
  forced over the Secret, although the comment in the code speaks of a Secret that does not exist.
\<close>

theorem unreadable_password_is_replaced:
  "\<exists>k. after (node_password ctx name)
     [(KGetOpt (Secrets (rc_secret_namespace ctx)) (node_password_secret_name name), RKubeError e),
      (RandomAlnum 36, RChars s)]
   = Some (Ask (KPatch (Secrets (rc_secret_namespace ctx)) (node_password_secret_name name)
             (forced controller_params)
             (Apply (password_patch (node_password_secret_name name) (''BlcA1'' @ s)))) k)"
  by (simp add: node_password_def Let_def client_defs generate_server_password_def kube_context_def
      map_err_ask ask_def)

end
