(* ===== verification/Interleaving.thy ===== *)
theory Interleaving
  imports Node_Sync Node_Bind Node_Deletion Node_Provision
begin

text \<open>
  The four controllers of Nodes run as tasks of one process (\<open>src/main.rs\<close>): each reconciles on
  its own, on the Node as its watch last saw it, and their requests interleave.  Here is what an
  interleaving cannot do, and one thing it can.
\<close>

section \<open>A pool of passes\<close>

datatype controller = Sync_Pass | Bind_Pass | Provision_Pass | Deletion_Pass

fun pass :: "reconcile_ctx \<Rightarrow> controller \<Rightarrow> node \<Rightarrow> reconciled" where
  "pass ctx Sync_Pass = node_sync_reconcile ctx"
| "pass ctx Bind_Pass = node_bind_reconcile ctx"
| "pass ctx Provision_Pass = node_provision_reconcile ctx"
| "pass ctx Deletion_Pass = node_deletion_reconcile ctx"

text \<open>Every pass is a reconciler in the sense of the locale, so the pool inherits its lemmas.\<close>

interpretation any_pass: node_reconciler "\<lambda>ctx. pass ctx k" for k
proof
  fix ctx and node :: node
  show "within (node_scope ctx (rc_name_any ctx (n_meta node))) (pass ctx k node)"
    by (cases k) (simp_all add: node_sync.in_scope node_bind.in_scope node_provision.in_scope
        node_deletion.in_scope)
qed

definition pool :: "reconcile_ctx \<Rightarrow> (controller \<times> node) list \<Rightarrow> reconciled list" where
  "pool ctx tasks = map (\<lambda>(k, node). pass ctx k node) tasks"

definition task_node :: "reconcile_ctx \<Rightarrow> (controller \<times> node) list \<Rightarrow> nat \<Rightarrow> string" where
  "task_node ctx tasks i = rc_name_any ctx (n_meta (snd (tasks ! i)))"

lemma pool_scope:
  assumes "pool_run (pool ctx tasks) log qs" and "(i, c, r) \<in> set log" and "i < length tasks"
  shows "node_scope ctx (task_node ctx tasks i) c"
proof -
  from assms(2) obtain es fs where log: "log = es @ (i, c, r) # fs" by (meson split_list)
  obtain k node where task: "tasks ! i = (k, node)" by fastforce
  have "pool ctx tasks ! i = pass ctx k node" using assms(3) task by (simp add: pool_def)
  from any_pass.in_pool [OF assms(1) [unfolded log] _ this] show ?thesis
    using assms(3) task by (simp add: pool_def task_node_def)
qed

lemma pool_run_length: "pool_run ps log qs \<Longrightarrow> length qs = length ps"
  by (induction rule: pool_run.induct) (auto elim!: pool_stepE)

lemma pool_run_index: "pool_run ps log qs \<Longrightarrow> (i, c, r) \<in> set log \<Longrightarrow> i < length ps"
  by (induction rule: pool_run.induct) (auto elim!: pool_stepE dest: pool_run_length)

text \<open>
  C11: however the passes of the controllers interleave, two of them that write the same Node
  object, or the same Secret, are passes over the same Node.
\<close>

theorem passes_write_apart:
  assumes "pool_run (pool ctx tasks) log qs"
    and "(i, c, r) \<in> set log" and "(j, c', r') \<in> set log"
    and "writes_node c = Some x \<and> writes_node c' = Some x
       \<or> writes_secret c = Some s \<and> writes_secret c' = Some s"
  shows "task_node ctx tasks i = task_node ctx tasks j"
proof -
  note scope = pool_scope [OF assms(1)]
  have i: "node_scope ctx (task_node ctx tasks i) c" and j: "node_scope ctx (task_node ctx tasks j) c'"
    using scope assms(2,3) pool_run_index [OF assms(1)] by (simp_all add: pool_def)
  obtain ns sn where s: "s = (ns, sn)" by fastforce
  from assms(4) show ?thesis
  proof
    assume "writes_node c = Some x \<and> writes_node c' = Some x"
    then show ?thesis using node_scope_writes_node [OF i] node_scope_writes_node [OF j] by simp
  next
    assume "writes_secret c = Some s \<and> writes_secret c' = Some s"
    then show ?thesis
      using node_scope_writes_secret [OF i] node_scope_writes_secret [OF j] s by auto
  qed
qed


section \<open>A Node deleted while it is provisioned\<close>

lemma pool_run_append: "pool_run qs es' rs \<Longrightarrow> pool_run ps es qs \<Longrightarrow> pool_run ps (es @ es') rs"
proof (induction rule: pool_run.induct)
  case (more qs es' rs e rs')
  from pool_run.more [OF more.IH [OF more.prems] more.hyps(2)] show ?case by simp
qed simp

text \<open>A stretch of the log in which one task runs alone.\<close>

lemma pool_run_task:
  "after (ps ! i) h = Some q \<Longrightarrow> i < length ps \<Longrightarrow> pool_run ps (map (Pair i) h) (ps[i := q])"
proof (induction h arbitrary: q rule: rev_induct)
  case Nil
  then show ?case using pool_run.stop [of ps] by auto
next
  case (snoc e h)
  obtain c r where e: "e = (c, r)" by fastforce
  from snoc.prems(1) obtain q' where q': "after (ps ! i) h = Some q'" and "after q' [(c, r)] = Some q"
    by (auto simp: after_append e bind_eq_Some_conv)
  then obtain k where "q' = Ask c k" and q: "q = k r" by (cases q') (auto split: if_splits)
  with snoc.prems(2) have "pool_step (ps[i := q']) (i, c, r) (ps[i := q])"
    by (auto simp: pool_step_iff)
  from pool_run.more [OF snoc.IH [OF q' snoc.prems(2)] this] show ?case by (simp add: e)
qed

definition dying_node :: node where
  "dying_node = labelled_node\<lparr>n_meta := (n_meta labelled_node)\<lparr>m_deletion_timestamp := Some ''t''\<rparr>\<rparr>"

text \<open>The Node as the API server returns it once the last finalizer is gone.\<close>

definition released_node :: node where
  "released_node = dying_node\<lparr>n_meta := (n_meta dying_node)\<lparr>m_finalizers := Some []\<rparr>\<rparr>"

definition deletion_run :: hist where
  "deletion_run =
     [(KDelete (Secrets ''ns'') (node_password_secret_name ''n''), RDeleted),
      (KDelete (Secrets ''ns'') (user_data_secret_name ''n''), RDeleted),
      (KPatch Nodes ''n'' controller_params (Merge (finalizers_patch [])), RNode released_node)]"

lemma deletion_run_ends:
  "after (node_deletion_reconcile sample_ctx dying_node) deletion_run = Some (Done (Inr (Requeue 300)))"
  by (simp add: node_deletion_reconcile_def deletion_reconcile_node_def cleanup_deleted_def
      deletion_run_def dying_node_def labelled_node_def provider_id_of_def has_finalizer_def
      finalizers_without_def Let_def then_action_def client_defs deletion_result_def
      kube_context_def map_err_ask)

text \<open>
  The pass that provisions the Node has read it, its Secrets and found no server; then the user
  deletes the Node and the deletion controller releases it; then the first pass goes on.
\<close>

definition late_run :: hist where
  "late_run =
     [(create_call, sample_response 200 (PServer (sample_server 7))),
      (KPatch Nodes ''n'' controller_params (Merge (provider_patch 7)), RKubeError (KApi 404 ''gone'')),
      (UtcNow, RInstant 1),
      (KCreate (Events ''default'') (OEvent (provision_event ''n'' (m_uid (n_meta labelled_node)) ''Warning''
         ''ProvisionError'' ''server creation failed: patching node with provider ID: gone'' 1)), REvent)]"

definition race_log :: "(call, reply) log" where
  "race_log = map (Pair 0) create_run @ map (Pair 1) deletion_run @ map (Pair 0) late_run"

abbreviation race_tasks :: "(controller \<times> node) list" where
  "race_tasks \<equiv> [(Provision_Pass, labelled_node), (Deletion_Pass, dying_node)]"

lemma late_run_ends:
  "\<exists>q e. after (node_provision_reconcile sample_ctx labelled_node) create_run = Some q
     \<and> after q late_run = Some (Done (Inl e))"
proof -
  have "\<exists>e. after (node_provision_reconcile sample_ctx labelled_node) (create_run @ late_run) = Some (Done (Inl e))"
    by (simp add: create_run_def late_run_def create_call_def provision_run_simps emit_event_def client_defs)
  then show ?thesis by (auto simp: after_append bind_eq_Some_conv)
qed

lemma race_runs: "\<exists>e. pool_run (pool sample_ctx race_tasks) race_log [Done (Inl e), Done (Inr (Requeue 300))]"
proof -
  let ?ps = "pool sample_ctx race_tasks"
  obtain q e where q: "after (?ps ! 0) create_run = Some q" and q': "after q late_run = Some (Done (Inl e))"
    using late_run_ends by (auto simp: pool_def)
  have ps: "?ps = [?ps ! 0, ?ps ! 1]" by (simp add: pool_def)
  have "pool_run ?ps (map (Pair 0) create_run) (?ps[0 := q])"
    by (rule pool_run_task [OF q]) (simp add: pool_def)
  moreover have "pool_run (?ps[0 := q]) (map (Pair 1) deletion_run) (?ps[0 := q, 1 := Done (Inr (Requeue 300))])"
    by (rule pool_run_task) (simp_all add: pool_def deletion_run_ends)
  moreover have "pool_run (?ps[0 := q, 1 := Done (Inr (Requeue 300))]) (map (Pair 0) late_run)
      (?ps[0 := q, 1 := Done (Inr (Requeue 300)), 0 := Done (Inl e)])"
    by (rule pool_run_task) (simp_all add: pool_def q')
  ultimately have "pool_run ?ps race_log (?ps[0 := q, 1 := Done (Inr (Requeue 300)), 0 := Done (Inl e)])"
    unfolding race_log_def by (meson pool_run_append)
  then show ?thesis by (subst (asm) (2) ps) auto
qed

definition spares_servers :: "call \<Rightarrow> bool" where
  "spares_servers c \<longleftrightarrow> (\<forall>cl sid. c \<noteq> Http (delete_server_call cl sid))"

theorem passes_write_apart_witness: "task_node sample_ctx race_tasks 0 = task_node sample_ctx race_tasks 1"
proof -
  obtain qs where run: "pool_run (pool sample_ctx race_tasks) race_log qs" using race_runs by blast
  show ?thesis
    by (rule passes_write_apart [OF run, of 0
          "KPatch Nodes ''n'' controller_params (Merge (provider_patch 7))" "RKubeError (KApi 404 ''gone'')" 1
          "KPatch Nodes ''n'' controller_params (Merge (finalizers_patch []))" "RNode released_node" "''n''"])
       (simp_all add: race_log_def late_run_def deletion_run_def)
qed

text \<open>
  C6: a server can be leaked.  There is a log of the two passes in which a Node is deleted while it
  is being provisioned: the deletion pass releases the Node, which has no server yet, and the API
  server acknowledges it with a Node that is being deleted and has no finalizer left; then
  BinaryLane creates the server for the provisioning pass; then that pass is answered 404 when it
  binds the Node, for the Node is gone.  Both passes have ended, the one with an error and the other with
  success, and neither has asked for the deletion of any server.
\<close>

theorem deletion_during_provisioning_leaks_server:
  "\<exists>es fs gs hs node e. pool_run (pool sample_ctx race_tasks)
      (es @ (1, KPatch Nodes ''n'' controller_params (Merge (finalizers_patch [])), RNode node)
        # fs @ (0, create_call, sample_response 200 (PServer (sample_server 7)))
        # gs @ (0, KPatch Nodes ''n'' controller_params (Merge (provider_patch 7)),
                  RKubeError (KApi 404 ''gone''))
        # hs)
      [Done (Inl e), Done (Inr (Requeue 300))]
    \<and> m_deletion_timestamp (n_meta node) \<noteq> None \<and> m_finalizers (n_meta node) = Some []
    \<and> list_all (\<lambda>(i, c, r). spares_servers c) (es @ fs @ gs @ hs)"
proof -
  obtain e where run: "pool_run (pool sample_ctx race_tasks) race_log [Done (Inl e), Done (Inr (Requeue 300))]"
    using race_runs by blast
  let ?es = "map (Pair 0) create_run @ map (Pair 1) (butlast deletion_run)"
  have "race_log = ?es @ (1, KPatch Nodes ''n'' controller_params (Merge (finalizers_patch [])), RNode released_node)
      # [] @ (0, create_call, sample_response 200 (PServer (sample_server 7)))
      # [] @ (0, KPatch Nodes ''n'' controller_params (Merge (provider_patch 7)), RKubeError (KApi 404 ''gone''))
      # map (Pair 0) (drop 2 late_run)"
    by (simp add: race_log_def late_run_def deletion_run_def)
  moreover have "list_all (\<lambda>(i, c, r). spares_servers c) (?es @ [] @ [] @ map (Pair 0) (drop 2 late_run))"
    by (simp add: create_run_def catalog_run_def deletion_run_def late_run_def hostname_request_def request_def
        delete_server_call_def spares_servers_def)
  moreover have "m_deletion_timestamp (n_meta released_node) \<noteq> None"
    "m_finalizers (n_meta released_node) = Some []"
    by (simp_all add: released_node_def dying_node_def)
  ultimately show ?thesis using run by metis
qed

end
