(* ===== verification/Service_Lb.thy ===== *)
theory Service_Lb
  imports Controllers "HOL-Library.Multiset"
begin

text \<open>
  The \<open>service\<close> controller (\<open>src/controllers/service.rs\<close>): it keeps one BinaryLane load balancer for
  each Service of type LoadBalancer, points it at the ready Nodes, and deletes it before the
  Service goes, guarded by a finalizer of its own.
\<close>

section \<open>Names and conversions\<close>

definition ANNOTATION_LB_ID :: string where
  [const_defs]: "ANNOTATION_LB_ID = ''binarylane.com.au/load-balancer-id''"

definition ANNOTATION_LB_REGION :: string where
  [const_defs]: "ANNOTATION_LB_REGION = ''binarylane.com.au/load-balancer-region''"

definition SERVICE_FINALIZER :: string where
  [const_defs]: "SERVICE_FINALIZER = ''binarylane.com.au/load-balancer''"

definition lb_name :: "string \<Rightarrow> string \<Rightarrow> string" where
  "lb_name ns name = ''k8s-'' @ ns @ ''-'' @ name"

definition forwarding_rule_of :: "service_port \<Rightarrow> forwarding_rule" where
  "forwarding_rule_of p =
     (let proto = to_ascii_lowercase (unwrap_or (sp_protocol p) ''TCP'') in
      \<lparr>fr_entry_protocol = proto, fr_entry_port = sp_port p, fr_target_protocol = proto,
       fr_target_port = unwrap_or (sp_node_port p) (sp_port p)\<rparr>)"

definition service_health_check :: "service_port list \<Rightarrow> health_check" where
  "service_health_check ports =
     \<lparr>hc_protocol = ''tcp'',
      hc_port = unwrap_or (Option.bind (case ports of [] \<Rightarrow> None | p # _ \<Rightarrow> Some p) sp_node_port) 80,
      hc_path = None, hc_check_interval_seconds = 10, hc_response_timeout_seconds = 5,
      hc_unhealthy_threshold = 3, hc_healthy_threshold = 5\<rparr>"

definition node_ready :: "node \<Rightarrow> bool" where
  "node_ready n \<longleftrightarrow>
     is_some_and (\<lambda>conds. \<exists>c \<in> set conds. nc_type c = ''Ready'' \<and> nc_status c = ''True'')
       (Option.bind (n_status n) nst_conditions)"

text \<open>The loop of \<open>get_ready_node_server_ids\<close>.\<close>

fun ready_server_ids :: "node list \<Rightarrow> i64 list" where
  "ready_server_ids [] = []"
| "ready_server_ids (n # ns) =
     (case parse_provider_id (provider_id_of n) of
        None \<Rightarrow> ready_server_ids ns
      | Some sid \<Rightarrow> if node_ready n then sid # ready_server_ids ns else ready_server_ids ns)"

definition get_ready_node_server_ids :: "i64 list io" where
  "get_ready_node_server_ids =
     attempt (kube_context ''listing nodes'' (api_list_nodes None))
       (\<lambda>nodes. Done (Inr (ready_server_ids nodes)))"

section \<open>The load balancer of a Service\<close>

definition lb_status_patch :: "string \<Rightarrow> json" where
  "lb_status_patch ip =
     JObj [(''status'', JObj [(''loadBalancer'', JObj [(''ingress'', JArr [JObj [(''ip'', JStr ip)]])])])]"

definition update_service_status :: "string \<Rightarrow> string \<Rightarrow> load_balancer \<Rightarrow> unit io" where
  "update_service_status ns name lb =
     (if lb_ip lb = [] then Done (Inr ())
      else attempt (kube_context ''updating service status''
             (api_patch_service_status ns name controller_params (Merge (lb_status_patch (lb_ip lb)))))
             (\<lambda>_. Done (Inr ())))"

definition lb_id_patch :: "i64 \<Rightarrow> json" where
  "lb_id_patch lb =
     JObj [(''metadata'', JObj [(''annotations'', JObj [(ANNOTATION_LB_ID, JStr (show_i64 lb))])])]"

definition create_load_balancer ::
  "client \<Rightarrow> string \<Rightarrow> string \<Rightarrow> string \<Rightarrow> forwarding_rule list \<Rightarrow> health_check \<Rightarrow> i64 list \<Rightarrow> unit io"
  where
  "create_load_balancer bl ns name region rules hc ids =
     attempt (with_context ''creating load balancer''
               (bl_create_load_balancer bl
                 \<lparr>cl_name = lb_name ns name, cl_region = region, cl_forwarding_rules = rules,
                  cl_health_check = Some hc, cl_server_ids = ids\<rparr>)) (\<lambda>lb.
     attempt (kube_context ''setting LB ID annotation''
               (api_patch_service ns name controller_params (Merge (lb_id_patch (lb_id lb))))) (\<lambda>_.
     update_service_status ns name lb))"

text \<open>\<open>sort_by_key\<close> is a stable sort, \<open>i32\<close> and \<open>i64\<close> are compared as signed numbers.\<close>

definition sort_rules :: "forwarding_rule list \<Rightarrow> forwarding_rule list" where
  "sort_rules = sort_key (\<lambda>r. sint (fr_entry_port r))"

definition sort_ids :: "i64 list \<Rightarrow> i64 list" where
  "sort_ids = sort_key sint"

definition lb_needs_update ::
  "load_balancer \<Rightarrow> string \<Rightarrow> forwarding_rule list \<Rightarrow> i64 list \<Rightarrow> bool" where
  "lb_needs_update existing desired_name rules ids \<longleftrightarrow>
     lb_name_of existing \<noteq> desired_name
     \<or> sort_rules (lb_forwarding_rules existing) \<noteq> sort_rules rules
     \<or> sort_ids (lb_server_ids existing) \<noteq> sort_ids ids"

definition update_or_create ::
  "client \<Rightarrow> string \<Rightarrow> string \<Rightarrow> string \<Rightarrow> forwarding_rule list \<Rightarrow> health_check \<Rightarrow> i64 list
    \<Rightarrow> string option \<Rightarrow> unit io" where
  "update_or_create bl ns name region rules hc ids lb_id_str =
     (case lb_id_str of
        None \<Rightarrow> create_load_balancer bl ns name region rules hc ids
      | Some t \<Rightarrow>
          (case parse_i64 t of
             Inl e \<Rightarrow> Done (Inl (EContext ''parsing LB ID annotation'' (EParse e)))
           | Inr lb \<Rightarrow>
               attempt (with_context ''getting load balancer'' (get_load_balancer bl lb)) (\<lambda>existing.
                 case existing of
                   None \<Rightarrow> create_load_balancer bl ns name region rules hc ids
                 | Some existing \<Rightarrow>
                     if \<not> lb_needs_update existing (lb_name ns name) rules ids
                     then update_service_status ns name existing
                     else
                       attempt (with_context ''updating load balancer''
                         (update_load_balancer bl lb
                           \<lparr>ul_name = lb_name ns name, ul_forwarding_rules = rules,
                            ul_health_check = Some hc, ul_server_ids = ids\<rparr>)) (\<lambda>lb'.
                       update_service_status ns name lb'))))"

definition handle_deletion :: "client \<Rightarrow> service \<Rightarrow> string \<Rightarrow> string \<Rightarrow> unit io" where
  "handle_deletion bl svc ns name =
     (if \<not> has_finalizer SERVICE_FINALIZER (sv_meta svc) then Done (Inr ())
      else
        attempt (case meta_annotation (sv_meta svc) ANNOTATION_LB_ID of
                   None \<Rightarrow> Done (Inr ())
                 | Some t \<Rightarrow>
                     (case parse_i64 t of
                        Inl e \<Rightarrow> Done (Inl (EContext ''parsing LB ID for deletion'' (EParse e)))
                      | Inr lb \<Rightarrow> with_context ''deleting load balancer'' (delete_load_balancer bl lb)))
          (\<lambda>_.
        attempt (kube_context ''removing finalizer''
                  (api_patch_service ns name controller_params
                    (Merge (finalizers_patch (finalizers_without SERVICE_FINALIZER (sv_meta svc))))))
          (\<lambda>_. Done (Inr ()))))"

definition reconcile_service :: "client \<Rightarrow> service \<Rightarrow> string \<Rightarrow> string \<Rightarrow> unit io" where
  "reconcile_service bl svc ns name =
     (if m_deletion_timestamp (sv_meta svc) \<noteq> None then handle_deletion bl svc ns name
      else
        attempt (do_when (\<not> has_finalizer SERVICE_FINALIZER (sv_meta svc))
                  (kube_context ''adding finalizer''
                    (api_patch_service ns name controller_params
                      (Merge (finalizers_patch (finalizers_with SERVICE_FINALIZER (sv_meta svc)))))))
          (\<lambda>_.
        attempt get_ready_node_server_ids (\<lambda>ids.
        case sv_spec svc of
          None \<Rightarrow> Panic ''called `Option::unwrap()` on a `None` value''
        | Some spec \<Rightarrow>
            (let ports = unwrap_or (ss_ports spec) [];
                 region = unwrap_or (meta_annotation (sv_meta svc) ANNOTATION_LB_REGION) ''syd'' in
             update_or_create bl ns name region (map forwarding_rule_of ports)
               (service_health_check ports) ids (meta_annotation (sv_meta svc) ANNOTATION_LB_ID)))))"

definition service_reconcile :: "reconcile_ctx \<Rightarrow> service \<Rightarrow> reconciled" where
  "service_reconcile ctx svc =
     (case sv_spec svc of
        None \<Rightarrow> Done (Inr AwaitChange)
      | Some spec \<Rightarrow>
          if ss_type spec \<noteq> Some ''LoadBalancer'' then Done (Inr AwaitChange)
          else
            (case m_namespace (sv_meta svc) of
               None \<Rightarrow> Done (Inr AwaitChange)
             | Some ns \<Rightarrow>
                 then_action
                   (reconcile_service (rc_bl ctx) svc ns (rc_name_any ctx (sv_meta svc)))
                   (Requeue 60)))"

interpretation service_cleanup: finalizer "has_finalizer SERVICE_FINALIZER"
    "finalizers_with SERVICE_FINALIZER" "finalizers_without SERVICE_FINALIZER" SERVICE_FINALIZER
  by (rule finalizer_ops)

section \<open>What must have happened before each call\<close>

definition service_finalizer_set :: "service \<Rightarrow> string \<Rightarrow> string \<Rightarrow> hist \<Rightarrow> bool" where
  "service_finalizer_set svc ns name h \<longleftrightarrow>
     has_finalizer SERVICE_FINALIZER (sv_meta svc)
     \<or> (\<exists>r s. (KPatch (Services ns) name controller_params
            (Merge (finalizers_patch (finalizers_with SERVICE_FINALIZER (sv_meta svc)))), r) \<in> set h
          \<and> as_service r = Inr s)"

definition lb_lookup ::
  "reconcile_ctx \<Rightarrow> i64 \<Rightarrow> load_balancer option \<Rightarrow> hist \<Rightarrow> bool" where
  "lb_lookup ctx lb found h \<longleftrightarrow>
     (\<exists>r. (Http (request (rc_bl ctx) GET (load_balancer_path lb)), r) \<in> set h
        \<and> read_reply ''getting load balancer'' (read_get_load_balancer lb) r = Inr found)"

definition lb_deleted :: "reconcile_ctx \<Rightarrow> i64 \<Rightarrow> hist \<Rightarrow> bool" where
  "lb_deleted ctx lb h \<longleftrightarrow>
     (\<exists>r. (Http (delete_load_balancer_call (rc_bl ctx) lb), r) \<in> set h
        \<and> read_reply ''deleting load balancer'' (read_delete_load_balancer lb) r = Inr ())"

definition ready_nodes_listed :: "i64 list \<Rightarrow> hist \<Rightarrow> bool" where
  "ready_nodes_listed ids h \<longleftrightarrow>
     (\<exists>r nodes. (KList Nodes None, r) \<in> set h \<and> as_nodes r = Inr nodes \<and> ids = ready_server_ids nodes)"

definition annotated_lb :: "service \<Rightarrow> i64 option" where
  "annotated_lb svc =
     Option.bind (meta_annotation (sv_meta svc) ANNOTATION_LB_ID)
       (\<lambda>t. case parse_i64 t of Inl _ \<Rightarrow> None | Inr lb \<Rightarrow> Some lb)"

lemma annotated_lb_iff:
  "annotated_lb svc = Some lb \<longleftrightarrow>
     (\<exists>t. meta_annotation (sv_meta svc) ANNOTATION_LB_ID = Some t \<and> parse_i64 t = Inr lb)"
proof (cases "meta_annotation (sv_meta svc) ANNOTATION_LB_ID")
  case (Some t)
  then show ?thesis by (cases "parse_i64 t") (simp_all add: annotated_lb_def)
qed (simp add: annotated_lb_def)

lemma service_history_append [simp]:
  "service_finalizer_set svc ns name (h @ h') \<longleftrightarrow>
     service_finalizer_set svc ns name h \<or> service_finalizer_set svc ns name h'"
  "lb_lookup ctx lb found (h @ h') \<longleftrightarrow> lb_lookup ctx lb found h \<or> lb_lookup ctx lb found h'"
  "ready_nodes_listed ids (h @ h') \<longleftrightarrow> ready_nodes_listed ids h \<or> ready_nodes_listed ids h'"
  by (auto simp: service_finalizer_set_def lb_lookup_def ready_nodes_listed_def)

lemma service_history_simps [simp]:
  "service_finalizer_set svc ns name [] \<longleftrightarrow> has_finalizer SERVICE_FINALIZER (sv_meta svc)"
  "service_finalizer_set svc ns name ((c, r) # h) \<longleftrightarrow>
     c = KPatch (Services ns) name controller_params
           (Merge (finalizers_patch (finalizers_with SERVICE_FINALIZER (sv_meta svc))))
       \<and> (\<exists>s. as_service r = Inr s)
     \<or> service_finalizer_set svc ns name h"
  "\<not> lb_lookup ctx lb found []"
  "lb_lookup ctx lb found ((c, r) # h) \<longleftrightarrow>
     c = Http (request (rc_bl ctx) GET (load_balancer_path lb))
       \<and> read_reply ''getting load balancer'' (read_get_load_balancer lb) r = Inr found
     \<or> lb_lookup ctx lb found h"
  "\<not> lb_deleted ctx lb []"
  "lb_deleted ctx lb ((c, r) # h) \<longleftrightarrow>
     c = Http (delete_load_balancer_call (rc_bl ctx) lb)
       \<and> read_reply ''deleting load balancer'' (read_delete_load_balancer lb) r = Inr ()
     \<or> lb_deleted ctx lb h"
  "\<not> ready_nodes_listed ids []"
  "ready_nodes_listed ids ((c, r) # h) \<longleftrightarrow>
     c = KList Nodes None \<and> (\<exists>nodes. as_nodes r = Inr nodes \<and> ids = ready_server_ids nodes)
     \<or> ready_nodes_listed ids h"
  by (auto simp: service_finalizer_set_def lb_lookup_def lb_deleted_def ready_nodes_listed_def)

definition service_ports :: "service \<Rightarrow> service_port list" where
  "service_ports svc = unwrap_or (Option.bind (sv_spec svc) ss_ports) []"

definition create_request_of ::
  "service \<Rightarrow> string \<Rightarrow> string \<Rightarrow> i64 list \<Rightarrow> create_load_balancer_request" where
  "create_request_of svc ns name ids =
     \<lparr>cl_name = lb_name ns name,
      cl_region = unwrap_or (meta_annotation (sv_meta svc) ANNOTATION_LB_REGION) ''syd'',
      cl_forwarding_rules = map forwarding_rule_of (service_ports svc),
      cl_health_check = Some (service_health_check (service_ports svc)), cl_server_ids = ids\<rparr>"

definition update_request_of ::
  "service \<Rightarrow> string \<Rightarrow> string \<Rightarrow> i64 list \<Rightarrow> update_load_balancer_request" where
  "update_request_of svc ns name ids =
     \<lparr>ul_name = lb_name ns name, ul_forwarding_rules = map forwarding_rule_of (service_ports svc),
      ul_health_check = Some (service_health_check (service_ports svc)), ul_server_ids = ids\<rparr>"

definition lb_create_guard :: "reconcile_ctx \<Rightarrow> service \<Rightarrow> string \<Rightarrow> string \<Rightarrow> hist \<Rightarrow> http_request \<Rightarrow> bool" where
  "lb_create_guard ctx svc ns name h rq \<longleftrightarrow>
     m_deletion_timestamp (sv_meta svc) = None
     \<and> (\<exists>ids. rq = create_load_balancer_call (rc_bl ctx) (create_request_of svc ns name ids)
          \<and> ready_nodes_listed ids h)
     \<and> service_finalizer_set svc ns name h
     \<and> (meta_annotation (sv_meta svc) ANNOTATION_LB_ID = None
        \<or> (\<exists>lb. annotated_lb svc = Some lb \<and> lb_lookup ctx lb None h))"

definition lb_update_guard :: "reconcile_ctx \<Rightarrow> service \<Rightarrow> string \<Rightarrow> string \<Rightarrow> hist \<Rightarrow> http_request \<Rightarrow> bool" where
  "lb_update_guard ctx svc ns name h rq \<longleftrightarrow>
     m_deletion_timestamp (sv_meta svc) = None
     \<and> (\<exists>lb ids existing. annotated_lb svc = Some lb
          \<and> rq = update_load_balancer_call (rc_bl ctx) lb (update_request_of svc ns name ids)
          \<and> ready_nodes_listed ids h \<and> lb_lookup ctx lb (Some existing) h
          \<and> lb_needs_update existing (lb_name ns name)
              (map forwarding_rule_of (service_ports svc)) ids)"

definition lb_delete_guard :: "reconcile_ctx \<Rightarrow> service \<Rightarrow> http_request \<Rightarrow> bool" where
  "lb_delete_guard ctx svc rq \<longleftrightarrow>
     m_deletion_timestamp (sv_meta svc) \<noteq> None \<and> has_finalizer SERVICE_FINALIZER (sv_meta svc)
     \<and> (\<exists>lb. annotated_lb svc = Some lb \<and> rq = delete_load_balancer_call (rc_bl ctx) lb)"

definition service_guard :: "reconcile_ctx \<Rightarrow> service \<Rightarrow> string \<Rightarrow> string \<Rightarrow> hist \<Rightarrow> call \<Rightarrow> bool" where
  "service_guard ctx svc ns name h c =
     (case c of
        KPatch res n pp p \<Rightarrow>
          res = Services ns \<and> n = name
          \<and> (p = Merge (finalizers_patch (finalizers_with SERVICE_FINALIZER (sv_meta svc)))
               \<and> \<not> has_finalizer SERVICE_FINALIZER (sv_meta svc)
               \<and> m_deletion_timestamp (sv_meta svc) = None
             \<or> p = Merge (finalizers_patch (finalizers_without SERVICE_FINALIZER (sv_meta svc)))
               \<and> has_finalizer SERVICE_FINALIZER (sv_meta svc)
               \<and> m_deletion_timestamp (sv_meta svc) \<noteq> None
               \<and> (meta_annotation (sv_meta svc) ANNOTATION_LB_ID = None
                  \<or> (\<exists>lb. annotated_lb svc = Some lb \<and> lb_deleted ctx lb h))
             \<or> (\<exists>lb. p = Merge (lb_id_patch lb)))
      | KPatchStatus res n pp p \<Rightarrow> res = Services ns \<and> n = name
      | KList res sel \<Rightarrow> res = Nodes \<and> sel = None
      | Http rq \<Rightarrow>
          rq_method rq = GET \<or> lb_create_guard ctx svc ns name h rq
          \<or> lb_update_guard ctx svc ns name h rq \<or> lb_delete_guard ctx svc rq
      | _ \<Rightarrow> False)"

lemma update_service_status_guarded:
  assumes "\<And>x h'. no_panic x h' \<Longrightarrow> Q x h'"
  shows "safe (service_guard ctx svc ns name) Q h (update_service_status ns name lb)"
  by (auto simp: update_service_status_def client_defs effect_simps service_guard_def assms
      split: sum.split)

lemma create_load_balancer_guarded:
  assumes "m_deletion_timestamp (sv_meta svc) = None" and "ready_nodes_listed ids h"
    and "service_finalizer_set svc ns name h"
    and "meta_annotation (sv_meta svc) ANNOTATION_LB_ID = None
         \<or> (\<exists>lb. annotated_lb svc = Some lb \<and> lb_lookup ctx lb None h)"
    and "\<And>x h'. no_panic x h' \<Longrightarrow> Q x h'"
  shows "safe (service_guard ctx svc ns name) Q h
    (create_load_balancer (rc_bl ctx) ns name
      (unwrap_or (meta_annotation (sv_meta svc) ANNOTATION_LB_REGION) ''syd'')
      (map forwarding_rule_of (service_ports svc)) (service_health_check (service_ports svc)) ids)"
  unfolding create_load_balancer_def create_request_of_def [symmetric]
  using assms
  by (auto simp: client_calls client_defs effect_simps service_guard_def lb_create_guard_def
      intro!: update_service_status_guarded split: sum.split)

lemma handle_deletion_guarded:
  assumes "m_deletion_timestamp (sv_meta svc) \<noteq> None" and "\<And>x h'. no_panic x h' \<Longrightarrow> Q x h'"
  shows "safe (service_guard ctx svc ns name) Q [] (handle_deletion (rc_bl ctx) svc ns name)"
  unfolding handle_deletion_def
  using assms
  by (auto simp: client_calls client_defs effect_simps service_guard_def lb_delete_guard_def
      annotated_lb_def split: sum.split option.split)

lemma update_or_create_guarded:
  assumes "m_deletion_timestamp (sv_meta svc) = None" and "ready_nodes_listed ids h"
    and "service_finalizer_set svc ns name h"
    and "\<And>x h'. no_panic x h' \<Longrightarrow> Q x h'"
  shows "safe (service_guard ctx svc ns name) Q h
    (update_or_create (rc_bl ctx) ns name
      (unwrap_or (meta_annotation (sv_meta svc) ANNOTATION_LB_REGION) ''syd'')
      (map forwarding_rule_of (service_ports svc)) (service_health_check (service_ports svc)) ids
      (meta_annotation (sv_meta svc) ANNOTATION_LB_ID))"
proof (cases "annotated_lb svc")
  case None
  with assms show ?thesis
    by (auto simp: update_or_create_def annotated_lb_def bind_eq_None_conv
        intro!: create_load_balancer_guarded split: option.split sum.splits)
next
  case (Some lb)
  then obtain t where t: "meta_annotation (sv_meta svc) ANNOTATION_LB_ID = Some t" "parse_i64 t = Inr lb"
    by (auto simp: annotated_lb_iff)
  have update: "service_guard ctx svc ns name (h @ [(Http (request (rc_bl ctx) GET (load_balancer_path lb)), r)])
      (Http (update_load_balancer_call (rc_bl ctx) lb (update_request_of svc ns name ids)))"
    if "read_reply ''getting load balancer'' (read_get_load_balancer lb) r = Inr (Some existing)"
      and "lb_needs_update existing (lb_name ns name) (map forwarding_rule_of (service_ports svc)) ids"
    for r existing
    using that assms Some by (auto simp: service_guard_def lb_update_guard_def)
  have get: "service_guard ctx svc ns name h (Http (request (rc_bl ctx) GET p))" for p
    by (simp add: service_guard_def)
  show ?thesis
    unfolding update_or_create_def t update_request_of_def [symmetric]
    using assms Some t
    by (auto simp: client_calls effect_simps get update
        intro!: create_load_balancer_guarded update_service_status_guarded
        split: sum.split option.split)
qed

lemma service_guarded:
  assumes "m_namespace (sv_meta svc) = Some ns"
  shows "safe (service_guard ctx svc ns (rc_name_any ctx (sv_meta svc))) no_panic []
    (service_reconcile ctx svc)"
proof (cases "sv_spec svc")
  case (Some spec)
  then have ports: "unwrap_or (ss_ports spec) [] = service_ports svc"
    by (simp add: service_ports_def)
  let ?name = "rc_name_any ctx (sv_meta svc)"
  have "safe (service_guard ctx svc ns ?name) Q [] (reconcile_service (rc_bl ctx) svc ns ?name)"
    if "\<And>x h'. no_panic x h' \<Longrightarrow> Q x h'" for Q
    using that
    by (auto simp: reconcile_service_def get_ready_node_server_ids_def client_defs effect_simps
        do_when_def Let_def Some ports service_guard_def [of _ _ _ _ _ "KPatch a b c d" for a b c d]
        service_guard_def [of _ _ _ _ _ "KList a b" for a b]
        intro!: handle_deletion_guarded update_or_create_guarded split: sum.split)
  then show ?thesis
    by (auto simp: service_reconcile_def Some assms effect_simps then_post_def
        split: outcome.split sum.split)
qed (simp add: service_reconcile_def)

text \<open>The whole handler never panics: the \<open>unwrap\<close> on the spec is behind the test in the caller.\<close>

lemma panic_free_service: "panic_free (service_reconcile ctx svc)"
  unfolding service_reconcile_def reconcile_service_def handle_deletion_def update_or_create_def
    create_load_balancer_def update_service_status_def get_ready_node_server_ids_def then_action_def
    do_when_def
  by (auto simp: client_calls client_defs Let_def intro!: panic_free_intros
      split: option.split sum.split)

section \<open>When a load balancer is in step\<close>

lemma sort_ids_eq_iff: "sort_ids xs = sort_ids ys \<longleftrightarrow> mset xs = mset ys"
proof
  assume "sort_ids xs = sort_ids ys"
  then show "mset xs = mset ys" unfolding sort_ids_def by (metis mset_sort)
next
  assume eq: "mset xs = mset ys"
  have "inj_on sint (set xs)" by (simp add: inj_on_def signed_word_eqI)
  then show "sort_ids xs = sort_ids ys"
    unfolding sort_ids_def by (intro sort_key_inj_key_eq) (simp_all add: eq)
qed

lemma sort_rules_eq_iff:
  assumes "distinct (map fr_entry_port rs)"
  shows "sort_rules qs = sort_rules rs \<longleftrightarrow> mset qs = mset rs"
proof
  assume "sort_rules qs = sort_rules rs"
  then show "mset qs = mset rs" unfolding sort_rules_def by (metis mset_sort)
next
  assume eq: "mset qs = mset rs"
  then have "set qs = set rs" by (metis set_mset_mset)
  then have "inj_on (\<lambda>r. sint (fr_entry_port r)) (set qs)"
    using assms by (auto simp: distinct_map inj_on_def signed_word_eqI)
  then show "sort_rules qs = sort_rules rs"
    unfolding sort_rules_def by (intro sort_key_inj_key_eq) (simp_all add: eq)
qed

section \<open>Properties\<close>

lemma lb_call_methods [simp]:
  "rq_method (create_load_balancer_call cl rq) = POST"
  "rq_method (update_load_balancer_call cl lb rq') = PUT"
  "rq_method (delete_load_balancer_call cl lb) = DELETE"
  by (simp_all add: create_load_balancer_call_def update_load_balancer_call_def
      delete_load_balancer_call_def)

definition lb_service :: "str_map option \<Rightarrow> string option \<Rightarrow> service" where
  "lb_service anns deleted =
     \<lparr>sv_meta = empty_meta\<lparr>m_name := Some ''s'', m_namespace := Some ''d'', m_annotations := anns,
        m_finalizers := Some [SERVICE_FINALIZER], m_deletion_timestamp := deleted\<rparr>,
      sv_spec = Some \<lparr>ss_type = Some ''LoadBalancer'', ss_ports = None\<rparr>\<rparr>"

definition annotated :: "str_map option" where
  "annotated = Some [(ANNOTATION_LB_ID, show_i64 5)]"

lemmas service_run_simps =
  service_reconcile_def reconcile_service_def handle_deletion_def update_or_create_def
  create_load_balancer_def get_ready_node_server_ids_def lb_service_def annotated_def
  empty_meta_def has_finalizer_def meta_annotation_def client_calls client_defs kube_context_def
  with_context_def map_err_ask then_action_def sample_response_def read_reply_def is_success_def
  decode_def Let_def

text \<open>
  C3: the finalizer of a Service is released only while the Service is being deleted, and after
  BinaryLane has acknowledged the deletion of the load balancer in its annotation, if it has one;
  the other finalizers are kept.
\<close>

theorem service_released_after_lb_deleted:
  assumes "m_namespace (sv_meta svc) = Some ns"
    and "after (service_reconcile ctx svc)
      (h @ (KPatch res n pp (Merge (finalizers_patch fs)), r) # u) = Some q"
    and "SERVICE_FINALIZER \<notin> set fs"
  shows "res = Services ns \<and> n = rc_name_any ctx (sv_meta svc)
    \<and> fs = filter (\<lambda>f. f \<noteq> SERVICE_FINALIZER) (unwrap_or (m_finalizers (sv_meta svc)) [])
    \<and> m_deletion_timestamp (sv_meta svc) \<noteq> None
    \<and> (meta_annotation (sv_meta svc) ANNOTATION_LB_ID = None
       \<or> (\<exists>lb. annotated_lb svc = Some lb \<and> lb_deleted ctx lb h))"
proof -
  have "\<And>lb. finalizers_patch fs \<noteq> lb_id_patch lb" by (simp add: finalizers_patch_def lb_id_patch_def)
  then show ?thesis
    using safe_guard [OF service_guarded [OF assms(1)] assms(2)] assms(3)
      service_cleanup.others_removing [of "sv_meta svc"]
    by (auto simp: service_guard_def)
qed

theorem service_released_after_lb_deleted_witness:
  "lb_deleted sample_ctx 5
     [(Http (delete_load_balancer_call (rc_bl sample_ctx) 5), sample_response 204 (PUndecodable []))]"
proof -
  let ?svc = "lb_service annotated (Some ''now'')"
  have "\<exists>q. after (service_reconcile sample_ctx ?svc)
      ([(Http (delete_load_balancer_call (rc_bl sample_ctx) 5), sample_response 204 (PUndecodable []))]
       @ (KPatch (Services ''d'') ''s'' controller_params (Merge (finalizers_patch [])), RService ?svc) # [])
      = Some q"
    by (simp add: service_run_simps read_delete_load_balancer_def finalizers_without_def)
  moreover have "m_namespace (sv_meta ?svc) = Some ''d''" by (simp add: lb_service_def)
  ultimately have "meta_annotation (sv_meta ?svc) ANNOTATION_LB_ID = None
      \<or> (\<exists>lb. annotated_lb ?svc = Some lb \<and> lb_deleted sample_ctx lb
        [(Http (delete_load_balancer_call (rc_bl sample_ctx) 5), sample_response 204 (PUndecodable []))])"
    using service_released_after_lb_deleted by fastforce
  then show ?thesis by (auto simp: annotated_lb_iff lb_service_def annotated_def meta_annotation_def)
qed

text \<open>
  C23: a load balancer is created only for a live Service whose finalizer is in place, either
  because it has no load balancer annotation or because BinaryLane has just answered that the
  annotated one does not exist; it is created with the rules of the ports of the Service and the
  servers of the Nodes just listed as ready.
\<close>

theorem lb_created_when_missing:
  assumes "m_namespace (sv_meta svc) = Some ns"
    and "after (service_reconcile ctx svc) (h @ (Http rq, r) # u) = Some q" and "rq_method rq = POST"
  shows "m_deletion_timestamp (sv_meta svc) = None
    \<and> (\<exists>ids. rq = create_load_balancer_call (rc_bl ctx)
               (create_request_of svc ns (rc_name_any ctx (sv_meta svc)) ids)
         \<and> ready_nodes_listed ids h)
    \<and> service_finalizer_set svc ns (rc_name_any ctx (sv_meta svc)) h
    \<and> (meta_annotation (sv_meta svc) ANNOTATION_LB_ID = None
       \<or> (\<exists>lb. annotated_lb svc = Some lb \<and> lb_lookup ctx lb None h))"
  using safe_guard [OF service_guarded [OF assms(1)] assms(2)] assms(3)
  by (auto simp: service_guard_def lb_create_guard_def lb_update_guard_def lb_delete_guard_def)

theorem lb_created_when_missing_witness:
  "ready_nodes_listed [] [(KList Nodes None, RNodes [])]"
proof -
  let ?svc = "lb_service None None"
  let ?rq = "create_load_balancer_call (rc_bl sample_ctx) (create_request_of ?svc ''d'' ''s'' [])"
  have "\<exists>q. after (service_reconcile sample_ctx ?svc)
      ([(KList Nodes None, RNodes [])] @ (Http ?rq, RUnit) # []) = Some q"
    by (simp add: service_run_simps create_request_of_def service_ports_def)
  moreover have "m_namespace (sv_meta ?svc) = Some ''d''" by (simp add: lb_service_def)
  ultimately obtain ids where "ready_nodes_listed ids [(KList Nodes None, RNodes [])]"
    using lb_created_when_missing [of ?svc "''d''" sample_ctx _ ?rq] by fastforce
  then show ?thesis by simp
qed

text \<open>
  A load balancer is updated only when it is the annotated one, BinaryLane has just returned
  it, and it differs in name, rules or servers from what the Service and the Nodes just listed
  ask for.
\<close>

theorem lb_updated_when_out_of_step:
  assumes "m_namespace (sv_meta svc) = Some ns"
    and "after (service_reconcile ctx svc) (h @ (Http rq, r) # u) = Some q" and "rq_method rq = PUT"
  shows "\<exists>lb ids existing. annotated_lb svc = Some lb
    \<and> rq = update_load_balancer_call (rc_bl ctx) lb
             (update_request_of svc ns (rc_name_any ctx (sv_meta svc)) ids)
    \<and> ready_nodes_listed ids h \<and> lb_lookup ctx lb (Some existing) h
    \<and> lb_needs_update existing (lb_name ns (rc_name_any ctx (sv_meta svc)))
        (map forwarding_rule_of (service_ports svc)) ids"
  using safe_guard [OF service_guarded [OF assms(1)] assms(2)] assms(3)
  by (auto simp: service_guard_def lb_create_guard_def lb_update_guard_def lb_delete_guard_def)

definition idle_lb :: load_balancer where
  "idle_lb = \<lparr>lb_id = 5, lb_name_of = ''old'', lb_ip = [], lb_status = [], lb_forwarding_rules = [],
     lb_server_ids = [], lb_region = \<lparr>rg_slug = ''syd''\<rparr>\<rparr>"

definition update_run :: hist where
  "update_run =
     [(KList Nodes None, RNodes []),
      (Http (request (rc_bl sample_ctx) GET (load_balancer_path 5)), sample_response 200 (PLoadBalancer idle_lb))]"

theorem lb_updated_when_out_of_step_witness:
  "\<exists>lb existing. lb_lookup sample_ctx lb (Some existing) update_run"
proof -
  let ?svc = "lb_service annotated None"
  let ?rq = "update_load_balancer_call (rc_bl sample_ctx) 5 (update_request_of ?svc ''d'' ''s'' [])"
  have "\<exists>q. after (service_reconcile sample_ctx ?svc) (update_run @ (Http ?rq, RUnit) # []) = Some q"
    by (simp add: service_run_simps update_run_def update_request_of_def service_ports_def idle_lb_def
        read_get_load_balancer_def lb_needs_update_def lb_name_def)
  moreover have "m_namespace (sv_meta ?svc) = Some ''d''" by (simp add: lb_service_def)
  ultimately show ?thesis
    using lb_updated_when_out_of_step [of ?svc "''d''" sample_ctx _ ?rq] by fastforce
qed

text \<open>
  C24: with distinct entry ports, a load balancer is left alone exactly when it has the name, the
  rules and the servers asked for, in whatever order BinaryLane returns them.
\<close>

theorem lb_in_step_iff:
  assumes "distinct (map fr_entry_port rules)"
  shows "\<not> lb_needs_update existing nm rules ids \<longleftrightarrow>
    lb_name_of existing = nm \<and> mset (lb_forwarding_rules existing) = mset rules
    \<and> mset (lb_server_ids existing) = mset ids"
  using assms by (auto simp: lb_needs_update_def sort_rules_eq_iff sort_ids_eq_iff)

text \<open>A load balancer whose rules and servers are listed in another order.\<close>

definition tcp_rule :: "i32 \<Rightarrow> forwarding_rule" where
  "tcp_rule p = \<lparr>fr_entry_protocol = ''tcp'', fr_entry_port = p, fr_target_protocol = ''tcp'', fr_target_port = p\<rparr>"

definition busy_lb :: load_balancer where
  "busy_lb = idle_lb\<lparr>lb_forwarding_rules := [tcp_rule 443, tcp_rule 80], lb_server_ids := [9, 7]\<rparr>"

theorem lb_in_step_iff_witness:
  "\<not> lb_needs_update busy_lb ''old'' [tcp_rule 80, tcp_rule 443] [7, 9]
   \<and> lb_needs_update busy_lb ''old'' [tcp_rule 80, tcp_rule 444] [7, 9]"
proof -
  have "distinct (map fr_entry_port [tcp_rule 80, tcp_rule 443])"
    "distinct (map fr_entry_port [tcp_rule 80, tcp_rule 444])" by (simp_all add: tcp_rule_def)
  then show ?thesis
    using lb_in_step_iff [of "[tcp_rule 80, tcp_rule 443]" busy_lb "''old''" "[7, 9]"]
      lb_in_step_iff [of "[tcp_rule 80, tcp_rule 444]" busy_lb "''old''" "[7, 9]"]
    by (simp add: busy_lb_def idle_lb_def add_mset_commute) (simp add: tcp_rule_def add_eq_conv_ex)
qed

text \<open>
  C25: once a load balancer is gone at BinaryLane, its Service cannot be deleted: the client
  reports the 404 of the deletion as an error, so the pass fails before the finalizer is
  released, and every later pass does the same.
\<close>

theorem missing_lb_blocks_deletion:
  assumes "m_namespace (sv_meta svc) = Some ns" and "sv_spec svc = Some spec"
    and "ss_type spec = Some ''LoadBalancer''" and "m_deletion_timestamp (sv_meta svc) \<noteq> None"
    and "has_finalizer SERVICE_FINALIZER (sv_meta svc)" and "annotated_lb svc = Some lb"
    and "rs_code rs = 404"
  shows "after (service_reconcile ctx svc)
      [(Http (delete_load_balancer_call (rc_bl ctx) lb), RResponse rs)]
    = Some (Done (Inl (OtherError (EContext ''deleting load balancer''
        (bail_status (''deleting load balancer '' @ show_i64 lb) rs)))))"
  using assms
  by (auto simp: service_reconcile_def reconcile_service_def handle_deletion_def annotated_lb_iff
      then_action_def client_calls with_context_def http_call_ask map_err_ask read_reply_def
      read_delete_load_balancer_def is_success_def)

theorem missing_lb_blocks_deletion_witness:
  "\<exists>e. after (service_reconcile sample_ctx (lb_service annotated (Some ''now'')))
      [(Http (delete_load_balancer_call (rc_bl sample_ctx) 5),
        RResponse \<lparr>rs_code = 404, rs_status = [], rs_text = None, rs_json = PUndecodable []\<rparr>)]
    = Some (Done (Inl e))"
  by (intro exI, rule missing_lb_blocks_deletion
        [where spec = "\<lparr>ss_type = Some ''LoadBalancer'', ss_ports = None\<rparr>" and ns = "''d''"])
     (simp_all add: lb_service_def annotated_def has_finalizer_def annotated_lb_iff meta_annotation_def)

text \<open>
  A Service that is no longer of type LoadBalancer is left alone even when it is being
  deleted and still has the finalizer and a load balancer: neither is ever released.
\<close>

theorem retyped_service_is_stuck:
  assumes "sv_spec svc = Some spec" and "ss_type spec \<noteq> Some ''LoadBalancer''"
    and "m_deletion_timestamp (sv_meta svc) \<noteq> None"
    and "has_finalizer SERVICE_FINALIZER (sv_meta svc)" and "annotated_lb svc = Some lb"
  shows "service_reconcile ctx svc = Done (Inr AwaitChange)"
  using assms(1,2) by (simp add: service_reconcile_def)

theorem retyped_service_is_stuck_witness:
  "service_reconcile sample_ctx
     ((lb_service annotated (Some ''now''))\<lparr>sv_spec := Some \<lparr>ss_type = None, ss_ports = None\<rparr>\<rparr>)
   = Done (Inr AwaitChange)"
  by (rule retyped_service_is_stuck [where spec = "\<lparr>ss_type = None, ss_ports = None\<rparr>" and lb = 5])
     (simp_all add: lb_service_def annotated_def has_finalizer_def annotated_lb_iff meta_annotation_def)

end
