(* ===== verification/User_Data.thy ===== *)
theory User_Data
  imports Controllers
begin

text \<open>
  The cloud-init templates of an AutoScalingGroup (\<open>src/user_data.rs\<close>): validation of the template
  variables, their resolution from literals, Secrets and ConfigMaps, and rendering.  The template
  engine is the crate \<open>minijinja\<close>: a parameter, a function of the template and its context.
\<close>

section \<open>Errors and the status of a call\<close>

datatype status_code =
    InvalidArgument | NotFound | FailedPrecondition | Internal | Unimplemented

record status =
  st_code :: status_code
  st_message :: string

abbreviation status_of :: "status_code \<Rightarrow> string \<Rightarrow> status" where
  "status_of c m \<equiv> \<lparr>st_code = c, st_message = m\<rparr>"

datatype render_error =
    ReservedName string
  | MissingSource string
  | AmbiguousSource string
  | AmbiguousValueFrom string
  | EmptyValueFrom string
  | SecretNotFound string string
  | SecretMissingKey string string string
  | SecretNotUtf8 string string string
  | ConfigMapNotFound string string
  | ConfigMapMissingKey string string string
  | KubeFailure kube_error
  | Template string

fun render_message :: "render_error \<Rightarrow> string" where
  "render_message (ReservedName v) =
     ''template variable '' @ quoted v @ '' collides with built-in scope (node/asg)''"
| "render_message (MissingSource v) =
     ''template variable '' @ quoted v @ '' has neither value nor valueFrom''"
| "render_message (AmbiguousSource v) =
     ''template variable '' @ quoted v @ '' sets both value and valueFrom''"
| "render_message (AmbiguousValueFrom v) =
     ''template variable '' @ quoted v @ '' valueFrom sets both secretKeyRef and configMapKeyRef''"
| "render_message (EmptyValueFrom v) =
     ''template variable '' @ quoted v @ '' valueFrom sets neither secretKeyRef nor configMapKeyRef''"
| "render_message (SecretNotFound ns n) = ''secret '' @ ns @ ''/'' @ n @ '' not found''"
| "render_message (SecretMissingKey ns n k) =
     ''secret '' @ ns @ ''/'' @ n @ '' missing key '' @ quoted k"
| "render_message (SecretNotUtf8 ns n k) =
     ''secret '' @ ns @ ''/'' @ n @ '' key '' @ quoted k @ '' is not valid UTF-8''"
| "render_message (ConfigMapNotFound ns n) = ''configmap '' @ ns @ ''/'' @ n @ '' not found''"
| "render_message (ConfigMapMissingKey ns n k) =
     ''configmap '' @ ns @ ''/'' @ n @ '' missing key '' @ quoted k"
| "render_message (KubeFailure e) = ''kube API error: '' @ show_kube e"
| "render_message (Template t) = ''template error: '' @ t"

fun render_status :: "render_error \<Rightarrow> status" where
  "render_status (ReservedName v) = status_of InvalidArgument (render_message (ReservedName v))"
| "render_status (AmbiguousSource v) = status_of InvalidArgument (render_message (AmbiguousSource v))"
| "render_status (MissingSource v) = status_of InvalidArgument (render_message (MissingSource v))"
| "render_status (AmbiguousValueFrom v) =
     status_of InvalidArgument (render_message (AmbiguousValueFrom v))"
| "render_status (EmptyValueFrom v) = status_of InvalidArgument (render_message (EmptyValueFrom v))"
| "render_status (SecretNotFound ns n) = status_of NotFound (render_message (SecretNotFound ns n))"
| "render_status (ConfigMapNotFound ns n) =
     status_of NotFound (render_message (ConfigMapNotFound ns n))"
| "render_status (SecretMissingKey ns n k) =
     status_of FailedPrecondition (render_message (SecretMissingKey ns n k))"
| "render_status (ConfigMapMissingKey ns n k) =
     status_of FailedPrecondition (render_message (ConfigMapMissingKey ns n k))"
| "render_status (SecretNotUtf8 ns n k) =
     status_of FailedPrecondition (render_message (SecretNotUtf8 ns n k))"
| "render_status (Template t) = status_of FailedPrecondition (render_message (Template t))"
| "render_status (KubeFailure e) = status_of Internal (render_message (KubeFailure e))"

section \<open>Variables\<close>

record node_vars =
  nv_name :: string
  nv_hostname :: string
  nv_index :: i32
  nv_password :: string

record asg_vars =
  av_name :: string
  av_size :: string
  av_region :: string
  av_image :: string
  av_name_prefix :: string
  av_vcpus :: "i32 option"
  av_memory_mb :: "i32 option"
  av_disk_gb :: "i32 option"

record builtin_vars =
  bv_node :: node_vars
  bv_asg :: asg_vars

fun validate_source :: "string \<Rightarrow> template_variable_source \<Rightarrow> render_error + unit" where
  "validate_source n src =
     (case (tvs_secret_key_ref src, tvs_config_map_key_ref src) of
        (Some _, Some _) \<Rightarrow> Inl (AmbiguousValueFrom n)
      | (None, None) \<Rightarrow> Inl (EmptyValueFrom n)
      | _ \<Rightarrow> Inr ())"

fun validate_variable :: "template_variable \<Rightarrow> render_error + unit" where
  "validate_variable v =
     (if tv_name v = ''node'' \<or> tv_name v = ''asg'' then Inl (ReservedName (tv_name v))
      else
        (case (tv_value v, tv_value_from v) of
           (Some _, Some _) \<Rightarrow> Inl (AmbiguousSource (tv_name v))
         | (None, None) \<Rightarrow> Inl (MissingSource (tv_name v))
         | (None, Some src) \<Rightarrow> validate_source (tv_name v) src
         | (Some _, None) \<Rightarrow> Inr ()))"

fun validate_variables :: "template_variable list \<Rightarrow> render_error + unit" where
  "validate_variables [] = Inr ()"
| "validate_variables (v # vs) =
     (case validate_variable v of Inl e \<Rightarrow> Inl e | Inr _ \<Rightarrow> validate_variables vs)"

section \<open>Resolution\<close>

type_synonym 'a rendering = "(call, reply, render_error + 'a) prog"

definition read_secret_key :: "string \<Rightarrow> key_selector \<Rightarrow> secret option \<Rightarrow> render_error + string" where
  "read_secret_key ns sel s =
     (case s of
        None \<Rightarrow> Inl (SecretNotFound ns (ks_name sel))
      | Some s \<Rightarrow>
          (case Option.bind (s_data s) (\<lambda>d. map_of d (ks_key sel)) of
             None \<Rightarrow> Inl (SecretMissingKey ns (ks_name sel) (ks_key sel))
           | Some bytes \<Rightarrow>
               (case from_utf8 bytes of
                  None \<Rightarrow> Inl (SecretNotUtf8 ns (ks_name sel) (ks_key sel))
                | Some t \<Rightarrow> Inr t)))"

definition read_config_map_key ::
  "string \<Rightarrow> key_selector \<Rightarrow> config_map option \<Rightarrow> render_error + string" where
  "read_config_map_key ns sel cm =
     (case cm of
        None \<Rightarrow> Inl (ConfigMapNotFound ns (ks_name sel))
      | Some cm \<Rightarrow>
          (case Option.bind (cm_data cm) (\<lambda>d. map_of d (ks_key sel)) of
             None \<Rightarrow> Inl (ConfigMapMissingKey ns (ks_name sel) (ks_key sel))
           | Some t \<Rightarrow> Inr t))"

definition resolve_source :: "string \<Rightarrow> template_variable_source \<Rightarrow> string rendering" where
  "resolve_source default_ns src =
     (case tvs_secret_key_ref src of
        Some sel \<Rightarrow>
          (let ns = unwrap_or (ks_namespace sel) default_ns in
           attempt (map_err KubeFailure (api_get_secret_opt ns (ks_name sel)))
             (\<lambda>s. Done (read_secret_key ns sel s)))
      | None \<Rightarrow>
          (case tvs_config_map_key_ref src of
             None \<Rightarrow> Panic ''validate_variables guarantees configMapKeyRef is set when secretKeyRef is absent''
           | Some sel \<Rightarrow>
               (let ns = unwrap_or (ks_namespace sel) default_ns in
                attempt (map_err KubeFailure (api_get_config_map_opt ns (ks_name sel)))
                  (\<lambda>cm. Done (read_config_map_key ns sel cm)))))"

definition resolve_variable :: "string \<Rightarrow> template_variable \<Rightarrow> string rendering" where
  "resolve_variable default_ns v =
     (case tv_value v of
        Some lit \<Rightarrow> Done (Inr lit)
      | None \<Rightarrow>
          (case tv_value_from v of
             None \<Rightarrow> Panic ''called `Option::unwrap()` on a `None` value''
           | Some src \<Rightarrow> resolve_source default_ns src))"

fun resolve_loop :: "string \<Rightarrow> template_variable list \<Rightarrow> str_map \<Rightarrow> str_map rendering" where
  "resolve_loop default_ns [] out = Done (Inr out)"
| "resolve_loop default_ns (v # vs) out =
     attempt (resolve_variable default_ns v) (\<lambda>value.
       resolve_loop default_ns vs (bt_insert (tv_name v) value out))"

definition resolve_variables :: "string \<Rightarrow> template_variable list \<Rightarrow> str_map rendering" where
  "resolve_variables default_ns vars =
     (case validate_variables vars of
        Inl e \<Rightarrow> Done (Inl e)
      | Inr _ \<Rightarrow> resolve_loop default_ns vars [])"

section \<open>Rendering\<close>

datatype template_value = VNode node_vars | VAsg asg_vars | VStr string

type_synonym template_context = "(string \<times> template_value) list"
type_synonym template_engine = "string \<Rightarrow> template_context \<Rightarrow> string + string"

fun add_user_vars :: "str_map \<Rightarrow> template_context \<Rightarrow> render_error + template_context" where
  "add_user_vars [] ctx = Inr ctx"
| "add_user_vars ((k, v) # vs) ctx =
     (if k = ''node'' \<or> k = ''asg'' then Inl (ReservedName k)
      else add_user_vars vs (bt_insert k (VStr v) ctx))"

definition builtin_context :: "builtin_vars \<Rightarrow> template_context" where
  "builtin_context b =
     bt_insert ''asg'' (VAsg (bv_asg b)) (bt_insert ''node'' (VNode (bv_node b)) [])"

definition render ::
  "template_engine \<Rightarrow> string \<Rightarrow> builtin_vars \<Rightarrow> str_map \<Rightarrow> render_error + string" where
  "render engine template b user_vars =
     (case add_user_vars user_vars (builtin_context b) of
        Inl e \<Rightarrow> Inl e
      | Inr ctx \<Rightarrow> map_sum Template id (engine template ctx))"

section \<open>Facts about variables\<close>

definition well_formed_variable :: "template_variable \<Rightarrow> bool" where
  "well_formed_variable v \<longleftrightarrow>
     tv_name v \<noteq> ''node'' \<and> tv_name v \<noteq> ''asg''
     \<and> (tv_value v \<noteq> None \<and> tv_value_from v = None
        \<or> tv_value v = None
          \<and> is_some_and (\<lambda>src. (tvs_secret_key_ref src = None) \<noteq> (tvs_config_map_key_ref src = None))
              (tv_value_from v))"

lemma validate_variable_iff: "validate_variable v = Inr () \<longleftrightarrow> well_formed_variable v"
  by (auto simp: well_formed_variable_def split: option.split)

lemma validate_variables_iff:
  "validate_variables vars = Inr () \<longleftrightarrow> (\<forall>v \<in> set vars. well_formed_variable v)"
  by (induction vars) (auto simp: validate_variable_iff [symmetric] simp del: validate_variable.simps
      split: sum.splits)

lemma validate_variables_cases:
  obtains e where "validate_variables vars = Inl e" | "\<forall>v \<in> set vars. well_formed_variable v"
  using validate_variables_iff [of vars] by (cases "validate_variables vars") auto

lemma resolve_variable_panic_free: "well_formed_variable v \<Longrightarrow> panic_free (resolve_variable ns v)"
  by (auto simp: resolve_variable_def resolve_source_def well_formed_variable_def client_defs Let_def
      is_some_and_iff intro!: panic_free_intros split: option.split)

lemma resolve_loop_panic_free:
  "\<forall>v \<in> set vars. well_formed_variable v \<Longrightarrow> panic_free (resolve_loop ns vars out)"
  by (induction vars arbitrary: out) (auto intro!: panic_free_attempt resolve_variable_panic_free)

text \<open>The keys of a resolved map are the names of the variables.\<close>

lemma resolve_loop_keys:
  "after (resolve_loop ns vars out) h = Some (Done (Inr m)) \<Longrightarrow>
     fst ` set m = fst ` set out \<union> tv_name ` set vars \<and> (bt_wf out \<longrightarrow> bt_wf m)"
proof (induction vars arbitrary: out h)
  case Nil
  then show ?case by (cases h) auto
next
  case (Cons v vs)
  from Cons.prems obtain x h1 h2 where
    "after (resolve_loop ns vs (bt_insert (tv_name v) x out)) h2 = Some (Done (Inr m))"
    by (auto elim: after_attempt_DoneE)
  from Cons.IH [OF this] show ?case by auto
qed

section \<open>Resolution in a cluster that does not change\<close>

text \<open>
  A cluster is given by what a lookup of a Secret and of a ConfigMap returns; the values of the
  variables are then functions of the cluster, and the program computes them.
\<close>

record cluster =
  cl_secret :: "string \<Rightarrow> string \<Rightarrow> secret option"
  cl_config_map :: "string \<Rightarrow> string \<Rightarrow> config_map option"

fun cluster_env :: "cluster \<Rightarrow> 'w \<Rightarrow> call \<Rightarrow> reply \<times> 'w" where
  "cluster_env K w (KGetOpt (Secrets ns) n) = (RSecretOpt (cl_secret K ns n), w)"
| "cluster_env K w (KGetOpt (ConfigMaps ns) n) = (RConfigMapOpt (cl_config_map K ns n), w)"
| "cluster_env K w c = (RUnit, w)"

definition variable_value :: "cluster \<Rightarrow> string \<Rightarrow> template_variable \<Rightarrow> render_error + string" where
  "variable_value K default_ns v =
     (case tv_value v of
        Some lit \<Rightarrow> Inr lit
      | None \<Rightarrow>
          (let src = the (tv_value_from v) in
           case tvs_secret_key_ref src of
             Some sel \<Rightarrow>
               (let ns = unwrap_or (ks_namespace sel) default_ns in
                read_secret_key ns sel (cl_secret K ns (ks_name sel)))
           | None \<Rightarrow>
               (let sel = the (tvs_config_map_key_ref src);
                    ns = unwrap_or (ks_namespace sel) default_ns in
                read_config_map_key ns sel (cl_config_map K ns (ks_name sel)))))"

text \<open>All values, or the first error.\<close>

fun all_values :: "('e + 'a) list \<Rightarrow> 'e + 'a list" where
  "all_values [] = Inr []"
| "all_values (Inl e # xs) = Inl e"
| "all_values (Inr x # xs) = map_sum id ((#) x) (all_values xs)"

definition insert_all :: "(string \<times> string) list \<Rightarrow> str_map \<Rightarrow> str_map" where
  "insert_all kvs m = fold (\<lambda>(k, v). bt_insert k v) kvs m"

lemma map_of_insert_all: "map_of (insert_all kvs m) = map_of m ++ map_of (rev kvs)"
  by (simp add: insert_all_def map_of_fold_insert)

lemma resolve_variable_run:
  assumes "well_formed_variable v"
  shows "\<exists>h. run (attempt (resolve_variable ns v) f) (cluster_env K) w =
    (case variable_value K ns v of
       Inl e \<Rightarrow> (Returned (Inl e), h, w)
     | Inr x \<Rightarrow> (case run (f x) (cluster_env K) w of (out, h', w') \<Rightarrow> (out, h @ h', w')))"
  using assms
  by (auto simp: well_formed_variable_def resolve_variable_def resolve_source_def variable_value_def
      client_defs map_err_ask Let_def is_some_and_iff split: option.split sum.split prod.split)

lemma resolve_loop_run:
  "\<forall>v \<in> set vars. well_formed_variable v \<Longrightarrow>
     \<exists>h. run (resolve_loop ns vars out) (cluster_env K) w =
       (Returned (map_sum id (\<lambda>xs. insert_all (zip (map tv_name vars) xs) out)
          (all_values (map (variable_value K ns) vars))), h, w)"
proof (induction vars arbitrary: out)
  case (Cons v vs)
  then have wf: "well_formed_variable v" by simp
  obtain h where h: "run (resolve_loop ns (v # vs) out) (cluster_env K) w =
    (case variable_value K ns v of
       Inl e \<Rightarrow> (Returned (Inl e), h, w)
     | Inr x \<Rightarrow> (case run (resolve_loop ns vs (bt_insert (tv_name v) x out)) (cluster_env K) w of
                  (out, h', w') \<Rightarrow> (out, h @ h', w')))"
    using resolve_variable_run [OF wf] by fastforce
  show ?case
  proof (cases "variable_value K ns v")
    case (Inl e)
    with h show ?thesis by simp
  next
    case (Inr x)
    obtain h' where "run (resolve_loop ns vs (bt_insert (tv_name v) x out)) (cluster_env K) w =
       (Returned (map_sum id (\<lambda>xs. insert_all (zip (map tv_name vs) xs) (bt_insert (tv_name v) x out))
          (all_values (map (variable_value K ns) vs))), h', w)"
      using Cons.IH [OF ballI, of "bt_insert (tv_name v) x out"] Cons.prems
      by (metis list.set_intros(2))
    with h Inr show ?thesis
      by (cases "all_values (map (variable_value K ns) vs)") (simp_all add: insert_all_def)
  qed
qed (simp add: insert_all_def)

section \<open>The context of a template\<close>

lemma add_user_vars_ok:
  assumes "''node'' \<notin> fst ` set m" and "''asg'' \<notin> fst ` set m"
  shows "\<exists>ctx'. add_user_vars m ctx = Inr ctx'
    \<and> map_of ctx' = map_of ctx ++ map_of (rev (map (\<lambda>(k, v). (k, VStr v)) m))"
  using assms
proof (induction m arbitrary: ctx)
  case (Cons kv m)
  then show ?case
    by (cases kv) (fastforce simp: map_add_def fun_eq_iff split: option.split)
qed simp

lemma map_of_values: "map_of (map (\<lambda>(k, v). (k, f v)) m) = map_option f \<circ> map_of m"
  by (induction m) auto

section \<open>Properties\<close>

text \<open>
  The resolution of the template variables never panics, whatever the variables and whatever
  the API server answers: the \<open>unwrap\<close> and the \<open>expect\<close> in it are behind the validation.
\<close>

theorem resolve_never_panics: "panic_free (resolve_variables default_ns vars)"
proof (rule validate_variables_cases [of vars])
  assume wf: "\<forall>v \<in> set vars. well_formed_variable v"
  then have "validate_variables vars = Inr ()" by (simp add: validate_variables_iff)
  with wf show ?thesis by (simp add: resolve_variables_def resolve_loop_panic_free)
qed (simp add: resolve_variables_def)

text \<open>
  C28: in a cluster that does not change meanwhile, the resolution returns what the cluster says:
  the error of the validation, else the error of the first variable that has no value, else the
  map of all names to their values, the last variable of a name deciding.
\<close>

theorem resolution_is_lookup:
  "fst (run (resolve_variables default_ns vars) (cluster_env K) w) = Returned
     (case validate_variables vars of
        Inl e \<Rightarrow> Inl e
      | Inr _ \<Rightarrow> map_sum id (\<lambda>values. insert_all (zip (map tv_name vars) values) [])
                  (all_values (map (variable_value K default_ns) vars)))
   \<and> map_of (insert_all kvs []) = map_of (rev kvs)"
proof (rule validate_variables_cases [of vars])
  assume wf: "\<forall>v \<in> set vars. well_formed_variable v"
  then have "validate_variables vars = Inr ()" by (simp add: validate_variables_iff)
  with resolve_loop_run [OF wf, of default_ns "[]" K w] show ?thesis
    by (auto simp: resolve_variables_def map_of_insert_all)
qed (simp add: resolve_variables_def map_of_insert_all)

text \<open>
  C29: a map of resolved variables never collides with the built-in scopes, so rendering with it
  is one call of the template engine, in a context that binds \<open>node\<close> and \<open>asg\<close> to the built-ins and
  every other name to its resolved value.
\<close>

theorem resolved_variables_render:
  assumes "after (resolve_variables default_ns vars) h = Some (Done (Inr m))"
  shows "\<exists>ctx. render engine template b m = map_sum Template id (engine template ctx)
    \<and> map_of ctx = (map_option VStr \<circ> map_of m)(''node'' \<mapsto> VNode (bv_node b), ''asg'' \<mapsto> VAsg (bv_asg b))"
proof (rule validate_variables_cases [of vars])
  fix e assume "validate_variables vars = Inl e"
  with assms show ?thesis by (cases h) (simp_all add: resolve_variables_def)
next
  assume wf: "\<forall>v \<in> set vars. well_formed_variable v"
  then have "validate_variables vars = Inr ()" by (simp add: validate_variables_iff)
  with assms have "after (resolve_loop default_ns vars []) h = Some (Done (Inr m))"
    by (simp add: resolve_variables_def)
  from resolve_loop_keys [OF this] have keys: "fst ` set m = tv_name ` set vars" and sorted: "bt_wf m"
    by auto
  have new: "''node'' \<notin> fst ` set m" "''asg'' \<notin> fst ` set m"
    using wf by (auto simp: keys well_formed_variable_def)
  from add_user_vars_ok [OF new, of "builtin_context b"] obtain ctx where
    ctx: "add_user_vars m (builtin_context b) = Inr ctx"
    and lookup: "map_of ctx = map_of (builtin_context b) ++ map_of (rev (map (\<lambda>(k, v). (k, VStr v)) m))"
    by blast
  have "map_of (rev (map (\<lambda>(k, v). (k, VStr v)) m)) = map_option VStr \<circ> map_of m"
    using map_of_rev_wf [OF sorted] by (simp add: rev_map map_of_values)
  moreover have "map_of m ''node'' = None" "map_of m ''asg'' = None"
    using new by (simp_all add: map_of_eq_None_iff)
  ultimately have "map_of ctx =
      (map_option VStr \<circ> map_of m)(''node'' \<mapsto> VNode (bv_node b), ''asg'' \<mapsto> VAsg (bv_asg b))"
    by (auto simp: lookup builtin_context_def map_add_def fun_eq_iff split: option.split)
  with ctx show ?thesis by (auto simp: render_def)
qed

definition literal_variable :: template_variable where
  "literal_variable = \<lparr>tv_name = ''x'', tv_value = Some ''1'', tv_value_from = None\<rparr>"

theorem resolved_variables_render_witness:
  "\<forall>b. \<exists>ctx. render (\<lambda>t ctx. Inr t) ''t'' b [(''x'', ''1'')] = Inr ''t''
    \<and> map_of ctx ''node'' = Some (VNode (bv_node b)) \<and> map_of ctx ''x'' = Some (VStr ''1'')"
proof
  fix b
  have "after (resolve_variables ''ns'' [literal_variable]) [] = Some (Done (Inr [(''x'', ''1'')]))"
    by (simp add: resolve_variables_def literal_variable_def resolve_variable_def)
  from resolved_variables_render [OF this, of "\<lambda>t ctx. Inr t" "''t''" b]
  obtain ctx where "render (\<lambda>t ctx. Inr t) ''t'' b [(''x'', ''1'')] = Inr ''t''" and ctx: "map_of ctx =
      (map_option VStr \<circ> map_of [(''x'', ''1'')])(''node'' \<mapsto> VNode (bv_node b), ''asg'' \<mapsto> VAsg (bv_asg b))"
    by auto
  moreover have "map_of ctx ''node'' = Some (VNode (bv_node b))" "map_of ctx ''x'' = Some (VStr ''1'')"
    unfolding ctx by simp_all
  ultimately show "\<exists>ctx. render (\<lambda>t ctx. Inr t) ''t'' b [(''x'', ''1'')] = Inr ''t''
    \<and> map_of ctx ''node'' = Some (VNode (bv_node b)) \<and> map_of ctx ''x'' = Some (VStr ''1'')"
    by blast
qed

text \<open>
  The validation accepts exactly the lists in which no variable is named like a built-in
  scope and each has one source: a literal, or one key of one Secret or of one ConfigMap.
\<close>

theorem validation_accepts_iff:
  "validate_variables vars = Inr () \<longleftrightarrow>
     set vars \<subseteq> {v. tv_name v \<notin> {''node'', ''asg''}
        \<and> (tv_value v \<noteq> None \<and> tv_value_from v = None
           \<or> tv_value v = None
             \<and> (\<exists>src sel. tv_value_from v = Some src
                  \<and> (tvs_secret_key_ref src = Some sel \<and> tvs_config_map_key_ref src = None
                     \<or> tvs_secret_key_ref src = None \<and> tvs_config_map_key_ref src = Some sel)))}"
  by (auto simp: validate_variables_iff well_formed_variable_def is_some_and_iff)

end
