(* ===== verification/Asg_Provider.thy ===== *)
theory Asg_Provider
  imports User_Data
begin

text \<open>
  The state and the helpers of the autoscaler's \<open>Provider\<close> (\<open>src/autoscaler.rs\<close>): the store of
  AutoScalingGroups, the cached size list behind its mutex, the labels and taints of the Nodes of
  a group, passwords and Secrets.  The handlers of the gRPC service are in \<open>Autoscaler\<close>.
\<close>

section \<open>State\<close>

text \<open>
  The wire format of a Kubernetes Node (\<open>k8s_pb\<close>) is not code of the repository: the function that
  encodes one is a field of the provider, and so is the template engine.
\<close>

record pb_node =
  pn_name :: string
  pn_labels :: str_map
  pn_annotations :: str_map
  pn_provider_id :: string
  pn_taints :: "node_taint list"
  pn_capacity :: str_map
  pn_allocatable :: str_map
  pn_conditions :: "(string \<times> string) list"

record provider =
  pv_bl :: client
  pv_secret_namespace :: string
  pv_fuel :: nat
  pv_engine :: template_engine
  pv_encode :: "pb_node \<Rightarrow> string"

record node_attrs =
  at_labels :: str_map
  at_annotations :: str_map
  at_taints :: "node_taint list"
  at_dropped :: "string list"

type_synonym 'a rpc = "(call, reply, status + 'a) prog"

definition internal :: "string \<Rightarrow> status" where
  "internal m = status_of Internal m"

definition kube_internal :: "string \<Rightarrow> 'a kio \<Rightarrow> 'a rpc" where
  "kube_internal c p = map_err (\<lambda>e. internal (c @ '': '' @ show_kube e)) p"

lemma kube_internal_simps [simp]:
  "panic_free (kube_internal c p) \<longleftrightarrow> panic_free p" "within P (kube_internal c p) \<longleftrightarrow> within P p"
  by (simp_all add: kube_internal_def)

lemma safe_kube_internal [effect_simps]:
  "safe G Q h (kube_internal c (ask k read)) \<longleftrightarrow>
     G h k \<and> (\<forall>r. Q (Returned (map_sum (\<lambda>e. internal (c @ '': '' @ show_kube e)) id (read r)))
                    (h @ [(k, r)]))"
  by (simp add: kube_internal_def effect_simps)

definition find_asg :: "string \<Rightarrow> asg option eff" where
  "find_asg gid = ask StoreState (\<lambda>r. find (\<lambda>a. m_name (asg_meta a) = Some gid) (as_asgs r))"

section \<open>The size list\<close>

definition listing_sizes :: "provider \<Rightarrow> listed_size list rpc" where
  "listing_sizes pv =
     map_err (\<lambda>e. internal (''listing BinaryLane sizes: '' @ show_err e))
       (list_sizes (pv_bl pv) (pv_fuel pv))"

definition get_sizes :: "provider \<Rightarrow> listed_size list rpc" where
  "get_sizes pv =
     Ask (MemLock SizeCell) (\<lambda>r.
       case as_sizes r of
         Some sizes \<Rightarrow> Ask (MemUnlock SizeCell) (\<lambda>_. Done (Inr sizes))
       | None \<Rightarrow>
           bind (listing_sizes pv) (\<lambda>x.
             case x of
               Inl e \<Rightarrow> Ask (MemUnlock SizeCell) (\<lambda>_. Done (Inl e))
             | Inr sizes \<Rightarrow>
                 Ask (MemStore (SizesAre (Some sizes))) (\<lambda>_.
                 Ask (MemUnlock SizeCell) (\<lambda>_. Done (Inr sizes)))))"

definition find_size :: "string \<Rightarrow> listed_size list \<Rightarrow> status + listed_size" where
  "find_size slug sizes =
     (case find (\<lambda>s. ls_slug s = slug) sizes of
        None \<Rightarrow> Inl (status_of NotFound (''BinaryLane size '' @ slug @ '' not found''))
      | Some s \<Rightarrow> Inr s)"

definition asg_size_info :: "provider \<Rightarrow> asg_spec \<Rightarrow> (i32 \<times> i32 \<times> i32) rpc" where
  "asg_size_info pv spec =
     (case (as_vcpus spec, as_memory_mb spec, as_disk_gb spec) of
        (Some v, Some m, Some d) \<Rightarrow> Done (Inr (v, m, d))
      | _ \<Rightarrow>
          attempt (get_sizes pv) (\<lambda>sizes.
          attempt (Done (find_size (as_size spec) sizes)) (\<lambda>s.
          Done (Inr (unwrap_or (as_vcpus spec) (ls_vcpus s),
                     unwrap_or (as_memory_mb spec) (ls_memory s),
                     unwrap_or (as_disk_gb spec) (ls_disk s))))))"

section \<open>The Nodes of a group\<close>

definition asg_name_of :: "asg \<Rightarrow> string" where
  "asg_name_of a = unwrap_or (m_name (asg_meta a)) []"

definition nodes_for_group :: "asg \<Rightarrow> node list rpc" where
  "nodes_for_group a =
     attempt (kube_internal ''listing nodes''
               (api_list_nodes (Some (''blc.samcday.com/asg='' @ asg_name_of a))))
       (\<lambda>nodes. Done (Inr (filter (\<lambda>n. m_deletion_timestamp (n_meta n) = None) nodes)))"

definition owned_labels :: "string \<Rightarrow> asg_spec \<Rightarrow> (string \<times> string) list" where
  "owned_labels asg_name spec =
     [(LABEL_ASG, asg_name), (LABEL_INSTANCE_TYPE, as_size spec),
      (LABEL_TOPOLOGY_REGION, as_region spec), (LABEL_ARCH, ''amd64''), (LABEL_OS, ''linux''),
      (LABEL_CLOUD_PROVIDER, PROVIDER_NAME), (LABEL_SIZE, as_size spec),
      (LABEL_REGION, as_region spec), (LABEL_IMAGE, as_image spec)]"

definition base_labels :: "string \<Rightarrow> asg_spec \<Rightarrow> str_map" where
  "base_labels asg_name spec = fold (\<lambda>(k, v). bt_insert k v) (owned_labels asg_name spec) []"

definition base_taint :: node_taint where
  "base_taint = \<lparr>ntt_key = UNINITIALIZED_TAINT, ntt_value = Some ''true'', ntt_effect = ''NoSchedule''\<rparr>"

text \<open>The three loops over the template; the second component is \<open>dropped\<close>.\<close>

fun merge_labels :: "str_map \<Rightarrow> str_map \<times> string list \<Rightarrow> str_map \<times> string list" where
  "merge_labels [] (labels, dropped) = (labels, dropped)"
| "merge_labels ((k, v) # user) (labels, dropped) =
     (if k \<in> set RESERVED_LABELS then merge_labels user (labels, dropped @ [''label:'' @ k])
      else merge_labels user (bt_insert k v labels, dropped))"

fun merge_annotations :: "str_map \<Rightarrow> str_map \<Rightarrow> str_map" where
  "merge_annotations [] anns = anns"
| "merge_annotations ((k, v) # user) anns = merge_annotations user (bt_insert k v anns)"

fun merge_taints ::
  "node_taint list \<Rightarrow> node_taint list \<times> string list \<Rightarrow> node_taint list \<times> string list" where
  "merge_taints [] (taints, dropped) = (taints, dropped)"
| "merge_taints (t # user) (taints, dropped) =
     (if ntt_key t \<in> set RESERVED_TAINT_KEYS
      then merge_taints user (taints, dropped @ [''taint:'' @ ntt_key t])
      else merge_taints user (taints @ [t], dropped))"

definition user_labels :: "asg_spec \<Rightarrow> str_map" where
  "user_labels spec =
     unwrap_or (Option.bind (as_template spec) (\<lambda>t. Option.bind (nt_metadata t) nm_labels)) []"

definition user_annotations :: "asg_spec \<Rightarrow> str_map" where
  "user_annotations spec =
     unwrap_or (Option.bind (as_template spec) (\<lambda>t. Option.bind (nt_metadata t) nm_annotations)) []"

definition user_taints :: "asg_spec \<Rightarrow> node_taint list" where
  "user_taints spec =
     unwrap_or (Option.bind (as_template spec) (\<lambda>t. Option.bind (nt_spec t) nts_taints)) []"

definition build_node_labels_and_taints :: "string \<Rightarrow> asg_spec \<Rightarrow> node_attrs" where
  "build_node_labels_and_taints asg_name spec =
     (let (labels, dropped) = merge_labels (user_labels spec) (base_labels asg_name spec, []);
          anns = merge_annotations (user_annotations spec) [];
          (taints, dropped') = merge_taints (user_taints spec) ([base_taint], dropped)
      in \<lparr>at_labels = labels, at_annotations = anns, at_taints = taints, at_dropped = dropped'\<rparr>)"

section \<open>Events, Secrets and status\<close>

definition asg_event :: "provider \<Rightarrow> asg \<Rightarrow> string \<Rightarrow> string \<Rightarrow> string \<Rightarrow> nat \<Rightarrow> event" where
  "asg_event pv a asg_name reason message now =
     \<lparr>ev_meta = empty_meta\<lparr>m_generate_name := Some ''binarylane-autoscaler-'',
                           m_namespace := Some (pv_secret_namespace pv)\<rparr>,
      ev_involved_api_version = ''blc.samcday.com/v1alpha1'', ev_involved_kind = ''AutoScalingGroup'',
      ev_involved_name = asg_name, ev_involved_uid = m_uid (asg_meta a), ev_reason = reason,
      ev_message = message, ev_type = ''Warning'', ev_component = ''binarylane-autoscaler'',
      ev_timestamp = now, ev_count = 1, ev_action = ''Scale''\<rparr>"

definition emit_asg_warning :: "provider \<Rightarrow> asg \<Rightarrow> string \<Rightarrow> string \<Rightarrow> unit eff" where
  "emit_asg_warning pv a reason message =
     (case m_name (asg_meta a) of
        None \<Rightarrow> Done ()
      | Some asg_name \<Rightarrow>
          Ask UtcNow (\<lambda>t.
            bind (api_create_event (pv_secret_namespace pv)
                    (asg_event pv a asg_name reason message (as_instant t))) (\<lambda>_. Done ())))"

text \<open>
  \<open>at\<close> is the text \<open>secret ns/name\<close>, \<open>what\<close> the text that names the key in the two messages.
\<close>

definition password_of :: "string \<Rightarrow> string \<Rightarrow> string \<Rightarrow> secret \<Rightarrow> status + string" where
  "password_of loc what key s =
     (case s_data s of
        None \<Rightarrow> Inl (internal (loc @ '' has no data''))
      | Some d \<Rightarrow>
          (case map_of d key of
             None \<Rightarrow> Inl (internal (loc @ '' missing key '' @ what))
           | Some bytes \<Rightarrow>
               (case from_utf8 bytes of
                  None \<Rightarrow> Inl (internal (loc @ '' key '' @ what @ '' is not valid UTF-8: ''
                                         @ utf8_error bytes))
                | Some t \<Rightarrow> Inr t)))"

definition read_secret_value :: "provider \<Rightarrow> secret_ref \<Rightarrow> string \<Rightarrow> string rpc" where
  "read_secret_value pv ref default_key =
     (let ns = unwrap_or (sr_namespace ref) (pv_secret_namespace pv);
          key = unwrap_or (sr_key ref) default_key;
          loc = ''secret '' @ ns @ ''/'' @ sr_name ref in
      attempt (map_err (\<lambda>e. case e of
                   KApi code t \<Rightarrow>
                     if code = 404 then status_of NotFound (loc @ '' not found'')
                     else internal (''reading '' @ loc @ '': '' @ show_kube e)
                 | KOther t \<Rightarrow> internal (''reading '' @ loc @ '': '' @ show_kube e))
                 (api_get_secret ns (sr_name ref)))
        (\<lambda>s. Done (password_of loc key key s)))"

definition managed_secret :: "string \<Rightarrow> string \<Rightarrow> string \<Rightarrow> secret" where
  "managed_secret ns name password =
     \<lparr>s_meta = empty_meta\<lparr>m_name := Some name, m_namespace := Some ns,
        m_labels := Some [(''app.kubernetes.io/managed-by'', ''binarylane-controller'')]\<rparr>,
      s_data = None, s_string_data = Some [(''password'', password)]\<rparr>"

definition missing_name :: status where
  "missing_name = status_of InvalidArgument ''asg missing metadata.name''"

definition ensure_password :: "provider \<Rightarrow> asg \<Rightarrow> string rpc" where
  "ensure_password pv a =
     (case as_password_secret_ref (asg_spec a) of
        Some ref \<Rightarrow> read_secret_value pv ref ''password''
      | None \<Rightarrow>
          (case m_name (asg_meta a) of
             None \<Rightarrow> Done (Inl missing_name)
           | Some asg_name \<Rightarrow>
               (let sn = asg_name @ ''-password''; ns = pv_secret_namespace pv;
                    loc = ''secret '' @ ns @ ''/'' @ sn in
                bind generate_server_password (\<lambda>password.
                bind (api_create_secret ns (managed_secret ns sn password)) (\<lambda>x.
                  case x of
                    Inr _ \<Rightarrow> Done (Inr password)
                  | Inl e \<Rightarrow>
                      (case e of
                         KApi code t \<Rightarrow>
                           if code = 409
                           then attempt (kube_internal (''reading '' @ loc) (api_get_secret ns sn))
                                  (\<lambda>s. Done (password_of loc ''password'' ''password'' s))
                           else Done (Inl (internal (''creating '' @ loc @ '': '' @ show_kube e)))
                       | KOther t \<Rightarrow>
                           Done (Inl (internal (''creating '' @ loc @ '': '' @ show_kube e)))))))))"

definition asg_status_patch :: "string \<Rightarrow> asg_status \<Rightarrow> json" where
  "asg_status_patch name st =
     JObj [(''apiVersion'', JStr ''blc.samcday.com/v1alpha1''), (''kind'', JStr ''AutoScalingGroup''),
           (''metadata'', JObj [(''name'', JStr name)]), (''status'', json_status st)]"

definition patch_asg_status :: "string \<Rightarrow> asg_status \<Rightarrow> unit rpc" where
  "patch_asg_status name st =
     attempt (kube_internal (''updating ASG status '' @ name)
               (api_patch_asg_status name (forced controller_params) (Apply (asg_status_patch name st))))
       (\<lambda>_. Done (Inr ()))"

definition secret_patch :: "string \<Rightarrow> string \<Rightarrow> string \<Rightarrow> json" where
  "secret_patch name key value =
     JObj [(''apiVersion'', JStr ''v1''), (''kind'', JStr ''Secret''),
           (''metadata'', JObj [(''name'', JStr name),
             (''labels'', JObj [(''app.kubernetes.io/managed-by'', JStr ''binarylane-controller'')])]),
           (''type'', JStr ''Opaque''),
           (''stringData'', JObj [(key, JStr value)])]"

definition create_secret :: "provider \<Rightarrow> string \<Rightarrow> string \<Rightarrow> string \<Rightarrow> unit rpc" where
  "create_secret pv name key value =
     attempt (kube_internal (''creating secret '' @ pv_secret_namespace pv @ ''/'' @ name)
               (api_patch_secret (pv_secret_namespace pv) name (forced controller_params)
                 (Apply (secret_patch name key value))))
       (\<lambda>_. Done (Inr ()))"

section \<open>Labels and taints\<close>

lemma merge_labels_labels:
  "map_of (fst (merge_labels user (labels, dropped))) =
     map_of labels ++ map_of (rev user) |` (- set RESERVED_LABELS)"
proof (induction user "(labels, dropped)" arbitrary: labels dropped rule: merge_labels.induct)
  case (2 k v user labels dropped)
  then show ?case
    by (auto simp: fun_eq_iff map_add_def restrict_map_def split: option.split)
qed simp

lemma merge_labels_dropped:
  "snd (merge_labels user (labels, dropped)) =
     dropped @ map ((@) ''label:'') (filter (\<lambda>k. k \<in> set RESERVED_LABELS) (map fst user))"
  by (induction user "(labels, dropped)" arbitrary: labels dropped rule: merge_labels.induct) auto

lemma merge_taints_eq:
  "merge_taints user (taints, dropped) =
     (taints @ filter (\<lambda>t. ntt_key t \<notin> set RESERVED_TAINT_KEYS) user,
      dropped @ map (\<lambda>t. ''taint:'' @ ntt_key t)
        (filter (\<lambda>t. ntt_key t \<in> set RESERVED_TAINT_KEYS) user))"
  by (induction user "(taints, dropped)" arbitrary: taints dropped rule: merge_taints.induct) auto

lemma map_of_base_labels: "map_of (base_labels asg_name spec) = map_of (rev (owned_labels asg_name spec))"
  by (simp add: base_labels_def map_of_fold_insert)

lemma base_labels_values:
  "map_of (base_labels asg_name spec) LABEL_ASG = Some asg_name"
  "map_of (base_labels asg_name spec) LABEL_SIZE = Some (as_size spec)"
  "map_of (base_labels asg_name spec) LABEL_REGION = Some (as_region spec)"
  "map_of (base_labels asg_name spec) LABEL_IMAGE = Some (as_image spec)"
  by (simp_all add: map_of_base_labels owned_labels_def const_defs)

lemma at_labels_build:
  "map_of (at_labels (build_node_labels_and_taints asg_name spec)) =
     map_of (base_labels asg_name spec) ++ map_of (rev (user_labels spec)) |` (- set RESERVED_LABELS)"
  using merge_labels_labels [of "user_labels spec" "base_labels asg_name spec" "[]"]
  by (auto simp: build_node_labels_and_taints_def Let_def merge_taints_eq split: prod.split)

lemma reserved_label_kept:
  "k \<in> set RESERVED_LABELS \<Longrightarrow>
     map_of (at_labels (build_node_labels_and_taints asg_name spec)) k
       = map_of (base_labels asg_name spec) k"
  by (simp add: at_labels_build map_add_def)

section \<open>What the helpers do to the cluster\<close>

text \<open>Calls other than the creation of a Node; the preparation of a scale-up makes only such calls.\<close>

fun creates_node :: "call \<Rightarrow> bool" where
  "creates_node (KCreate Nodes x) = True"
| "creates_node c = False"

abbreviation quiet :: "call \<Rightarrow> bool" where
  "quiet c \<equiv> \<not> creates_node c"

lemma quiet_sizes: "within quiet (get_sizes pv)"
  unfolding get_sizes_def listing_sizes_def list_sizes_def
  by (auto intro!: within_intros split: option.split sum.split)

lemma quiet_size_info: "within quiet (asg_size_info pv spec)"
  unfolding asg_size_info_def
  by (auto intro!: within_intros quiet_sizes split: option.split)

lemma quiet_password: "within quiet (ensure_password pv a)"
  unfolding ensure_password_def read_secret_value_def
  by (auto simp: client_defs Let_def generate_server_password_def intro!: within_intros
      split: option.split sum.split kube_error.split reply.split)

lemma quiet_resolve: "within quiet (resolve_variables ns vars)"
proof -
  have "within quiet (resolve_loop ns vars out)" for vars out
    by (induction vars arbitrary: out)
       (auto simp: resolve_variable_def resolve_source_def client_defs Let_def
         intro!: within_intros split: option.split)
  then show ?thesis by (auto simp: resolve_variables_def split: sum.split)
qed

lemma quiet_warning: "within quiet (emit_asg_warning pv a reason message)"
  unfolding emit_asg_warning_def
  by (auto simp: client_defs intro!: within_intros split: option.split)

lemma quiet_create_secret: "within quiet (create_secret pv name key value)"
  unfolding create_secret_def by (auto simp: client_defs intro!: within_intros)

end
