(* ===== verification/Autoscaler.thy ===== *)
theory Autoscaler
  imports Asg_Provider
begin

text \<open>
  The gRPC service of the cluster autoscaler (\<open>src/autoscaler.rs\<close>, \<open>impl CloudProvider\<close>): one
  definition per method.  A request and a response are the fields the code reads and writes.
\<close>

section \<open>Queries\<close>

record node_group =
  ng_id :: string
  ng_min_size :: i32
  ng_max_size :: i32
  ng_debug :: string

definition group_of_asg :: "asg \<Rightarrow> node_group option" where
  "group_of_asg a =
     map_option (\<lambda>name.
       \<lparr>ng_id = name, ng_min_size = as_min_size (asg_spec a), ng_max_size = as_max_size (asg_spec a),
        ng_debug = ''BinaryLane '' @ name @ '' in '' @ as_region (asg_spec a) @ '' (size: ''
                     @ as_size (asg_spec a) @ '')''\<rparr>) (m_name (asg_meta a))"

definition node_groups :: "node_group list rpc" where
  "node_groups = ask StoreState (\<lambda>r. Inr (List.map_filter group_of_asg (as_asgs r)))"

definition asg_prefix :: "asg \<Rightarrow> string \<Rightarrow> string" where
  "asg_prefix a asg_name = as_name_prefix (asg_spec a) @ asg_name @ ''-''"

fun group_for_name :: "string \<Rightarrow> asg list \<Rightarrow> node_group option" where
  "group_for_name node_name [] = None"
| "group_for_name node_name (a # asgs) =
     (case m_name (asg_meta a) of
        None \<Rightarrow> group_for_name node_name asgs
      | Some asg_name \<Rightarrow>
          if prefix (asg_prefix a asg_name) node_name
          then Some \<lparr>ng_id = asg_name, ng_min_size = as_min_size (asg_spec a),
                     ng_max_size = as_max_size (asg_spec a), ng_debug = []\<rparr>
          else group_for_name node_name asgs)"

definition node_group_for_node :: "string option \<Rightarrow> node_group option rpc" where
  "node_group_for_node node_name =
     (case node_name of
        None \<Rightarrow> Done (Inr None)
      | Some n \<Rightarrow> ask StoreState (\<lambda>r. Inr (group_for_name n (as_asgs r))))"

definition group_not_found :: "string \<Rightarrow> status" where
  "group_not_found gid = status_of NotFound (''node group '' @ gid @ '' not found'')"

definition with_group :: "string \<Rightarrow> (asg \<Rightarrow> 'a rpc) \<Rightarrow> 'a rpc" where
  "with_group gid f =
     bind (find_asg gid) (\<lambda>x. case x of None \<Rightarrow> Done (Inl (group_not_found gid)) | Some a \<Rightarrow> f a)"

definition named :: "asg \<Rightarrow> (string \<Rightarrow> 'a rpc) \<Rightarrow> 'a rpc" where
  "named a f = (case m_name (asg_meta a) of None \<Rightarrow> Done (Inl missing_name) | Some n \<Rightarrow> f n)"

definition node_group_target_size :: "string \<Rightarrow> i32 rpc" where
  "node_group_target_size gid =
     with_group gid (\<lambda>a.
       attempt (nodes_for_group a) (\<lambda>nodes. Done (Inr (word_of_nat (length nodes)))))"

record grpc_instance =
  gi_id :: string
  gi_state :: i32

definition node_group_nodes :: "string \<Rightarrow> grpc_instance list rpc" where
  "node_group_nodes gid =
     with_group gid (\<lambda>a.
       attempt (nodes_for_group a) (\<lambda>nodes.
         Done (Inr (List.map_filter
           (\<lambda>n. map_option (\<lambda>pid. \<lparr>gi_id = pid, gi_state = 1\<rparr>) (Option.bind (n_spec n) ns_provider_id))
           nodes))))"

definition node_group_decrease_target_size :: "string \<Rightarrow> unit rpc" where
  "node_group_decrease_target_size gid = with_group gid (\<lambda>a. Done (Inr ()))"

definition cleanup :: "unit rpc" where
  "cleanup = Done (Inr ())"

definition gpu_label :: "string rpc" where
  "gpu_label = Done (Inr [])"

definition get_available_gpu_types :: "str_map rpc" where
  "get_available_gpu_types = Done (Inr [])"

definition not_implemented :: status where
  "not_implemented = status_of Unimplemented ''not implemented''"

definition pricing_node_price :: "unit rpc" where
  "pricing_node_price = Done (Inl not_implemented)"

definition pricing_pod_price :: "unit rpc" where
  "pricing_pod_price = Done (Inl not_implemented)"

definition node_group_get_options :: "unit rpc" where
  "node_group_get_options = Done (Inl not_implemented)"

section \<open>Refresh\<close>

definition refresh_sizes :: "provider \<Rightarrow> unit eff" where
  "refresh_sizes pv =
     Ask (MemLock SizeCell) (\<lambda>_.
       bind (list_sizes (pv_bl pv) (pv_fuel pv)) (\<lambda>x.
         case x of
           Inr sizes \<Rightarrow> Ask (MemStore (SizesAre (Some sizes))) (\<lambda>_. Ask (MemUnlock SizeCell) (\<lambda>_. Done ()))
         | Inl e \<Rightarrow> Ask (MemUnlock SizeCell) (\<lambda>_. Done ())))"

definition refresh_asg :: "asg \<Rightarrow> unit rpc" where
  "refresh_asg a =
     attempt (nodes_for_group a) (\<lambda>nodes.
       if asg_name_of a = [] then Done (Inr ())
       else
         bind (api_patch_asg_status (asg_name_of a) (forced controller_params)
                (Apply (asg_status_patch (asg_name_of a)
                  ((unwrap_or (asg_status a) default_status)
                     \<lparr>ast_replicas := word_of_nat (length nodes)\<rparr>))))
           (\<lambda>_. Done (Inr ())))"

definition refresh :: "provider \<Rightarrow> unit rpc" where
  "refresh pv =
     Ask StoreState (\<lambda>r.
       bind (refresh_sizes pv) (\<lambda>_. for_each (as_asgs r) refresh_asg))"

section \<open>Scaling up\<close>

text \<open>\<open>as_millis\<close> of the time since the epoch; a clock before the epoch counts as zero.\<close>

definition chrono_like_timestamp :: "string eff" where
  "chrono_like_timestamp =
     ask SystemNow (\<lambda>r. show_nat (unwrap_or (as_system r) 0 div 1000000))"

definition node_name_of :: "asg \<Rightarrow> string \<Rightarrow> string \<Rightarrow> i32 \<Rightarrow> string" where
  "node_name_of a asg_name ts i =
     as_name_prefix (asg_spec a) @ asg_name @ ''-'' @ ts @ ''-'' @ show_i32 i"

record scale_up =
  su_password :: string
  su_sizes :: "i32 \<times> i32 \<times> i32"
  su_vars :: str_map
  su_attrs :: node_attrs

definition builtins_for :: "asg \<Rightarrow> string \<Rightarrow> scale_up \<Rightarrow> string \<Rightarrow> i32 \<Rightarrow> builtin_vars" where
  "builtins_for a asg_name su name i =
     (let spec = asg_spec a; (vcpus, memory_mb, disk_gb) = su_sizes su in
      \<lparr>bv_node = \<lparr>nv_name = name, nv_hostname = name, nv_index = i, nv_password = su_password su\<rparr>,
       bv_asg = \<lparr>av_name = asg_name, av_size = as_size spec, av_region = as_region spec,
                 av_image = as_image spec, av_name_prefix = as_name_prefix spec,
                 av_vcpus = Some vcpus, av_memory_mb = Some memory_mb, av_disk_gb = Some disk_gb\<rparr>\<rparr>)"

definition store_user_data :: "provider \<Rightarrow> asg \<Rightarrow> string \<Rightarrow> scale_up \<Rightarrow> string \<Rightarrow> i32 \<Rightarrow> unit rpc" where
  "store_user_data pv a asg_name su name i =
     (case as_user_data (asg_spec a) of
        None \<Rightarrow> Done (Inr ())
      | Some template \<Rightarrow>
          attempt (Done (map_sum render_status id
                     (render (pv_engine pv) template (builtins_for a asg_name su name i) (su_vars su))))
            (\<lambda>rendered. create_secret pv (user_data_secret_name name) ''user-data'' rendered))"

definition scaled_node :: "scale_up \<Rightarrow> string \<Rightarrow> node" where
  "scaled_node su name =
     \<lparr>n_meta = empty_meta
        \<lparr>m_name := Some name,
         m_labels := Some (bt_insert LABEL_HOSTNAME name (at_labels (su_attrs su))),
         m_annotations := (if at_annotations (su_attrs su) = [] then None
                           else Some (at_annotations (su_attrs su))),
         m_finalizers := Some [FINALIZER]\<rparr>,
      n_spec = Some
        \<lparr>ns_provider_id = None,
         ns_taints = Some (map (\<lambda>t. \<lparr>t_key = ntt_key t, t_value = ntt_value t,
                                     t_effect = ntt_effect t, t_time_added = None\<rparr>)
                             (at_taints (su_attrs su)))\<rparr>,
      n_status = None\<rparr>"

definition create_scaled_node :: "scale_up \<Rightarrow> string \<Rightarrow> unit rpc" where
  "create_scaled_node su name =
     bind (api_create_node (scaled_node su name)) (\<lambda>x.
       case x of
         Inr _ \<Rightarrow> Done (Inr ())
       | Inl e \<Rightarrow>
           (case e of
              KApi code t \<Rightarrow>
                if code = 409 then Done (Inr ())
                else Done (Inl (internal (''creating k8s node '' @ name @ '': '' @ show_kube e)))
            | KOther t \<Rightarrow>
                Done (Inl (internal (''creating k8s node '' @ name @ '': '' @ show_kube e)))))"

definition create_one :: "provider \<Rightarrow> asg \<Rightarrow> string \<Rightarrow> scale_up \<Rightarrow> i32 \<Rightarrow> unit rpc" where
  "create_one pv a asg_name su i =
     bind chrono_like_timestamp (\<lambda>ts.
       (let name = node_name_of a asg_name ts i in
        attempt (store_user_data pv a asg_name su name i) (\<lambda>_.
        attempt (create_secret pv (node_password_secret_name name) ''password'' (su_password su)) (\<lambda>_.
        create_scaled_node su name))))"

definition dropped_message :: "string list \<Rightarrow> string" where
  "dropped_message ks = ''dropped reserved keys from spec.template: '' @ join '', '' ks"

definition warn_dropped :: "provider \<Rightarrow> asg \<Rightarrow> node_attrs \<Rightarrow> unit rpc" where
  "warn_dropped pv a attrs =
     (if at_dropped attrs = [] then Done (Inr ())
      else bind (emit_asg_warning pv a ''ReservedKeyDropped'' (dropped_message (at_dropped attrs)))
             (\<lambda>_. Done (Inr ())))"

definition prepare_scale_up :: "provider \<Rightarrow> asg \<Rightarrow> string \<Rightarrow> scale_up rpc" where
  "prepare_scale_up pv a asg_name =
     attempt (ensure_password pv a) (\<lambda>password.
     attempt (asg_size_info pv (asg_spec a)) (\<lambda>sizes.
     attempt (map_err render_status
               (resolve_variables (pv_secret_namespace pv) (as_template_variables (asg_spec a)))) (\<lambda>vars.
     (let attrs = build_node_labels_and_taints asg_name (asg_spec a) in
      attempt (warn_dropped pv a attrs) (\<lambda>_.
      Done (Inr \<lparr>su_password = password, su_sizes = sizes, su_vars = vars, su_attrs = attrs\<rparr>))))))"

text \<open>
  \<open>req.delta as usize + current.len() > asg.spec.max_size as usize\<close>: a cast of a negative \<open>i32\<close> to
  \<open>usize\<close> extends the sign, and the comparison is unsigned.
\<close>

definition as_usize :: "i32 \<Rightarrow> usize" where
  "as_usize i = word_of_int (sint i)"

definition exceeds_max :: "i32 \<Rightarrow> nat \<Rightarrow> i32 \<Rightarrow> bool" where
  "exceeds_max delta current max_size \<longleftrightarrow>
     as_usize max_size < as_usize delta + word_of_nat current"

definition indices :: "i32 \<Rightarrow> i32 list" where
  "indices delta = map word_of_nat [0..<nat (sint delta)]"

definition delta_message :: "i32 \<Rightarrow> string" where
  "delta_message delta = ''delta must be positive, got '' @ show_i32 delta"

definition max_message :: "asg \<Rightarrow> string" where
  "max_message a = ''increase would exceed max size '' @ show_i32 (as_max_size (asg_spec a))"

definition scale_group_up :: "provider \<Rightarrow> asg \<Rightarrow> string \<Rightarrow> i32 \<Rightarrow> unit rpc" where
  "scale_group_up pv a asg_name delta =
     attempt (nodes_for_group a) (\<lambda>current.
       if exceeds_max delta (length current) (as_max_size (asg_spec a))
       then Done (Inl (status_of InvalidArgument (max_message a)))
       else
         attempt (prepare_scale_up pv a asg_name) (\<lambda>su.
         attempt (for_each (indices delta) (create_one pv a asg_name su)) (\<lambda>_.
         Ask UtcNow (\<lambda>t.
         patch_asg_status asg_name
           ((unwrap_or (asg_status a) default_status)\<lparr>ast_last_scale_up := Some (as_instant t)\<rparr>)))))"

definition node_group_increase_size :: "provider \<Rightarrow> string \<Rightarrow> i32 \<Rightarrow> unit rpc" where
  "node_group_increase_size pv gid delta =
     (if delta \<le>s 0 then Done (Inl (status_of InvalidArgument (delta_message delta)))
      else with_group gid (\<lambda>a. named a (\<lambda>asg_name. scale_group_up pv a asg_name delta)))"

section \<open>Scaling down\<close>

definition delete_one :: "string \<Rightarrow> unit rpc" where
  "delete_one name = kube_internal (''deleting node '' @ name) (api_delete_node name)"

definition node_group_delete_nodes :: "string \<Rightarrow> string list \<Rightarrow> unit rpc" where
  "node_group_delete_nodes gid nodes =
     with_group gid (\<lambda>a. named a (\<lambda>asg_name.
       attempt (for_each nodes delete_one) (\<lambda>_.
       Ask UtcNow (\<lambda>t.
       patch_asg_status asg_name
         ((unwrap_or (asg_status a) default_status)\<lparr>ast_last_scale_down := Some (as_instant t)\<rparr>)))))"

section \<open>The template of a group\<close>

definition saturating_sub :: "i32 \<Rightarrow> i32 \<Rightarrow> i32" where
  "saturating_sub a b =
     word_of_int (max (- (2 ^ 31)) (min (2 ^ 31 - 1) (sint a - sint b)))"

definition template_sizes :: "provider \<Rightarrow> asg_spec \<Rightarrow> (i32 \<times> i32 \<times> i32) rpc" where
  "template_sizes pv spec =
     attempt
       (if as_vcpus spec \<noteq> None \<and> as_memory_mb spec \<noteq> None \<and> as_disk_gb spec \<noteq> None
        then Done (Inr None)
        else attempt (get_sizes pv) (\<lambda>sizes. Done (map_sum id Some (find_size (as_size spec) sizes))))
       (\<lambda>info.
         case or_else (as_vcpus spec) (map_option ls_vcpus info) of
           None \<Rightarrow> Done (Inl (internal ''missing vcpus for template node info''))
         | Some vcpus \<Rightarrow>
             (case or_else (as_memory_mb spec) (map_option ls_memory info) of
                None \<Rightarrow> Done (Inl (internal ''missing memory for template node info''))
              | Some memory_mb \<Rightarrow>
                  (case or_else (as_disk_gb spec) (map_option ls_disk info) of
                     None \<Rightarrow> Done (Inl (internal ''missing disk for template node info''))
                   | Some disk_gb \<Rightarrow> Done (Inr (vcpus, memory_mb, disk_gb)))))"

definition template_capacity :: "i32 \<times> i32 \<times> i32 \<Rightarrow> str_map" where
  "template_capacity = (\<lambda>(vcpus, memory_mb, disk_gb).
     bt_insert ''pods'' ''110''
       (bt_insert ''ephemeral-storage'' (show_i32 disk_gb @ ''Gi'')
         (bt_insert ''memory'' (show_i32 memory_mb @ ''Mi'')
           (bt_insert ''cpu'' (show_i32 vcpus) []))))"

definition template_allocatable :: "i32 \<times> i32 \<times> i32 \<Rightarrow> str_map" where
  "template_allocatable = (\<lambda>(vcpus, memory_mb, disk_gb).
     bt_insert ''pods'' ''110''
       (bt_insert ''ephemeral-storage'' (show_i32 (saturating_sub disk_gb 1) @ ''Gi'')
         (bt_insert ''memory'' (show_i32 (saturating_sub memory_mb 256) @ ''Mi'')
           (bt_insert ''cpu'' (show_i32 (saturating_sub (vcpus * 1000) 100) @ ''m'') []))))"

definition template_node :: "asg \<Rightarrow> string \<Rightarrow> i32 \<times> i32 \<times> i32 \<Rightarrow> pb_node" where
  "template_node a asg_name sizes =
     (let attrs = build_node_labels_and_taints asg_name (asg_spec a) in
      \<lparr>pn_name = ''template-'' @ asg_name,
       pn_labels = bt_insert LABEL_HOSTNAME (''template-'' @ asg_name) (at_labels attrs),
       pn_annotations = at_annotations attrs,
       pn_provider_id = PROVIDER_NAME @ '':///template'',
       pn_taints = at_taints attrs,
       pn_capacity = template_capacity sizes, pn_allocatable = template_allocatable sizes,
       pn_conditions = [(''Ready'', ''True'')]\<rparr>)"

definition node_group_template_node_info :: "provider \<Rightarrow> string \<Rightarrow> string rpc" where
  "node_group_template_node_info pv gid =
     with_group gid (\<lambda>a. named a (\<lambda>asg_name.
       attempt (template_sizes pv (asg_spec a)) (\<lambda>sizes.
       Done (Inr (pv_encode pv (template_node a asg_name sizes))))))"

section \<open>What has happened before a Node is created\<close>

fun created_by :: "call \<Rightarrow> node list" where
  "created_by (KCreate Nodes (ONode n)) = [n]"
| "created_by c = []"

definition created_nodes :: "hist \<Rightarrow> node list" where
  "created_nodes h = concat (map (\<lambda>(c, r). created_by c) h)"

lemma created_nodes_simps [simp]:
  "created_nodes [] = []"
  "created_nodes (h @ h') = created_nodes h @ created_nodes h'"
  "created_nodes ((c, r) # h) = created_by c @ created_nodes h"
  by (simp_all add: created_nodes_def)

lemma created_nodes_quiet: "\<forall>(c, r) \<in> set h. quiet c \<Longrightarrow> created_nodes h = []"
proof (induction h)
  case (Cons e h)
  obtain c r where "e = (c, r)" by fastforce
  with Cons show ?case by (cases c rule: created_by.cases) auto
qed simp

definition secret_stored :: "provider \<Rightarrow> string \<Rightarrow> string \<Rightarrow> hist \<Rightarrow> bool" where
  "secret_stored pv name key h \<longleftrightarrow>
     (\<exists>v r s. (KPatch (Secrets (pv_secret_namespace pv)) name (forced controller_params)
          (Apply (secret_patch name key v)), r) \<in> set h \<and> as_secret r = Inr s)"

lemma secret_stored_mono: "secret_stored pv name key h \<Longrightarrow> secret_stored pv name key (h @ h')"
  by (auto simp: secret_stored_def)

definition live_nodes :: "node list \<Rightarrow> node list" where
  "live_nodes nodes = filter (\<lambda>n. m_deletion_timestamp (n_meta n) = None) nodes"

text \<open>The group was found and its Nodes were counted, and the limit allows \<open>delta\<close> more.\<close>

definition room_for :: "string \<Rightarrow> i32 \<Rightarrow> asg \<Rightarrow> hist \<Rightarrow> bool" where
  "room_for gid delta a h \<longleftrightarrow>
     0 <s delta
     \<and> (\<exists>r. (StoreState, r) \<in> set h
          \<and> find (\<lambda>a. m_name (asg_meta a) = Some gid) (as_asgs r) = Some a)
     \<and> (\<exists>r nodes. (KList Nodes (Some (''blc.samcday.com/asg='' @ gid)), r) \<in> set h
          \<and> as_nodes r = Inr nodes
          \<and> \<not> exceeds_max delta (length (live_nodes nodes)) (as_max_size (asg_spec a)))"

lemma room_for_mono: "room_for gid delta a h \<Longrightarrow> room_for gid delta a (h @ h')"
  by (auto simp: room_for_def)

definition node_create_guard :: "provider \<Rightarrow> string \<Rightarrow> i32 \<Rightarrow> hist \<Rightarrow> node \<Rightarrow> bool" where
  "node_create_guard pv gid delta h n \<longleftrightarrow>
     (\<exists>a name. room_for gid delta a h
        \<and> m_name (n_meta n) = Some name \<and> m_finalizers (n_meta n) = Some [FINALIZER]
        \<and> meta_label (n_meta n) LABEL_ASG = Some gid
        \<and> secret_stored pv (node_password_secret_name name) ''password'' h
        \<and> (as_user_data (asg_spec a) = None
           \<or> secret_stored pv (user_data_secret_name name) ''user-data'' h)
        \<and> m_name (n_meta n) \<notin> (\<lambda>n. m_name (n_meta n)) ` set (created_nodes h)
        \<and> length (created_nodes h) < nat (sint delta))"

definition scale_guard :: "provider \<Rightarrow> string \<Rightarrow> i32 \<Rightarrow> hist \<Rightarrow> call \<Rightarrow> bool" where
  "scale_guard pv gid delta h c \<longleftrightarrow> (\<forall>n \<in> set (created_by c). node_create_guard pv gid delta h n)"

lemma scale_guard_quiet: "quiet c \<Longrightarrow> scale_guard pv gid delta h c"
  by (cases c rule: created_by.cases) (auto simp: scale_guard_def)

text \<open>The names of the Nodes of one call differ in their index.\<close>

lemma sint_index:
  assumes "k < nat (sint (delta :: i32))"
  shows "sint (word_of_nat k :: i32) = int k"
proof -
  have "sint delta < 2 ^ 31" using sint_less [of delta] by simp
  with assms have "int k < 2 ^ 31" by linarith
  then show ?thesis by (simp add: signed_of_nat sint_sbintrunc' signed_take_bit_int_eq_self)
qed

lemma node_name_index:
  assumes "node_name_of a g (show_nat ts) (word_of_nat i) = node_name_of a g (show_nat ts') (word_of_nat j)"
    and "i < nat (sint (delta :: i32))" and "j < nat (sint delta)"
  shows "i = j"
  using assms
  by (simp add: node_name_of_def show_i32_def show_int_def sint_index [OF assms(2)]
      sint_index [OF assms(3)] append_sep_inject show_nat_no_hyphen)

text \<open>The state of the loop after the indices \<open>ds\<close>.\<close>

definition loop_inv :: "asg \<Rightarrow> string \<Rightarrow> i32 \<Rightarrow> i32 list \<Rightarrow> hist \<Rightarrow> bool" where
  "loop_inv a gid delta ds h \<longleftrightarrow>
     room_for gid delta a h
     \<and> length (created_nodes h) = length ds
     \<and> (\<forall>n \<in> set (created_nodes h). \<exists>ts k. k < length ds
          \<and> m_name (n_meta n) = Some (node_name_of a gid (show_nat ts) (word_of_nat k)))"

lemma indices_split:
  assumes "indices delta = ds @ i # es"
  shows "i = word_of_nat (length ds)" and "length ds < nat (sint delta)"
proof -
  have len: "length (indices delta) = nat (sint delta)" by (simp add: indices_def)
  then show l: "length ds < nat (sint delta)" using assms by (metis length_append length_Cons
      less_add_Suc1 add_Suc_right)
  have "i = indices delta ! length ds" by (simp add: assms)
  with l show "i = word_of_nat (length ds)" by (simp add: indices_def)
qed

text \<open>One pass of the loop: the Secrets first, then the Node, under a name not used before.\<close>

lemma scaled_node_meta [simp]:
  "m_name (n_meta (scaled_node su name)) = Some name"
  "m_finalizers (n_meta (scaled_node su name)) = Some [FINALIZER]"
  "meta_label (n_meta (scaled_node su name)) k =
     (if k = LABEL_HOSTNAME then Some name else map_of (at_labels (su_attrs su)) k)"
  by (simp_all add: scaled_node_def meta_label_def)

lemma create_scaled_node_guarded:
  assumes split: "indices delta = ds @ i # es" and inv: "loop_inv a gid delta ds h"
    and attrs: "su_attrs su = build_node_labels_and_taints gid (asg_spec a)"
    and name: "name = node_name_of a gid (show_nat ts) i"
    and pw: "secret_stored pv (node_password_secret_name name) ''password'' h"
    and ud: "as_user_data (asg_spec a) = None \<or> secret_stored pv (user_data_secret_name name) ''user-data'' h"
    and next_inv: "\<And>h'. loop_inv a gid delta (ds @ [i]) h' \<Longrightarrow> Q (Returned (Inr ())) h'"
    and fail: "\<And>e h'. Q (Returned (Inl e)) h'"
  shows "safe (scale_guard pv gid delta) Q h (create_scaled_node su name)"
proof -
  note idx = indices_split [OF split]
  have fresh: "Some name \<notin> (\<lambda>n. m_name (n_meta n)) ` set (created_nodes h)"
  proof
    assume "Some name \<in> (\<lambda>n. m_name (n_meta n)) ` set (created_nodes h)"
    with inv obtain ts' k where k: "k < length ds"
      and "name = node_name_of a gid (show_nat ts') (word_of_nat k)"
      by (auto simp: loop_inv_def) 
    with name idx have "length ds = k"
      by (intro node_name_index [of a gid ts _ ts' _ delta]) auto
    with k show False by simp
  qed
  have "LABEL_ASG \<noteq> LABEL_HOSTNAME" and "LABEL_ASG \<in> set RESERVED_LABELS"
    by (simp_all add: const_defs RESERVED_LABELS_def)
  then have label: "meta_label (n_meta (scaled_node su name)) LABEL_ASG = Some gid"
    by (simp add: attrs reserved_label_kept base_labels_values)
  have guard: "scale_guard pv gid delta h (KCreate Nodes (ONode (scaled_node su name)))"
    using inv fresh label pw ud idx
    by (auto simp: scale_guard_def node_create_guard_def loop_inv_def)
  have after_create: "loop_inv a gid delta (ds @ [i])
      (h @ [(KCreate Nodes (ONode (scaled_node su name)), r)])" for r
    using inv name idx(1) by (fastforce simp: loop_inv_def room_for_mono less_Suc_eq)
  show ?thesis
    by (auto simp: create_scaled_node_def client_defs guard
        split: sum.split kube_error.split intro!: next_inv after_create fail)
qed

lemma loop_inv_quiet:
  "loop_inv a gid delta ds h \<Longrightarrow> created_nodes h' = [] \<Longrightarrow> loop_inv a gid delta ds (h @ h')"
  by (simp add: loop_inv_def room_for_mono)

lemma create_secret_guarded:
  assumes ok: "\<And>h'. created_nodes h' = [] \<Longrightarrow> secret_stored pv name key (h @ h') \<Longrightarrow>
      Q (Returned (Inr ())) (h @ h')"
    and fail: "\<And>e h'. Q (Returned (Inl e)) h'"
  shows "safe (scale_guard pv gid delta) Q h (create_secret pv name key value)"
  by (auto simp: create_secret_def client_defs kube_internal_def map_err_ask scale_guard_quiet
      split: sum.split intro!: ok fail) (auto simp: secret_stored_def)

lemma store_user_data_guarded:
  assumes ok: "\<And>h'. created_nodes h' = [] \<Longrightarrow> as_user_data (asg_spec a) = None
        \<or> secret_stored pv (user_data_secret_name name) ''user-data'' (h @ h') \<Longrightarrow>
      Q (Returned (Inr ())) (h @ h')"
    and fail: "\<And>e h'. Q (Returned (Inl e)) h'"
  shows "safe (scale_guard pv gid delta) Q h (store_user_data pv a gid su name i)"
proof (cases "as_user_data (asg_spec a)")
  case None
  with ok [of "[]"] show ?thesis by (simp add: store_user_data_def)
next
  case (Some template)
  then show ?thesis
    by (auto simp: store_user_data_def safe_attempt then_post_def split: sum.split
        intro!: fail create_secret_guarded ok)
qed

lemma create_one_guarded:
  assumes split: "indices delta = ds @ i # es" and inv: "loop_inv a gid delta ds h"
    and attrs: "su_attrs su = build_node_labels_and_taints gid (asg_spec a)"
    and next_inv: "\<And>h'. loop_inv a gid delta (ds @ [i]) h' \<Longrightarrow> Q (Returned (Inr ())) h'"
    and fail: "\<And>e h'. Q (Returned (Inl e)) h'"
  shows "safe (scale_guard pv gid delta) Q h (create_one pv a gid su i)"
proof -
  let ?name = "\<lambda>ts. node_name_of a gid (show_nat ts) i"
  have node: "safe (scale_guard pv gid delta) Q h' (create_scaled_node su (?name ts))"
    if "loop_inv a gid delta ds h'"
      and "secret_stored pv (node_password_secret_name (?name ts)) ''password'' h'"
      and "as_user_data (asg_spec a) = None
        \<or> secret_stored pv (user_data_secret_name (?name ts)) ''user-data'' h'"
    for h' ts
    by (rule create_scaled_node_guarded [OF split that(1) attrs refl that(2,3)])
       (auto intro: next_inv fail)
  have password: "safe (scale_guard pv gid delta) Q h'
      (attempt (create_secret pv (node_password_secret_name (?name ts)) ''password'' (su_password su))
        (\<lambda>_. create_scaled_node su (?name ts)))"
    if "loop_inv a gid delta ds h'"
      and "as_user_data (asg_spec a) = None
        \<or> secret_stored pv (user_data_secret_name (?name ts)) ''user-data'' h'"
    for h' ts
    unfolding safe_attempt
    by (rule create_secret_guarded)
       (use that in \<open>auto intro!: fail node loop_inv_quiet intro: secret_stored_mono
          simp: then_post_def\<close>)
  have named: "safe (scale_guard pv gid delta) Q h'
      (attempt (store_user_data pv a gid su (?name ts) i) (\<lambda>_.
       attempt (create_secret pv (node_password_secret_name (?name ts)) ''password'' (su_password su))
        (\<lambda>_. create_scaled_node su (?name ts))))"
    if "loop_inv a gid delta ds h'" for h' ts
    unfolding safe_attempt [of _ _ _ "store_user_data pv a gid su (?name ts) i"]
    by (rule store_user_data_guarded)
       (use that in \<open>auto intro!: fail password loop_inv_quiet simp: then_post_def\<close>)
  show ?thesis
    unfolding create_one_def chrono_like_timestamp_def bind_ask Let_def
    using named [OF loop_inv_quiet [OF inv, of "[(SystemNow, r)]" for r]]
    by (simp add: scale_guard_quiet)
qed

text \<open>Everything before the loop creates no Node.\<close>

lemma created_by_quiet [simp]: "quiet c \<Longrightarrow> created_by c = []"
  by (cases c rule: created_by.cases) auto

lemma quiet_trace:
  "within quiet p \<Longrightarrow>
    safe (scale_guard pv gid delta) (\<lambda>_ h'. \<exists>t. h' = h @ t \<and> created_nodes t = []) h p"
proof (induction p arbitrary: h)
  case (Ask c k)
  have "safe (scale_guard pv gid delta) (\<lambda>_ h'. \<exists>t. h' = h @ t \<and> created_nodes t = [])
      (h @ [(c, r)]) (k r)" for r
    by (rule safe_mono [OF Ask.IH [OF rangeI, of _ "h @ [(c, r)]"]]) (use Ask.prems in auto)
  with Ask.prems show ?case by (simp add: scale_guard_quiet)
qed auto

lemma quiet_attempt:
  assumes "within quiet p"
    and next_safe: "\<And>y t. created_nodes t = [] \<Longrightarrow> safe (scale_guard pv gid delta) Q (h @ t) (f y)"
    and fail: "\<And>out t. created_nodes t = [] \<Longrightarrow> (\<And>y. out \<noteq> Returned (Inr y)) \<Longrightarrow> Q out (h @ t)"
  shows "safe (scale_guard pv gid delta) Q h (attempt p f)"
  unfolding safe_attempt
  by (rule safe_mono [OF quiet_trace [OF assms(1)]])
     (auto simp: then_post_def split: outcome.split sum.split intro!: next_safe fail)

lemma quiet_warn_dropped: "within quiet (warn_dropped pv a attrs)"
  by (auto simp: warn_dropped_def intro!: within_intros quiet_warning)

lemma prepare_scale_up_guarded:
  assumes ok: "\<And>su t. created_nodes t = [] \<Longrightarrow>
      su_attrs su = build_node_labels_and_taints gid (asg_spec a) \<Longrightarrow> Q (Returned (Inr su)) (h @ t)"
    and fail: "\<And>out t. (\<And>su. out \<noteq> Returned (Inr su)) \<Longrightarrow> Q out (h @ t)"
  shows "safe (scale_guard pv gid delta) Q h (prepare_scale_up pv a gid)"
  unfolding prepare_scale_up_def Let_def
  by (intro quiet_attempt quiet_password quiet_size_info quiet_warn_dropped)
     (auto simp: quiet_resolve intro!: ok intro: fail)

lemma nodes_for_group_guarded:
  assumes "\<And>r nodes. as_nodes r = Inr nodes \<Longrightarrow> Q (Returned (Inr (live_nodes nodes)))
      (h @ [(KList Nodes (Some (''blc.samcday.com/asg='' @ asg_name_of a)), r)])"
    and "\<And>e h'. Q (Returned (Inl e)) h'"
  shows "safe (scale_guard pv gid delta) Q h (nodes_for_group a)"
  using assms
  by (auto simp: nodes_for_group_def kube_internal_def client_defs live_nodes_def safe_attempt
      map_err_ask scale_guard_quiet split: sum.split)

lemma scale_group_up_guarded:
  assumes delta: "0 <s delta" and named: "m_name (asg_meta a) = Some n"
    and found: "find (\<lambda>a. m_name (asg_meta a) = Some gid) (as_asgs r) = Some a"
  shows "safe (scale_guard pv gid delta) (\<lambda>_ _. True) [(StoreState, r)] (scale_group_up pv a n delta)"
proof -
  have "m_name (asg_meta a) = Some gid" using found by (auto simp: find_Some_iff)
  with named have name: "m_name (asg_meta a) = Some gid" and n: "n = gid" by simp_all
  let ?G = "scale_guard pv gid delta"
  let ?loop = "\<lambda>su. attempt (for_each (indices delta) (create_one pv a gid su)) (\<lambda>_. Ask UtcNow (\<lambda>t.
         patch_asg_status gid
           ((unwrap_or (asg_status a) default_status)\<lparr>ast_last_scale_up := Some (as_instant t)\<rparr>)))"
  have tail: "safe ?G (\<lambda>_ _. True) h (patch_asg_status gid st)" for h st
    by (auto simp: patch_asg_status_def client_defs scale_guard_quiet effect_simps split: sum.split)
  have loop: "safe ?G (\<lambda>_ _. True) h (?loop su)"
    if "loop_inv a gid delta [] h" and "su_attrs su = build_node_labels_and_taints gid (asg_spec a)" for su h
    unfolding safe_attempt
    by (rule safe_for_each_done [where I = "loop_inv a gid delta"])
       (use that in \<open>auto simp: tail scale_guard_quiet intro!: create_one_guarded\<close>)
  have asg_name: "asg_name_of a = gid" by (simp add: asg_name_of_def name)
  have prepared: "safe ?G (\<lambda>_ _. True) h (attempt (prepare_scale_up pv a gid) ?loop)"
    if "room_for gid delta a h" and "created_nodes h = []" for h
    unfolding safe_attempt [of _ _ _ "prepare_scale_up pv a gid"]
    by (rule prepare_scale_up_guarded)
       (use that in \<open>auto simp: then_post_def loop_inv_def room_for_mono intro!: loop
          split: outcome.split sum.split\<close>)
  show ?thesis
    using delta found
    unfolding n scale_group_up_def safe_attempt [of _ _ _ "nodes_for_group a"]
    by (intro nodes_for_group_guarded)
       (auto simp: asg_name room_for_def intro!: prepared)
qed

lemma increase_size_guarded:
  "safe (scale_guard pv gid delta) (\<lambda>_ _. True) [] (node_group_increase_size pv gid delta)"
  by (auto simp: node_group_increase_size_def with_group_def named_def find_asg_def safe_bind
      scale_guard_quiet word_sless_alt word_sle_eq not_le split: option.split
      intro!: scale_group_up_guarded)

end
