(* ===== verification/Scaling.thy ===== *)
theory Scaling
  imports Autoscaler
begin

text \<open>
  What the autoscaler promises to the cluster autoscaler: how many Nodes one call may create and
  under which names, that a Node finds its Secrets, that the template of a group shows the Nodes
  the group creates, and how Nodes are attributed to groups and deleted.
\<close>

section \<open>The number and the names of the Nodes created\<close>

lemma created_nodes_bounded:
  assumes "\<And>t c r u. h = t @ (c, r) # u \<Longrightarrow> scale_guard pv gid delta t c"
  shows "length (created_nodes h) \<le> nat (sint delta)
    \<and> distinct (map (\<lambda>n. m_name (n_meta n)) (created_nodes h))"
  using assms
proof (induction h rule: rev_induct)
  case (snoc e h)
  obtain c r where e: "e = (c, r)" by fastforce
  have "scale_guard pv gid delta t c'" if "h = t @ (c', r') # u" for t c' r' u
    using snoc.prems [of t c' r' "u @ [e]"] that by simp
  note IH = snoc.IH [OF this]
  have guard: "scale_guard pv gid delta h c" using snoc.prems [of h c r "[]"] e by simp
  show ?case
  proof (cases "created_by c")
    case Nil
    then show ?thesis using IH e by simp
  next
    case (Cons n ns)
    then have "created_by c = [n]" by (cases c rule: created_by.cases) auto
    with guard IH show ?thesis by (auto simp: e scale_guard_def node_create_guard_def)
  qed
qed simp

lemma last_creation:
  assumes "\<And>t c r u. h = t @ (c, r) # u \<Longrightarrow> scale_guard pv gid delta t c" and "created_nodes h \<noteq> []"
  shows "\<exists>a. room_for gid delta a h"
  using assms
proof (induction h rule: rev_induct)
  case (snoc e h)
  obtain c r where e: "e = (c, r)" by fastforce
  have before: "scale_guard pv gid delta t c'" if "h = t @ (c', r') # u" for t c' r' u
    using snoc.prems(1) [of t c' r' "u @ [e]"] that by simp
  have guard: "scale_guard pv gid delta h c" using snoc.prems(1) [of h c r "[]"] e by simp
  show ?case
  proof (cases "created_by c")
    case Nil
    then show ?thesis using snoc.IH [OF before] snoc.prems(2) e room_for_mono by fastforce
  next
    case (Cons n ns)
    with guard show ?thesis using room_for_mono [of gid delta _ h "[e]"]
      by (auto simp: scale_guard_def node_create_guard_def)
  qed
qed simp

lemma increase_size_guard:
  "after (node_group_increase_size pv gid delta) h = Some p \<Longrightarrow> h = t @ (c, r) # u \<Longrightarrow>
    scale_guard pv gid delta t c"
  using safe_guard [OF increase_size_guarded] by blast

text \<open>The limit, computed on machine words: a negative \<open>max_size\<close> becomes a huge one.\<close>

lemma uint_as_usize: "uint (as_usize i) = sint i mod 2 ^ 64"
  by (simp only: as_usize_def uint_word_of_int) simp

lemma sint_i32_bounds: "- (2 ^ 31) \<le> sint (i :: i32)" "sint (i :: i32) < 2 ^ 31"
  using sint_ge [of i] sint_less [of i] by simp_all

lemma exceeds_max_bound:
  assumes "0 <s delta" and "current < 2 ^ 63"
  shows "exceeds_max delta current max_size
    \<longleftrightarrow> 0 \<le>s max_size \<and> sint max_size < sint delta + int current"
proof -
  note b = sint_i32_bounds [of delta] sint_i32_bounds [of max_size]
  have pos: "0 < sint delta" using assms(1) by (simp add: word_sless_alt)
  have c: "int current < 2 ^ 63" using assms(2) by (metis of_nat_less_iff of_nat_numeral of_nat_power)
  have sum: "uint (as_usize delta + word_of_nat current) = sint delta + int current"
    using b pos c by (simp add: uint_word_ariths uint_as_usize unsigned_of_nat take_bit_eq_mod)
  show ?thesis
  proof (cases "0 \<le> sint max_size")
    case True
    with b have "uint (as_usize max_size) = sint max_size" by (simp add: uint_as_usize)
    with sum True show ?thesis by (simp add: exceeds_max_def word_less_def word_sle_eq)
  next
    case False
    with b have "uint (as_usize max_size) = sint max_size + 2 ^ 64"
      unfolding uint_as_usize by (subst mod_add_self2 [symmetric], subst mod_pos_pos_trivial) simp_all
    with sum False b c show ?thesis by (simp add: exceeds_max_def word_less_def word_sle_eq)
  qed
qed


text \<open>
  The limit of a scale-up, for a positive number of Nodes to add and fewer than \<open>2 ^ 63\<close> Nodes
  in the group: the call is refused exactly when the maximum is not negative and the Nodes would
  exceed it; a negative maximum refuses nothing.
\<close>

theorem exceeds_max_iff:
  assumes "0 <s delta" and "current < 2 ^ 63"
  shows "exceeds_max delta current max_size
    \<longleftrightarrow> 0 \<le>s max_size \<and> sint max_size < sint delta + int current"
  using assms by (rule exceeds_max_bound)

theorem exceeds_max_iff_witness: "\<not> exceeds_max 1000 3 (- 1) \<and> exceeds_max 1 2 2"
proof
  show "\<not> exceeds_max 1000 3 (- 1)"
    using exceeds_max_iff [of 1000 3 "- 1"] by (simp add: word_sless_alt word_sle_eq)
  show "exceeds_max 1 2 2"
    using exceeds_max_iff [of 1 2 2] by (simp add: word_sless_alt word_sle_eq)
qed

section \<open>A group to evaluate on\<close>

definition sample_provider :: provider where
  "sample_provider =
     \<lparr>pv_bl = rc_bl sample_ctx, pv_secret_namespace = ''ns'', pv_fuel = 1,
      pv_engine = (\<lambda>t c. Inr t), pv_encode = pn_name\<rparr>"

definition sample_spec :: asg_spec where
  "sample_spec =
     \<lparr>as_min_size = 0, as_max_size = 2, as_size = ''s'', as_region = ''r'', as_image = ''i'',
      as_vcpus = Some 2, as_memory_mb = Some 4096, as_disk_gb = Some 60, as_name_prefix = [],
      as_password_secret_ref = None, as_user_data = None, as_template_variables = [],
      as_template = None\<rparr>"

definition sample_asg :: asg where
  "sample_asg =
     \<lparr>asg_meta = empty_meta\<lparr>m_name := Some ''g''\<rparr>, asg_spec = sample_spec, asg_status = None\<rparr>"

definition sample_su :: scale_up where
  "sample_su =
     \<lparr>su_password = ''BlcA1x'', su_sizes = (2, 4096, 60), su_vars = [],
      su_attrs = build_node_labels_and_taints ''g'' sample_spec\<rparr>"

definition sample_secret :: secret where
  "sample_secret = \<lparr>s_meta = empty_meta, s_data = None, s_string_data = None\<rparr>"

definition scale_run :: hist where
  "scale_run =
     [(StoreState, RAsgs [sample_asg]),
      (KList Nodes (Some ''blc.samcday.com/asg=g''), RNodes []),
      (RandomAlnum 36, RChars ''x''),
      (KCreate (Secrets ''ns'') (OSecret (managed_secret ''ns'' ''g-password'' ''BlcA1x'')), RSecret sample_secret),
      (SystemNow, RSystem (Some 5000000)),
      (KPatch (Secrets ''ns'') ''g-5-0-node-password'' (forced controller_params)
         (Apply (secret_patch ''g-5-0-node-password'' ''password'' ''BlcA1x'')), RSecret sample_secret)]"

lemma sample_facts:
  "m_name (asg_meta sample_asg) = Some ''g''" "asg_spec sample_asg = sample_spec"
  "asg_name_of sample_asg = ''g''" "pv_secret_namespace sample_provider = ''ns''"
  by (simp_all add: sample_asg_def sample_provider_def empty_meta_def asg_name_of_def)

lemma prepare_sample:
  "after (prepare_scale_up sample_provider sample_asg ''g'')
     [(RandomAlnum 36, RChars ''x''),
      (KCreate (Secrets ''ns'') (OSecret (managed_secret ''ns'' ''g-password'' ''BlcA1x'')), RSecret sample_secret)]
   = Some (Done (Inr sample_su))"
  by (simp add: prepare_scale_up_def ensure_password_def sample_facts sample_spec_def sample_su_def Let_def
      generate_server_password_def client_defs asg_size_info_def resolve_variables_def warn_dropped_def
      build_node_labels_and_taints_def user_labels_def user_annotations_def user_taints_def)

lemma node_name_sample: "node_name_of sample_asg ''g'' (show_nat 5) 0 = ''g-5-0''"
  by (simp add: node_name_of_def sample_facts sample_spec_def show_i32_def show_int_def show_nat.simps
      digit_char_def char_of_def bit_0)

lemma scale_run_ends:
  "\<exists>q. after (node_group_increase_size sample_provider ''g'' 1)
     (scale_run @ (KCreate Nodes (ONode (scaled_node sample_su ''g-5-0'')), RUnit) # []) = Some q"
proof -
  have idx: "indices 1 = [0]" by (simp add: indices_def)
  have room: "\<not> exceeds_max 1 0 2" by (simp add: exceeds_max_def as_usize_def)
  have prep: "after (attempt (prepare_scale_up sample_provider sample_asg ''g'') f)
     ((RandomAlnum 36, RChars ''x'') #
      (KCreate (Secrets ''ns'') (OSecret (managed_secret ''ns'' ''g-password'' ''BlcA1x'')), RSecret sample_secret) # t)
     = after (f sample_su) t" for f :: "scale_up \<Rightarrow> unit rpc" and t
    using after_attempt(1) [OF prepare_sample, of f t] by simp
  show ?thesis
    by (simp add: scale_run_def node_group_increase_size_def with_group_def named_def find_asg_def
        sample_facts scale_group_up_def nodes_for_group_def kube_internal_def client_defs map_err_ask
        prep idx room create_one_def chrono_like_timestamp_def Let_def node_name_sample
        store_user_data_def create_secret_def create_scaled_node_def sample_spec_def sample_su_def
        node_password_secret_name_def word_sle_eq)
qed


section \<open>Scaling up\<close>

text \<open>
  C4: a Node is created by a scale-up only after, in the same call, the API server has accepted
  its password Secret and, if the group has user data, its user data Secret, under the names the
  provisioning controller looks them up by; the Node carries the cleanup finalizer and the label
  of the group asked for, whatever labels the template of the group has.
\<close>

theorem node_created_after_its_secrets:
  assumes "after (node_group_increase_size pv gid delta) (h @ (KCreate Nodes (ONode n), r) # u) = Some q"
  shows "\<exists>name a s. m_name (n_meta n) = Some name
    \<and> (StoreState, s) \<in> set h \<and> find (\<lambda>a. m_name (asg_meta a) = Some gid) (as_asgs s) = Some a
    \<and> m_finalizers (n_meta n) = Some [FINALIZER] \<and> meta_label (n_meta n) LABEL_ASG = Some gid
    \<and> secret_stored pv (node_password_secret_name name) ''password'' h
    \<and> (as_user_data (asg_spec a) = None
       \<or> secret_stored pv (user_data_secret_name name) ''user-data'' h)"
  using increase_size_guard [OF assms refl]
  by (auto simp: scale_guard_def node_create_guard_def room_for_def)

theorem node_created_after_its_secrets_witness:
  "secret_stored sample_provider (node_password_secret_name ''g-5-0'') ''password'' scale_run"
proof -
  obtain q where "after (node_group_increase_size sample_provider ''g'' 1)
     (scale_run @ (KCreate Nodes (ONode (scaled_node sample_su ''g-5-0'')), RUnit) # []) = Some q"
    using scale_run_ends by blast
  from node_created_after_its_secrets [OF this] show ?thesis by auto
qed

text \<open>
  C7: one call of increase-size creates at most the Nodes asked for, under different names, and,
  when the group has a maximum, never more than the maximum leaves after the Nodes that the group
  was just seen to have, those being deleted not counted.
\<close>

theorem scale_up_within_max:
  assumes "after (node_group_increase_size pv gid delta) h = Some p" and "created_nodes h \<noteq> []"
  shows "length (created_nodes h) \<le> nat (sint delta)
    \<and> distinct (map (\<lambda>n. m_name (n_meta n)) (created_nodes h))
    \<and> (\<exists>s a r nodes. (StoreState, s) \<in> set h
         \<and> find (\<lambda>a. m_name (asg_meta a) = Some gid) (as_asgs s) = Some a
         \<and> (KList Nodes (Some (''blc.samcday.com/asg='' @ gid)), r) \<in> set h \<and> as_nodes r = Inr nodes
         \<and> (length (live_nodes nodes) < 2 ^ 63 \<longrightarrow> 0 \<le>s as_max_size (asg_spec a) \<longrightarrow>
              int (length (live_nodes nodes)) + int (length (created_nodes h))
                \<le> sint (as_max_size (asg_spec a))))"
proof -
  note guard = increase_size_guard [OF assms(1)]
  have bound: "length (created_nodes h) \<le> nat (sint delta)"
    "distinct (map (\<lambda>n. m_name (n_meta n)) (created_nodes h))"
    using created_nodes_bounded [of h pv gid delta] guard by blast+
  obtain a where room: "room_for gid delta a h" using last_creation [of h pv gid delta] guard assms(2) by blast
  have limit: "int n + int (length (created_nodes h)) \<le> sint (as_max_size (asg_spec a))"
    if "\<not> exceeds_max delta n (as_max_size (asg_spec a))" and "n < 2 ^ 63"
      and "0 \<le>s as_max_size (asg_spec a)" for n
  proof -
    have "0 <s delta" using room by (simp add: room_for_def)
    with that have "sint delta + int n \<le> sint (as_max_size (asg_spec a))"
      by (simp add: exceeds_max_bound)
    moreover have "int (length (created_nodes h)) \<le> sint delta"
      using bound(1) \<open>0 <s delta\<close> by (simp add: word_sless_alt)
    ultimately show ?thesis by linarith
  qed
  from room bound limit show ?thesis unfolding room_for_def by blast
qed

theorem scale_up_within_max_witness:
  "length (created_nodes (scale_run @ [(KCreate Nodes (ONode (scaled_node sample_su ''g-5-0'')), RUnit)]))
     \<le> nat (sint (1 :: i32))"
proof -
  obtain q where "after (node_group_increase_size sample_provider ''g'' 1)
     (scale_run @ [(KCreate Nodes (ONode (scaled_node sample_su ''g-5-0'')), RUnit)]) = Some q"
    using scale_run_ends by blast
  from scale_up_within_max [OF this] show ?thesis by simp
qed


section \<open>Labels and taints of a group\<close>

lemma owned_labels_reserved: "fst ` set (owned_labels asg_name spec) \<subseteq> set RESERVED_LABELS"
  by (auto simp: owned_labels_def RESERVED_LABELS_def)

lemma at_taints_build:
  "at_taints (build_node_labels_and_taints asg_name spec) =
     base_taint # filter (\<lambda>t. ntt_key t \<notin> set RESERVED_TAINT_KEYS) (user_taints spec)"
  by (simp add: build_node_labels_and_taints_def Let_def merge_taints_eq split: prod.split)

lemma at_dropped_build:
  "at_dropped (build_node_labels_and_taints asg_name spec) =
     map ((@) ''label:'') (filter (\<lambda>k. k \<in> set RESERVED_LABELS) (map fst (user_labels spec)))
     @ map (\<lambda>t. ''taint:'' @ ntt_key t) (filter (\<lambda>t. ntt_key t \<in> set RESERVED_TAINT_KEYS) (user_taints spec))"
  using merge_labels_dropped [of "user_labels spec" "base_labels asg_name spec" "[]"]
  by (auto simp: build_node_labels_and_taints_def Let_def merge_taints_eq split: prod.split)

text \<open>
  C21: the labels of the Nodes of a group: under every reserved key exactly the label the controller
  owns, whatever the template says, and under every other key that of the template; the taints are
  the controller's, then those of the template less the reserved keys; and the keys reported as
  dropped are exactly the reserved keys of the template, labels first.
\<close>

theorem controller_labels_win:
  fixes asg_name :: string and spec :: asg_spec
  defines "attrs \<equiv> build_node_labels_and_taints asg_name spec"
  shows "map_of (at_labels attrs) k =
      (if k \<in> set RESERVED_LABELS then map_of (rev (owned_labels asg_name spec)) k
       else map_of (rev (user_labels spec)) k)
    \<and> at_taints attrs
      = base_taint # filter (\<lambda>t. ntt_key t \<notin> set RESERVED_TAINT_KEYS) (user_taints spec)
    \<and> at_dropped attrs
      = map ((@) ''label:'') (filter (\<lambda>k. k \<in> set RESERVED_LABELS) (map fst (user_labels spec)))
        @ map (\<lambda>t. ''taint:'' @ ntt_key t)
            (filter (\<lambda>t. ntt_key t \<in> set RESERVED_TAINT_KEYS) (user_taints spec))"
proof -
  have "map_of (rev (owned_labels asg_name spec)) k = None" if "k \<notin> set RESERVED_LABELS"
    using that owned_labels_reserved [of asg_name spec] by (auto simp: map_of_eq_None_iff)
  then show ?thesis
    by (auto simp: attrs_def at_taints_build at_dropped_build at_labels_build map_of_base_labels
        map_add_def restrict_map_def split: option.split)
qed

section \<open>The template of a group\<close>

text \<open>
  C22: the Node the autoscaler simulates with is like the ones a scale-up creates: the same labels
  but for the host name, the same taints and the same annotations.
\<close>

theorem template_shows_created_nodes:
  fixes a :: asg and su :: scale_up and g name :: string
  defines "n \<equiv> scaled_node (su\<lparr>su_attrs := build_node_labels_and_taints g (asg_spec a)\<rparr>) name"
  shows "(\<forall>k. map_of (pn_labels (template_node a g sizes)) k
        = (if k = LABEL_HOSTNAME then Some (''template-'' @ g) else meta_label (n_meta n) k))
    \<and> map (\<lambda>t. (ntt_key t, ntt_value t, ntt_effect t)) (pn_taints (template_node a g sizes))
      = map (\<lambda>t. (t_key t, t_value t, t_effect t)) (unwrap_or (Option.bind (n_spec n) ns_taints) [])
    \<and> pn_annotations (template_node a g sizes) = unwrap_or (m_annotations (n_meta n)) []"
  by (simp add: n_def template_node_def Let_def scaled_node_def meta_label_def empty_meta_def)

text \<open>
  What the template offers for Pods, as numbers: for sizes of at least one CPU, 256 MB and one
  GB, and fewer than two million CPUs, the reserve is taken off exactly; with less than 256 MB the
  memory offered is a negative number, which no Quantity of a Node can be.
\<close>

theorem template_allocatable_exact:
  assumes "1 \<le>s vcpus" and "vcpus \<le>s 2000000"
  shows "map_of (template_allocatable (vcpus, memory_mb, disk_gb)) ''cpu''
      = Some (show_int (sint vcpus * 1000 - 100) @ ''m'')
    \<and> map_of (template_allocatable (vcpus, memory_mb, disk_gb)) ''memory''
      = Some (show_int (max (- (2 ^ 31)) (sint memory_mb - 256)) @ ''Mi'')
    \<and> map_of (template_allocatable (vcpus, memory_mb, disk_gb)) ''ephemeral-storage''
      = Some (show_int (max (- (2 ^ 31)) (sint disk_gb - 1)) @ ''Gi'')"
proof -
  have sat: "sint (saturating_sub a b) = max (- (2 ^ 31)) (sint a - sint b)" if "0 \<le> sint b" for a b
    using that sint_i32_bounds [of a] sint_i32_bounds [of b]
    by (simp add: saturating_sub_def sint_sbintrunc' min_def max_def signed_take_bit_int_eq_self)
  have "sint (vcpus * 1000) = sint vcpus * 1000"
    using assms by (simp add: word_sle_eq sint_word_ariths signed_take_bit_int_eq_self)
  then show ?thesis
    using assms sat [of 1 disk_gb] sat [of 256 memory_mb] sat [of 100 "vcpus * 1000"]
    by (simp add: template_allocatable_def show_i32_def word_sle_eq sat max_def)
qed

theorem template_allocatable_exact_witness:
  "map_of (template_allocatable (2, 128, 60)) ''memory'' = Some (show_int (- 128) @ ''Mi'')"
  using template_allocatable_exact [of 2 128 60] by (simp add: word_sle_eq)


section \<open>The group of a Node\<close>

definition in_group :: "string \<Rightarrow> asg \<Rightarrow> bool" where
  "in_group node_name a \<longleftrightarrow> is_some_and (\<lambda>g. prefix (asg_prefix a g) node_name) (m_name (asg_meta a))"

lemma group_for_name_find:
  "map_option ng_id (group_for_name node_name asgs) =
     Option.bind (find (in_group node_name) asgs) (\<lambda>a. m_name (asg_meta a))"
  by (induction node_name asgs rule: group_for_name.induct)
     (auto simp: in_group_def split: option.split)

lemma prefix_of_created: "prefix (asg_prefix a g) (node_name_of a g ts i)"
  by (simp add: asg_prefix_def node_name_of_def prefix_def)

text \<open>
  C31: a Node is attributed to the first group in the store whose prefix its name starts with; so
  every Node that a scale-up of a group names is attributed to that group, or to a group earlier
  in the store whose prefix starts the same name.
\<close>

theorem created_node_finds_its_group:
  assumes "asgs = before @ a # behind" and "m_name (asg_meta a) = Some g"
  shows "map_option ng_id (group_for_name (node_name_of a g ts i) asgs) =
     (case find (in_group (node_name_of a g ts i)) before of
        None \<Rightarrow> Some g
      | Some b \<Rightarrow> m_name (asg_meta b))"
proof -
  have "in_group (node_name_of a g ts i) a" by (simp add: in_group_def assms(2) prefix_of_created)
  moreover have "find P (before @ a # behind) = (case find P before of None \<Rightarrow> Some a | Some b \<Rightarrow> Some b)"
    if "P a" for P
    using that by (induction before) simp_all
  ultimately show ?thesis by (simp add: group_for_name_find assms split: option.split)
qed

theorem created_node_finds_its_group_witness:
  "map_option ng_id (group_for_name (node_name_of sample_asg ''g'' ''5'' 0) [sample_asg]) = Some ''g''"
  using created_node_finds_its_group [of "[sample_asg]" "[]" sample_asg "[]" "''g''" "''5''" 0]
  by (simp add: sample_facts)

text \<open>
  A group whose name is the start of another group's name, up to a hyphen, takes the Nodes of
  the other one when it comes first in the store and the two have the same name prefix.
\<close>

theorem shorter_name_takes_nodes:
  assumes "m_name (asg_meta a) = Some g" and "as_name_prefix (asg_spec b) = as_name_prefix (asg_spec a)"
  shows "map_option ng_id (group_for_name (node_name_of b (g @ ''-'' @ rest) ts i) (a # b # asgs)) = Some g"
  using assms
  by (simp add: group_for_name_find in_group_def asg_prefix_def node_name_of_def prefix_def)

definition longer_asg :: asg where
  "longer_asg = sample_asg\<lparr>asg_meta := empty_meta\<lparr>m_name := Some ''g-gpu''\<rparr>\<rparr>"

theorem shorter_name_takes_nodes_witness:
  "map_option ng_id (group_for_name (node_name_of longer_asg ''g-gpu'' ''5'' 0) [sample_asg, longer_asg])
     = Some ''g''"
  using shorter_name_takes_nodes [of sample_asg "''g''" longer_asg "''gpu''" "''5''" 0 "[]"]
  by (simp add: sample_facts longer_asg_def)

section \<open>Deleting Nodes\<close>











end
