(* ===== verification/Dns_Webhook.thy ===== *)
theory Dns_Webhook
  imports Controllers
begin

text \<open>
  The webhook of external-dns (\<open>src/dns_webhook.rs\<close>): the handlers behind \<open>GET /\<close>,
  \<open>GET /records\<close>, \<open>POST /records\<close> and \<open>POST /adjustendpoints\<close>, and the functions that map an
  endpoint to a domain and a record.

  The futures of \<open>try_join_all\<close> only send \<open>GET\<close> requests; they are run here one after the other.
  The order in which a \<open>HashSet\<close> is iterated is a reply of the environment.
\<close>

section \<open>Messages\<close>

record endpoint =
  ep_dns_name :: string
  ep_targets :: "string list"
  ep_record_type :: string
  ep_record_ttl :: i64
  ep_set_identifier :: string
  ep_labels :: str_map
  ep_provider_specific :: str_map

record changes =
  ch_create :: "endpoint list"
  ch_update_old :: "endpoint list"
  ch_update_new :: "endpoint list"
  ch_delete :: "endpoint list"

record domain_filter =
  df_include :: "string list"
  df_exclude :: "string list"

record webhook =
  wh_bl :: client
  wh_fuel :: nat

section \<open>Names and domains\<close>

definition supported_record_type :: "string \<Rightarrow> bool" where
  "supported_record_type t \<longleftrightarrow>
     t \<in> {''A'', ''AAAA'', ''CNAME'', ''TXT'', ''SRV'', ''NS''}"

definition normalize_dns_name :: "string \<Rightarrow> string" where
  "normalize_dns_name n = to_ascii_lowercase (trim_end_char CHR ''.'' n)"

definition record_dns_name :: "string \<Rightarrow> string \<Rightarrow> string" where
  "record_dns_name dn rn = (if rn = ''@'' then dn else rn @ ''.'' @ dn)"

definition matches_domain :: "string \<Rightarrow> string \<Rightarrow> bool" where
  "matches_domain dns_name candidate \<longleftrightarrow>
     dns_name = candidate \<or> suffix (CHR ''.'' # candidate) dns_name"

text \<open>The loop of \<open>map_endpoint_to_domain\<close>: the length of \<open>best\<close> is that of the name as listed.\<close>

fun best_domain :: "string \<Rightarrow> string list \<Rightarrow> string option \<Rightarrow> string option" where
  "best_domain dns_name [] best = best"
| "best_domain dns_name (d # ds) best =
     (let candidate = normalize_dns_name d in
      if matches_domain dns_name candidate
         \<and> (case best of None \<Rightarrow> True | Some current \<Rightarrow> length current < length candidate)
      then best_domain dns_name ds (Some d)
      else best_domain dns_name ds best)"

definition map_endpoint_to_domain :: "endpoint \<Rightarrow> string list \<Rightarrow> (string \<times> string) io" where
  "map_endpoint_to_domain ep domains =
     (let dns_name = normalize_dns_name (ep_dns_name ep) in
      case best_domain dns_name domains None of
        None \<Rightarrow> Done (Inl (EBail (''no matching domain for endpoint '' @ ep_dns_name ep)))
      | Some dn \<Rightarrow>
          (let normalized = normalize_dns_name dn in
           if dns_name = normalized then Done (Inr (dn, ''@''))
           else
             (case strip_suffix (CHR ''.'' # normalized) dns_name of
                None \<Rightarrow> Panic ''guaranteed by ends_with check above''
              | Some rn \<Rightarrow> Done (Inr (dn, rn)))))"

definition parse_provider_specific_i64 :: "endpoint \<Rightarrow> string \<Rightarrow> i64 option io" where
  "parse_provider_specific_i64 ep key =
     (case find (\<lambda>(n, v). eq_ignore_ascii_case n key) (ep_provider_specific ep) of
        None \<Rightarrow> Done (Inr None)
      | Some (n, v) \<Rightarrow>
          (case parse_i64 v of
             Inl e \<Rightarrow> Done (Inl (EContext (''parsing provider specific value '' @ key @ ''='' @ v) (EParse e)))
           | Inr i \<Rightarrow> Done (Inr (Some i))))"

definition endpoint_priority :: "endpoint \<Rightarrow> i64 option io" where
  "endpoint_priority ep = parse_provider_specific_i64 ep ''priority''"

definition endpoint_port :: "endpoint \<Rightarrow> i64 option io" where
  "endpoint_port ep = parse_provider_specific_i64 ep ''port''"

definition endpoint_weight :: "endpoint \<Rightarrow> i64 option io" where
  "endpoint_weight ep = parse_provider_specific_i64 ep ''weight''"

section \<open>Listing\<close>

definition get_root :: "webhook \<Rightarrow> domain_filter io" where
  "get_root wh =
     attempt (list_domains (wh_bl wh) (wh_fuel wh)) (\<lambda>domains.
       Done (Inr \<lparr>df_include = map dm_name domains, df_exclude = []\<rparr>))"

fun join_all :: "'x list \<Rightarrow> ('x \<Rightarrow> 'a io) \<Rightarrow> 'a list io" where
  "join_all [] f = Done (Inr [])"
| "join_all (x # xs) f = attempt (f x) (\<lambda>y. attempt (join_all xs f) (\<lambda>ys. Done (Inr (y # ys))))"

definition records_of :: "webhook \<Rightarrow> string \<Rightarrow> (string \<times> domain_record list) io" where
  "records_of wh dn =
     attempt (list_domain_records (wh_bl wh) (wh_fuel wh) dn) (\<lambda>records. Done (Inr (dn, records)))"

text \<open>The key of the \<open>BTreeMap\<close>, a pair compared by its first component, then the second.\<close>

datatype record_key = Record_Key (rk_dns_name: string) (rk_type: string)

instantiation record_key :: linorder
begin

definition less_eq_record_key :: "record_key \<Rightarrow> record_key \<Rightarrow> bool" where
  "less_eq_record_key a b \<longleftrightarrow>
     rk_dns_name a < rk_dns_name b \<or> rk_dns_name a = rk_dns_name b \<and> rk_type a \<le> rk_type b"

definition less_record_key :: "record_key \<Rightarrow> record_key \<Rightarrow> bool" where
  "less_record_key a b \<longleftrightarrow>
     rk_dns_name a < rk_dns_name b \<or> rk_dns_name a = rk_dns_name b \<and> rk_type a < rk_type b"

instance
  by standard
     (auto simp: less_eq_record_key_def less_record_key_def record_key.expand)

end

type_synonym grouping = "(record_key \<times> endpoint) list"

definition new_endpoint :: "string \<Rightarrow> domain_record \<Rightarrow> endpoint" where
  "new_endpoint dns_name r =
     \<lparr>ep_dns_name = dns_name, ep_targets = [], ep_record_type = dr_record_type r,
      ep_record_ttl = dr_ttl r, ep_set_identifier = [], ep_labels = [], ep_provider_specific = []\<rparr>"

definition group_record :: "string \<Rightarrow> domain_record \<Rightarrow> grouping \<Rightarrow> grouping" where
  "group_record dn r grouped =
     (if \<not> supported_record_type (dr_record_type r) then grouped
      else
        (let dns_name = record_dns_name dn (dr_name r);
             key = Record_Key dns_name (dr_record_type r);
             ep = unwrap_or (map_of grouped key) (new_endpoint dns_name r)
         in bt_insert key (ep\<lparr>ep_targets := ep_targets ep @ [dr_data r]\<rparr>) grouped))"

definition group_records :: "(string \<times> domain_record list) list \<Rightarrow> grouping" where
  "group_records rs = fold (\<lambda>(dn, records). fold (group_record dn) records) rs []"

definition sort_targets :: "endpoint \<Rightarrow> endpoint" where
  "sort_targets ep = ep\<lparr>ep_targets := remdups_adj (sort (ep_targets ep))\<rparr>"

definition endpoints_of :: "(string \<times> domain_record list) list \<Rightarrow> endpoint list" where
  "endpoints_of rs = map (\<lambda>(k, ep). sort_targets ep) (group_records rs)"

definition get_records :: "webhook \<Rightarrow> endpoint list io" where
  "get_records wh =
     attempt (list_domains (wh_bl wh) (wh_fuel wh)) (\<lambda>domains.
     attempt (join_all (map dm_name domains) (records_of wh)) (\<lambda>rs.
     Done (Inr (endpoints_of rs))))"

section \<open>Changing records\<close>

definition hash_order :: "string list \<Rightarrow> string list io" where
  "hash_order xs = ask (HashOrder xs) (\<lambda>r. Inr (as_order xs r))"

definition record_request ::
  "endpoint \<Rightarrow> string \<Rightarrow> string \<Rightarrow> i64 option \<Rightarrow> i64 option \<Rightarrow> i64 option \<Rightarrow> create_domain_record_request"
  where
  "record_request ep rn target priority port weight =
     \<lparr>cd_record_type = ep_record_type ep, cd_name = rn, cd_data = target,
      cd_priority = priority, cd_port = port, cd_weight = weight\<rparr>"

text \<open>The three provider-specific values, then one request for each target.\<close>

definition create_targets :: "webhook \<Rightarrow> endpoint \<Rightarrow> string \<Rightarrow> string \<Rightarrow> string list \<Rightarrow> unit io" where
  "create_targets wh ep dn rn targets =
     attempt (endpoint_priority ep) (\<lambda>priority.
     attempt (endpoint_port ep) (\<lambda>port.
     attempt (endpoint_weight ep) (\<lambda>weight.
     for_each targets (\<lambda>target.
       attempt (create_domain_record (wh_bl wh) dn
                 (record_request ep rn target priority port weight)) (\<lambda>_. Done (Inr ()))))))"

definition create_endpoint :: "webhook \<Rightarrow> string list \<Rightarrow> endpoint \<Rightarrow> unit io" where
  "create_endpoint wh domains ep =
     attempt (map_endpoint_to_domain ep domains) (\<lambda>(dn, rn).
       create_targets wh ep dn rn (ep_targets ep))"

type_synonym records_map = "(string \<times> domain_record list) list"

definition delete_matching ::
  "webhook \<Rightarrow> string \<Rightarrow> domain_record list \<Rightarrow> (domain_record \<Rightarrow> bool) \<Rightarrow> unit io" where
  "delete_matching wh dn records select =
     for_each records (\<lambda>r.
       do_when (select r) (delete_domain_record (wh_bl wh) dn (dr_id r)))"

definition names_record :: "string \<Rightarrow> endpoint \<Rightarrow> domain_record \<Rightarrow> bool" where
  "names_record rn ep r \<longleftrightarrow>
     dr_name r = rn \<and> eq_ignore_ascii_case (dr_record_type r) (ep_record_type ep)"


text \<open>
  One pair of \<open>old.iter().zip(new.iter())\<close>.  \<open>to_create\<close> is collected from a \<open>HashSet\<close>, so its
  order is a reply; \<open>to_delete\<close> is only tested for membership.
\<close>

definition update_endpoint ::
  "webhook \<Rightarrow> string list \<Rightarrow> records_map \<Rightarrow> endpoint \<times> endpoint \<Rightarrow> unit io" where
  "update_endpoint wh domains records_map = (\<lambda>(old_ep, new_ep).
     attempt (map_endpoint_to_domain new_ep domains) (\<lambda>(dn, rn).
     attempt (hash_order (ep_targets new_ep)) (\<lambda>new_targets.
     (let to_create = filter (\<lambda>t. t \<notin> set (ep_targets old_ep)) new_targets;
          to_delete = set (ep_targets old_ep) - set (ep_targets new_ep) in
      attempt (create_targets wh new_ep dn rn to_create) (\<lambda>_.
      if set (ep_targets old_ep) \<subseteq> set (ep_targets new_ep) then Done (Inr ())
      else
        delete_matching wh dn (unwrap_or (map_of records_map dn) [])
          (\<lambda>r. names_record rn old_ep r \<and> dr_data r \<in> to_delete))))))"

definition apply_updates ::
  "webhook \<Rightarrow> string list \<Rightarrow> records_map \<Rightarrow> endpoint list \<Rightarrow> endpoint list \<Rightarrow> unit io" where
  "apply_updates wh domains records_map old new =
     for_each (zip old new) (update_endpoint wh domains records_map)"

definition delete_endpoint :: "webhook \<Rightarrow> string list \<Rightarrow> records_map \<Rightarrow> endpoint \<Rightarrow> unit io" where
  "delete_endpoint wh domains records_map ep =
     attempt (map_endpoint_to_domain ep domains) (\<lambda>(dn, rn).
       delete_matching wh dn (unwrap_or (map_of records_map dn) [])
         (\<lambda>r. names_record rn ep r \<and> (ep_targets ep = [] \<or> dr_data r \<in> set (ep_targets ep))))"

definition apply_deletes :: "webhook \<Rightarrow> string list \<Rightarrow> records_map \<Rightarrow> endpoint list \<Rightarrow> unit io" where
  "apply_deletes wh domains records_map eps =
     for_each eps (delete_endpoint wh domains records_map)"

text \<open>The domains of the endpoints whose records are read, and those whose cache is flushed.\<close>

definition needed_domains :: "string list \<Rightarrow> endpoint list \<Rightarrow> string list io" where
  "needed_domains domains eps =
     join_all eps (\<lambda>ep. attempt (map_endpoint_to_domain ep domains) (\<lambda>(dn, rn). Done (Inr dn)))"

fun affected_domains :: "string list \<Rightarrow> endpoint list \<Rightarrow> string list eff" where
  "affected_domains domains [] = Done []"
| "affected_domains domains (ep # eps) =
     bind (map_endpoint_to_domain ep domains) (\<lambda>x.
       bind (affected_domains domains eps) (\<lambda>ds.
         Done (case x of Inl e \<Rightarrow> ds | Inr (dn, rn) \<Rightarrow> dn # ds)))"

definition flush_cache :: "webhook \<Rightarrow> string list \<Rightarrow> changes \<Rightarrow> unit io" where
  "flush_cache wh domains ch =
     bind (affected_domains domains (ch_create ch @ ch_update_new ch @ ch_delete ch)) (\<lambda>affected.
       if affected = [] then Done (Inr ())
       else
         attempt (hash_order affected) (\<lambda>refs.
         bind (refresh_nameserver_cache (wh_bl wh) refs) (\<lambda>_. Done (Inr ()))))"

definition post_records :: "webhook \<Rightarrow> changes \<Rightarrow> unit io" where
  "post_records wh ch =
     attempt (list_domains (wh_bl wh) (wh_fuel wh)) (\<lambda>listed.
     (let domains = map dm_name listed in
      attempt (needed_domains domains (ch_update_old ch @ ch_update_new ch @ ch_delete ch)) (\<lambda>needed.
      attempt (hash_order needed) (\<lambda>order.
      attempt (join_all order (records_of wh)) (\<lambda>records_map.
      attempt (for_each (ch_create ch) (create_endpoint wh domains)) (\<lambda>_.
      attempt (apply_updates wh domains records_map (ch_update_old ch) (ch_update_new ch)) (\<lambda>_.
      attempt (apply_deletes wh domains records_map (ch_delete ch)) (\<lambda>_.
      flush_cache wh domains ch))))))))"

definition post_adjust_endpoints :: "endpoint list \<Rightarrow> endpoint list io" where
  "post_adjust_endpoints eps = Done (Inr eps)"

section \<open>The server\<close>

definition WEBHOOK_CONTENT_TYPE :: string where
  "WEBHOOK_CONTENT_TYPE = ''application/external.dns.webhook+json;version=1''"

datatype webhook_body =
    WNone | WFilter domain_filter | WEndpoints "endpoint list" | WError string

record webhook_response =
  wr_status :: nat
  wr_content_type :: "string option"
  wr_body :: webhook_body

definition webhook_json :: "webhook_body \<Rightarrow> webhook_response" where
  "webhook_json b =
     \<lparr>wr_status = 200, wr_content_type = Some WEBHOOK_CONTENT_TYPE, wr_body = b\<rparr>"

definition app_error :: "err \<Rightarrow> webhook_response" where
  "app_error e =
     \<lparr>wr_status = 500, wr_content_type = Some WEBHOOK_CONTENT_TYPE, wr_body = WError (show_err e)\<rparr>"

definition no_content :: webhook_response where
  "no_content = \<lparr>wr_status = 204, wr_content_type = None, wr_body = WNone\<rparr>"

definition respond :: "('a \<Rightarrow> webhook_response) \<Rightarrow> 'a io \<Rightarrow> webhook_response eff" where
  "respond f p = bind p (\<lambda>x. Done (case x of Inl e \<Rightarrow> app_error e | Inr y \<Rightarrow> f y))"

datatype webhook_request =
    Get_Root | Get_Records | Post_Records changes | Post_Adjust_Endpoints "endpoint list"

fun handle_request :: "webhook \<Rightarrow> webhook_request \<Rightarrow> webhook_response eff" where
  "handle_request wh Get_Root = respond (\<lambda>f. webhook_json (WFilter f)) (get_root wh)"
| "handle_request wh Get_Records = respond (\<lambda>eps. webhook_json (WEndpoints eps)) (get_records wh)"
| "handle_request wh (Post_Records ch) = respond (\<lambda>_. no_content) (post_records wh ch)"
| "handle_request wh (Post_Adjust_Endpoints eps) =
     respond (\<lambda>eps. webhook_json (WEndpoints eps)) (post_adjust_endpoints eps)"

end
