(* ===== verification/Dns_Records.thy ===== *)
theory Dns_Records
  imports Dns_Webhook
begin

text \<open>
  What the webhook promises to external-dns: an endpoint goes to the longest domain that contains
  its name, the records reported are those of BinaryLane, grouped, and a change creates and deletes
  what it asks for and nothing else.
\<close>

section \<open>The domain of an endpoint\<close>

definition domain_of :: "string list \<Rightarrow> endpoint \<Rightarrow> err + (string \<times> string)" where
  "domain_of domains ep =
     (let name = normalize_dns_name (ep_dns_name ep) in
      case best_domain name domains None of
        None \<Rightarrow> Inl (EBail (''no matching domain for endpoint '' @ ep_dns_name ep))
      | Some d \<Rightarrow>
          (case strip_suffix (CHR ''.'' # normalize_dns_name d) name of
             None \<Rightarrow> Inr (d, ''@'')
           | Some rn \<Rightarrow> Inr (d, rn)))"

lemma best_domain_matches:
  "best_domain name ds best = Some d \<Longrightarrow>
     best = Some d \<or> d \<in> set ds \<and> matches_domain name (normalize_dns_name d)"
  by (induction name ds best rule: best_domain.induct) (auto simp: Let_def split: if_splits)

lemma best_domain_longest:
  assumes "\<forall>d \<in> set ds. length (normalize_dns_name d) = length d"
    and "best_domain name ds best = Some d"
  shows "(\<forall>b. best = Some b \<longrightarrow> length b \<le> length d)
    \<and> (\<forall>d' \<in> set ds. matches_domain name (normalize_dns_name d') \<longrightarrow> length d' \<le> length d)"
  using assms
proof (induction name ds best rule: best_domain.induct)
  case (2 name d0 ds best)
  let ?take = "matches_domain name (normalize_dns_name d0)
    \<and> (case best of None \<Rightarrow> True | Some b \<Rightarrow> length b < length (normalize_dns_name d0))"
  show ?case
  proof (cases ?take)
    case True
    with 2(1) [OF refl True] 2(3,4) have "length d0 \<le> length d"
      "\<forall>d' \<in> set ds. matches_domain name (normalize_dns_name d') \<longrightarrow> length d' \<le> length d"
      by (simp_all add: Let_def)
    with True 2(3) show ?thesis by (auto split: option.splits)
  next
    case False
    with 2(2) [OF refl False] 2(3,4) have "\<forall>b. best = Some b \<longrightarrow> length b \<le> length d"
      "\<forall>d' \<in> set ds. matches_domain name (normalize_dns_name d') \<longrightarrow> length d' \<le> length d"
      by (simp_all add: Let_def)
    with False 2(3) show ?thesis by (auto split: option.splits)
  qed
qed simp

lemma best_domain_None:
  "best_domain name ds best = None \<longleftrightarrow>
     best = None \<and> (\<forall>d \<in> set ds. \<not> matches_domain name (normalize_dns_name d))"
  by (induction name ds best rule: best_domain.induct) (auto simp: Let_def split: option.splits)

lemma not_both_matches: "\<not> suffix (CHR ''.'' # c) c"
  using suffix_length_le by fastforce

text \<open>The \<open>expect\<close> in \<open>map_endpoint_to_domain\<close> never fails.\<close>

lemma map_endpoint_domain_of: "map_endpoint_to_domain ep domains = Done (domain_of domains ep)"
proof (cases "best_domain (normalize_dns_name (ep_dns_name ep)) domains None")
  case None
  then show ?thesis by (simp add: map_endpoint_to_domain_def domain_of_def)
next
  case (Some d)
  let ?name = "normalize_dns_name (ep_dns_name ep)"
  have "matches_domain ?name (normalize_dns_name d)" using best_domain_matches [OF Some] by simp
  then show ?thesis
    using Some not_both_matches [of "normalize_dns_name d"]
    by (auto simp: map_endpoint_to_domain_def domain_of_def Let_def matches_domain_def
        strip_suffix_def)
qed

lemma domain_of_cases:
  "case domain_of domains ep of
     Inl e \<Rightarrow> \<forall>d \<in> set domains. \<not> matches_domain (normalize_dns_name (ep_dns_name ep)) (normalize_dns_name d)
   | Inr (d, rn) \<Rightarrow> d \<in> set domains
       \<and> best_domain (normalize_dns_name (ep_dns_name ep)) domains None = Some d
       \<and> (normalize_dns_name (ep_dns_name ep) = normalize_dns_name d \<and> rn = ''@''
          \<or> normalize_dns_name (ep_dns_name ep) = rn @ ''.'' @ normalize_dns_name d)"
proof (cases "best_domain (normalize_dns_name (ep_dns_name ep)) domains None")
  case None
  with best_domain_None [of "normalize_dns_name (ep_dns_name ep)" domains None] show ?thesis
    by (simp add: domain_of_def Let_def)
next
  case (Some d)
  with best_domain_matches [OF Some] show ?thesis
    by (auto simp: domain_of_def Let_def matches_domain_def strip_suffix_def suffix_def
        split: option.split)
qed

text \<open>
  C17: an endpoint is mapped, without a panic, to the longest of the domains that contain its name,
  the name in lower case and without trailing dots, and to the record whose name under that domain
  is the name of the endpoint, \<open>@\<close> standing for the domain itself; it is refused only when no
  domain contains its name.  Domain names are listed without trailing dots.
\<close>

theorem endpoint_goes_to_longest_domain:
  assumes "\<forall>d \<in> set domains. length (normalize_dns_name d) = length d"
    and "name = normalize_dns_name (ep_dns_name ep)"
  shows "\<exists>x. map_endpoint_to_domain ep domains = Done x \<and>
    (case x of
       Inl e \<Rightarrow> \<forall>d \<in> set domains. \<not> matches_domain name (normalize_dns_name d)
     | Inr (d, rn) \<Rightarrow> d \<in> set domains
         \<and> (name = normalize_dns_name d \<and> rn = ''@'' \<or> name = rn @ ''.'' @ normalize_dns_name d)
         \<and> (\<forall>d' \<in> set domains. matches_domain name (normalize_dns_name d') \<longrightarrow> length d' \<le> length d))"
  using domain_of_cases [of domains ep] best_domain_longest [OF assms(1)] assms(2)
  by (auto simp: map_endpoint_domain_of split: sum.split)

definition sample_endpoint :: endpoint where
  "sample_endpoint =
     \<lparr>ep_dns_name = ''a.b.c'', ep_targets = [''1''], ep_record_type = ''A'', ep_record_ttl = 0,
      ep_set_identifier = [], ep_labels = [], ep_provider_specific = []\<rparr>"


theorem endpoint_goes_to_longest_domain_witness:
  "map_endpoint_to_domain sample_endpoint [''c'', ''b.c''] = Done (Inr (''b.c'', ''a''))"
proof -
  have names: "normalize_dns_name ''c'' = ''c''" "normalize_dns_name ''b.c'' = ''b.c''"
    "normalize_dns_name (ep_dns_name sample_endpoint) = ''a.b.c''"
    by (simp_all add: sample_endpoint_def normalize_dns_name_def to_ascii_lowercase_def
        trim_end_char_def ascii_lower_def)
  have "matches_domain ''a.b.c'' ''b.c''" by (simp add: matches_domain_def suffix_def)
  moreover obtain x where x: "map_endpoint_to_domain sample_endpoint [''c'', ''b.c''] = Done x"
    and "case x of
       Inl e \<Rightarrow> \<forall>d \<in> set [''c'', ''b.c'']. \<not> matches_domain ''a.b.c'' (normalize_dns_name d)
     | Inr (d, rn) \<Rightarrow> d \<in> set [''c'', ''b.c'']
         \<and> (''a.b.c'' = normalize_dns_name d \<and> rn = ''@'' \<or> ''a.b.c'' = rn @ ''.'' @ normalize_dns_name d)
         \<and> (\<forall>d' \<in> set [''c'', ''b.c'']. matches_domain ''a.b.c'' (normalize_dns_name d') \<longrightarrow> length d' \<le> length d)"
    using endpoint_goes_to_longest_domain [of "[''c'', ''b.c'']" "''a.b.c''" sample_endpoint]
    by (auto simp: names)
  ultimately have "x = Inr (''b.c'', ''a'')"
    by (cases x) (auto simp: names append_eq_Cons_conv)
  with x show ?thesis by simp
qed

section \<open>The records reported\<close>

definition reported :: "grouping \<Rightarrow> record_key \<Rightarrow> string list" where
  "reported m k = (case map_of m k of None \<Rightarrow> [] | Some ep \<Rightarrow> ep_targets ep)"

definition keyed :: "grouping \<Rightarrow> bool" where
  "keyed m \<longleftrightarrow> bt_wf m \<and> (\<forall>(k, ep) \<in> set m. k = Record_Key (ep_dns_name ep) (ep_record_type ep))"

definition record_key_of :: "string \<Rightarrow> domain_record \<Rightarrow> record_key" where
  "record_key_of dn r = Record_Key (record_dns_name dn (dr_name r)) (dr_record_type r)"

text \<open>The supported records of all domains, with their keys, in the order of the listing.\<close>

definition all_records :: "(string \<times> domain_record list) list \<Rightarrow> (record_key \<times> string) list" where
  "all_records rs = concat (map (\<lambda>(dn, records).
     map (\<lambda>r. (record_key_of dn r, dr_data r))
       (filter (\<lambda>r. supported_record_type (dr_record_type r)) records)) rs)"

lemma set_bt_insert: "bt_wf m \<Longrightarrow> set (bt_insert k v m) = insert (k, v) {(k', v') \<in> set m. k' \<noteq> k}"
proof (induction k v m rule: bt_insert.induct)
  case (2 k v a b m)
  then show ?case by (auto simp: bt_wf_def)
qed simp

lemma keyed_lookup:
  "keyed m \<Longrightarrow> map_of m (Record_Key n t) = Some ep \<Longrightarrow> ep_dns_name ep = n \<and> ep_record_type ep = t"
  by (fastforce simp: keyed_def dest!: map_of_SomeD)

lemma group_record_keyed: "keyed m \<Longrightarrow> keyed (group_record dn r m)"
proof (cases "map_of m (record_key_of dn r)")
  case None
  moreover assume "keyed m"
  ultimately show ?thesis
    by (auto simp: group_record_def Let_def new_endpoint_def record_key_of_def keyed_def set_bt_insert)
next
  case (Some ep)
  moreover assume "keyed m"
  moreover have "ep_dns_name ep = record_dns_name dn (dr_name r) \<and> ep_record_type ep = dr_record_type r"
    using keyed_lookup [OF \<open>keyed m\<close>] Some by (simp add: record_key_of_def)
  ultimately show ?thesis
    by (auto simp: group_record_def Let_def record_key_of_def keyed_def set_bt_insert)
qed

lemma reported_group_record:
  "reported (group_record dn r m) k =
     reported m k @ (if supported_record_type (dr_record_type r) \<and> record_key_of dn r = k
                     then [dr_data r] else [])"
  by (cases "map_of m (record_key_of dn r)")
     (auto simp: reported_def group_record_def Let_def record_key_of_def new_endpoint_def)

lemma group_records_facts:
  "keyed (group_records rs)
    \<and> reported (group_records rs) k = map snd (filter (\<lambda>(k', x). k' = k) (all_records rs))"
proof -
  have inner: "keyed (fold (group_record dn) records m)
      \<and> reported (fold (group_record dn) records m) k
        = reported m k @ map snd (filter (\<lambda>(k', x). k' = k)
            (map (\<lambda>r. (record_key_of dn r, dr_data r))
              (filter (\<lambda>r. supported_record_type (dr_record_type r)) records)))"
    if "keyed m" for dn records m
    using that
    by (induction records arbitrary: m) (simp_all add: group_record_keyed reported_group_record)
  have "keyed (fold (\<lambda>(dn, records). fold (group_record dn) records) rs m)
      \<and> reported (fold (\<lambda>(dn, records). fold (group_record dn) records) rs m) k
        = reported m k @ map snd (filter (\<lambda>(k', x). k' = k) (all_records rs))"
    if "keyed m" for m
    using that
  proof (induction rs arbitrary: m)
    case (Cons e rs)
    obtain dn records where "e = (dn, records)" by fastforce
    with Cons inner [of m dn records] show ?case by (simp add: all_records_def)
  qed (simp add: all_records_def)
  from this [of "[]"] show ?thesis by (simp add: group_records_def keyed_def reported_def)
qed

lemma group_records_nonempty:
  "(k, ep) \<in> set (group_records rs) \<Longrightarrow> ep_targets ep = reported (group_records rs) k"
proof -
  assume "(k, ep) \<in> set (group_records rs)"
  moreover have "distinct (map fst (group_records rs))"
    using group_records_facts [of rs] by (auto simp: keyed_def bt_wf_def strict_sorted_iff)
  ultimately show ?thesis by (simp add: reported_def)
qed

lemma endpoints_of_exact:
  "sorted_wrt (<) (map (\<lambda>ep. Record_Key (ep_dns_name ep) (ep_record_type ep)) (endpoints_of rs))"
  (is ?sorted)
  "ep \<in> set (endpoints_of rs) \<Longrightarrow> sorted (ep_targets ep) \<and> distinct (ep_targets ep)
    \<and> set (ep_targets ep) = {x. (Record_Key (ep_dns_name ep) (ep_record_type ep), x) \<in> set (all_records rs)}"
  (is "_ \<Longrightarrow> ?targets ep")
  "(k, x) \<in> set (all_records rs) \<Longrightarrow>
    \<exists>ep \<in> set (endpoints_of rs). k = Record_Key (ep_dns_name ep) (ep_record_type ep)"
proof -
  have keyed: "keyed (group_records rs)" using group_records_facts by blast
  have key: "k = Record_Key (ep_dns_name ep) (ep_record_type ep)" if "(k, ep) \<in> set (group_records rs)" for k ep
    using keyed that by (auto simp: keyed_def)
  then have "map (\<lambda>ep. Record_Key (ep_dns_name ep) (ep_record_type ep)) (endpoints_of rs)
      = map fst (group_records rs)"
    by (auto simp: endpoints_of_def sort_targets_def)
  with keyed show ?sorted by (simp add: keyed_def bt_wf_def)
  have rep: "reported (group_records rs) k = map snd (filter (\<lambda>(k', x). k' = k) (all_records rs))" for k
    using group_records_facts by blast
  show "?targets ep" if "ep \<in> set (endpoints_of rs)"
  proof -
    from that obtain k e where e: "(k, e) \<in> set (group_records rs)" and ep: "ep = sort_targets e"
      by (auto simp: endpoints_of_def)
    have "set (ep_targets e) = {x. (k, x) \<in> set (all_records rs)}"
      unfolding group_records_nonempty [OF e] rep by force
    with key [OF e] ep sorted_dedup_sort [of "ep_targets e"] show ?thesis
      by (simp add: sort_targets_def)
  qed
  show "\<exists>ep \<in> set (endpoints_of rs). k = Record_Key (ep_dns_name ep) (ep_record_type ep)"
    if "(k, x) \<in> set (all_records rs)"
  proof -
    from that have "x \<in> set (reported (group_records rs) k)" by (auto simp: rep intro: rev_image_eqI)
    then obtain e where e: "(k, e) \<in> set (group_records rs)"
      by (cases "map_of (group_records rs) k") (auto simp: reported_def dest: map_of_SomeD)
    then have "sort_targets e \<in> set (endpoints_of rs)" by (auto simp: endpoints_of_def)
    with key [OF e] show ?thesis by (auto intro!: bexI [of _ "sort_targets e"] simp: sort_targets_def)
  qed
qed


section \<open>Listings in a run\<close>

text \<open>A stretch of the history is a complete listing that returned these items.\<close>

definition domains_seen :: "webhook \<Rightarrow> string list \<Rightarrow> hist \<Rightarrow> bool" where
  "domains_seen wh domains h \<longleftrightarrow>
     (\<exists>t u v ds. h = t @ u @ v \<and> after (list_domains (wh_bl wh) (wh_fuel wh)) u = Some (Done (Inr ds))
        \<and> domains = map dm_name ds)"

definition records_seen :: "webhook \<Rightarrow> string \<Rightarrow> domain_record list \<Rightarrow> hist \<Rightarrow> bool" where
  "records_seen wh dn rs h \<longleftrightarrow>
     (\<exists>t u v. h = t @ u @ v \<and> after (list_domain_records (wh_bl wh) (wh_fuel wh) dn) u = Some (Done (Inr rs)))"

lemma seen_append [intro]:
  "domains_seen wh domains h \<Longrightarrow> domains_seen wh domains (h @ h')"
  "domains_seen wh domains h \<Longrightarrow> domains_seen wh domains (h' @ h)"
  "records_seen wh dn rs h \<Longrightarrow> records_seen wh dn rs (h @ h')"
  "records_seen wh dn rs h \<Longrightarrow> records_seen wh dn rs (h' @ h)"
  unfolding domains_seen_def records_seen_def by (metis append_assoc)+

lemma seen_middle [intro]: "records_seen wh dn rs u \<Longrightarrow> records_seen wh dn rs (t @ u @ v)"
  by (intro seen_append)

lemma list_domains_seen:
  "after (list_domains (wh_bl wh) (wh_fuel wh)) h = Some (Done (Inr ds)) \<Longrightarrow>
     domains_seen wh (map dm_name ds) h"
  unfolding domains_seen_def by (metis append_Nil append_Nil2)

lemma records_of_seen:
  assumes "after (records_of wh dn) h = Some (Done (Inr x))"
  shows "fst x = dn \<and> records_seen wh dn (snd x) h"
proof -
  from assms obtain rs t u where "h = t @ u" and "after (list_domain_records (wh_bl wh) (wh_fuel wh) dn) t = Some (Done (Inr rs))"
    and u: "after (Done (Inr (dn, rs)) :: (string \<times> domain_record list) io) u = Some (Done (Inr x))"
    unfolding records_of_def by (rule after_attempt_DoneE)
  moreover from u have "x = (dn, rs)" by (cases u) auto
  ultimately show ?thesis unfolding records_seen_def by (metis append_Nil fst_conv snd_conv)
qed

lemma join_all_seen:
  assumes "after (join_all dns (records_of wh)) h = Some (Done (Inr rs))"
  shows "map fst rs = dns \<and> (\<forall>(dn, records) \<in> set rs. records_seen wh dn records h)"
  using assms
proof (induction dns arbitrary: h rs)
  case Nil
  then show ?case by (cases h) auto
next
  case (Cons dn dns)
  from Cons.prems obtain x t u where h: "h = t @ u" and x: "after (records_of wh dn) t = Some (Done (Inr x))"
    and rest: "after (attempt (join_all dns (records_of wh)) (\<lambda>ys. Done (Inr (x # ys)))) u = Some (Done (Inr rs))"
    unfolding join_all.simps by (rule after_attempt_DoneE)
  from rest obtain ys v w where u: "u = v @ w" and ys: "after (join_all dns (records_of wh)) v = Some (Done (Inr ys))"
    and last: "after (Done (Inr (x # ys)) :: (string \<times> domain_record list) list io) w = Some (Done (Inr rs))"
    by (rule after_attempt_DoneE)
  from last have "rs = x # ys" by (cases w) auto
  moreover from Cons.IH [OF ys] have "map fst ys = dns"
    and "\<forall>(dn, records) \<in> set ys. records_seen wh dn records h" unfolding h u by auto
  moreover from records_of_seen [OF x] have "fst x = dn" "records_seen wh dn (snd x) h" unfolding h by auto
  ultimately show ?case by auto
qed

text \<open>
  C18: the records reported are those of BinaryLane: after the domains and the records of each of
  them have been listed, there is one endpoint for each name and type, in ascending order; its
  targets are ascending and without repetition, and they are exactly the data of the records of a
  supported type that have that name and type in any of the domains.
\<close>

theorem records_reported_are_those_listed:
  assumes "after (get_records wh) h = Some (Done (Inr eps))"
  shows "\<exists>rs. domains_seen wh (map fst rs) h \<and> (\<forall>(dn, records) \<in> set rs. records_seen wh dn records h)
    \<and> sorted_wrt (<) (map (\<lambda>ep. Record_Key (ep_dns_name ep) (ep_record_type ep)) eps)
    \<and> (\<forall>ep \<in> set eps. sorted (ep_targets ep) \<and> distinct (ep_targets ep)
         \<and> set (ep_targets ep)
           = {x. (Record_Key (ep_dns_name ep) (ep_record_type ep), x) \<in> set (all_records rs)})
    \<and> (\<forall>(k, x) \<in> set (all_records rs).
         \<exists>ep \<in> set eps. k = Record_Key (ep_dns_name ep) (ep_record_type ep))"
proof -
  from assms obtain ds t u where h: "h = t @ u"
    and ds: "after (list_domains (wh_bl wh) (wh_fuel wh)) t = Some (Done (Inr ds))"
    and u: "after (attempt (join_all (map dm_name ds) (records_of wh)) (\<lambda>rs. Done (Inr (endpoints_of rs)))) u
      = Some (Done (Inr eps))"
    unfolding get_records_def by (rule after_attempt_DoneE)
  from u obtain rs v w where "u = v @ w"
    and rs: "after (join_all (map dm_name ds) (records_of wh)) v = Some (Done (Inr rs))"
    and "after (Done (Inr (endpoints_of rs)) :: endpoint list io) w = Some (Done (Inr eps))"
    by (rule after_attempt_DoneE)
  moreover from this have "eps = endpoints_of rs" by (cases w) auto
  moreover from join_all_seen [OF rs] have "map fst rs = map dm_name ds"
    "\<forall>(dn, records) \<in> set rs. records_seen wh dn records v" by auto
  ultimately show ?thesis
    using list_domains_seen [OF ds] h endpoints_of_exact
    by (intro exI [of _ rs]) (auto simp: h)
qed


section \<open>What a change may do\<close>

definition pairs_of :: "changes \<Rightarrow> (endpoint \<times> endpoint) list" where
  "pairs_of ch = zip (ch_update_old ch) (ch_update_new ch)"

definition may_create :: "changes \<Rightarrow> string list \<Rightarrow> string \<Rightarrow> create_domain_record_request \<Rightarrow> bool" where
  "may_create ch domains dn req \<longleftrightarrow>
     (\<exists>ep. domain_of domains ep = Inr (dn, cd_name req) \<and> cd_record_type req = ep_record_type ep
        \<and> cd_data req \<in> set (ep_targets ep)
        \<and> (ep \<in> set (ch_create ch)
           \<or> (\<exists>old. (old, ep) \<in> set (pairs_of ch) \<and> cd_data req \<notin> set (ep_targets old))))"

definition may_delete :: "changes \<Rightarrow> string list \<Rightarrow> string \<Rightarrow> domain_record \<Rightarrow> bool" where
  "may_delete ch domains dn r \<longleftrightarrow>
     (\<exists>ep \<in> set (ch_delete ch). domain_of domains ep = Inr (dn, dr_name r)
        \<and> eq_ignore_ascii_case (dr_record_type r) (ep_record_type ep)
        \<and> (ep_targets ep = [] \<or> dr_data r \<in> set (ep_targets ep)))
     \<or> (\<exists>(old, ep) \<in> set (pairs_of ch). domain_of domains ep = Inr (dn, dr_name r)
        \<and> eq_ignore_ascii_case (dr_record_type r) (ep_record_type old)
        \<and> dr_data r \<in> set (ep_targets old) - set (ep_targets ep))"

definition record_guard :: "webhook \<Rightarrow> changes \<Rightarrow> hist \<Rightarrow> call \<Rightarrow> bool" where
  "record_guard wh ch h c \<longleftrightarrow>
     (\<forall>dn req. c = Http (create_domain_record_call (wh_bl wh) dn req) \<longrightarrow>
        (\<exists>domains. domains_seen wh domains h \<and> may_create ch domains dn req))
     \<and> (\<forall>rq. c = Http rq \<longrightarrow> rq_method rq = DELETE \<longrightarrow>
        (\<exists>domains dn records r. rq = delete_domain_record_call (wh_bl wh) dn (dr_id r)
           \<and> domains_seen wh domains h \<and> records_seen wh dn records h \<and> r \<in> set records
           \<and> may_delete ch domains dn r))"

fun harmless :: "call \<Rightarrow> bool" where
  "harmless (Http rq) = (rq_method rq = GET)"
| "harmless c = True"

lemma create_call_inject [simp]:
  "create_domain_record_call bl dn req = create_domain_record_call bl dn' req' \<longleftrightarrow> dn = dn' \<and> req = req'"
  by (auto simp: create_domain_record_call_def request_def domain_records_path_def)

lemma call_methods [simp]:
  "rq_method (create_domain_record_call bl dn req) = POST"
  "rq_method (delete_domain_record_call bl dn rid) = DELETE"
  "rq_method (refresh_nameserver_call bl names) = POST"
  by (simp_all add: create_domain_record_call_def delete_domain_record_call_def
      refresh_nameserver_call_def request_def)

lemma harmless_guard: "harmless c \<Longrightarrow> record_guard wh ch h c"
  by (cases c) (auto simp: record_guard_def)

lemma refresh_guard: "record_guard wh ch h (Http (refresh_nameserver_call bl names))"
  by (auto simp: record_guard_def refresh_nameserver_call_def create_domain_record_call_def request_def)

lemma get_request_harmless [simp]: "rq_method (request cl GET path) = GET"
  by (simp add: request_def)

lemma listings_harmless:
  "within harmless (list_domains (wh_bl wh) (wh_fuel wh))"
  "within harmless (records_of wh dn)"
  "within harmless (join_all dns (records_of wh))"
proof -
  show "within harmless (list_domains (wh_bl wh) (wh_fuel wh))" by (simp add: list_domains_def)
  show r: "within harmless (records_of wh dn)" for dn
    by (auto simp: records_of_def list_domain_records_def intro!: within_intros)
  show "within harmless (join_all dns (records_of wh))"
    by (induction dns) (auto intro!: within_intros r)
qed


definition listed :: "webhook \<Rightarrow> string list \<Rightarrow> records_map \<Rightarrow> hist \<Rightarrow> bool" where
  "listed wh domains rm h \<longleftrightarrow>
     domains_seen wh domains h \<and> (\<forall>(dn, records) \<in> set rm. records_seen wh dn records h)"

lemma listed_append: "listed wh domains rm h \<Longrightarrow> listed wh domains rm (h @ h')"
  by (auto simp: listed_def)

lemma keeps_hash_order: "keeps (record_guard wh ch) (listed wh domains rm) (hash_order xs)"
  by (auto simp: hash_order_def harmless_guard listed_append intro!: keeps_ask)

lemma keeps_provider_specific: "keeps G J (parse_provider_specific_i64 ep key)"
  by (auto simp: parse_provider_specific_i64_def split: option.split sum.split)

lemma keeps_create_targets:
  assumes "\<And>t p q w. t \<in> set ts \<Longrightarrow> may_create ch domains dn (record_request ep rn t p q w)"
  shows "keeps (record_guard wh ch) (listed wh domains rm) (create_targets wh ep dn rn ts)"
  unfolding create_targets_def endpoint_priority_def endpoint_port_def endpoint_weight_def
    create_domain_record_def http_call_ask
  by (intro keeps_intros keeps_provider_specific keeps_ask)
     (use assms in \<open>auto simp: record_guard_def listed_append, auto simp: listed_def\<close>)

lemma keeps_delete_matching:
  assumes "\<And>r. r \<in> set (unwrap_or (map_of rm dn) []) \<Longrightarrow> select r \<Longrightarrow> may_delete ch domains dn r"
  shows "keeps (record_guard wh ch) (listed wh domains rm)
    (delete_matching wh dn (unwrap_or (map_of rm dn) []) select)"
proof -
  have "keeps (record_guard wh ch) (listed wh domains rm)
      (do_when (select r) (delete_domain_record (wh_bl wh) dn (dr_id r)))"
    if r: "r \<in> set (unwrap_or (map_of rm dn) [])" for r
  proof (cases "select r")
    case True
    obtain records where "(dn, records) \<in> set rm" "r \<in> set records"
      using r by (cases "map_of rm dn") (auto dest: map_of_SomeD)
    with assms [OF r True]
    have "record_guard wh ch h (Http (delete_domain_record_call (wh_bl wh) dn (dr_id r)))"
      if "listed wh domains rm h" for h
      using that call_methods(1,2) unfolding record_guard_def listed_def
      by (metis (no_types, lifting) call.inject(8) case_prodD http_method.distinct(9))
    then show ?thesis
      unfolding delete_domain_record_def http_call_ask do_when_def if_P [OF True]
      by (intro keeps_attempt keeps_ask keeps_Done listed_append)
  qed simp
  then show ?thesis unfolding delete_matching_def by (intro keeps_for_each)
qed


lemma keeps_hash_attempt:
  assumes "\<And>ys. set ys = set xs \<Longrightarrow> keeps (record_guard wh ch) (listed wh domains rm) (f ys)"
  shows "keeps (record_guard wh ch) (listed wh domains rm) (attempt (hash_order xs) f)"
  using assms
  by (auto simp: keeps_def hash_order_def safe_attempt safe_ask harmless_guard listed_append)

lemma map_endpoint_attempt:
  "attempt (map_endpoint_to_domain ep domains) f =
     (case domain_of domains ep of Inl e \<Rightarrow> Done (Inl e) | Inr x \<Rightarrow> f x)"
  by (simp add: map_endpoint_domain_of split: sum.split)

lemma keeps_create_endpoint:
  assumes "ep \<in> set (ch_create ch)"
  shows "keeps (record_guard wh ch) (listed wh domains rm) (create_endpoint wh domains ep)"
  unfolding create_endpoint_def map_endpoint_attempt
  using assms
  by (auto split: sum.split intro!: keeps_create_targets simp: may_create_def record_request_def)

lemma keeps_update_endpoint:
  assumes "pair \<in> set (pairs_of ch)"
  shows "keeps (record_guard wh ch) (listed wh domains rm) (update_endpoint wh domains rm pair)"
proof -
  obtain old ep where p: "pair = (old, ep)" by fastforce
  have create: "keeps (record_guard wh ch) (listed wh domains rm) (create_targets wh ep dn rn ts)"
    if "domain_of domains ep = Inr (dn, rn)"
      and "\<And>t. t \<in> set ts \<Longrightarrow> t \<in> set (ep_targets ep) \<and> t \<notin> set (ep_targets old)" for dn rn ts
    using that assms p
    by (intro keeps_create_targets) (fastforce simp: may_create_def record_request_def)
  have delete: "keeps (record_guard wh ch) (listed wh domains rm)
      (delete_matching wh dn (unwrap_or (map_of rm dn) [])
        (\<lambda>r. names_record rn old r \<and> dr_data r \<in> set (ep_targets old) - set (ep_targets ep)))"
    if "domain_of domains ep = Inr (dn, rn)" for dn rn
    using that assms p
    by (intro keeps_delete_matching) (fastforce simp: may_delete_def names_record_def)
  have order: "keeps (record_guard wh ch) (listed wh domains rm)
      (attempt (hash_order (ep_targets ep)) (\<lambda>new_targets.
        attempt (create_targets wh ep dn rn (filter (\<lambda>t. t \<notin> set (ep_targets old)) new_targets)) (\<lambda>_.
        if set (ep_targets old) \<subseteq> set (ep_targets ep) then Done (Inr ())
        else delete_matching wh dn (unwrap_or (map_of rm dn) [])
          (\<lambda>r. names_record rn old r \<and> dr_data r \<in> set (ep_targets old) - set (ep_targets ep)))))"
    if "domain_of domains ep = Inr (dn, rn)" for dn rn
    using delete [OF that]
    by (intro keeps_hash_attempt keeps_attempt create [OF that]) auto
  show ?thesis
    unfolding update_endpoint_def p prod.case map_endpoint_attempt Let_def
    using order by (simp split: sum.split)
qed

lemma keeps_delete_endpoint:
  assumes "ep \<in> set (ch_delete ch)"
  shows "keeps (record_guard wh ch) (listed wh domains rm) (delete_endpoint wh domains rm ep)"
  unfolding delete_endpoint_def map_endpoint_attempt
  using assms
  by (auto split: sum.split intro!: keeps_delete_matching simp: may_delete_def names_record_def)

lemma affected_domains_Done: "\<exists>ds. affected_domains domains eps = Done ds"
  by (induction eps) (auto simp: map_endpoint_domain_of)

lemma keeps_flush: "keeps (record_guard wh ch) (listed wh domains rm) (flush_cache wh domains ch)"
proof -
  obtain ds where "affected_domains domains (ch_create ch @ ch_update_new ch @ ch_delete ch) = Done ds"
    using affected_domains_Done by blast
  then show ?thesis
    unfolding flush_cache_def refresh_nameserver_cache_def http_call_ask
    by simp (intro conjI impI keeps_Done keeps_intros keeps_hash_order keeps_Ask refresh_guard listed_append)
qed

lemma needed_domains_harmless: "within harmless (needed_domains domains eps)"
  unfolding needed_domains_def
  by (induction eps) (auto simp: map_endpoint_attempt split: sum.split intro!: within_intros)

lemma post_records_guarded: "safe (record_guard wh ch) (\<lambda>_ _. True) [] (post_records wh ch)"
proof -
  have changes: "safe (record_guard wh ch) (\<lambda>_ _. True) h
      (attempt (for_each (ch_create ch) (create_endpoint wh domains)) (\<lambda>_.
       attempt (apply_updates wh domains rm (ch_update_old ch) (ch_update_new ch)) (\<lambda>_.
       attempt (apply_deletes wh domains rm (ch_delete ch)) (\<lambda>_.
       flush_cache wh domains ch))))"
    if "listed wh domains rm h" for domains rm h
  proof -
    have "keeps (record_guard wh ch) (listed wh domains rm)
      (attempt (for_each (ch_create ch) (create_endpoint wh domains)) (\<lambda>_.
       attempt (apply_updates wh domains rm (ch_update_old ch) (ch_update_new ch)) (\<lambda>_.
       attempt (apply_deletes wh domains rm (ch_delete ch)) (\<lambda>_.
       flush_cache wh domains ch))))"
      unfolding apply_updates_def apply_deletes_def pairs_of_def [symmetric]
      by (intro keeps_intros keeps_create_endpoint keeps_update_endpoint keeps_delete_endpoint keeps_flush)
    with that show ?thesis unfolding keeps_def by (blast intro: safe_mono)
  qed
  have order: "within harmless (hash_order xs)" for xs by (simp add: hash_order_def)
  show ?thesis
    unfolding post_records_def Let_def
    apply (rule safe_attempt_run [where P = harmless, OF listings_harmless(1) harmless_guard])
    apply assumption
    subgoal premises domains for t ds
      apply (rule safe_attempt_run [where P = harmless, OF needed_domains_harmless harmless_guard])
      apply assumption
      apply (rule safe_attempt_run [where P = harmless, OF order harmless_guard])
      apply assumption
      apply (rule safe_attempt_run [where P = harmless, OF listings_harmless(3) harmless_guard])
      apply assumption
      apply (rule changes)
      using list_domains_seen [OF domains] join_all_seen
      apply (fastforce simp: listed_def)
      done
    done
qed


section \<open>A change to evaluate on\<close>

definition sample_webhook :: webhook where
  "sample_webhook = \<lparr>wh_bl = rc_bl sample_ctx, wh_fuel = 1\<rparr>"

definition sample_change :: changes where
  "sample_change =
     \<lparr>ch_create = [], ch_update_old = [sample_endpoint],
      ch_update_new = [sample_endpoint\<lparr>ep_targets := [''2'']\<rparr>], ch_delete = []\<rparr>"

definition sample_record :: domain_record where
  "sample_record =
     \<lparr>dr_id = 7, dr_record_type = ''A'', dr_name = ''a.b'', dr_data = ''1'', dr_priority = None,
      dr_port = None, dr_weight = None, dr_ttl = 3600\<rparr>"

definition sample_new_record :: create_domain_record_request where
  "sample_new_record =
     \<lparr>cd_record_type = ''A'', cd_name = ''a.b'', cd_data = ''2'', cd_priority = None,
      cd_port = None, cd_weight = None\<rparr>"

definition listing_run :: hist where
  "listing_run =
     [(Http (request (rc_bl sample_ctx) GET (page_path ''/domains'' 1)),
        sample_response 200 (PDomains [\<lparr>dm_id = 1, dm_name = ''c'', dm_ttl = 0\<rparr>] None)),
      (HashOrder [''c'', ''c''], ROrder [''c'']),
      (Http (request (rc_bl sample_ctx) GET (page_path (domain_records_path ''c'') 1)),
        sample_response 200 (PRecords [sample_record] None)),
      (HashOrder [''2''], ROrder [''2''])]"

definition creation :: "call \<times> reply" where
  "creation = (Http (create_domain_record_call (rc_bl sample_ctx) ''c'' sample_new_record),
     sample_response 200 (PRecord sample_record))"

lemma sample_domain:
  "domain_of [''c''] sample_endpoint = Inr (''c'', ''a.b'')"
  "domain_of [''c''] (sample_endpoint\<lparr>ep_targets := ts\<rparr>) = Inr (''c'', ''a.b'')"
  by (simp_all add: domain_of_def sample_endpoint_def normalize_dns_name_def to_ascii_lowercase_def
      trim_end_char_def ascii_lower_def matches_domain_def suffix_def strip_suffix_def)

lemma sample_endpoint_facts:
  "ep_targets sample_endpoint = [''1'']" "ep_record_type sample_endpoint = ''A''"
  "ep_provider_specific sample_endpoint = []" "wh_bl sample_webhook = rc_bl sample_ctx"
  "wh_fuel sample_webhook = Suc 0"
  by (simp_all add: sample_endpoint_def sample_webhook_def)

lemma sample_change_runs:
  "\<exists>q. after (post_records sample_webhook sample_change) (listing_run @ creation #
     [(Http (delete_domain_record_call (rc_bl sample_ctx) ''c'' 7), RUnit)]) = Some q"
  by (simp add: post_records_def listing_run_def creation_def sample_endpoint_facts sample_change_def
      list_domains_def list_domain_records_def records_of_def http_call_ask read_reply_def
      read_page_def sample_response_def is_success_def decode_def needed_domains_def Let_def
      map_endpoint_attempt sample_domain hash_order_def is_order_def apply_updates_def
      update_endpoint_def create_targets_def endpoint_priority_def endpoint_port_def
      endpoint_weight_def parse_provider_specific_i64_def record_request_def delete_matching_def
      create_domain_record_def read_create_domain_record_def delete_domain_record_def
      names_record_def eq_ignore_ascii_case_def sample_record_def sample_new_record_def)


definition report_run :: hist where
  "report_run =
     [(Http (request (rc_bl sample_ctx) GET (page_path ''/domains'' 1)),
        sample_response 200 (PDomains [\<lparr>dm_id = 1, dm_name = ''c'', dm_ttl = 0\<rparr>] None)),
      (Http (request (rc_bl sample_ctx) GET (page_path (domain_records_path ''c'') 1)),
        sample_response 200 (PRecords [sample_record] None))]"

theorem records_reported_are_those_listed_witness:
  "\<exists>(rs :: (string \<times> domain_record list) list) (eps :: endpoint list). domains_seen sample_webhook (map fst rs) report_run
    \<and> sorted_wrt (<) (map (\<lambda>ep. Record_Key (ep_dns_name ep) (ep_record_type ep)) eps)"
proof -
  have "after (get_records sample_webhook) report_run = Some (Done (Inr (endpoints_of [(''c'', [sample_record])])))"
    by (simp add: get_records_def report_run_def sample_endpoint_facts list_domains_def
        list_domain_records_def records_of_def http_call_ask read_reply_def read_page_def
        sample_response_def is_success_def decode_def)
  from records_reported_are_those_listed [OF this] show ?thesis by blast
qed

section \<open>Safety of changes\<close>

lemma ascii_lower_append:
  "to_ascii_lowercase (a @ b) = to_ascii_lowercase a @ to_ascii_lowercase b"
  by (simp add: to_ascii_lowercase_def)

lemma domain_of_lowercase:
  assumes "domain_of domains ep = Inr (dn, rn)"
  shows "to_ascii_lowercase rn = rn"
proof -
  let ?name = "normalize_dns_name (ep_dns_name ep)"
  have "to_ascii_lowercase ?name = ?name" by (simp add: normalize_dns_name_def)
  moreover have "rn = ''@'' \<or> ?name = rn @ ''.'' @ normalize_dns_name dn"
    using domain_of_cases [of domains ep] assms by auto
  moreover have "to_ascii_lowercase ''@'' = ''@''"
    by (simp add: to_ascii_lowercase_def ascii_lower_def)
  ultimately show ?thesis
    by (auto simp: ascii_lower_append) (metis append_eq_append_conv length_map to_ascii_lowercase_def)
qed

text \<open>
  C5: a record is deleted only when it was listed in the same request, in the domain its endpoint
  is mapped to, with the name and, up to case, the type of the endpoint; and either the endpoint
  is to be deleted, with the data of the record among its targets or with no targets at all, or it
  is updated and the data is among the old targets and not among the new ones.  The name is
  compared in lower case, so a record that BinaryLane lists with a capital letter is never deleted.
\<close>

theorem records_deleted_only_as_asked:
  assumes "after (post_records wh ch) (h @ (Http rq, r) # u) = Some q" and "rq_method rq = DELETE"
  shows "\<exists>domains dn records rec.
    rq = delete_domain_record_call (wh_bl wh) dn (dr_id rec)
    \<and> domains_seen wh domains h \<and> records_seen wh dn records h \<and> rec \<in> set records
    \<and> may_delete ch domains dn rec \<and> to_ascii_lowercase (dr_name rec) = dr_name rec"
proof -
  have "record_guard wh ch h (Http rq)" by (rule safe_guard [OF post_records_guarded assms(1)])
  then obtain domains dn records rec where "rq = delete_domain_record_call (wh_bl wh) dn (dr_id rec)"
    "domains_seen wh domains h" "records_seen wh dn records h" "rec \<in> set records"
    and may: "may_delete ch domains dn rec"
    using assms(2) unfolding record_guard_def by blast
  moreover from may have "to_ascii_lowercase (dr_name rec) = dr_name rec"
    unfolding may_delete_def by (auto dest: domain_of_lowercase)
  ultimately show ?thesis by blast
qed

theorem records_deleted_only_as_asked_witness:
  "\<exists>domains. domains_seen sample_webhook domains (listing_run @ [creation])"
proof -
  obtain q where "after (post_records sample_webhook sample_change) ((listing_run @ [creation]) @
     (Http (delete_domain_record_call (rc_bl sample_ctx) ''c'' 7), RUnit) # []) = Some q"
    using sample_change_runs by auto
  from records_deleted_only_as_asked [OF this] show ?thesis by auto
qed

text \<open>
  C19: a record is created only under the name and type, and with one of the targets, of an endpoint
  of the request, in the domain it maps to: an endpoint to be created, or one that is
  updated and did not have that target before.
\<close>

theorem records_created_only_as_asked:
  assumes "after (post_records wh ch)
      (h @ (Http (create_domain_record_call (wh_bl wh) dn req), r) # u) = Some q"
  shows "\<exists>domains. domains_seen wh domains h \<and> may_create ch domains dn req"
  using safe_guard [OF post_records_guarded assms] unfolding record_guard_def by blast

theorem records_created_only_as_asked_witness:
  "\<exists>domains. domains_seen sample_webhook domains listing_run
     \<and> may_create sample_change domains ''c'' sample_new_record"
proof -
  have bl: "wh_bl sample_webhook = rc_bl sample_ctx" by (simp add: sample_webhook_def)
  obtain q where "after (post_records sample_webhook sample_change) (listing_run @
     (Http (create_domain_record_call (wh_bl sample_webhook) ''c'' sample_new_record), snd creation) #
     [(Http (delete_domain_record_call (rc_bl sample_ctx) ''c'' 7), RUnit)]) = Some q"
    using sample_change_runs by (auto simp: creation_def bl)
  then show ?thesis by (rule records_created_only_as_asked)
qed

text \<open>
  An update that changes the TTL or the provider-specific values of an endpoint and not its
  targets sends no request at all: the change is reported as done and is not made.
\<close>

theorem ttl_update_sends_nothing:
  "within (\<lambda>c. \<forall>rq. c \<noteq> Http rq)
     (update_endpoint wh domains rm (ep, ep\<lparr>ep_record_ttl := ttl, ep_provider_specific := values\<rparr>))"
proof -
  have "within (\<lambda>c. \<forall>rq. c \<noteq> Http rq) (create_targets wh ep' dn rn [])" for ep' dn rn
    unfolding create_targets_def endpoint_priority_def endpoint_port_def endpoint_weight_def
      parse_provider_specific_i64_def
    by (auto intro!: within_intros split: option.split sum.split)
  moreover have "filter (\<lambda>t. t \<notin> set (ep_targets ep)) (as_order (ep_targets ep) r) = []" for r
    by (simp add: filter_empty_conv)
  ultimately show ?thesis
    by (auto simp: update_endpoint_def map_endpoint_attempt hash_order_def Let_def
        intro!: within_attempt split: sum.split)
qed


section \<open>Errors\<close>

text \<open>
  Every request other than \<open>GET\<close> comes after all endpoints to update and delete were mapped; and it
  creates a record of an endpoint to create that is mapped, as are those before it in the request,
  or all endpoints to create are.
\<close>

definition mapped :: "string list \<Rightarrow> endpoint list \<Rightarrow> bool" where
  "mapped domains eps \<longleftrightarrow> (\<forall>ep \<in> set eps. \<exists>x. domain_of domains ep = Inr x)"

lemma mapped_simps [simp]:
  "mapped domains []"
  "mapped domains (ep # eps) \<longleftrightarrow> (\<exists>x. domain_of domains ep = Inr x) \<and> mapped domains eps"
  "mapped domains (eps @ eps') \<longleftrightarrow> mapped domains eps \<and> mapped domains eps'"
  by (auto simp: mapped_def)

definition creates_for :: "webhook \<Rightarrow> string list \<Rightarrow> endpoint \<Rightarrow> call \<Rightarrow> bool" where
  "creates_for wh domains ep c \<longleftrightarrow> (\<exists>dn req. c = Http (create_domain_record_call (wh_bl wh) dn req)
     \<and> domain_of domains ep = Inr (dn, cd_name req) \<and> cd_data req \<in> set (ep_targets ep))"

definition creations_checked :: "webhook \<Rightarrow> changes \<Rightarrow> string list \<Rightarrow> call \<Rightarrow> bool" where
  "creations_checked wh ch domains c \<longleftrightarrow> mapped domains (ch_create ch)
     \<or> (\<exists>pre ep post. ch_create ch = pre @ ep # post \<and> mapped domains (pre @ [ep]) \<and> creates_for wh domains ep c)"

definition write_guard :: "webhook \<Rightarrow> changes \<Rightarrow> hist \<Rightarrow> call \<Rightarrow> bool" where
  "write_guard wh ch h c \<longleftrightarrow>
     harmless c \<or> (\<exists>domains. domains_seen wh domains h
       \<and> mapped domains (ch_update_old ch @ ch_update_new ch @ ch_delete ch)
       \<and> creations_checked wh ch domains c)"

lemma needed_domains_checked:
  "after (needed_domains domains eps) t = Some (Done (Inr ds)) \<Longrightarrow>
     mapped domains eps"
proof (induction eps arbitrary: t ds)
  case (Cons ep eps)
  let ?one = "attempt (map_endpoint_to_domain ep domains) (\<lambda>(dn, rn). Done (Inr dn))"
  from Cons.prems obtain d u v where "t = u @ v" and one: "after ?one u = Some (Done (Inr d))"
    and rest: "after (attempt (needed_domains domains eps) (\<lambda>ys. Done (Inr (d # ys)))) v = Some (Done (Inr ds))"
    unfolding needed_domains_def join_all.simps by (rule after_attempt_DoneE)
  from one have "\<exists>x. domain_of domains ep = Inr x"
    by (cases u; cases "domain_of domains ep") (auto simp: map_endpoint_attempt)
  moreover from rest obtain ys v' w where "after (needed_domains domains eps) v' = Some (Done (Inr ys))"
    by (rule after_attempt_DoneE)
  ultimately show ?case using Cons.IH by auto
qed simp

definition updates_mapped :: "webhook \<Rightarrow> changes \<Rightarrow> string list \<Rightarrow> hist \<Rightarrow> bool" where
  "updates_mapped wh ch domains h \<longleftrightarrow> domains_seen wh domains h
     \<and> mapped domains (ch_update_old ch @ ch_update_new ch @ ch_delete ch)"

lemma updates_mapped_grows: "updates_mapped wh ch domains h \<Longrightarrow> updates_mapped wh ch domains (h @ h')"
  by (auto simp: updates_mapped_def)

lemma safe_if_known:
  assumes "updates_mapped wh ch domains h" and "mapped domains (ch_create ch)"
  shows "safe (write_guard wh ch) (\<lambda>_ _. True) h p"
  using assms(1)
proof (induction p arbitrary: h)
  case (Ask c k)
  then have "write_guard wh ch h c"
    using assms(2) by (auto simp: write_guard_def creations_checked_def updates_mapped_def)
  with Ask show ?case by (auto intro: updates_mapped_grows)
qed simp_all

lemma create_endpoint_writes:
  assumes "domain_of domains ep = Inr (dn, rn)"
  shows "within (\<lambda>c. harmless c \<or> creates_for wh domains ep c) (create_endpoint wh domains ep)"
proof -
  have "within P (parse_provider_specific_i64 ep key)" for P key
    by (auto simp: parse_provider_specific_i64_def split: option.split sum.split)
  then show ?thesis
    unfolding create_endpoint_def map_endpoint_attempt assms create_targets_def endpoint_priority_def
      endpoint_port_def endpoint_weight_def create_domain_record_def
    by (auto intro!: within_intros simp: creates_for_def assms record_request_def)
qed

lemma create_endpoint_ends:
  assumes ch: "ch_create ch = pre @ ep # post" and pre: "mapped domains pre"
    and known: "updates_mapped wh ch domains h"
  shows "ends (write_guard wh ch) (\<lambda>_ h'. updates_mapped wh ch domains h' \<and> mapped domains (pre @ [ep])) h
    (create_endpoint wh domains ep)"
proof (cases "domain_of domains ep")
  case (Inl e)
  then show ?thesis by (simp add: create_endpoint_def map_endpoint_attempt)
next
  case (Inr x)
  obtain dn rn where x: "x = (dn, rn)" by fastforce
  have "keeps (write_guard wh ch) (updates_mapped wh ch domains) (create_endpoint wh domains ep)"
  proof (rule keeps_within [OF create_endpoint_writes [OF Inr [unfolded x]]])
    show "write_guard wh ch h c" if "updates_mapped wh ch domains h" "harmless c \<or> creates_for wh domains ep c" for h c
    proof (cases "harmless c")
      case False
      have "mapped domains (pre @ [ep])" using pre Inr by simp
      with that(2) False ch have "creations_checked wh ch domains c"
        unfolding creations_checked_def by blast
      with that(1) show ?thesis unfolding write_guard_def updates_mapped_def by blast
    qed (simp add: write_guard_def)
  qed (rule updates_mapped_grows)
  with known have "safe (write_guard wh ch) (\<lambda>_. updates_mapped wh ch domains) h (create_endpoint wh domains ep)"
    by (simp add: keeps_def)
  then show ?thesis by (rule safe_mono) (simp_all add: pre Inr split: outcome.split sum.split)
qed

lemma creations_ends:
  assumes "updates_mapped wh ch domains h"
  shows "ends (write_guard wh ch) (\<lambda>_ h'. updates_mapped wh ch domains h' \<and> mapped domains (ch_create ch)) h
    (for_each (ch_create ch) (create_endpoint wh domains))"
proof -
  let ?R = "\<lambda>_ h'. updates_mapped wh ch domains h' \<and> mapped domains (ch_create ch)"
  have "ends (write_guard wh ch) ?R h (for_each eps (create_endpoint wh domains))"
    if "ch_create ch = pre @ eps" "mapped domains pre" "updates_mapped wh ch domains h" for pre eps h
    using that
  proof (induction eps arbitrary: pre h)
    case (Cons ep eps)
    then have "ends (write_guard wh ch) ?R h' (for_each eps (create_endpoint wh domains))"
      if "updates_mapped wh ch domains h' \<and> mapped domains (pre @ [ep])" for h'
      using Cons.IH [of "pre @ [ep]" h'] that by simp
    then show ?case
      unfolding for_each.simps by (rule ends_attempt [OF create_endpoint_ends [OF Cons.prems]])
  qed simp
  from this [of "[]"] assms show ?thesis by simp
qed

lemma post_records_checked: "safe (write_guard wh ch) (\<lambda>_ _. True) [] (post_records wh ch)"
proof -
  have ok: "write_guard wh ch h c" if "harmless c" for h c using that by (simp add: write_guard_def)
  have order: "within harmless (hash_order xs)" for xs by (simp add: hash_order_def)
  have changes: "safe (write_guard wh ch) (\<lambda>_ _. True) h
      (attempt (for_each (ch_create ch) (create_endpoint wh domains)) f)"
    if "updates_mapped wh ch domains h" for h domains and f :: "unit \<Rightarrow> unit io"
  proof -
    have rest: "ends (write_guard wh ch) (\<lambda>_ _. True) h' (f ())"
      if "updates_mapped wh ch domains h' \<and> mapped domains (ch_create ch)" for h'
      by (rule safe_mono [OF safe_if_known [of wh ch domains h']]) (use that in \<open>auto split: outcome.split sum.split\<close>)
    show ?thesis
      by (rule safe_mono [OF ends_attempt [OF creations_ends [OF that], where S = "\<lambda>_ _. True"]])
         (use rest in auto)
  qed
  have known: "updates_mapped wh ch (map dm_name ds) (t @ u @ v @ w)"
    if "after (list_domains (wh_bl wh) (wh_fuel wh)) t = Some (Done (Inr ds))"
      and "after (needed_domains (map dm_name ds)
        (ch_update_old ch @ ch_update_new ch @ ch_delete ch)) u = Some (Done (Inr x))" for t u v w ds x
    using list_domains_seen [OF that(1)] needed_domains_checked [OF that(2)]
    by (auto simp: updates_mapped_def)
  show ?thesis
    unfolding post_records_def Let_def
    by (rule safe_attempt_run [where P = harmless, OF listings_harmless(1) ok], assumption,
        rule safe_attempt_run [where P = harmless, OF needed_domains_harmless ok], assumption,
        rule safe_attempt_run [where P = harmless, OF order ok], assumption,
        rule safe_attempt_run [where P = harmless, OF listings_harmless(3) ok], assumption,
        rule changes) (use known in simp)
qed

text \<open>
  C20: nothing is written, no record created, deleted or flushed, unless every endpoint to update
  or to delete has been mapped to a domain just listed.  Endpoints to create are checked one by one:
  a write that comes before all of them have been mapped creates a record of one of them, which has
  been mapped, with its target and under its name, and so have those before it in the request.
\<close>

theorem updates_checked_before_writing:
  assumes "after (post_records wh ch) (h @ (Http rq, r) # u) = Some q" and "rq_method rq \<noteq> GET"
  shows "\<exists>domains. domains_seen wh domains h
    \<and> (\<forall>ep \<in> set (ch_update_old ch @ ch_update_new ch @ ch_delete ch).
         \<exists>dn rn. map_endpoint_to_domain ep domains = Done (Inr (dn, rn)))
    \<and> ((\<forall>ep \<in> set (ch_create ch). \<exists>dn rn. map_endpoint_to_domain ep domains = Done (Inr (dn, rn)))
       \<or> (\<exists>pre ep post dn req. ch_create ch = pre @ ep # post
            \<and> (\<forall>e \<in> set pre. \<exists>dn rn. map_endpoint_to_domain e domains = Done (Inr (dn, rn)))
            \<and> map_endpoint_to_domain ep domains = Done (Inr (dn, cd_name req))
            \<and> cd_data req \<in> set (ep_targets ep)
            \<and> rq = create_domain_record_call (wh_bl wh) dn req))"
proof -
  from safe_guard [OF post_records_checked assms(1)] assms(2) obtain domains
    where seen: "domains_seen wh domains h"
      and updates: "mapped domains (ch_update_old ch @ ch_update_new ch @ ch_delete ch)"
      and creations: "creations_checked wh ch domains (Http rq)"
    by (auto simp: write_guard_def)
  from creations show ?thesis
    unfolding creations_checked_def
    using seen updates
    by (intro exI [of _ domains])
       (fastforce simp: mapped_def creates_for_def map_endpoint_domain_of)
qed

theorem updates_checked_before_writing_witness:
  "\<exists>domains. domains_seen sample_webhook domains listing_run"
proof -
  obtain q where run: "after (post_records sample_webhook sample_change) (listing_run @
     (Http (create_domain_record_call (rc_bl sample_ctx) ''c'' sample_new_record), snd creation) #
     [(Http (delete_domain_record_call (rc_bl sample_ctx) ''c'' 7), RUnit)]) = Some q"
    using sample_change_runs by (auto simp: creation_def)
  from updates_checked_before_writing [OF run] show ?thesis by auto
qed

lemma panic_free_records_of: "panic_free (records_of wh dn)"
  unfolding records_of_def list_domain_records_def by (auto intro!: panic_free_intros)

lemma panic_free_join_all: "(\<And>x. panic_free (f x)) \<Longrightarrow> panic_free (join_all xs f)"
  by (induction xs) (auto intro!: panic_free_intros)

lemma panic_free_create_targets: "panic_free (create_targets wh ep dn rn ts)"
proof -
  have "panic_free (parse_provider_specific_i64 ep key)" for key
    by (auto simp: parse_provider_specific_i64_def split: option.split sum.split)
  then show ?thesis
    unfolding create_targets_def endpoint_priority_def endpoint_port_def endpoint_weight_def
      create_domain_record_def
    by (auto intro!: panic_free_intros)
qed

lemma panic_free_delete_matching: "panic_free (delete_matching wh dn records select)"
  unfolding delete_matching_def delete_domain_record_def do_when_def
  by (auto intro!: panic_free_intros)

lemma panic_free_post_records: "panic_free (post_records wh ch)"
proof -
  have needed: "panic_free (needed_domains domains eps)" for domains eps
    unfolding needed_domains_def map_endpoint_attempt
    by (auto intro!: panic_free_join_all split: sum.split)
  have order: "panic_free (hash_order xs)" for xs by (simp add: hash_order_def)
  have create: "panic_free (create_endpoint wh domains ep)" for domains ep
    unfolding create_endpoint_def map_endpoint_attempt
    by (auto simp: panic_free_create_targets split: sum.split)
  have update: "panic_free (update_endpoint wh domains rm p)" for domains rm p
    unfolding update_endpoint_def map_endpoint_attempt Let_def
    by (auto intro!: panic_free_attempt order panic_free_create_targets panic_free_delete_matching
        split: sum.split prod.split)
  have delete: "panic_free (delete_endpoint wh domains rm ep)" for domains rm ep
    unfolding delete_endpoint_def map_endpoint_attempt
    by (auto simp: panic_free_delete_matching split: sum.split)
  have flush: "panic_free (flush_cache wh domains ch)" for domains
  proof -
    obtain ds where "affected_domains domains (ch_create ch @ ch_update_new ch @ ch_delete ch) = Done ds"
      using affected_domains_Done by blast
    then show ?thesis
      unfolding flush_cache_def refresh_nameserver_cache_def
      by simp (intro conjI impI panic_free_intros order panic_free_http_call; simp)
  qed
  show ?thesis
    unfolding post_records_def apply_updates_def apply_deletes_def Let_def
    by (intro panic_free_intros needed order create update delete flush panic_free_join_all
        panic_free_records_of) (simp add: list_domains_def)
qed

text \<open>
  C30: no request to the webhook makes it panic, whatever its body and whatever BinaryLane answers;
  the only expect in the code is behind the test of the suffix it strips.
\<close>

theorem webhook_never_panics: "panic_free (handle_request wh rq)"
proof -
  have "panic_free (get_records wh)" "panic_free (get_root wh)"
    unfolding get_records_def get_root_def
    by (auto simp: list_domains_def intro!: panic_free_intros panic_free_join_all panic_free_records_of)
  then show ?thesis
    by (cases rq) (auto simp: respond_def post_adjust_endpoints_def intro!: panic_free_bind panic_free_post_records)
qed

end
