(* ===== verification/Embedding.thy ===== *)
theory Embedding
  imports Effects
begin

text \<open>
  Programs inside programs.  The process around the handlers makes calls of its own (files,
  sockets, tasks, subprocesses), and a handler runs in it with its own, smaller set of calls:
  \<open>embed f g p\<close> is \<open>p\<close> with every call \<open>c\<close> made as \<open>f c\<close> and every reply read through \<open>g\<close>.  What the
  handlers guarantee carries over.

  \<open>poll\<close> is the loop that repeats a step until it yields a value; \<open>hang_free\<close> says that a program
  is never cut off by its fuel, and the locale \<open>bounded_poll\<close> derives it for the loops that count
  their attempts.
\<close>

section \<open>Embedding\<close>

primrec embed ::
  "('c \<Rightarrow> 'd) \<Rightarrow> ('s \<Rightarrow> 'r) \<Rightarrow> ('c, 'r, 'a) prog \<Rightarrow> ('d, 's, 'a) prog" where
  "embed f g (Done x) = Done x"
| "embed f g (Ask c k) = Ask (f c) (\<lambda>s. embed f g (k (g s)))"
| "embed f g (Panic s) = Panic s"
| "embed f g Hang = Hang"

lemma embed_ask [simp]: "embed f g (ask c read) = ask (f c) (\<lambda>s. read (g s))"
  by (simp add: ask_def)

lemma embed_bind: "embed f g (bind p k) = bind (embed f g p) (\<lambda>x. embed f g (k x))"
  by (induction p) auto

lemma embed_attempt: "embed f g (attempt p k) = attempt (embed f g p) (\<lambda>x. embed f g (k x))"
  unfolding attempt_def embed_bind by (rule arg_cong [where f = "bind _"]) (auto split: sum.split)

lemma embed_map_err: "embed f g (map_err m p) = map_err m (embed f g p)"
  by (simp add: map_err_def embed_bind)

lemma within_embed: "within (\<lambda>c. P (f c)) p \<Longrightarrow> within P (embed f g p)"
  by (induction p) auto

lemma panic_free_embed: "panic_free p \<Longrightarrow> panic_free (embed f g p)"
  by (induction p) auto

text \<open>\<open>let _ = p;\<close>: the result is dropped, an error included.\<close>

definition ignoring :: "('c, 'r, 'a) prog \<Rightarrow> ('c, 'r, 'e + unit) prog" where
  "ignoring p = bind p (\<lambda>_. Done (Inr ()))"

lemma safe_ignoring [effect_simps]:
  "safe G Q h (ignoring p) = safe G (then_post Q (\<lambda>_ h'. Q (Returned (Inr ())) h')) h p"
  by (simp add: ignoring_def safe_bind)

lemma within_ignoring [simp]: "within P p \<Longrightarrow> within P (ignoring p)"
  by (simp add: ignoring_def within_bind)

lemma ignoring_ask [simp]: "ignoring (ask c read) = Ask c (\<lambda>_. Done (Inr ()))"
  by (simp add: ignoring_def)

section \<open>Runs that have returned\<close>

lemma after_to_Done:
  "after (Done x) t = Some (Done y) \<longleftrightarrow> t = [] \<and> x = y"
  "after (Ask c k) t = Some (Done y) \<longleftrightarrow> (\<exists>r u. t = (c, r) # u \<and> after (k r) u = Some (Done y))"
  "after (Panic s) t = Some (Done y) \<longleftrightarrow> False"
  "after Hang t = Some (Done y) \<longleftrightarrow> False"
  by (cases t; auto split: if_splits)+

lemma after_case_Inr:
  "after (case x of Inl e \<Rightarrow> Done (Inl e) | Inr y \<Rightarrow> f y) t = Some (Done (Inr z)) \<longleftrightarrow>
     (\<exists>y. x = Inr y \<and> after (f y) t = Some (Done (Inr z)))"
  by (cases x) (auto simp: after_to_Done)

lemmas after_results = after_to_Done after_case_Inr

section \<open>Guards across a first part\<close>

text \<open>
  A first part that makes only harmless calls keeps every invariant that survives those calls,
  and what is known of its result joins the invariant of the rest.
\<close>

lemma keeps_weaken: "keeps G J p \<Longrightarrow> J h \<Longrightarrow> safe G (\<lambda>_ _. True) h p"
  unfolding keeps_def by (auto intro: safe_mono)

lemma keeps_bind_run:
  assumes p: "within P p" and harmless: "\<And>h c. P c \<Longrightarrow> G h c" and grows: "\<And>h e. J h \<Longrightarrow> J (h @ [e])"
    and known: "\<And>h t y. J h \<Longrightarrow> after p t = Some (Done y) \<Longrightarrow> K y (h @ t)"
    and rest: "\<And>y. keeps G (\<lambda>h. J h \<and> K y h) (f y)"
  shows "keeps G J (bind p f)"
  unfolding keeps_def
proof (intro allI impI)
  fix h assume h: "J h"
  have more: "J (h @ t)" for t
  proof (induction t rule: rev_induct)
    case (snoc e t)
    then show ?case using grows [of "h @ t" e] by simp
  qed (simp add: h)
  show "safe G (\<lambda>_. J) h (bind p f)"
    unfolding safe_bind
  proof (rule safe_mono [OF safe_trace [OF p]])
    fix x h' assume "\<exists>t q. h' = h @ t \<and> after p t = Some q \<and> finished q = Some x"
    then obtain t q where t: "h' = h @ t" "after p t = Some q" "finished q = Some x" by blast
    show "then_post (\<lambda>_. J) (\<lambda>x h'. safe G (\<lambda>_. J) h' (f x)) x h'"
    proof (cases x)
      case (Returned y)
      with t(3) have "q = Done y" by (cases q) auto
      with t known [OF h] more [of t] rest [of y] have "safe G (\<lambda>_ h. J h \<and> K y h) h' (f y)"
        by (simp add: keeps_def)
      then have "safe G (\<lambda>_. J) h' (f y)" by (rule safe_mono) auto
      with Returned show ?thesis by simp
    qed (use t(1) more in simp_all)
  qed (use harmless in auto)
qed

lemma keeps_mono: "keeps G J p \<Longrightarrow> (\<And>h. J' h \<Longrightarrow> J h) \<Longrightarrow> (\<And>h h'. J' h \<Longrightarrow> J' (h @ h')) \<Longrightarrow> keeps G J' p"
  unfolding keeps_def
proof (intro allI impI)
  fix h assume k: "\<forall>h. J h \<longrightarrow> safe G (\<lambda>_. J) h p" "\<And>h. J' h \<Longrightarrow> J h" "J' h"
    and grows: "\<And>h h'. J' h \<Longrightarrow> J' (h @ h')"
  from k have "safe G (\<lambda>_. J) h p" by blast
  then have "safe G (\<lambda>x h'. J h' \<and> (\<exists>t. h' = h @ t)) h p" by (rule safe_extends)
  then show "safe G (\<lambda>_. J') h p" by (rule safe_mono) (use grows k(3) in auto)
qed

lemma keeps_ignoring: "keeps G J p \<Longrightarrow> keeps G J (ignoring p)"
  by (simp add: ignoring_def keeps_bind)

section \<open>Sequences\<close>

text \<open>\<open>steps [p, q, ...]\<close> is \<open>p?; q?; ...\<close>; \<open>do_if\<close> a conditional step.\<close>

definition steps :: "('c, 'r, 'e + unit) prog list \<Rightarrow> ('c, 'r, 'e + unit) prog" where
  "steps ps = for_each ps (\<lambda>p. p)"

lemma steps_simps [simp]:
  "steps [] = Done (Inr ())"
  "steps (p # ps) = attempt p (\<lambda>_. steps ps)"
  by (simp_all add: steps_def)

lemma keeps_steps: "(\<And>p. p \<in> set ps \<Longrightarrow> keeps G J p) \<Longrightarrow> keeps G J (steps ps)"
  by (simp add: steps_def keeps_for_each)

lemma within_steps: "(\<And>p. p \<in> set ps \<Longrightarrow> within P p) \<Longrightarrow> within P (steps ps)"
  by (simp add: steps_def within_for_each)

definition do_if :: "bool \<Rightarrow> ('c, 'r, 'e + unit) prog \<Rightarrow> ('c, 'r, 'e + unit) prog" where
  "do_if b p = (if b then p else Done (Inr ()))"

lemma do_if_simps [simp]: "do_if True p = p" "do_if False p = Done (Inr ())"
  by (simp_all add: do_if_def)

lemma within_do_if [simp]: "(b \<Longrightarrow> within P p) \<Longrightarrow> within P (do_if b p)"
  by (simp add: do_if_def)

lemma keeps_do_if [simp]: "(b \<Longrightarrow> keeps G J p) \<Longrightarrow> keeps G J (do_if b p)"
  by (simp add: do_if_def)

section \<open>Polling\<close>

fun poll ::
  "nat \<Rightarrow> (nat \<Rightarrow> ('c, 'r, 'e + 'b option) prog) \<Rightarrow> nat \<Rightarrow> ('c, 'r, 'e + 'b) prog" where
  "poll 0 step i = Hang"
| "poll (Suc n) step i =
     attempt (step i) (\<lambda>x. case x of Some b \<Rightarrow> Done (Inr b) | None \<Rightarrow> poll n step (Suc i))"

lemma within_poll: "(\<And>i. within P (step i)) \<Longrightarrow> within P (poll n step i)"
  by (induction n step i rule: poll.induct) (auto intro!: within_attempt split: option.split)

primrec hang_free :: "('c, 'r, 'a) prog \<Rightarrow> bool" where
  "hang_free (Done x) = True"
| "hang_free (Ask c k) = (\<forall>r. hang_free (k r))"
| "hang_free (Panic s) = True"
| "hang_free Hang = False"

lemma hang_free_ask [simp]: "hang_free (ask c read)"
  by (simp add: ask_def)

lemma hang_free_bind: "hang_free p \<Longrightarrow> (\<And>x. hang_free (f x)) \<Longrightarrow> hang_free (bind p f)"
  by (induction p) auto

lemma hang_free_attempt: "hang_free p \<Longrightarrow> (\<And>x. hang_free (f x)) \<Longrightarrow> hang_free (attempt p f)"
  unfolding attempt_def by (auto intro!: hang_free_bind split: sum.split)

lemma hang_free_map_err [simp]: "hang_free (map_err g p) \<longleftrightarrow> hang_free p"
  unfolding map_err_def by (induction p) auto

lemma hang_free_for_each:
  "(\<And>x. x \<in> set xs \<Longrightarrow> hang_free (body x)) \<Longrightarrow> hang_free (for_each xs body)"
  by (induction xs) (auto intro!: hang_free_attempt)

lemma hang_free_after:
  "hang_free p \<Longrightarrow> after p t = Some q \<Longrightarrow> finished q \<noteq> Some Hung"
proof (induction p t rule: after.induct)
  case (1 p)
  then show ?case by (cases p) auto
qed (auto split: if_splits)

text \<open>A program that never ends in the value \<open>x\<close>.\<close>

definition never :: "'a \<Rightarrow> ('c, 'r, 'a) prog \<Rightarrow> bool" where
  "never x p \<longleftrightarrow> safe (\<lambda>_ _. True) (\<lambda>y _. y \<noteq> Returned x) [] p"

lemma hang_free_attempt_never:
  assumes "hang_free p" and "never (Inr x) p" and "\<And>y. y \<noteq> x \<Longrightarrow> hang_free (f y)"
  shows "hang_free (attempt p f)"
proof -
  have "hang_free (attempt p f)"
    if "hang_free p" "safe (\<lambda>_ _. True) (\<lambda>y _. y \<noteq> Returned (Inr x)) h p" for h
    using that
  proof (induction p arbitrary: h)
    case (Done y)
    then show ?case using assms(3) by (cases y) auto
  qed auto
  with assms(1,2) show ?thesis by (simp add: never_def)
qed

text \<open>
  A loop whose step number \<open>limit\<close> always ends it: fuel beyond the limit is never used up.
\<close>

locale bounded_poll =
  fixes step :: "nat \<Rightarrow> ('c, 'r, 'e + 'b option) prog" and limit :: nat
  assumes step_returns: "hang_free (step i)"
    and last_step: "never (Inr None) (step limit)"
begin

lemma enough_fuel: "i \<le> limit \<Longrightarrow> limit - i < n \<Longrightarrow> hang_free (poll n step i)"
proof (induction n step\<equiv>step i rule: poll.induct)
  case (2 n i)
  show ?case
  proof (cases "i = limit")
    case True
    have last: "never (Inr None) (step i)" using last_step True by simp
    show ?thesis
      unfolding poll.simps
      by (rule hang_free_attempt_never [OF step_returns last]) (auto split: option.split)
  next
    case False
    with 2 have "hang_free (poll n step (Suc i))" by simp
    then show ?thesis
      by (auto intro!: hang_free_attempt step_returns split: option.split)
  qed
qed simp

end

end
