(* ===== verification/Main_Program.thy ===== *)
theory Main_Program
  imports Interleaving Service_Lb Autoscaler Dns_Webhook Embedding
begin

text \<open>
  The process (\<open>src/main.rs\<close>) and the sockets of the webhook (\<open>run\<close>, \<open>build_tls_config\<close> and the TLS
  listener of \<open>src/dns_webhook.rs\<close>).  \<open>main\<close> builds the client of the cluster, starts a task per
  enabled controller and one that watches them, reads the TLS files, starts the webhook, and then
  waits for a signal or serves the autoscaler.

  The calls of the process are its own (\<open>sys_call\<close>); the calls of the handlers are among them
  (\<open>SysApi\<close>).  Parsing of a socket address and of PEM files, and the checks of \<open>rustls\<close> on keys and
  certificates, are parameters.  A controller of \<open>kube\<close> starts a pass for every trigger its watches
  yield, and passes over different objects run side by side: a trigger is a reply, a pass a task.
\<close>

section \<open>Arguments\<close>

record args =
  ar_bl_api_token :: string
  ar_grpc_listen_addr :: string
  ar_external_dns_listen_addr :: "string option"
  ar_external_dns_webhook :: bool
  ar_cluster_autoscaler_service :: bool
  ar_namespace :: string
  ar_tls_cert_path :: "string option"
  ar_tls_key_path :: "string option"
  ar_tls_ca_path :: "string option"
  ar_controllers :: string

text \<open>What the program runs with when only the token is given.\<close>

definition default_args :: "string \<Rightarrow> args" where
  "default_args token =
     \<lparr>ar_bl_api_token = token, ar_grpc_listen_addr = ''0.0.0.0:8086'',
      ar_external_dns_listen_addr = None, ar_external_dns_webhook = False,
      ar_cluster_autoscaler_service = False, ar_namespace = ''binarylane-system'',
      ar_tls_cert_path = None, ar_tls_key_path = None, ar_tls_ca_path = None,
      ar_controllers = ''*''\<rparr>"

record tls_config =
  tls_cert_pem :: string
  tls_key_pem :: string
  tls_ca_pem :: string

text \<open>What the gRPC server is configured with: its identity and the root of its clients.\<close>

record grpc_tls =
  gt_identity_cert :: string
  gt_identity_key :: string
  gt_client_root :: string

section \<open>Calls of the process\<close>

datatype watched = Watched_Node node | Watched_Service service

text \<open>A controller task has a name and the namespace of the Secrets it watches too, if it does.\<close>

datatype process_task =
    Controller_Task string "string option"
  | Monitor_Task nat
  | Webhook_Task string "tls_config option"
  | Reflector_Task

record server_tls =
  st_client_roots :: "string list"
  st_certs :: "string list"
  st_key :: string

datatype sys_call =
    SysApi call
  | BuildKubeClient
  | SpawnTask process_task
  | SelectFirst nat
  | NextTrigger string
  | StartPass string watched
  | ReadBytes string
  | BindListener string
  | ServeWebhook "server_tls option"
  | AcceptTcp
  | TlsHandshake nat
  | InstallSigterm
  | AwaitSignal bool
  | ConfigureGrpcTls grpc_tls
  | ServeGrpc string "grpc_tls option"
  | NextStoreEvent
  | ExitProcess nat

datatype sys_reply =
    SysReply reply
  | SysOk
  | SysErr string
  | SysBytes string
  | SysTrigger watched
  | SysConn nat
  | SysPanicked
  | SysEnd

type_synonym 'a sys = "(sys_call, sys_reply, 'a) prog"
type_synonym 'a sys_io = "(sys_call, sys_reply, err + 'a) prog"
type_synonym sys_hist = "(sys_call, sys_reply) history"

fun as_ok :: "sys_reply \<Rightarrow> err + unit" where
  "as_ok SysOk = Inr ()"
| "as_ok (SysErr t) = Inl (EHttp t)"
| "as_ok _ = Inl (EHttp ''operation failed'')"

fun as_bytes :: "sys_reply \<Rightarrow> err + string" where
  "as_bytes (SysBytes b) = Inr b"
| "as_bytes (SysErr t) = Inl (EHttp t)"
| "as_bytes _ = Inl (EHttp ''unexpected end of file'')"

fun as_trigger :: "sys_reply \<Rightarrow> watched option" where
  "as_trigger (SysTrigger w) = Some w"
| "as_trigger _ = None"

fun as_conn :: "sys_reply \<Rightarrow> nat option" where
  "as_conn (SysConn c) = Some c"
| "as_conn _ = None"

definition context_of :: "string \<Rightarrow> 'a sys_io \<Rightarrow> 'a sys_io" where
  "context_of c p = map_err (EContext c) p"

definition sys_do :: "sys_call \<Rightarrow> unit sys_io" where
  "sys_do c = Ask c (\<lambda>_. Done (Inr ()))"

lemma within_sys_do [simp]: "within P (sys_do c) \<longleftrightarrow> P c"
  by (simp add: sys_do_def)

lemma attempt_sys_do [simp]: "attempt (sys_do c) f = Ask c (\<lambda>_. f ())"
  by (simp add: sys_do_def)

lemma context_of_simps [simp]:
  "within P (context_of c p) \<longleftrightarrow> within P p" "panic_free (context_of c p) \<longleftrightarrow> panic_free p"
  by (simp_all add: context_of_def)

section \<open>Controllers\<close>

record controller_def =
  cd_name :: string
  cd_watches_secrets :: bool
  cd_reconcile :: "reconcile_ctx \<Rightarrow> watched \<Rightarrow> reconciled"

fun on_node :: "(reconcile_ctx \<Rightarrow> node \<Rightarrow> reconciled) \<Rightarrow> reconcile_ctx \<Rightarrow> watched \<Rightarrow> reconciled" where
  "on_node f ctx (Watched_Node n) = f ctx n"
| "on_node f ctx (Watched_Service s) = Done (Inr AwaitChange)"

fun on_service :: "reconcile_ctx \<Rightarrow> watched \<Rightarrow> reconciled" where
  "on_service ctx (Watched_Service s) = service_reconcile ctx s"
| "on_service ctx (Watched_Node n) = Done (Inr AwaitChange)"

definition main_controllers :: "controller_def list" where
  "main_controllers =
     [\<lparr>cd_name = ''node-sync'', cd_watches_secrets = False, cd_reconcile = on_node node_sync_reconcile\<rparr>,
      \<lparr>cd_name = ''node-deletion'', cd_watches_secrets = True, cd_reconcile = on_node node_deletion_reconcile\<rparr>,
      \<lparr>cd_name = ''node-bind'', cd_watches_secrets = False, cd_reconcile = on_node node_bind_reconcile\<rparr>,
      \<lparr>cd_name = ''node-provision'', cd_watches_secrets = True, cd_reconcile = on_node node_provision_reconcile\<rparr>,
      \<lparr>cd_name = ''service'', cd_watches_secrets = False, cd_reconcile = on_service\<rparr>]"

definition main_ctx :: "args \<Rightarrow> nat \<Rightarrow> (obj_meta \<Rightarrow> string) \<Rightarrow> reconcile_ctx" where
  "main_ctx a fuel name_any =
     \<lparr>rc_bl = new_client (ar_bl_api_token a), rc_secret_namespace = ar_namespace a, rc_fuel = fuel,
      rc_name_any = name_any\<rparr>"

definition started :: "args \<Rightarrow> controller_def list" where
  "started a = filter (\<lambda>cd. cd_name cd \<in> resolve_controllers (ar_controllers a)) main_controllers"

definition controller_task :: "args \<Rightarrow> controller_def \<Rightarrow> process_task" where
  "controller_task a cd =
     Controller_Task (cd_name cd) (if cd_watches_secrets cd then Some (ar_namespace a) else None)"

definition start_controllers :: "args \<Rightarrow> unit sys_io" where
  "start_controllers a = for_each main_controllers (\<lambda>cd.
     do_if (cd_name cd \<in> resolve_controllers (ar_controllers a))
       (sys_do (SpawnTask (controller_task a cd))))"

text \<open>
  The task of a controller: a pass per trigger until the stream ends at shutdown.  The pass of a
  trigger is \<open>cd_reconcile\<close> on the object watched.
\<close>

fun controller_loop :: "nat \<Rightarrow> controller_def \<Rightarrow> unit sys" where
  "controller_loop 0 cd = Hang"
| "controller_loop (Suc n) cd =
     Ask (NextTrigger (cd_name cd)) (\<lambda>r.
       case as_trigger r of
         None \<Rightarrow> Done ()
       | Some w \<Rightarrow> Ask (StartPass (cd_name cd) w) (\<lambda>_. controller_loop n cd))"

definition pass_program :: "reconcile_ctx \<Rightarrow> controller_def \<Rightarrow> watched \<Rightarrow> (reconcile_error + action) sys" where
  "pass_program ctx cd w =
     embed SysApi (\<lambda>r. case r of SysReply x \<Rightarrow> x | _ \<Rightarrow> RUnit) (cd_reconcile cd ctx w)"

text \<open>The task that watches the others: \<open>select_all\<close> yields the first that ends.\<close>

definition monitor :: "nat \<Rightarrow> unit sys" where
  "monitor n = Ask (SelectFirst n) (\<lambda>r.
     if r = SysPanicked then Ask (ExitProcess 1) (\<lambda>_. Done ()) else Done ())"

section \<open>TLS\<close>

definition read_tls :: "args \<Rightarrow> tls_config option sys_io" where
  "read_tls a =
     (case (ar_tls_cert_path a, ar_tls_key_path a, ar_tls_ca_path a) of
        (Some cert, Some key, Some ca) \<Rightarrow>
          attempt (context_of ''reading TLS cert'' (ask (ReadBytes cert) as_bytes)) (\<lambda>cert_pem.
          attempt (context_of ''reading TLS key'' (ask (ReadBytes key) as_bytes)) (\<lambda>key_pem.
          attempt (context_of ''reading TLS CA cert'' (ask (ReadBytes ca) as_bytes)) (\<lambda>ca_pem.
          Done (Inr (Some \<lparr>tls_cert_pem = cert_pem, tls_key_pem = key_pem, tls_ca_pem = ca_pem\<rparr>)))))
      | _ \<Rightarrow> Done (Inr None))"

text \<open>
  The libraries \<open>rustls_pemfile\<close> and \<open>rustls\<close>: the items a PEM text yields, one result each, the
  certificates a root store accepts, and the checks that may refuse a verifier or an identity.
\<close>

record tls_library =
  tl_certs :: "string \<Rightarrow> (err + string) list"
  tl_pkcs8 :: "string \<Rightarrow> (err + string) list"
  tl_rsa :: "string \<Rightarrow> (err + string) list"
  tl_parsable :: "string \<Rightarrow> bool"
  tl_verifier_error :: "string list \<Rightarrow> err option"
  tl_identity_error :: "string list \<Rightarrow> string \<Rightarrow> err option"

fun collect_results :: "(err + 'a) list \<Rightarrow> err + 'a list" where
  "collect_results [] = Inr []"
| "collect_results (Inl e # xs) = Inl e"
| "collect_results (Inr x # xs) = map_sum id (\<lambda>ys. x # ys) (collect_results xs)"

definition read_certs :: "tls_library \<Rightarrow> string \<Rightarrow> err + string list" where
  "read_certs lib pem = collect_results (tl_certs lib pem)"

text \<open>\<open>.next().transpose()\<close>\<close>

fun first_result :: "(err + 'a) list \<Rightarrow> err + 'a option" where
  "first_result [] = Inr None"
| "first_result (Inl e # xs) = Inl e"
| "first_result (Inr x # xs) = Inr (Some x)"

definition read_private_key :: "tls_library \<Rightarrow> string \<Rightarrow> err + string" where
  "read_private_key lib pem =
     (case first_result (tl_pkcs8 lib pem) of
        Inl e \<Rightarrow> Inl (EContext ''reading PKCS8 private key'' e)
      | Inr (Some key) \<Rightarrow> Inr key
      | Inr None \<Rightarrow>
          (case first_result (tl_rsa lib pem) of
             Inl e \<Rightarrow> Inl (EContext ''reading RSA private key'' e)
           | Inr (Some key) \<Rightarrow> Inr key
           | Inr None \<Rightarrow> Inl (EBail ''no TLS private key found'')))"

definition build_tls_config :: "tls_library \<Rightarrow> tls_config \<Rightarrow> err + server_tls" where
  "build_tls_config lib tls =
     (case read_certs lib (tls_cert_pem tls) of
        Inl e \<Rightarrow> Inl (EContext ''decoding TLS cert'' e)
      | Inr certs \<Rightarrow>
     (case read_private_key lib (tls_key_pem tls) of
        Inl e \<Rightarrow> Inl (EContext ''decoding TLS key'' e)
      | Inr key \<Rightarrow>
     (case read_certs lib (tls_ca_pem tls) of
        Inl e \<Rightarrow> Inl (EContext ''decoding TLS CA cert'' e)
      | Inr client_certs \<Rightarrow>
          (let roots = filter (tl_parsable lib) client_certs in
           case tl_verifier_error lib roots of
             Some e \<Rightarrow> Inl (EContext ''building client cert verifier'' e)
           | None \<Rightarrow>
               (case tl_identity_error lib certs key of
                  Some e \<Rightarrow> Inl (EContext ''building TLS server config'' e)
                | None \<Rightarrow> Inr \<lparr>st_client_roots = roots, st_certs = certs, st_key = key\<rparr>)))))"

section \<open>The webhook task\<close>

definition webhook_run :: "tls_library \<Rightarrow> string \<Rightarrow> tls_config option \<Rightarrow> unit sys_io" where
  "webhook_run lib addr tls =
     attempt (context_of ''binding DNS webhook listener'' (ask (BindListener addr) as_ok)) (\<lambda>_.
       case tls of
         Some cfg \<Rightarrow>
           (case build_tls_config lib cfg of
              Inl e \<Rightarrow> Done (Inl e)
            | Inr st \<Rightarrow>
                context_of ''serving DNS webhook over mTLS'' (ask (ServeWebhook (Some st)) as_ok))
       | None \<Rightarrow> context_of ''serving DNS webhook'' (ask (ServeWebhook None) as_ok))"

definition webhook_task :: "tls_library \<Rightarrow> string \<Rightarrow> tls_config option \<Rightarrow> unit sys" where
  "webhook_task lib addr tls =
     bind (webhook_run lib addr tls) (\<lambda>x. case x of
       Inl e \<Rightarrow> Ask (ExitProcess 1) (\<lambda>_. Done ())
     | Inr _ \<Rightarrow> Done ())"

text \<open>
  \<open>RustlsListener::accept\<close>: connections are taken until one completes its handshake; failures of
  either kind are logged and the loop goes on.
\<close>

fun rustls_accept :: "nat \<Rightarrow> nat sys" where
  "rustls_accept 0 = Hang"
| "rustls_accept (Suc n) =
     Ask AcceptTcp (\<lambda>r. case as_conn r of
       None \<Rightarrow> rustls_accept n
     | Some conn \<Rightarrow> Ask (TlsHandshake conn) (\<lambda>s. if s = SysOk then Done conn else rustls_accept n))"

section \<open>The main function\<close>

definition shutdown_signal :: "unit sys_io" where
  "shutdown_signal =
     Ask InstallSigterm (\<lambda>r. sys_do (AwaitSignal (as_ok r = Inr ())))"

fun reflector_loop :: "nat \<Rightarrow> unit sys" where
  "reflector_loop 0 = Hang"
| "reflector_loop (Suc n) =
     Ask NextStoreEvent (\<lambda>r. if r = SysEnd then Done () else reflector_loop n)"

definition parse_address :: "(string \<Rightarrow> err + string) \<Rightarrow> string \<Rightarrow> string \<Rightarrow> string sys_io" where
  "parse_address parse c text = context_of c (Done (parse text))"

definition start_webhook ::
  "(string \<Rightarrow> err + string) \<Rightarrow> args \<Rightarrow> tls_config option \<Rightarrow> unit sys_io" where
  "start_webhook parse a tls =
     (case ar_external_dns_listen_addr a of
        Some listen_addr \<Rightarrow>
          do_if (ar_external_dns_webhook a)
            (attempt (parse_address parse ''parsing external-dns listen address'' listen_addr) (\<lambda>addr.
               sys_do (SpawnTask (Webhook_Task addr tls))))
      | None \<Rightarrow> Done (Inr ()))"

text \<open>
  The server builder of \<open>tonic\<close> starts without TLS; \<open>tls_config\<close> may fail, and else yields a builder that
  has it.  What \<open>ServeGrpc\<close> serves with is what the builder has.
\<close>

definition grpc_tls_of :: "tls_config \<Rightarrow> grpc_tls" where
  "grpc_tls_of tls =
     \<lparr>gt_identity_cert = tls_cert_pem tls, gt_identity_key = tls_key_pem tls, gt_client_root = tls_ca_pem tls\<rparr>"

definition configure_grpc :: "tls_config option \<Rightarrow> grpc_tls option sys_io" where
  "configure_grpc shared_tls =
     (case shared_tls of
        None \<Rightarrow> Done (Inr None)
      | Some tls \<Rightarrow>
          attempt (context_of ''configuring mTLS'' (ask (ConfigureGrpcTls (grpc_tls_of tls)) as_ok)) (\<lambda>_.
            Done (Inr (Some (grpc_tls_of tls)))))"

definition serve_autoscaler ::
  "(string \<Rightarrow> err + string) \<Rightarrow> args \<Rightarrow> tls_config option \<Rightarrow> unit sys_io" where
  "serve_autoscaler parse a shared_tls =
     attempt (sys_do (SpawnTask Reflector_Task)) (\<lambda>_.
     attempt (parse_address parse ''parsing listen address'' (ar_grpc_listen_addr a)) (\<lambda>addr.
     attempt (configure_grpc shared_tls) (\<lambda>builder.
     context_of ''gRPC server error'' (ask (ServeGrpc addr builder) as_ok))))"

definition main :: "(string \<Rightarrow> err + string) \<Rightarrow> args \<Rightarrow> unit sys_io" where
  "main parse a =
     attempt (context_of ''building kubernetes client'' (ask BuildKubeClient as_ok)) (\<lambda>_.
     attempt (start_controllers a) (\<lambda>_.
     attempt (do_if (started a \<noteq> []) (sys_do (SpawnTask (Monitor_Task (length (started a)))))) (\<lambda>_.
     attempt (read_tls a) (\<lambda>tls.
     attempt (start_webhook parse a tls) (\<lambda>_.
     if \<not> ar_cluster_autoscaler_service a then shutdown_signal
     else serve_autoscaler parse a tls)))))"

definition new_provider :: "args \<Rightarrow> nat \<Rightarrow> template_engine \<Rightarrow> (pb_node \<Rightarrow> string) \<Rightarrow> provider" where
  "new_provider a fuel engine encode =
     \<lparr>pv_bl = new_client (ar_bl_api_token a), pv_secret_namespace = ar_namespace a, pv_fuel = fuel,
      pv_engine = engine, pv_encode = encode\<rparr>"

section \<open>What the process starts, and how its sockets are protected\<close>

definition tls_as_read :: "args \<Rightarrow> tls_config option \<Rightarrow> sys_hist \<Rightarrow> bool" where
  "tls_as_read a t h \<longleftrightarrow>
     (case (ar_tls_cert_path a, ar_tls_key_path a, ar_tls_ca_path a) of
        (Some cert, Some key, Some ca) \<Rightarrow>
          (\<exists>cfg. t = Some cfg
            \<and> (ReadBytes cert, SysBytes (tls_cert_pem cfg)) \<in> set h
            \<and> (ReadBytes key, SysBytes (tls_key_pem cfg)) \<in> set h
            \<and> (ReadBytes ca, SysBytes (tls_ca_pem cfg)) \<in> set h)
      | _ \<Rightarrow> t = None)"

definition grpc_as_configured :: "args \<Rightarrow> grpc_tls option \<Rightarrow> sys_hist \<Rightarrow> bool" where
  "grpc_as_configured a g h \<longleftrightarrow>
     (\<exists>t. tls_as_read a t h \<and> g = map_option grpc_tls_of t
        \<and> (\<forall>gt. g = Some gt \<longrightarrow> (ConfigureGrpcTls gt, SysOk) \<in> set h))"

text \<open>What the webhook presents to its clients, and whom it trusts, given the PEM texts.\<close>

definition webhook_presents :: "tls_library \<Rightarrow> tls_config option \<Rightarrow> server_tls option \<Rightarrow> bool" where
  "webhook_presents lib t st \<longleftrightarrow>
     (case t of
        None \<Rightarrow> st = None
      | Some cfg \<Rightarrow> (\<exists>w authorities. st = Some w
          \<and> tl_certs lib (tls_cert_pem cfg) = map Inr (st_certs w)
          \<and> tl_certs lib (tls_ca_pem cfg) = map Inr authorities
          \<and> st_client_roots w = filter (tl_parsable lib) authorities
          \<and> (\<exists>ks. tl_pkcs8 lib (tls_key_pem cfg) = Inr (st_key w) # ks
             \<or> tl_pkcs8 lib (tls_key_pem cfg) = [] \<and> tl_rsa lib (tls_key_pem cfg) = Inr (st_key w) # ks)
          \<and> tl_verifier_error lib (st_client_roots w) = None
          \<and> tl_identity_error lib (st_certs w) (st_key w) = None))"

fun starts_as_configured :: "args \<Rightarrow> sys_hist \<Rightarrow> sys_call \<Rightarrow> bool" where
  "starts_as_configured a h (ServeGrpc addr g) \<longleftrightarrow> ar_cluster_autoscaler_service a \<and> grpc_as_configured a g h"
| "starts_as_configured a h (SpawnTask (Webhook_Task addr t)) \<longleftrightarrow>
     ar_external_dns_webhook a \<and> tls_as_read a t h"
| "starts_as_configured a h (SpawnTask (Controller_Task n ns)) \<longleftrightarrow>
     n \<in> resolve_controllers (ar_controllers a) \<and> n \<in> set DEFAULT_CONTROLLERS"
| "starts_as_configured a h c \<longleftrightarrow> True"

lemma as_bytes_iff [simp]: "as_bytes r = Inr b \<longleftrightarrow> r = SysBytes b"
  by (cases r) auto

lemma safe_context_of [effect_simps]:
  "safe G Q h (context_of c p) =
     safe G (then_post Q (\<lambda>x h'. Q (Returned (map_sum (EContext c) id x)) h')) h p"
  by (simp add: context_of_def effect_simps)

lemma safe_sys_do [effect_simps]:
  "safe G Q h (sys_do c) \<longleftrightarrow> G h c \<and> (\<forall>r. Q (Returned (Inr ())) (h @ [(c, r)]))"
  by (simp add: sys_do_def)

lemma tls_as_read_grows: "tls_as_read a t h \<Longrightarrow> tls_as_read a t (h @ h')"
  by (auto simp: tls_as_read_def split: option.splits)

lemma read_tls_safe:
  "safe (starts_as_configured a)
     (\<lambda>x h'. case x of Returned (Inr t) \<Rightarrow> tls_as_read a t h' | _ \<Rightarrow> True) h (read_tls a)"
  by (auto simp: read_tls_def tls_as_read_def effect_simps then_post_def
      split: option.split sum.split prod.split)

lemma start_controllers_safe: "safe (starts_as_configured a) (\<lambda>_ _. True) h (start_controllers a)"
proof -
  have "cd_name cd \<in> set DEFAULT_CONTROLLERS" if "cd \<in> set main_controllers" for cd
    using that by (auto simp: main_controllers_def DEFAULT_CONTROLLERS_def)
  then show ?thesis
    unfolding start_controllers_def
    by (intro safe_for_each [where I = "\<lambda>_. True"])
       (auto simp: do_if_def effect_simps controller_task_def)
qed

lemma start_webhook_safe:
  assumes "tls_as_read a t h"
  shows "safe (starts_as_configured a)
    (\<lambda>x h'. case x of Returned (Inr _) \<Rightarrow> tls_as_read a t h' | _ \<Rightarrow> True) h (start_webhook parse a t)"
  using assms
  by (auto simp: start_webhook_def parse_address_def do_if_def effect_simps then_post_def
      tls_as_read_grows split: option.split sum.split)

lemma as_ok_iff [simp]: "as_ok r = Inr u \<longleftrightarrow> r = SysOk"
  by (cases r) auto

lemma serve_autoscaler_safe:
  assumes "tls_as_read a t h" and "ar_cluster_autoscaler_service a"
  shows "safe (starts_as_configured a) (\<lambda>_ _. True) h (serve_autoscaler parse a t)"
  using assms
  by (auto simp: serve_autoscaler_def configure_grpc_def parse_address_def effect_simps then_post_def
      grpc_as_configured_def tls_as_read_grows split: option.split sum.split intro!: exI [of _ t])

lemma shutdown_safe: "safe (starts_as_configured a) (\<lambda>_ _. True) h shutdown_signal"
  by (simp add: shutdown_signal_def effect_simps)

lemma main_safe: "safe (starts_as_configured a) (\<lambda>_ _. True) [] (main parse a)"
  unfolding main_def
proof (rule safe_and_then [where R = "\<lambda>_ _. True"]; (rule safe_and_then [where R = "\<lambda>_ _. True"])?)
  show "safe (starts_as_configured a) (\<lambda>x h'. case x of Returned (Inr y) \<Rightarrow> True | _ \<Rightarrow> True) h
      (start_controllers a)" for h
    by (rule safe_mono [OF start_controllers_safe]) (auto split: outcome.split sum.split)
next
  fix y h
  show "safe (starts_as_configured a) (\<lambda>_ _. True) h
    (attempt (do_if (started a \<noteq> []) (sys_do (SpawnTask (Monitor_Task (length (started a)))))) (\<lambda>_.
     attempt (read_tls a) (\<lambda>tls.
     attempt (start_webhook parse a tls) (\<lambda>_.
     if \<not> ar_cluster_autoscaler_service a then shutdown_signal
     else serve_autoscaler parse a tls))))"
    by (rule safe_and_then [where R = "\<lambda>_ _. True"],
        simp add: do_if_def effect_simps,
        rule safe_and_then [OF read_tls_safe],
        erule safe_and_then [OF start_webhook_safe])
       (simp add: shutdown_safe serve_autoscaler_safe)
qed (auto simp: effect_simps then_post_def split: outcome.split sum.split)

lemma after_spawning:
  "after (for_each xs (\<lambda>x. do_if (P x) (sys_do (f x)))) h = Some (Done y) \<longleftrightarrow>
     map fst h = map f (filter P xs) \<and> y = Inr ()"
proof (induction xs arbitrary: h y)
  case Nil
  then show ?case by (cases h) auto
next
  case (Cons x xs)
  show ?case
  proof (cases "P x")
    case True
    then show ?thesis by (cases h) (auto simp: Cons.IH split: if_splits)
  next
    case False
    then show ?thesis by (simp add: Cons.IH)
  qed
qed

text \<open>Every enabled controller is started, once, in the order of the code, and no other.\<close>

lemma controllers_started:
  "after (start_controllers a) h = Some (Done (Inr ())) \<longleftrightarrow>
     map fst h = map (\<lambda>cd. SpawnTask (controller_task a cd)) (started a)"
  by (simp add: start_controllers_def started_def after_spawning)

text \<open>
  The task that watches the controllers ends the process for a panic of the first task that ends,
  and for that one only: after a clean end it has returned.
\<close>

lemma monitor_sees_first_end:
  "after (monitor n) [(SelectFirst n, r)] =
     Some (if r = SysPanicked then Ask (ExitProcess 1) (\<lambda>_. Done ()) else Done ())"
  by (simp add: monitor_def)

text \<open>The pass of an enabled controller keeps the scope of its reconciler, run in the process.\<close>

lemma node_pass_in_scope:
  assumes "cd \<in> set main_controllers" and "cd_name cd \<noteq> ''service''"
  shows "within (\<lambda>c. \<exists>k. c = SysApi k \<and> node_scope ctx (rc_name_any ctx (n_meta n)) k)
    (pass_program ctx cd (Watched_Node n))"
proof -
  have "within (node_scope ctx (rc_name_any ctx (n_meta n))) (cd_reconcile cd ctx (Watched_Node n))"
    using assms by (auto simp: main_controllers_def node_sync.in_scope node_deletion.in_scope
        node_bind.in_scope node_provision.in_scope)
  then show ?thesis unfolding pass_program_def by (intro within_embed) simp
qed

lemma collect_results_iff: "collect_results xs = Inr ys \<longleftrightarrow> xs = map Inr ys"
  by (induction xs arbitrary: ys rule: collect_results.induct) (auto simp: map_eq_Cons_conv)

lemma first_result_iff:
  "first_result xs = Inr None \<longleftrightarrow> xs = []" "first_result xs = Inr (Some y) \<longleftrightarrow> (\<exists>ys. xs = Inr y # ys)"
  by (induction xs rule: first_result.induct; auto)+

lemma read_private_key_iff:
  "read_private_key lib pem = Inr key \<longleftrightarrow>
     (\<exists>ks. tl_pkcs8 lib pem = Inr key # ks \<or> tl_pkcs8 lib pem = [] \<and> tl_rsa lib pem = Inr key # ks)"
  by (auto simp: read_private_key_def first_result_iff split: sum.splits option.splits)

lemma build_tls_config_presents:
  "build_tls_config lib cfg = Inr w \<Longrightarrow> webhook_presents lib (Some cfg) (Some w)"
  by (auto simp: build_tls_config_def webhook_presents_def read_certs_def collect_results_iff
      read_private_key_iff Let_def split: sum.splits option.splits)

lemma webhook_run_tls:
  "within (\<lambda>c. \<forall>st. c = ServeWebhook st \<longrightarrow> webhook_presents lib t st) (webhook_run lib addr t)"
  by (auto simp: webhook_run_def build_tls_config_presents webhook_presents_def [of lib None]
      intro!: within_attempt split: option.split sum.split)

lemma rustls_accept_handshaken:
  "after (rustls_accept n) h = Some (Done conn) \<Longrightarrow> \<exists>g. h = g @ [(TlsHandshake conn, SysOk)]"
proof (induction n arbitrary: h)
  case (Suc n)
  from Suc.prems obtain r h1 where h: "h = (AcceptTcp, r) # h1"
    by (cases h) (auto split: if_splits)
  show ?case
  proof (cases "as_conn r")
    case None
    with Suc.prems h Suc.IH [of h1] show ?thesis by auto
  next
    case (Some k)
    with Suc.prems h obtain s h2 where h1: "h1 = (TlsHandshake k, s) # h2"
      by (cases h1) (auto split: if_splits)
    with Suc.prems h Some Suc.IH [of h2] show ?thesis
      by (cases h2) (auto split: if_splits)
  qed
next
  case 0
  then show ?case by (cases h) simp_all
qed

text \<open>
  C38: the gRPC service and the webhook are protected exactly when all three TLS paths are
  configured.  With all three, the gRPC server has been configured, successfully, with the certificate
  and the key read from their paths as its identity and the authority read from its path as the root
  of its clients; and the webhook is served only with the certificates and the key decoded from the
  same texts, trusting for its clients the usable certificates decoded from the authority, never in plain
  text.  With one or two of the paths, both are served as without any.
\<close>

theorem listeners_use_tls_iff_configured:
  assumes "after (main parse a) (h @ (c, r) # u) = Some q"
    and "c = ServeGrpc addr g \<or> c = SpawnTask (Webhook_Task addr t)"
  shows "\<exists>tls. tls_as_read a tls h
    \<and> (tls = None \<longleftrightarrow> None \<in> {ar_tls_cert_path a, ar_tls_key_path a, ar_tls_ca_path a})
    \<and> (c = ServeGrpc addr g \<longrightarrow>
         (case tls of
            None \<Rightarrow> g = None
          | Some cfg \<Rightarrow> \<exists>gt. g = Some gt \<and> (ConfigureGrpcTls gt, SysOk) \<in> set h
              \<and> gt_identity_cert gt = tls_cert_pem cfg \<and> gt_identity_key gt = tls_key_pem cfg
              \<and> gt_client_root gt = tls_ca_pem cfg))
    \<and> (c = SpawnTask (Webhook_Task addr t) \<longrightarrow> t = tls
         \<and> within (\<lambda>c. \<forall>st. c = ServeWebhook st \<longrightarrow> webhook_presents lib tls st) (webhook_run lib addr t))"
proof -
  have guard: "starts_as_configured a h c" by (rule safe_guard [OF main_safe assms(1)])
  have none: "tls = None \<longleftrightarrow> None \<in> {ar_tls_cert_path a, ar_tls_key_path a, ar_tls_ca_path a}"
    if "tls_as_read a tls h" for tls
    using that by (auto simp: tls_as_read_def split: option.splits)
  from assms(2) show ?thesis
  proof
    assume c: "c = ServeGrpc addr g"
    with guard obtain tls where "tls_as_read a tls h" "g = map_option grpc_tls_of tls"
      "\<forall>gt. g = Some gt \<longrightarrow> (ConfigureGrpcTls gt, SysOk) \<in> set h"
      by (auto simp: grpc_as_configured_def)
    then show ?thesis
      using none by (intro exI [of _ tls]) (auto simp: c grpc_tls_of_def split: option.split)
  next
    assume c: "c = SpawnTask (Webhook_Task addr t)"
    with guard have "tls_as_read a t h" by simp
    then show ?thesis
      using none webhook_run_tls [of lib t addr] by (intro exI [of _ t]) (auto simp: c)
  qed
qed

definition tls_args :: args where
  "tls_args = (default_args ''t'')
     \<lparr>ar_controllers := ''service'', ar_cluster_autoscaler_service := True, ar_external_dns_webhook := True,
      ar_external_dns_listen_addr := Some ''w'',
      ar_tls_cert_path := Some ''c'', ar_tls_key_path := Some ''k'', ar_tls_ca_path := Some ''a''\<rparr>"

definition sample_tls :: tls_config where
  "sample_tls = \<lparr>tls_cert_pem = ''C'', tls_key_pem = ''K'', tls_ca_pem = ''A''\<rparr>"

definition start_run :: sys_hist where
  "start_run =
     [(BuildKubeClient, SysOk), (SpawnTask (Controller_Task ''service'' None), SysOk),
      (SpawnTask (Monitor_Task 1), SysOk), (ReadBytes ''c'', SysBytes ''C''),
      (ReadBytes ''k'', SysBytes ''K''), (ReadBytes ''a'', SysBytes ''A'')]"

definition tls_run :: sys_hist where
  "tls_run = start_run @
     [(SpawnTask (Webhook_Task ''w'' (Some sample_tls)), SysOk), (SpawnTask Reflector_Task, SysOk),
      (ConfigureGrpcTls (grpc_tls_of sample_tls), SysOk)]"

definition sample_tls_library :: tls_library where
  "sample_tls_library =
     \<lparr>tl_certs = (\<lambda>pem. [Inr pem]), tl_pkcs8 = (\<lambda>pem. [Inr pem]), tl_rsa = (\<lambda>pem. []), tl_parsable = (\<lambda>c. True),
      tl_verifier_error = (\<lambda>roots. None), tl_identity_error = (\<lambda>certs key. None)\<rparr>"

lemma tls_args_run:
  "after (main Inr tls_args)
     (tls_run @ (ServeGrpc ''0.0.0.0:8086'' (Some (grpc_tls_of sample_tls)), SysOk) # []) \<noteq> None"
proof -
  have "resolve_controllers ''service'' = {''service''}"
    by (auto simp: resolve_controllers_iff spec_parts_def trim_def is_ascii_blank_def)
  then show ?thesis
    by (simp add: main_def tls_args_def tls_run_def start_run_def sample_tls_def default_args_def
        start_controllers_def main_controllers_def started_def do_if_def sys_do_def read_tls_def
        start_webhook_def serve_autoscaler_def configure_grpc_def parse_address_def context_of_def
        controller_task_def map_err_ask ask_def [of "ServeGrpc _ _"])
qed

lemma listeners_use_tls_iff_configured_witness:
  "(\<exists>tls. tls_as_read tls_args tls tls_run \<and> tls \<noteq> None)
   \<and> within (\<lambda>c. \<forall>st. c = ServeWebhook st \<longrightarrow> webhook_presents sample_tls_library (Some sample_tls) st)
       (webhook_run sample_tls_library ''w'' (Some sample_tls))"
proof -
  obtain q where q: "after (main Inr tls_args)
      (tls_run @ (ServeGrpc ''0.0.0.0:8086'' (Some (grpc_tls_of sample_tls)), SysOk) # []) = Some q"
    using tls_args_run by auto
  obtain q' where q': "after (main Inr tls_args)
      (start_run @ (SpawnTask (Webhook_Task ''w'' (Some sample_tls)), SysOk) # []) = Some q'"
  proof -
    let ?w = "(SpawnTask (Webhook_Task ''w'' (Some sample_tls)), SysOk)"
    obtain rest where "after (main Inr tls_args) ((start_run @ [?w]) @ rest) = Some q"
      using q unfolding tls_run_def by simp
    then show thesis
      using that after_append [of "main Inr tls_args" "start_run @ [?w]" rest] by (auto simp only: bind_eq_Some_conv)
  qed
  have paths: "None \<notin> {ar_tls_cert_path tls_args, ar_tls_key_path tls_args, ar_tls_ca_path tls_args}"
    by (simp add: tls_args_def)
  have "\<exists>tls. tls_as_read tls_args tls tls_run \<and> tls \<noteq> None"
    using listeners_use_tls_iff_configured [OF q disjI1 [OF refl]] paths by blast
  moreover have "within (\<lambda>c. \<forall>st. c = ServeWebhook st
      \<longrightarrow> webhook_presents sample_tls_library (Some sample_tls) st)
      (webhook_run sample_tls_library ''w'' (Some sample_tls))"
    using listeners_use_tls_iff_configured [OF q' disjI2 [OF refl]] by blast
  ultimately show ?thesis by blast
qed

end
