(* ===== verification/Xtask_Env.thy ===== *)
theory Xtask_Env
  imports Bl_Client Embedding
begin

text \<open>
  What the development tool (\<open>xtask/src/main.rs\<close>) asks of its environment: files, subprocesses, the
  clock, its own HTTP requests to BinaryLane, and the API of the cluster it builds.  A reply of a
  kind a call does not expect counts as a failure of that call.  The calls of the libraries it
  shares with the controller (nodes, random characters) are embedded as \<open>XApi\<close>.

  Instants are in nanoseconds.  A path is its bytes.
\<close>

section \<open>Errors\<close>

datatype io_error = IoNotFound | IoOther string

datatype xerr =
    XBail string
  | XContext string xerr
  | XIo io_error
  | XHttpError string
  | XDecodeError string
  | XKube kube_error
  | XLibrary string

fun show_io_error :: "io_error \<Rightarrow> string" where
  "show_io_error IoNotFound = ''No such file or directory (os error 2)''"
| "show_io_error (IoOther t) = t"

text \<open>\<open>to_string\<close> of an \<open>anyhow::Error\<close> is its outermost layer.\<close>

fun show_xerr :: "xerr \<Rightarrow> string" where
  "show_xerr (XBail t) = t"
| "show_xerr (XContext c e) = c"
| "show_xerr (XIo e) = show_io_error e"
| "show_xerr (XHttpError t) = t"
| "show_xerr (XDecodeError t) = t"
| "show_xerr (XKube e) = show_kube e"
| "show_xerr (XLibrary t) = t"

section \<open>Calls and replies\<close>

type_synonym path = string

record command =
  cm_program :: string
  cm_args :: "string list"
  cm_dir :: "path option"

definition cmd :: "string \<Rightarrow> string list \<Rightarrow> command" where
  "cmd program arguments = \<lparr>cm_program = program, cm_args = arguments, cm_dir = None\<rparr>"

record cmd_output =
  ou_success :: bool
  ou_status :: string
  ou_code :: "int option"
  ou_stdout :: string
  ou_stderr :: string

text \<open>The messages of BinaryLane this tool declares for itself.\<close>

record dev_network =
  dn_ip_address :: string
  dn_net_type :: string

record dev_server =
  ds_id :: i64
  ds_name :: string
  ds_status :: string
  ds_region :: string
  ds_networks :: "dev_network list"

record dev_load_balancer =
  dl_id :: i64
  dl_name :: string

record account_key =
  ak_id :: i64
  ak_fingerprint :: string
  ak_public_key :: string
  ak_name :: string

record create_dev_request =
  cd_server_name :: string
  cd_size :: string
  cd_image :: string
  cd_region :: string
  cd_user_data :: "string option"
  cd_ssh_keys :: "string list option"
  cd_password :: "string option"

record create_key_request =
  ck_name :: string
  ck_public_key :: string

datatype xbody = XNoBody | XCreateServer create_dev_request | XCreateKey create_key_request

record xrequest =
  xq_method :: http_method
  xq_url :: string
  xq_headers :: "(string \<times> string) list"
  xq_body :: xbody

datatype xpayload =
    XServerBody dev_server
  | XServersBody "dev_server list"
  | XKeyBody account_key
  | XKeysBody "account_key list"
  | XLoadBalancersBody "dev_load_balancer list"
  | XUndecodable string

record xresponse =
  xs_code :: nat
  xs_status :: string
  xs_text :: "string option"
  xs_json :: xpayload

datatype xresource =
    XNamespaces | XSecrets string | XDeployments string | XServices string | XServiceAccounts string

record rollout =
  ro_replicas :: "int option"
  ro_ready :: "int option"
  ro_unavailable :: "int option"

datatype xtask_job = Taint_Job | Registry_Job | Secrets_Job | Service_Account_Job

datatype xcall =
    XApi call
  | XHttp xrequest
  | XExists path
  | XRead path
  | XWrite path string
  | XMakeDirs path
  | XRemoveFile path
  | XRemoveDir path
  | XChmod path nat
  | XCurrentDir
  | XRun command
  | XStart command
  | XFeed string
  | XWait
  | XNow
  | XSleep nat
  | XPrintln string
  | XBcrypt string nat
  | XRuntime
  | XReadKubeconfig path
  | XKubeConfig
  | XKubeClient
  | XApply xresource string json
  | XMerge xresource string json
  | XGetDeployment string string
  | XGetServiceAccount string string
  | XHttpClient
  | XProbe string string string
  | XSpawn xtask_job
  | XJoin xtask_job
  | XExit int

datatype xreply =
    XReply reply
  | XResponse xresponse
  | XTransportError string
  | XBool bool
  | XText string
  | XIoError io_error
  | XOutput cmd_output
  | XInstant nat
  | XKubeError kube_error
  | XRollout "rollout option"
  | XJoined "xerr + unit"
  | XOk

type_synonym xhist = "(xcall, xreply) history"
type_synonym 'a xprog = "(xcall, xreply, 'a) prog"
type_synonym 'a xio = "(xcall, xreply, xerr + 'a) prog"

definition unexpected :: io_error where
  "unexpected = IoOther ''unexpected reply''"

fun as_unit_io :: "xreply \<Rightarrow> io_error + unit" where
  "as_unit_io XOk = Inr ()"
| "as_unit_io (XIoError e) = Inl e"
| "as_unit_io _ = Inl unexpected"

fun as_bool :: "xreply \<Rightarrow> bool" where
  "as_bool (XBool b) = b"
| "as_bool _ = False"

text \<open>\<open>read_to_string\<close> refuses bytes that are not UTF-8.\<close>

fun as_text :: "xreply \<Rightarrow> io_error + string" where
  "as_text (XText s) =
     (if utf8_valid s then Inr s else Inl (IoOther ''stream did not contain valid UTF-8''))"
| "as_text (XIoError e) = Inl e"
| "as_text _ = Inl unexpected"

fun as_path :: "xreply \<Rightarrow> io_error + path" where
  "as_path (XText s) = Inr s"
| "as_path (XIoError e) = Inl e"
| "as_path _ = Inl unexpected"

fun as_output :: "xreply \<Rightarrow> io_error + cmd_output" where
  "as_output (XOutput u) = Inr u"
| "as_output (XIoError e) = Inl e"
| "as_output _ = Inl unexpected"

fun as_xresponse :: "xreply \<Rightarrow> xerr + xresponse" where
  "as_xresponse (XResponse r) = Inr r"
| "as_xresponse (XTransportError t) = Inl (XHttpError t)"
| "as_xresponse _ = Inl (XHttpError ''error sending request'')"

fun as_now :: "xreply \<Rightarrow> nat" where
  "as_now (XInstant t) = t"
| "as_now _ = 0"

fun as_kube_unit :: "xreply \<Rightarrow> kube_error + unit" where
  "as_kube_unit XOk = Inr ()"
| "as_kube_unit (XKubeError e) = Inl e"
| "as_kube_unit _ = Inl decode_error"

fun as_rollout :: "xreply \<Rightarrow> kube_error + rollout option" where
  "as_rollout (XRollout s) = Inr s"
| "as_rollout (XKubeError e) = Inl e"
| "as_rollout _ = Inl decode_error"

text \<open>\<open>h.await.context("... panicked")??\<close>: a reply that is not a result is a panic of the task.\<close>

fun as_joined :: "string \<Rightarrow> xreply \<Rightarrow> xerr + unit" where
  "as_joined what (XJoined x) = x"
| "as_joined what _ = Inl (XContext (what @ '' task panicked'') (XLibrary ''task panicked''))"

fun from_reply :: "xreply \<Rightarrow> reply" where
  "from_reply (XReply r) = r"
| "from_reply (XKubeError e) = RKubeError e"
| "from_reply _ = RUnit"

definition api :: "'a eff \<Rightarrow> 'a xprog" where
  "api p = embed XApi from_reply p"

text \<open>\<open>.context(c)\<close> on the three kinds of failing operation.\<close>

definition with_ctx :: "string \<Rightarrow> 'a xio \<Rightarrow> 'a xio" where
  "with_ctx c p = map_err (XContext c) p"

abbreviation io_call :: "xcall \<Rightarrow> (xreply \<Rightarrow> io_error + 'a) \<Rightarrow> 'a xio" where
  "io_call c read \<equiv> ask c (\<lambda>r. map_sum XIo id (read r))"

abbreviation kube_call :: "string \<Rightarrow> xcall \<Rightarrow> (xreply \<Rightarrow> kube_error + 'a) \<Rightarrow> 'a xio" where
  "kube_call ctx c read \<equiv> ask c (\<lambda>r. map_sum (\<lambda>e. XContext ctx (XKube e)) id (read r))"

definition kube_api :: "string \<Rightarrow> 'a kio \<Rightarrow> 'a xio" where
  "kube_api ctx p = map_err (\<lambda>e. XContext ctx (XKube e)) (api p)"

lemma api_ask [simp]: "api (ask c read) = ask (XApi c) (\<lambda>s. read (from_reply s))"
  by (simp add: api_def)

lemma kube_api_ask [simp]:
  "kube_api ctx (ask c read) =
     ask (XApi c) (\<lambda>s. map_sum (\<lambda>e. XContext ctx (XKube e)) id (read (from_reply s)))"
  by (simp add: kube_api_def map_err_ask)

lemma with_ctx_ask [simp]:
  "with_ctx c (ask k read) = ask k (\<lambda>r. map_sum (XContext c) id (read r))"
  by (simp add: with_ctx_def map_err_ask)

lemma with_ctx_simps [simp]:
  "within P (with_ctx c p) \<longleftrightarrow> within P p" "hang_free (with_ctx c p) \<longleftrightarrow> hang_free p"
  "with_ctx c (Done x) = Done (map_sum (XContext c) id x)"
  by (simp_all add: with_ctx_def)

lemma safe_with_ctx [effect_simps]:
  "safe G Q h (with_ctx c p) =
     safe G (then_post Q (\<lambda>x h'. Q (Returned (map_sum (XContext c) id x)) h')) h p"
  by (simp add: with_ctx_def effect_simps)

definition xdo :: "xcall \<Rightarrow> unit xio" where
  "xdo c = Ask c (\<lambda>_. Done (Inr ()))"

lemma xdo_simps [simp]:
  "within P (xdo c) \<longleftrightarrow> P c" "hang_free (xdo c)" "attempt (xdo c) f = Ask c (\<lambda>_. f ())"
  by (simp_all add: xdo_def)

lemma safe_xdo [effect_simps]:
  "safe G Q h (xdo c) \<longleftrightarrow> G h c \<and> (\<forall>r. Q (Returned (Inr ())) (h @ [(c, r)]))"
  by (simp add: xdo_def)

lemma replies_read [simp]:
  "as_unit_io r = Inr u \<longleftrightarrow> r = XOk" "as_text r = Inr s \<longleftrightarrow> r = XText s \<and> utf8_valid s"
  "as_path r = Inr s \<longleftrightarrow> r = XText s" "as_output r = Inr v \<longleftrightarrow> r = XOutput v"
  "as_xresponse r = Inr w \<longleftrightarrow> r = XResponse w" "as_kube_unit r = Inr u \<longleftrightarrow> r = XOk"
  by (cases r; auto)+

section \<open>Paths\<close>

text \<open>
  \<open>Path::parent\<close> drops the last component; trailing slashes and trailing \<open>/.\<close> belong to none.  The
  argument of \<open>strip_rev\<close> is the path reversed.
\<close>

fun strip_rev :: "string \<Rightarrow> string" where
  "strip_rev (c # d # cs) =
     (if c = CHR ''/'' \<or> c = CHR ''.'' \<and> d = CHR ''/'' then strip_rev (d # cs) else c # d # cs)"
| "strip_rev cs = cs"

definition path_parent :: "path \<Rightarrow> path option" where
  "path_parent p =
     (let r = strip_rev (rev p) in
      if r = [] \<or> r = ''/'' then None
      else Some (rev (strip_rev (dropWhile (\<lambda>c. c \<noteq> CHR ''/'') r))))"

definition is_absolute :: "path \<Rightarrow> bool" where
  "is_absolute p \<longleftrightarrow> prefix ''/'' p"

definition path_join :: "path \<Rightarrow> path \<Rightarrow> path" where
  "path_join a b =
     (if is_absolute b then b
      else if a = [] \<or> last a = CHR ''/'' then a @ b
      else a @ ''/'' @ b)"

abbreviation path_display :: "path \<Rightarrow> string" where
  "path_display p \<equiv> from_utf8_lossy p"

definition path_to_string :: "path \<Rightarrow> string xio" where
  "path_to_string p =
     Done (if utf8_valid p then Inr p
           else Inl (XBail (''path is not valid UTF-8: '' @ path_display p)))"

definition absolute_path :: "path \<Rightarrow> path xio" where
  "absolute_path p =
     (if is_absolute p then Done (Inr p)
      else attempt (with_ctx ''getting current directory'' (io_call XCurrentDir as_path)) (\<lambda>cwd.
             Done (Inr (path_join cwd p))))"

end
