(* ===== verification/Xtask_Text.thy ===== *)
theory Xtask_Text
  imports Xtask_Env
begin

text \<open>
  The text the development tool writes and reads (\<open>xtask/src/main.rs\<close>): shell quoting, the lines of
  the environment it prints, escaping and indenting for YAML, the kubeconfig it rewrites, the version
  lines it bumps, the install script and the manifests.  \<open>nl\<close> is the line feed.
\<close>

section \<open>Functions of the standard library\<close>

abbreviation nl :: string where
  "nl \<equiv> [CHR 0x0A]"

definition unlines :: "string list \<Rightarrow> string" where
  "unlines ls = concat (map (\<lambda>l. l @ nl) ls)"

text \<open>\<open>str::replace\<close> for a pattern that is not empty.\<close>

function replace_all :: "string \<Rightarrow> string \<Rightarrow> string \<Rightarrow> string" where
  "replace_all p t [] = []"
| "replace_all p t (c # cs) =
     (if p \<noteq> [] \<and> prefix p (c # cs) then t @ replace_all p t (drop (length p) (c # cs))
      else c # replace_all p t cs)"
  by pat_completeness auto
termination
proof (relation "measure (\<lambda>(p, t, s). length s)")
  fix p t :: string and c cs
  assume "p \<noteq> [] \<and> prefix p (c # cs)"
  then show "((p, t, drop (length p) (c # cs)), p, t, c # cs) \<in> measure (\<lambda>(p, t, s). length s)"
    by (cases p) (auto simp: less_Suc_eq_le)
qed auto

declare replace_all.simps(2) [simp del]

text \<open>\<open>str::lines\<close>: split after every line feed, then drop it and a carriage return before it.\<close>

fun split_inclusive :: "string \<Rightarrow> string list" where
  "split_inclusive [] = []"
| "split_inclusive (c # cs) =
     (if c = CHR 0x0A then nl # split_inclusive cs
      else (case split_inclusive cs of [] \<Rightarrow> [[c]] | l # ls \<Rightarrow> (c # l) # ls))"

definition strip_eol :: "string \<Rightarrow> string" where
  "strip_eol line =
     (case strip_suffix nl line of
        None \<Rightarrow> line
      | Some l \<Rightarrow> unwrap_or (strip_suffix [CHR 0x0D] l) l)"

definition lines_of :: "string \<Rightarrow> string list" where
  "lines_of s = map strip_eol (split_inclusive s)"

section \<open>Shell\<close>

definition shell_single_quote :: "string \<Rightarrow> string" where
  "shell_single_quote value =
     (if value = [] then [CHR 0x27, CHR 0x27]
      else CHR 0x27 #
        concat (map (\<lambda>ch. if ch = CHR 0x27 then [CHR 0x27, CHR 0x5C, CHR 0x27, CHR 0x27] else [ch]) value)
        @ [CHR 0x27])"

definition env_line :: "string \<Rightarrow> string \<Rightarrow> string" where
  "env_line key value = ''export '' @ key @ ''='' @ shell_single_quote value"

definition emit_env :: "string \<Rightarrow> string \<Rightarrow> unit xio" where
  "emit_env key value = xdo (XPrintln (env_line key value))"

definition cat_script :: "path \<Rightarrow> string" where
  "cat_script file_path =
     (let quoted_path = shell_single_quote file_path in
      unlines [''set -eu'', ''if [ \"$(id -u)\" -eq 0 ]; then'', ''cat '' @ quoted_path, ''else'',
        ''sudo cat '' @ quoted_path, ''fi''])"

section \<open>YAML\<close>

definition yaml_escape :: "string \<Rightarrow> string" where
  "yaml_escape value =
     replace_all [CHR 0x22] [CHR 0x5C, CHR 0x22] (replace_all [CHR 0x5C] [CHR 0x5C, CHR 0x5C] value)"

definition indent_block :: "string \<Rightarrow> nat \<Rightarrow> string" where
  "indent_block value spaces =
     concat (map (\<lambda>line. replicate spaces CHR '' '' @ line @ nl) (lines_of value))"

section \<open>Kubeconfig and keys\<close>

definition rewrite_kubeconfig_server :: "string \<Rightarrow> string \<Rightarrow> string" where
  "rewrite_kubeconfig_server kubeconfig k3s_url =
     replace_all ''https://localhost:6443'' k3s_url
       (replace_all ''https://127.0.0.1:6443'' k3s_url kubeconfig)"

definition normalize_public_key :: "string \<Rightarrow> string" where
  "normalize_public_key public_key = trim public_key"

definition managed_public_key_path :: "path \<Rightarrow> path" where
  "managed_public_key_path private_key_path = path_display private_key_path @ ''.pub''"

definition public_ipv4 :: "dev_server \<Rightarrow> string option" where
  "public_ipv4 s =
     map_option dn_ip_address (find (\<lambda>n. dn_net_type n = ''public'') (ds_networks s))"

section \<open>Versions\<close>

fun bump_cargo_lines :: "string \<Rightarrow> bool \<Rightarrow> string list \<Rightarrow> string list" where
  "bump_cargo_lines version replaced [] = []"
| "bump_cargo_lines version replaced (line # lines) =
     (if \<not> replaced \<and> prefix ''version = \"'' line
      then (''version = \"'' @ version @ ''\"'') # bump_cargo_lines version True lines
      else line # bump_cargo_lines version replaced lines)"

definition bump_chart_line :: "string \<Rightarrow> string \<Rightarrow> string" where
  "bump_chart_line version line =
     (if prefix ''version:'' line then ''version: '' @ version
      else if prefix ''appVersion:'' line then ''appVersion: \"'' @ version @ ''\"''
      else line)"

definition keep_newline :: "string \<Rightarrow> string \<Rightarrow> string" where
  "keep_newline contents new =
     (if suffix nl contents \<and> \<not> suffix nl new then new @ nl else new)"

definition bump_cargo :: "string \<Rightarrow> string \<Rightarrow> string" where
  "bump_cargo version contents =
     keep_newline contents (join nl (bump_cargo_lines version False (lines_of contents)))"

definition bump_chart :: "string \<Rightarrow> string \<Rightarrow> string" where
  "bump_chart version contents =
     keep_newline contents (join nl (map (bump_chart_line version) (lines_of contents)))"

section \<open>The k3s install script\<close>

record k3s_registry =
  kr_host :: string
  kr_username :: string
  kr_password :: string

definition registries_yaml :: "k3s_registry \<Rightarrow> string" where
  "registries_yaml r = unlines
     [''mirrors:'', ''  \"'' @ kr_host r @ ''\":'', ''    endpoint:'',
      ''      - \"http://'' @ kr_host r @ ''\"'', ''configs:'', ''  \"'' @ kr_host r @ ''\":'',
      ''    auth:'', ''      username: '' @ yaml_escape (kr_username r),
      ''      password: '' @ yaml_escape (kr_password r)]"

definition install_script :: "string \<Rightarrow> string \<Rightarrow> k3s_registry \<Rightarrow> string" where
  "install_script host node_name r =
     unlines
       [''set -eu'',
        ''if command -v cloud-init >/dev/null 2>&1; then'',
        ''cloud-init status --wait || true'',
        ''fi'',
        ''if [ \"$(id -u)\" -eq 0 ]; then'',
        ''SUDO=\"\"'',
        ''else'',
        ''SUDO=\"sudo\"'',
        ''fi'',
        ''${SUDO} mkdir -p /etc/rancher/k3s'',
        ''DESIRED_REGISTRIES=$(cat <<'' @ quoted ''EOF_REGISTRIES'']
     @ registries_yaml r @
     unlines
       [''EOF_REGISTRIES'',
        '')'',
        ''registries_changed=0'',
        ''CURRENT_REGISTRIES=$(${SUDO} cat /etc/rancher/k3s/registries.yaml 2>/dev/null || true)'',
        ''if [ \"$DESIRED_REGISTRIES\" != \"$CURRENT_REGISTRIES\" ]; then'',
        ''printf '' @ quoted ''%s'' @ '' \"$DESIRED_REGISTRIES\" | ${SUDO} tee /etc/rancher/k3s/registries.yaml >/dev/null'',
        ''registries_changed=1'',
        ''fi'',
        ''k3s_was_active=0'',
        ''if ${SUDO} systemctl is-active --quiet k3s; then'',
        ''k3s_was_active=1'',
        ''fi'',
        ''if ! command -v curl >/dev/null 2>&1; then'',
        ''if command -v apt-get >/dev/null 2>&1; then'',
        ''${SUDO} apt-get update -y'',
        ''${SUDO} apt-get install -y curl'',
        ''elif command -v dnf >/dev/null 2>&1; then'',
        ''${SUDO} dnf install -y curl'',
        ''elif command -v apk >/dev/null 2>&1; then'',
        ''${SUDO} apk add --no-cache curl'',
        ''fi'',
        ''fi'',
        ''if ! command -v k3s >/dev/null 2>&1; then'',
        ''curl -sfL https://get.k3s.io | ${SUDO} env INSTALL_K3S_EXEC=''
          @ quoted (''server --write-kubeconfig-mode 644 --disable traefik --disable-cloud-controller''
            @ '' --kubelet-arg=cloud-provider=external --tls-san '' @ host @ '' --node-name '' @ node_name)
          @ '' sh -s -'',
        ''elif [ \"$k3s_was_active\" -eq 1 ] && [ \"$registries_changed\" -eq 1 ]; then'',
        ''${SUDO} systemctl restart k3s'',
        ''fi'',
        ''${SUDO} systemctl enable --now k3s >/dev/null 2>&1 || true'',
        ''${SUDO} systemctl is-active --quiet k3s'']"

section \<open>Values and manifests\<close>

definition tilt_values :: string where
  "tilt_values = unlines
     [''autoscaler:'', ''  enabled: true'', ''  listenAddr: \"0.0.0.0:8086\"'', ''mtls:'',
      ''  enabled: true'', ''secretNamespaces:'', ''  - default'']"

definition DEV_AUTOSCALER_GROUP_ID :: string where
  [const_defs]: "DEV_AUTOSCALER_GROUP_ID = ''workers''"

definition dev_resources ::
  "string \<Rightarrow> string \<Rightarrow> string \<Rightarrow> string \<Rightarrow> string \<Rightarrow> string \<Rightarrow> string \<Rightarrow> string" where
  "dev_resources size_slug region image_slug k3s_url k3s_token cluster_name cloud_init =
     unlines
       [''apiVersion: v1'',
        ''kind: Secret'',
        ''metadata:'',
        ''  name: dev-k3s-join'',
        ''  namespace: default'',
        ''type: Opaque'',
        ''stringData:'',
        ''  url: \"'' @ yaml_escape k3s_url @ ''\"'',
        ''  token: \"'' @ yaml_escape k3s_token @ ''\"'',
        ''---'',
        ''apiVersion: blc.samcday.com/v1alpha1'',
        ''kind: AutoScalingGroup'',
        ''metadata:'',
        ''  name: '' @ DEV_AUTOSCALER_GROUP_ID,
        ''spec:'',
        ''  minSize: 0'',
        ''  maxSize: 3'',
        ''  size: \"'' @ yaml_escape size_slug @ ''\"'',
        ''  region: \"'' @ yaml_escape region @ ''\"'',
        ''  image: \"'' @ yaml_escape image_slug @ ''\"'',
        ''  namePrefix: \"'' @ cluster_name @ ''-\"'',
        ''  userData: |'',
        indent_block cloud_init 4,
        ''  templateVariables:'',
        ''    - name: k3sUrl'',
        ''      valueFrom:'',
        ''        secretKeyRef:'',
        ''          name: dev-k3s-join'',
        ''          namespace: default'',
        ''          key: url'',
        ''    - name: k3sToken'',
        ''      valueFrom:'',
        ''        secretKeyRef:'',
        ''          name: dev-k3s-join'',
        ''          namespace: default'',
        ''          key: token'']"

section \<open>What a shell reads back\<close>

text \<open>
  A word of the POSIX shell, as far as quoting goes: inside single quotes every character stands for
  itself, outside a backslash protects the next one, and a blank or an operator ends the word.
  Characters that start an expansion or a pattern are outside this fragment (\<open>None\<close>).
\<close>

definition ends_word :: "char \<Rightarrow> bool" where
  "ends_word c \<longleftrightarrow> c \<in> set (CHR 0x0A # CHR 0x09 # '' ;&|<>()'')"

definition expands :: "char \<Rightarrow> bool" where
  "expands c \<longleftrightarrow> c \<in> set (CHR 0x22 # ''$`*?[#~'')"

fun sh_word :: "bool \<Rightarrow> string \<Rightarrow> (string \<times> string) option" where
  "sh_word True [] = None"
| "sh_word True (c # cs) =
     (if c = CHR 0x27 then sh_word False cs else map_option (apfst (Cons c)) (sh_word True cs))"
| "sh_word False [] = Some ([], [])"
| "sh_word False [c] =
     (if c = CHR 0x27 \<or> c = CHR 0x5C \<or> expands c then None
      else if ends_word c then Some ([], [c]) else Some ([c], []))"
| "sh_word False (c # d # cs) =
     (if c = CHR 0x27 then sh_word True (d # cs)
      else if c = CHR 0x5C then map_option (apfst (Cons d)) (sh_word False cs)
      else if expands c then None
      else if ends_word c then Some ([], c # d # cs)
      else map_option (apfst (Cons c)) (sh_word False (d # cs)))"

text \<open>Reading back \<open>n\<close> lines of the form \<open>export KEY=WORD\<close>.\<close>

fun read_exports :: "nat \<Rightarrow> string \<Rightarrow> (string \<times> string) list option" where
  "read_exports 0 s = (if s = [] then Some [] else None)"
| "read_exports (Suc n) s =
     (case strip_prefix ''export '' s of
        None \<Rightarrow> None
      | Some t \<Rightarrow>
          (let key = takeWhile (\<lambda>c. c \<noteq> CHR ''='') t in
           case sh_word False (drop (Suc (length key)) t) of
             None \<Rightarrow> None
           | Some (value, rest) \<Rightarrow>
               Option.bind (strip_prefix nl rest) (\<lambda>more.
                 map_option (\<lambda>kvs. (key, value) # kvs) (read_exports n more))))"

lemma sh_word_newline: "sh_word False (nl @ s) = Some ([], nl @ s)"
  by (cases s) (simp_all add: ends_word_def expands_def)

lemma sh_word_open: "ys \<noteq> [] \<Longrightarrow> sh_word False (CHR 0x27 # ys) = sh_word True ys"
  by (cases ys) simp_all

lemma sh_word_quoted:
  "sh_word True (concat (map (\<lambda>ch. if ch = CHR 0x27 then [CHR 0x27, CHR 0x5C, CHR 0x27, CHR 0x27] else [ch]) v)
     @ CHR 0x27 # nl @ s) = Some (v, nl @ s)"
  using sh_word_newline [of s] by (induction v) (auto simp: sh_word_open)

lemma sh_word_single_quote: "sh_word False (shell_single_quote v @ nl @ s) = Some (v, nl @ s)"
proof (cases v)
  case Nil
  then show ?thesis using sh_word_newline [of s] by (simp add: shell_single_quote_def)
next
  case (Cons c w)
  have "sh_word False (shell_single_quote v @ nl @ s) =
      sh_word True (concat (map (\<lambda>ch. if ch = CHR 0x27
        then [CHR 0x27, CHR 0x5C, CHR 0x27, CHR 0x27] else [ch]) v) @ CHR 0x27 # nl @ s)"
    by (simp add: shell_single_quote_def Cons sh_word_open)
  then show ?thesis by (simp only: sh_word_quoted)
qed

text \<open>
  C39: a shell that evaluates the lines the tool prints for its environment gets back exactly the
  variables and the values printed, whatever the values contain: quotes, line feeds, blanks, dollar
  signs.
\<close>

theorem emitted_env_reads_back:
  assumes "\<forall>(key, value) \<in> set kvs. CHR ''='' \<notin> set key"
  shows "read_exports (length kvs) (concat (map (\<lambda>(key, value). env_line key value @ nl) kvs)) = Some kvs"
  using assms
proof (induction kvs)
  case (Cons kv kvs)
  obtain key v where kv: "kv = (key, v)" by fastforce
  define rest where "rest = concat (map (\<lambda>(key, value). env_line key value @ nl) kvs)"
  have key: "takeWhile (\<lambda>c. c \<noteq> CHR ''='') (key @ CHR ''='' # t) = key" for t
    using Cons.prems by (auto simp: kv takeWhile_append)
  have line: "strip_prefix ''export '' (env_line key v @ nl @ rest) =
      Some (key @ CHR ''='' # shell_single_quote v @ nl @ rest)"
    using strip_prefix_append [of "''export ''" "key @ CHR ''='' # shell_single_quote v @ nl @ rest"]
    by (simp add: env_line_def)
  have "read_exports (length kvs) rest = Some kvs" using Cons by (simp add: rest_def)
  moreover have "strip_prefix nl (nl @ rest) = Some rest" by (rule strip_prefix_append)
  ultimately have "read_exports (Suc (length kvs)) (env_line key v @ nl @ rest) = Some (kv # kvs)"
    using sh_word_single_quote [of v rest] by (simp only: read_exports.simps line key) (simp add: key kv Let_def)
  then show ?case by (simp add: kv rest_def)
qed simp

lemma emitted_env_reads_back_witness:
  "read_exports 1 (env_line ''K'' [CHR ''a'', CHR 0x27, CHR 0x0A, CHR ''$''] @ nl) =
     Some [(''K'', [CHR ''a'', CHR 0x27, CHR 0x0A, CHR ''$''])]"
  using emitted_env_reads_back [of "[(''K'', [CHR ''a'', CHR 0x27, CHR 0x0A, CHR ''$''])]"] by simp

end
