(* ===== verification/Xtask_Client.thy ===== *)
theory Xtask_Client
  imports Xtask_Text
begin

text \<open>
  The tool's own client of BinaryLane (\<open>impl BlClient\<close> in \<open>xtask/src/main.rs\<close>): one definition per
  method, with its reading of the status and of the body.  Unlike the client of the controller it
  fetches one page of a listing only, and accepts a 404 for the deletion of a load balancer.
\<close>

definition XTASK_API_BASE :: string where
  "XTASK_API_BASE = ''https://api.binarylane.com.au/v2''"

record bl_client =
  bc_token :: string
  bc_api_base :: string

definition bl_client_new :: "string \<Rightarrow> bl_client xio" where
  "bl_client_new token =
     attempt (with_ctx ''building HTTP client'' (io_call XHttpClient as_unit_io)) (\<lambda>_.
       Done (Inr \<lparr>bc_token = token, bc_api_base = XTASK_API_BASE\<rparr>))"

definition xreq :: "bl_client \<Rightarrow> http_method \<Rightarrow> string \<Rightarrow> xbody \<Rightarrow> xrequest" where
  "xreq cl m p body =
     \<lparr>xq_method = m, xq_url = bc_api_base cl @ p,
      xq_headers = [(''Authorization'', ''Bearer '' @ bc_token cl),
                    (''Content-Type'', ''application/json'')],
      xq_body = body\<rparr>"

definition xsuccess :: "xresponse \<Rightarrow> bool" where
  "xsuccess rs \<longleftrightarrow> 200 \<le> xs_code rs \<and> xs_code rs < 300"

definition xbail :: "string \<Rightarrow> xresponse \<Rightarrow> xerr" where
  "xbail what rs =
     XBail (what @ '': '' @ xs_status rs @ '': '' @ unwrap_or (xs_text rs) [])"

fun undecodable :: "xpayload \<Rightarrow> string" where
  "undecodable (XUndecodable t) = t"
| "undecodable _ = ''error decoding response body''"

text \<open>
  The three ways a response is read: \<open>xread what ctx read\<close> wants a success and a body,
  \<open>xread_opt\<close> takes a 404 as absent, \<open>xread_done\<close> wants no body and takes a 404 as done.
\<close>

definition xread ::
  "string \<Rightarrow> string \<Rightarrow> (xpayload \<Rightarrow> 'a option) \<Rightarrow> xresponse \<Rightarrow> xerr + 'a" where
  "xread what ctx read rs =
     (if \<not> xsuccess rs then Inl (xbail what rs)
      else (case read (xs_json rs) of
              Some x \<Rightarrow> Inr x
            | None \<Rightarrow> Inl (XContext ctx (XDecodeError (undecodable (xs_json rs))))))"

definition xread_opt ::
  "string \<Rightarrow> string \<Rightarrow> (xpayload \<Rightarrow> 'a option) \<Rightarrow> xresponse \<Rightarrow> xerr + 'a option" where
  "xread_opt what ctx read rs =
     (if xs_code rs = 404 then Inr None else map_sum id Some (xread what ctx read rs))"

definition xread_done :: "string \<Rightarrow> xresponse \<Rightarrow> xerr + unit" where
  "xread_done what rs =
     (if xs_code rs = 404 then Inr ()
      else if \<not> xsuccess rs then Inl (xbail what rs) else Inr ())"

definition xread_reply :: "string \<Rightarrow> (xresponse \<Rightarrow> xerr + 'a) \<Rightarrow> xreply \<Rightarrow> xerr + 'a" where
  "xread_reply c f r =
     (case as_xresponse r of Inl e \<Rightarrow> Inl (XContext c e) | Inr rs \<Rightarrow> f rs)"

abbreviation xhttp :: "xrequest \<Rightarrow> string \<Rightarrow> (xresponse \<Rightarrow> xerr + 'a) \<Rightarrow> 'a xio" where
  "xhttp rq c f \<equiv> ask (XHttp rq) (xread_reply c f)"

fun b_server :: "xpayload \<Rightarrow> dev_server option" where
  "b_server (XServerBody s) = Some s" | "b_server _ = None"

fun b_servers :: "xpayload \<Rightarrow> dev_server list option" where
  "b_servers (XServersBody s) = Some s" | "b_servers _ = None"

fun b_key :: "xpayload \<Rightarrow> account_key option" where
  "b_key (XKeyBody k) = Some k" | "b_key _ = None"

fun b_keys :: "xpayload \<Rightarrow> account_key list option" where
  "b_keys (XKeysBody k) = Some k" | "b_keys _ = None"

fun b_load_balancers :: "xpayload \<Rightarrow> dev_load_balancer list option" where
  "b_load_balancers (XLoadBalancersBody l) = Some l" | "b_load_balancers _ = None"

section \<open>Servers\<close>

definition xget_server :: "bl_client \<Rightarrow> i64 \<Rightarrow> dev_server option xio" where
  "xget_server cl server_id =
     xhttp (xreq cl GET (''/servers/'' @ show_i64 server_id) XNoBody) ''getting server''
       (xread_opt (''getting server '' @ show_i64 server_id) ''decoding get server response'' b_server)"

definition xcreate_server :: "bl_client \<Rightarrow> create_dev_request \<Rightarrow> dev_server xio" where
  "xcreate_server cl req =
     xhttp (xreq cl POST ''/servers'' (XCreateServer req)) ''creating server''
       (xread ''creating server'' ''decoding create server response'' b_server)"

definition xdelete_server :: "bl_client \<Rightarrow> i64 \<Rightarrow> unit xio" where
  "xdelete_server cl server_id =
     xhttp (xreq cl DELETE (''/servers/'' @ show_i64 server_id) XNoBody) ''deleting server''
       (xread_done (''deleting server '' @ show_i64 server_id))"

definition xlist_servers :: "bl_client \<Rightarrow> dev_server list xio" where
  "xlist_servers cl =
     xhttp (xreq cl GET ''/servers'' XNoBody) ''listing servers''
       (xread ''listing servers'' ''decoding list servers response'' b_servers)"

section \<open>Account keys and load balancers\<close>

definition list_account_ssh_keys :: "bl_client \<Rightarrow> account_key list xio" where
  "list_account_ssh_keys cl =
     xhttp (xreq cl GET ''/account/keys'' XNoBody) ''listing account SSH keys''
       (xread ''listing account SSH keys'' ''decoding list account SSH keys response'' b_keys)"

definition create_account_ssh_key :: "bl_client \<Rightarrow> create_key_request \<Rightarrow> account_key xio" where
  "create_account_ssh_key cl req =
     xhttp (xreq cl POST ''/account/keys'' (XCreateKey req)) ''creating account SSH key''
       (xread ''creating account SSH key'' ''decoding create account SSH key response'' b_key)"

definition delete_account_ssh_key :: "bl_client \<Rightarrow> i64 \<Rightarrow> unit xio" where
  "delete_account_ssh_key cl key_id =
     xhttp (xreq cl DELETE (''/account/keys/'' @ show_i64 key_id) XNoBody) ''deleting account SSH key''
       (xread_done (''deleting account SSH key '' @ show_i64 key_id))"

definition list_load_balancers :: "bl_client \<Rightarrow> dev_load_balancer list xio" where
  "list_load_balancers cl =
     xhttp (xreq cl GET ''/load_balancers'' XNoBody) ''listing load balancers''
       (xread ''listing load balancers'' ''decoding list load balancers response'' b_load_balancers)"

text \<open>The path is built with a trailing blank and trimmed.\<close>

definition xdelete_load_balancer :: "bl_client \<Rightarrow> i64 \<Rightarrow> unit xio" where
  "xdelete_load_balancer cl lb =
     xhttp (xreq cl DELETE (trim (''/load_balancers/'' @ show_i64 lb @ '' '')) XNoBody)
       ''deleting load balancer'' (xread_done (''deleting load balancer '' @ show_i64 lb))"

lemmas xclient_defs = xget_server_def xcreate_server_def xdelete_server_def xlist_servers_def
  list_account_ssh_keys_def create_account_ssh_key_def delete_account_ssh_key_def
  list_load_balancers_def xdelete_load_balancer_def

lemma xread_Inr_iff:
  "xread what ctx read rs = Inr x \<longleftrightarrow> xsuccess rs \<and> read (xs_json rs) = Some x"
  by (auto simp: xread_def split: option.split)

lemma xread_opt_iff:
  "xread_opt what ctx read rs = Inr y \<longleftrightarrow>
     (if xs_code rs = 404 then y = None
      else xsuccess rs \<and> (\<exists>x. y = Some x \<and> read (xs_json rs) = Some x))"
  by (auto simp: xread_opt_def xread_Inr_iff)

lemma xread_reply_Inr_iff:
  "xread_reply c f r = Inr x \<longleftrightarrow> (\<exists>rs. r = XResponse rs \<and> f rs = Inr x)"
  by (cases r) (auto simp: xread_reply_def)

text \<open>Creating a server in the region, with fallbacks for a region that has no host left.\<close>

definition REGION_FALLBACKS :: "string list" where
  "REGION_FALLBACKS = [''syd'', ''mel'', ''adl'', ''per'', ''sin'']"

definition regions_to_try :: "string \<Rightarrow> string list" where
  "regions_to_try region = region # filter (\<lambda>r. r \<noteq> region) REGION_FALLBACKS"

text \<open>\<open>str::contains\<close>\<close>

definition contains_text :: "string \<Rightarrow> string \<Rightarrow> bool" where
  "contains_text pat s \<longleftrightarrow> sublist pat s"

definition no_host :: string where
  "no_host = ''Unable to find a suitable host''"

fun try_regions :: "bl_client \<Rightarrow> (string \<Rightarrow> create_dev_request) \<Rightarrow> string list \<Rightarrow> dev_server xio" where
  "try_regions cl req [] = Done (Inl (XBail ''no region had available capacity''))"
| "try_regions cl req (r # rs) =
     bind (xcreate_server cl (req r)) (\<lambda>x. case x of
       Inr server \<Rightarrow> Done (Inr server)
     | Inl e \<Rightarrow>
         if contains_text no_host (show_xerr e) \<and> rs \<noteq> [] then try_regions cl req rs
         else Done (Inl (XContext ''creating BinaryLane server'' e)))"

record server_choice =
  sc_region :: string
  sc_size :: string
  sc_image :: string

definition create_dev_server ::
  "bl_client \<Rightarrow> server_choice \<Rightarrow> string \<Rightarrow> string \<Rightarrow> dev_server xio" where
  "create_dev_server cl ch server_name fingerprint =
     bind (api generate_server_password) (\<lambda>server_password.
       try_regions cl (\<lambda>region.
         \<lparr>cd_server_name = server_name, cd_size = sc_size ch, cd_image = sc_image ch,
          cd_region = region, cd_user_data = None, cd_ssh_keys = Some [fingerprint],
          cd_password = Some server_password\<rparr>) (regions_to_try (sc_region ch)))"

section \<open>The SSH key of the account\<close>

definition key_candidate ::
  "account_key list \<Rightarrow> string \<Rightarrow> i64 option \<Rightarrow> string option \<Rightarrow> account_key option" where
  "key_candidate keys name preferred_id preferred_fingerprint =
     or_else (Option.bind preferred_id (\<lambda>i. find (\<lambda>k. ak_id k = i) keys))
       (or_else (Option.bind preferred_fingerprint (\<lambda>fp. find (\<lambda>k. ak_fingerprint k = fp) keys))
         (find (\<lambda>k. ak_name k = name) keys))"

definition new_account_key :: "bl_client \<Rightarrow> string \<Rightarrow> string \<Rightarrow> account_key xio" where
  "new_account_key cl name public_key =
     create_account_ssh_key cl \<lparr>ck_name = name, ck_public_key = public_key\<rparr>"

definition ensure_account_ssh_key ::
  "bl_client \<Rightarrow> string \<Rightarrow> string \<Rightarrow> i64 option \<Rightarrow> string option \<Rightarrow> account_key xio" where
  "ensure_account_ssh_key cl name public_key preferred_id preferred_fingerprint =
     attempt (list_account_ssh_keys cl) (\<lambda>keys.
       case key_candidate keys name preferred_id preferred_fingerprint of
         None \<Rightarrow> new_account_key cl name public_key
       | Some existing \<Rightarrow>
           if normalize_public_key (ak_public_key existing) = normalize_public_key public_key
           then Done (Inr existing)
           else attempt (delete_account_ssh_key cl (ak_id existing)) (\<lambda>_.
                  new_account_key cl name public_key))"

end
