(* ===== verification/Xtask_State.thy ===== *)
theory Xtask_State
  imports Xtask_Client
begin

text \<open>
  The local state of a development cluster: the state file, the name of the cluster, and the files
  and directories the tool creates and removes (\<open>xtask/src/main.rs\<close>).  The printing and parsing of
  JSON and YAML, base64 and the generated CRD are parameters (\<open>xtask_lib\<close>).
\<close>

section \<open>Parameters\<close>

record dev_state =
  st_server_id :: "i64 option"
  st_server_name :: string
  st_server_ip :: "string option"
  st_region :: string
  st_size :: string
  st_image :: string
  st_ssh_user :: string
  st_ssh_key_path :: "string option"
  st_ssh_key_id :: "i64 option"
  st_ssh_key_fingerprint :: "string option"
  st_ssh_key_name :: string
  st_registry_host :: "string option"
  st_registry_username :: string
  st_registry_password :: "string option"
  st_registry_htpasswd :: "string option"
  st_registry_pull_secret_name :: string
  st_docker_config_dir :: "string option"
  st_tilt_values_path :: "string option"
  st_registry_image_repo :: "string option"
  st_kubeconfig_path :: "string option"
  st_known_hosts_path :: "string option"
  st_k3s_url :: "string option"

definition default_state :: dev_state where
  "default_state =
     \<lparr>st_server_id = None, st_server_name = [], st_server_ip = None, st_region = [], st_size = [],
      st_image = [], st_ssh_user = [], st_ssh_key_path = None, st_ssh_key_id = None,
      st_ssh_key_fingerprint = None, st_ssh_key_name = [], st_registry_host = None,
      st_registry_username = [], st_registry_password = None, st_registry_htpasswd = None,
      st_registry_pull_secret_name = [], st_docker_config_dir = None, st_tilt_values_path = None,
      st_registry_image_repo = None, st_kubeconfig_path = None, st_known_hosts_path = None,
      st_k3s_url = None\<rparr>"

record crd_object =
  crd_annotations :: "str_map option"
  crd_rest :: json

record xtask_lib =
  xl_root :: path
  xl_crd :: crd_object
  xl_yaml :: "crd_object \<Rightarrow> xerr + string"
  xl_parse_state :: "string \<Rightarrow> xerr + dev_state"
  xl_print_state :: "dev_state \<Rightarrow> xerr + string"
  xl_pretty :: "json \<Rightarrow> xerr + string"
  xl_compact :: "json \<Rightarrow> xerr + string"
  xl_base64 :: "string \<Rightarrow> string"
  xl_name_any :: "obj_meta \<Rightarrow> string"
  xl_fuel :: nat

section \<open>Files\<close>

definition ensure_dir :: "path \<Rightarrow> unit xio" where
  "ensure_dir p =
     with_ctx (''creating directory '' @ path_display p) (io_call (XMakeDirs p) as_unit_io)"

definition ensure_parent_dir :: "path \<Rightarrow> unit xio" where
  "ensure_parent_dir p =
     (case path_parent p of Some parent \<Rightarrow> ensure_dir parent | None \<Rightarrow> Done (Inr ()))"

definition write_file :: "string \<Rightarrow> path \<Rightarrow> string \<Rightarrow> unit xio" where
  "write_file what p contents = with_ctx what (io_call (XWrite p contents) as_unit_io)"

text \<open>A file or a directory that is not there counts as removed.\<close>

definition removed :: "path \<Rightarrow> xreply \<Rightarrow> xerr + unit" where
  "removed p r =
     (case as_unit_io r of
        Inr _ \<Rightarrow> Inr ()
      | Inl IoNotFound \<Rightarrow> Inr ()
      | Inl e \<Rightarrow> Inl (XContext (''removing '' @ path_display p) (XIo e)))"

definition remove_file_if_exists :: "path \<Rightarrow> unit xio" where
  "remove_file_if_exists p = ask (XRemoveFile p) (removed p)"

definition remove_dir_if_exists :: "path \<Rightarrow> unit xio" where
  "remove_dir_if_exists p = ask (XRemoveDir p) (removed p)"

definition ensure_tool :: "string \<Rightarrow> string \<Rightarrow> unit xio" where
  "ensure_tool name install_hint =
     Ask (XRun (cmd ''which'' [name])) (\<lambda>r.
       if (case as_output r of Inr u \<Rightarrow> ou_success u | Inl _ \<Rightarrow> False) then Done (Inr ())
       else Done (Inl (XBail (quoted name @ '' not found in PATH ('' @ install_hint @ '')''))))"

section \<open>The state file\<close>

definition state_of :: "xtask_lib \<Rightarrow> path \<Rightarrow> xreply \<Rightarrow> xerr + dev_state" where
  "state_of lib p r =
     (case as_text r of
        Inr text \<Rightarrow> map_sum (XContext (''parsing state file '' @ path_display p)) id (xl_parse_state lib text)
      | Inl IoNotFound \<Rightarrow> Inr default_state
      | Inl e \<Rightarrow> Inl (XContext (''reading state file '' @ path_display p) (XIo e)))"

definition load_state :: "xtask_lib \<Rightarrow> path \<Rightarrow> dev_state xio" where
  "load_state lib p = ask (XRead p) (state_of lib p)"

definition save_state :: "xtask_lib \<Rightarrow> path \<Rightarrow> dev_state \<Rightarrow> unit xio" where
  "save_state lib p st =
     attempt (ensure_parent_dir p) (\<lambda>_.
       case xl_print_state lib st of
         Inl e \<Rightarrow> Done (Inl (XContext ''serializing state file'' e))
       | Inr j \<Rightarrow> write_file (''writing state file '' @ path_display p) p (j @ nl))"

section \<open>The name of the cluster\<close>

definition NAME_FILE :: path where
  [const_defs]: "NAME_FILE = ''.dev/name''"

fun as_chars :: "reply \<Rightarrow> string option" where
  "as_chars (RChars s) = Some s"
| "as_chars _ = None"

definition random_alnum :: "nat \<Rightarrow> (string \<Rightarrow> 'a xprog) \<Rightarrow> 'a xprog" where
  "random_alnum n k =
     Ask (XApi (RandomAlnum n)) (\<lambda>r.
       case as_chars (from_reply r) of
         Some s \<Rightarrow> k s | None \<Rightarrow> Panic ''could not initialize thread_rng'')"

lemma after_random_alnum:
  "after (random_alnum n k) t = Some (Done y) \<longleftrightarrow>
     (\<exists>r u s. t = (XApi (RandomAlnum n), r) # u \<and> as_chars (from_reply r) = Some s
        \<and> after (k s) u = Some (Done y))"
  by (auto simp: random_alnum_def after_to_Done split: option.splits)

definition get_or_create_cluster_name :: "string xio" where
  "get_or_create_cluster_name =
     Ask (XExists NAME_FILE) (\<lambda>r.
       if as_bool r then
         attempt (io_call (XRead NAME_FILE) as_text) (\<lambda>name. Done (Inr (trim name)))
       else
         attempt (io_call (XMakeDirs ''.dev'') as_unit_io) (\<lambda>_.
         random_alnum 6 (\<lambda>hash.
           (let name = ''bl-dev-'' @ to_ascii_lowercase hash in
            attempt (io_call (XWrite NAME_FILE name) as_unit_io) (\<lambda>_. Done (Inr name))))))"

definition generate_registry_password :: "(string \<Rightarrow> 'a xprog) \<Rightarrow> 'a xprog" where
  "generate_registry_password k = random_alnum 40 k"

section \<open>Generated files\<close>

definition docker_config_json :: "xtask_lib \<Rightarrow> string \<Rightarrow> string \<Rightarrow> string \<Rightarrow> json" where
  "docker_config_json lib host username password =
     JObj [(''auths'', JObj [(host, JObj
       [(''auth'', JStr (xl_base64 lib (username @ '':'' @ password))),
        (''username'', JStr username), (''password'', JStr password)])])]"

definition write_docker_config ::
  "xtask_lib \<Rightarrow> path \<Rightarrow> string \<Rightarrow> string \<Rightarrow> string \<Rightarrow> unit xio" where
  "write_docker_config lib docker_config_dir host username password =
     attempt (ensure_dir docker_config_dir) (\<lambda>_.
       case xl_pretty lib (docker_config_json lib host username password) of
         Inl e \<Rightarrow> Done (Inl (XContext ''serializing docker config'' e))
       | Inr content \<Rightarrow>
           (let file = path_join docker_config_dir ''config.json'' in
            write_file (''writing docker auth config to '' @ path_display file) file (content @ nl)))"

definition write_dev_tilt_values :: "path \<Rightarrow> unit xio" where
  "write_dev_tilt_values p =
     attempt (ensure_parent_dir p) (\<lambda>_.
       write_file (''writing generated tilt values '' @ path_display p) p tilt_values)"

definition write_dev_resources ::
  "path \<Rightarrow> server_choice \<Rightarrow> string \<Rightarrow> string \<Rightarrow> string \<Rightarrow> unit xio" where
  "write_dev_resources p ch k3s_url k3s_token cluster_name =
     attempt (ensure_parent_dir p) (\<lambda>_.
     attempt (with_ctx ''reading dev-cloud-init.sh'' (io_call (XRead ''dev-cloud-init.sh'') as_text)) (\<lambda>cloud_init.
       write_file (''writing dev resources '' @ path_display p) p
         (dev_resources (sc_size ch) (sc_region ch) (sc_image ch) k3s_url k3s_token cluster_name cloud_init)))"

section \<open>Commands on the source tree\<close>

definition cmd_gen_crds :: "xtask_lib \<Rightarrow> unit xio" where
  "cmd_gen_crds lib =
     (let out_dir = path_join (xl_root lib) ''charts/binarylane-controllers-crds/templates'';
          crd = (xl_crd lib)\<lparr>crd_annotations :=
            Some (bt_insert ''helm.sh/resource-policy'' ''keep'' (unwrap_or (crd_annotations (xl_crd lib)) []))\<rparr>;
          out = path_join out_dir ''autoscalinggroups.yaml'' in
      attempt (with_ctx ''creating CRDs templates dir'' (io_call (XMakeDirs out_dir) as_unit_io)) (\<lambda>_.
        case xl_yaml lib crd of
          Inl e \<Rightarrow> Done (Inl (XContext ''serializing CRD to YAML'' e))
        | Inr yaml \<Rightarrow>
            attempt (write_file (''writing '' @ path_display out) out
                (''# Generated by '' @ quoted ''cargo xtask gen-crds'' @ '' '' @
                 [CHR 0xE2, CHR 0x80, CHR 0x94] @ '' do not edit.'' @ nl @ yaml)) (\<lambda>_.
            xdo (XPrintln (''wrote '' @ path_display out)))))"

definition cmd_bump :: "xtask_lib \<Rightarrow> string \<Rightarrow> unit xio" where
  "cmd_bump lib version =
     (let cargo_toml = path_join (xl_root lib) ''Cargo.toml'';
          chart_yaml = path_join (xl_root lib) ''charts/binarylane-controllers/Chart.yaml'' in
      attempt (with_ctx ''reading Cargo.toml'' (io_call (XRead cargo_toml) as_text)) (\<lambda>contents.
      attempt (write_file ''writing Cargo.toml'' cargo_toml (bump_cargo version contents)) (\<lambda>_.
      attempt (with_ctx ''reading Chart.yaml'' (io_call (XRead chart_yaml) as_text)) (\<lambda>contents.
      attempt (write_file ''writing Chart.yaml'' chart_yaml (bump_chart version contents)) (\<lambda>_.
      attempt (with_ctx ''running cargo update''
          (io_call (XRun ((cmd ''cargo'' [''update'', ''--workspace''])\<lparr>cm_dir := Some (xl_root lib)\<rparr>))
             as_output)) (\<lambda>u.
        Done (if ou_success u then Inr () else Inl (XBail ''cargo update failed''))))))))"

text \<open>\<open>tilt\<close> runs with the terminal of the tool; its exit code, or 1 for a signal, is passed on.\<close>

definition tilt_args :: "string list \<Rightarrow> string list" where
  "tilt_args extra =
     (if (case extra of a # _ \<Rightarrow> \<not> prefix ''-'' a | [] \<Rightarrow> False) then [] else [''up''])
     @ [''--port'', ''0''] @ extra"

definition cmd_tilt :: "string list \<Rightarrow> unit xio" where
  "cmd_tilt extra =
     attempt (ensure_tool ''tilt'' ''install Tilt: https://docs.tilt.dev/install.html'') (\<lambda>_.
     attempt (with_ctx ''running tilt''
         (io_call (XRun (cmd ''tilt'' (tilt_args extra))) as_output)) (\<lambda>u.
       xdo (XExit (unwrap_or (ou_code u) 1))))"

end
