(* ===== verification/Xtask_Ssh.thy ===== *)
theory Xtask_Ssh
  imports Xtask_State
begin

text \<open>
  SSH (\<open>xtask/src/main.rs\<close>): the command line, the probe, scripts run on the control plane, the key
  pair of the tool, and the loops that wait for the server, for SSH and for k3s.  Those loops read
  the clock: \<open>timed_out start timeout now\<close> is \<open>start.elapsed() > timeout\<close>.
\<close>

section \<open>Waiting\<close>

definition timed_out :: "nat \<Rightarrow> nat \<Rightarrow> nat \<Rightarrow> bool" where
  "timed_out start seconds now \<longleftrightarrow> seconds * 10 ^ 9 < now - start"

text \<open>
  The end of an iteration: give up with an error once the time is over, else sleep and go on.
\<close>

definition wait_or_fail :: "nat \<Rightarrow> nat \<Rightarrow> xerr \<Rightarrow> nat \<Rightarrow> ('a option) xio" where
  "wait_or_fail start seconds e pause =
     Ask XNow (\<lambda>t.
       if timed_out start seconds (as_now t) then Done (Inl e)
       else Ask (XSleep pause) (\<lambda>_. Done (Inr None)))"

definition from_now :: "(nat \<Rightarrow> 'a xio) \<Rightarrow> 'a xio" where
  "from_now f = Ask XNow (\<lambda>t. f (as_now t))"

definition server_step :: "bl_client \<Rightarrow> i64 \<Rightarrow> nat \<Rightarrow> nat \<Rightarrow> nat \<Rightarrow> dev_server option xio" where
  "server_step cl server_id seconds start attempt_no =
     attempt (xget_server cl server_id) (\<lambda>found.
       case found of
         None \<Rightarrow> Done (Inl (XBail (''server id='' @ show_i64 server_id @ '' disappeared while waiting'')))
       | Some server \<Rightarrow>
           if ds_status server = ''active'' then Done (Inr (Some server))
           else wait_or_fail start seconds
                  (XBail (''timed out waiting for server id='' @ show_i64 server_id @
                     '' to become active (last status='' @ ds_status server @ '')'')) 5)"

definition wait_for_server_active :: "nat \<Rightarrow> bl_client \<Rightarrow> i64 \<Rightarrow> nat \<Rightarrow> dev_server xio" where
  "wait_for_server_active fuel cl server_id seconds =
     from_now (\<lambda>start. poll fuel (server_step cl server_id seconds start) 1)"

section \<open>Commands\<close>

definition ssh_base_args :: "string \<Rightarrow> string \<Rightarrow> path option \<Rightarrow> path \<Rightarrow> string list" where
  "ssh_base_args host user key known_hosts =
     [''-o'', ''BatchMode=yes'', ''-o'', ''StrictHostKeyChecking=accept-new'',
      ''-o'', ''UserKnownHostsFile='' @ path_display known_hosts,
      ''-o'', ''LogLevel=ERROR'', ''-o'', ''ConnectTimeout=5'', ''-o'', ''ServerAliveInterval=15'',
      ''-o'', ''ServerAliveCountMax=3'', ''-o'', ''GSSAPIAuthentication=no'', ''-o'', ''IdentityAgent=none'']
     @ (case key of Some k \<Rightarrow> [''-o'', ''IdentitiesOnly=yes'', ''-i'', k] | None \<Rightarrow> [])
     @ [user @ ''@'' @ host]"

definition ssh_base_command :: "string \<Rightarrow> string \<Rightarrow> path option \<Rightarrow> path \<Rightarrow> string list \<Rightarrow> command" where
  "ssh_base_command host user key known_hosts extra =
     cmd ''ssh'' (ssh_base_args host user key known_hosts @ extra)"

definition ssh_probe :: "string \<Rightarrow> string \<Rightarrow> path option \<Rightarrow> path \<Rightarrow> bool \<Rightarrow> bool xio" where
  "ssh_probe host user key known_hosts verbose =
     attempt (with_ctx ''spawning SSH probe'' (io_call (XStart (ssh_base_command host user key known_hosts
         ((if verbose then [''-o'', ''LogLevel=DEBUG''] else []) @ [''true'']))) as_unit_io)) (\<lambda>_.
     attempt (with_ctx ''waiting for SSH probe'' (io_call XWait as_output)) (\<lambda>u.
       Done (Inr (ou_success u))))"

datatype ssh_output_mode = Forward | Capture

definition run_ssh_script ::
  "string \<Rightarrow> string \<Rightarrow> path option \<Rightarrow> path \<Rightarrow> string \<Rightarrow> ssh_output_mode \<Rightarrow> string xio" where
  "run_ssh_script host user key known_hosts script mode =
     attempt (with_ctx ''starting SSH process''
         (io_call (XStart (ssh_base_command host user key known_hosts [''sh'', ''-s''])) as_unit_io)) (\<lambda>_.
     attempt (with_ctx ''writing remote script to SSH stdin'' (io_call (XFeed script) as_unit_io)) (\<lambda>_.
     attempt (with_ctx ''waiting for SSH command'' (io_call XWait as_output)) (\<lambda>u.
       if \<not> ou_success u
       then Done (Inl (XBail (''remote SSH command failed with status '' @ ou_status u)))
       else Done (Inr (case mode of Forward \<Rightarrow> [] | Capture \<Rightarrow> from_utf8_lossy (ou_stdout u))))))"

definition read_remote_file :: "string \<Rightarrow> string \<Rightarrow> path option \<Rightarrow> path \<Rightarrow> path \<Rightarrow> string xio" where
  "read_remote_file host user key known_hosts file_path =
     run_ssh_script host user key known_hosts (cat_script file_path) Capture"

section \<open>Waiting for SSH and for k3s\<close>

fun probe_users ::
  "string \<Rightarrow> path option \<Rightarrow> path \<Rightarrow> bool \<Rightarrow> string list \<Rightarrow> string option xio" where
  "probe_users host key known_hosts verbose [] = Done (Inr None)"
| "probe_users host key known_hosts verbose (user # users) =
     attempt (ssh_probe host user key known_hosts verbose) (\<lambda>ok.
       if ok then Done (Inr (Some user)) else probe_users host key known_hosts verbose users)"

definition verbose_attempt :: "nat \<Rightarrow> bool" where
  "verbose_attempt n \<longleftrightarrow> n = 1 \<or> 6 dvd n"

definition ssh_step ::
  "string \<Rightarrow> string list \<Rightarrow> path option \<Rightarrow> path \<Rightarrow> nat \<Rightarrow> nat \<Rightarrow> nat \<Rightarrow> string option xio" where
  "ssh_step host users key known_hosts seconds start attempts =
     attempt (probe_users host key known_hosts (verbose_attempt attempts) users) (\<lambda>found.
       case found of
         Some user \<Rightarrow> Done (Inr (Some user))
       | None \<Rightarrow> wait_or_fail start seconds
           (XBail (''timed out waiting for SSH on '' @ host @ '' (tried users: '' @ join '', '' users @ '')'')) 5)"

definition wait_for_ssh_ready ::
  "nat \<Rightarrow> string \<Rightarrow> string list \<Rightarrow> path option \<Rightarrow> path \<Rightarrow> nat \<Rightarrow> string xio" where
  "wait_for_ssh_ready fuel host users key known_hosts seconds =
     from_now (\<lambda>start. poll fuel (ssh_step host users key known_hosts seconds start) 1)"

definition k3s_step ::
  "string \<Rightarrow> string \<Rightarrow> path option \<Rightarrow> path \<Rightarrow> string \<Rightarrow> nat \<Rightarrow> nat \<Rightarrow> nat \<Rightarrow> unit option xio" where
  "k3s_step host user key known_hosts script seconds start attempt_no =
     bind (run_ssh_script host user key known_hosts script Forward) (\<lambda>x.
       case x of
         Inr _ \<Rightarrow> Done (Inr (Some ()))
       | Inl e \<Rightarrow> wait_or_fail start seconds (XContext ''timed out installing/verifying k3s'' e) 8)"

definition ensure_k3s_server ::
  "nat \<Rightarrow> string \<Rightarrow> string \<Rightarrow> path option \<Rightarrow> path \<Rightarrow> k3s_registry \<Rightarrow> nat \<Rightarrow> string \<Rightarrow> unit xio" where
  "ensure_k3s_server fuel host user key known_hosts registry seconds node_name =
     from_now (\<lambda>start. poll fuel
       (k3s_step host user key known_hosts (install_script host node_name registry) seconds start) 1)"

section \<open>The key pair\<close>

text \<open>\<open>a.exists() && f(b.exists())\<close>\<close>

definition both_exist :: "path \<Rightarrow> path \<Rightarrow> (bool \<Rightarrow> bool) \<Rightarrow> (bool \<Rightarrow> 'a xprog) \<Rightarrow> 'a xprog" where
  "both_exist a b f k =
     Ask (XExists a) (\<lambda>r. if as_bool r then Ask (XExists b) (\<lambda>s. k (f (as_bool s))) else k False)"

definition rebuild_public_key :: "path \<Rightarrow> path \<Rightarrow> unit xio" where
  "rebuild_public_key private public =
     attempt (with_ctx ''rebuilding managed SSH public key''
         (io_call (XRun (cmd ''ssh-keygen'' [''-y'', ''-f'', private])) as_output)) (\<lambda>u.
       if \<not> ou_success u
       then Done (Inl (XBail (''ssh-keygen failed to rebuild public key: '' @ from_utf8_lossy (ou_stderr u))))
       else write_file (''writing managed SSH public key '' @ path_display public) public (ou_stdout u))"

definition generate_keypair :: "path \<Rightarrow> unit xio" where
  "generate_keypair private =
     attempt (with_ctx ''generating managed SSH keypair''
         (io_call (XRun (cmd ''ssh-keygen'' [''-t'', ''ed25519'', ''-N'', [], ''-f'', private,
            ''-C'', ''binarylane-controller-dev''])) as_output)) (\<lambda>u.
       if \<not> ou_success u then Done (Inl (XBail (''ssh-keygen failed with status '' @ ou_status u)))
       else with_ctx (''setting permissions on '' @ path_display private)
              (io_call (XChmod private 384) as_unit_io))"

definition ensure_managed_ssh_keypair :: "path \<Rightarrow> unit xio" where
  "ensure_managed_ssh_keypair private =
     attempt (ensure_parent_dir private) (\<lambda>_.
     (let public = managed_public_key_path private in
      both_exist private public (\<lambda>b. b) (\<lambda>present.
        if present then Done (Inr ())
        else both_exist private public (\<lambda>b. \<not> b) (\<lambda>lost.
          if lost then rebuild_public_key private public else generate_keypair private))))"

definition read_managed_public_key :: "path \<Rightarrow> string xio" where
  "read_managed_public_key private =
     (let public = managed_public_key_path private in
      attempt (with_ctx (''reading managed SSH public key '' @ path_display public)
          (io_call (XRead public) as_text)) (\<lambda>content.
        Done (if trim content = []
              then Inl (XBail (''managed SSH public key '' @ path_display public @ '' is empty''))
              else Inr (trim content))))"

end
