(* ===== verification/Xtask_Cluster.thy ===== *)
theory Xtask_Cluster
  imports Xtask_Ssh
begin

text \<open>
  The set-up of the cluster through its API (\<open>xtask/src/main.rs\<close>): waiting for the API server,
  removing the taint of uninitialized nodes, the registry, the pull secrets and the service account.
  The loops count their attempts, so they end; \<open>bounded_poll\<close> is interpreted for each.
\<close>

record kube_init_config =
  ki_registry_host :: string
  ki_registry_username :: string
  ki_registry_password :: string
  ki_registry_htpasswd :: string
  ki_registry_secret_name :: string

definition REGISTRY_NAMESPACE :: string where
  [const_defs]: "REGISTRY_NAMESPACE = ''binarylane-dev-registry''"

definition REGISTRY_DATA_HOSTPATH :: string where
  [const_defs]: "REGISTRY_DATA_HOSTPATH = ''/var/lib/binarylane-dev-registry/registry-data''"

definition CLOUD_TAINT :: string where
  [const_defs]: "CLOUD_TAINT = ''node.cloudprovider.kubernetes.io/uninitialized''"

section \<open>Nodes\<close>

definition api_server_step :: "nat \<Rightarrow> unit option xio" where
  "api_server_step attempt_no =
     bind (api (api_list_nodes None)) (\<lambda>x.
       case x of
         Inr nodes \<Rightarrow>
           if nodes \<noteq> [] then Done (Inr (Some ()))
           else if 60 < attempt_no then Done (Inl (XBail ''timed out waiting for nodes to register''))
           else Ask (XSleep 2) (\<lambda>_. Done (Inr None))
       | Inl e \<Rightarrow>
           if 60 < attempt_no
           then Done (Inl (XBail (''timed out waiting for kube API server: '' @ show_kube e)))
           else Ask (XSleep 2) (\<lambda>_. Done (Inr None)))"

definition wait_for_api_server :: "nat \<Rightarrow> unit xio" where
  "wait_for_api_server fuel = poll fuel api_server_step 1"

definition taints_of :: "node \<Rightarrow> taint list" where
  "taints_of n = unwrap_or (Option.bind (n_spec n) ns_taints) []"

definition cloud_tainted :: "node \<Rightarrow> bool" where
  "cloud_tainted n \<longleftrightarrow> (\<exists>t \<in> set (taints_of n). t_key t = CLOUD_TAINT)"

definition taint_json :: "taint \<Rightarrow> json" where
  "taint_json t =
     JObj ([(''key'', JStr (t_key t)), (''effect'', JStr (t_effect t))]
       @ (case t_value t of Some v \<Rightarrow> [(''value'', JStr v)] | None \<Rightarrow> [])
       @ (case t_time_added t of Some ts \<Rightarrow> [(''timeAdded'', JStr ts)] | None \<Rightarrow> []))"

definition untaint_patch :: "taint list \<Rightarrow> json" where
  "untaint_patch ts =
     JObj [(''spec'', JObj [(''taints'',
       JArr (map taint_json (filter (\<lambda>t. t_key t \<noteq> CLOUD_TAINT) ts)))])]"

definition default_params :: patch_params where
  "default_params = \<lparr>pp_manager = [], pp_force = False\<rparr>"

definition remove_node_taint :: "xtask_lib \<Rightarrow> node \<Rightarrow> unit xio" where
  "remove_node_taint lib node =
     (let name = xl_name_any lib (n_meta node) in
      if \<not> cloud_tainted node then Done (Inr ())
      else
        attempt (kube_api (''removing taint from node '' @ name)
            (api_patch_node name default_params (Merge (untaint_patch (taints_of node))))) (\<lambda>_.
        attempt (kube_api ''re-reading node after taint patch'' (api_get_node name)) (\<lambda>updated.
          Done (if cloud_tainted updated
                then Inl (XBail (''taint still present on node '' @ name @ '' after patch''))
                else Inr ()))))"

definition remove_node_taints :: "xtask_lib \<Rightarrow> unit xio" where
  "remove_node_taints lib =
     attempt (kube_api ''listing nodes'' (api_list_nodes None)) (\<lambda>nodes.
       for_each nodes (remove_node_taint lib))"

section \<open>Manifests\<close>

definition manifest :: "string \<Rightarrow> string \<Rightarrow> (string \<times> json) list \<Rightarrow> (string \<times> json) list \<Rightarrow> json" where
  "manifest version kind metadata rest =
     JObj ([(''apiVersion'', JStr version), (''kind'', JStr kind), (''metadata'', JObj metadata)] @ rest)"

definition in_registry :: "string \<Rightarrow> (string \<times> json) list" where
  "in_registry name = [(''name'', JStr name), (''namespace'', JStr REGISTRY_NAMESPACE)]"

definition namespace_manifest :: "string \<Rightarrow> json" where
  "namespace_manifest ns = manifest ''v1'' ''Namespace'' [(''name'', JStr ns)] []"

definition auth_manifest :: "kube_init_config \<Rightarrow> json" where
  "auth_manifest cfg = manifest ''v1'' ''Secret'' (in_registry ''registry-auth'')
     [(''type'', JStr ''Opaque''),
      (''stringData'', JObj [(''htpasswd'', JStr (ki_registry_htpasswd cfg))])]"

definition env_entry :: "string \<Rightarrow> string \<Rightarrow> json" where
  "env_entry name v = JObj [(''name'', JStr name), (''value'', JStr v)]"

definition registry_container :: json where
  "registry_container = JObj
     [(''name'', JStr ''registry''), (''image'', JStr ''registry:2''),
      (''imagePullPolicy'', JStr ''IfNotPresent''),
      (''env'', JArr [env_entry ''REGISTRY_AUTH'' ''htpasswd'',
         env_entry ''REGISTRY_AUTH_HTPASSWD_REALM'' ''dev'',
         env_entry ''REGISTRY_AUTH_HTPASSWD_PATH'' ''/auth/htpasswd'']),
      (''ports'', JArr [JObj [(''containerPort'', JInt 5000), (''name'', JStr ''http'')]]),
      (''volumeMounts'', JArr
         [JObj [(''name'', JStr ''data''), (''mountPath'', JStr ''/var/lib/registry'')],
          JObj [(''name'', JStr ''auth''), (''mountPath'', JStr ''/auth/htpasswd''),
                (''subPath'', JStr ''htpasswd'')]]),
      (''securityContext'', JObj [(''runAsUser'', JInt 0), (''runAsGroup'', JInt 0)])]"

definition app_label :: "(string \<times> json) list" where
  "app_label = [(''app'', JStr ''registry'')]"

definition deployment_manifest :: json where
  "deployment_manifest = manifest ''apps/v1'' ''Deployment'' (in_registry ''registry'')
     [(''spec'', JObj
        [(''replicas'', JInt 1), (''selector'', JObj [(''matchLabels'', JObj app_label)]),
         (''template'', JObj
            [(''metadata'', JObj [(''labels'', JObj app_label)]),
             (''spec'', JObj
                [(''containers'', JArr [registry_container]),
                 (''volumes'', JArr
                    [JObj [(''name'', JStr ''data''),
                           (''hostPath'', JObj [(''path'', JStr REGISTRY_DATA_HOSTPATH),
                                                (''type'', JStr ''DirectoryOrCreate'')])],
                     JObj [(''name'', JStr ''auth''),
                           (''secret'', JObj [(''secretName'', JStr ''registry-auth'')])]])])])])]"

definition service_manifest :: json where
  "service_manifest = manifest ''v1'' ''Service'' (in_registry ''registry'')
     [(''spec'', JObj
        [(''type'', JStr ''NodePort''), (''selector'', JObj app_label),
         (''ports'', JArr [JObj [(''name'', JStr ''http''), (''port'', JInt 5000),
            (''targetPort'', JInt 5000), (''nodePort'', JInt 30500)]])])]"

definition pull_secret_manifest :: "xtask_lib \<Rightarrow> kube_init_config \<Rightarrow> string \<Rightarrow> string \<Rightarrow> json" where
  "pull_secret_manifest lib cfg ns docker_config =
     manifest ''v1'' ''Secret''
       [(''name'', JStr (ki_registry_secret_name cfg)), (''namespace'', JStr ns)]
       [(''type'', JStr ''kubernetes.io/dockerconfigjson''),
        (''data'', JObj [(''.dockerconfigjson'', JStr (xl_base64 lib docker_config))])]"

section \<open>The registry\<close>

definition apply_object :: "string \<Rightarrow> xresource \<Rightarrow> string \<Rightarrow> json \<Rightarrow> unit xio" where
  "apply_object c res name j = kube_call c (XApply res name j) as_kube_unit"

definition rollout_step :: "nat \<Rightarrow> unit option xio" where
  "rollout_step attempt_no =
     attempt (kube_call ''getting registry deployment''
         (XGetDeployment REGISTRY_NAMESPACE ''registry'') as_rollout) (\<lambda>status.
       if 1 \<le> unwrap_or (Option.bind status ro_ready) 0 then Done (Inr (Some ()))
       else if 300 < attempt_no
       then Done (Inl (XBail ''timed out waiting for registry deployment rollout''))
       else Ask (XSleep 1) (\<lambda>_. Done (Inr None)))"

definition deploy_registry :: "nat \<Rightarrow> kube_init_config \<Rightarrow> unit xio" where
  "deploy_registry fuel cfg = steps
     [apply_object ''applying registry namespace'' XNamespaces REGISTRY_NAMESPACE
        (namespace_manifest REGISTRY_NAMESPACE),
      apply_object ''applying registry auth secret'' (XSecrets REGISTRY_NAMESPACE) ''registry-auth''
        (auth_manifest cfg),
      apply_object ''applying registry deployment'' (XDeployments REGISTRY_NAMESPACE) ''registry''
        deployment_manifest,
      apply_object ''applying registry service'' (XServices REGISTRY_NAMESPACE) ''registry''
        service_manifest,
      poll fuel rollout_step 1]"

definition probe_step :: "string \<Rightarrow> string \<Rightarrow> string \<Rightarrow> nat \<Rightarrow> nat \<Rightarrow> unit option xio" where
  "probe_step host username password start attempt_no =
     Ask (XProbe host username password) (\<lambda>r.
       if (case as_xresponse r of Inr rs \<Rightarrow> xsuccess rs | Inl _ \<Rightarrow> False) then Done (Inr (Some ()))
       else wait_or_fail start 300
              (XBail (''timed out waiting for registry endpoint http://'' @ host @ ''/v2/'')) 2)"

definition wait_for_registry_http :: "nat \<Rightarrow> string \<Rightarrow> string \<Rightarrow> string \<Rightarrow> unit xio" where
  "wait_for_registry_http fuel host username password =
     attempt (with_ctx ''building HTTP client for registry probe'' (io_call XHttpClient as_unit_io)) (\<lambda>_.
       from_now (\<lambda>start. poll fuel (probe_step host username password start) 1))"

section \<open>Pull secrets and service accounts\<close>

definition pull_config :: "kube_init_config \<Rightarrow> json" where
  "pull_config cfg =
     JObj [(''auths'', JObj [(ki_registry_host cfg, JObj
       [(''username'', JStr (ki_registry_username cfg)),
        (''password'', JStr (ki_registry_password cfg))])])]"

definition ensure_pull_secrets :: "xtask_lib \<Rightarrow> kube_init_config \<Rightarrow> unit xio" where
  "ensure_pull_secrets lib cfg =
     (case xl_compact lib (pull_config cfg) of
        Inl e \<Rightarrow> Done (Inl e)
      | Inr bytes \<Rightarrow>
          for_each [REGISTRY_NAMESPACE, ''default'', ''binarylane-system''] (\<lambda>ns. steps
            [apply_object (''ensuring namespace '' @ ns) XNamespaces ns (namespace_manifest ns),
             apply_object (''applying pull secret in '' @ ns) (XSecrets ns) (ki_registry_secret_name cfg)
               (pull_secret_manifest lib cfg ns bytes)]))"

definition account_step :: "nat \<Rightarrow> unit option xio" where
  "account_step attempt_no =
     Ask (XGetServiceAccount ''default'' ''default'') (\<lambda>r.
       case as_kube_unit r of
         Inr _ \<Rightarrow> Done (Inr (Some ()))
       | Inl _ \<Rightarrow>
           if 60 < attempt_no
           then Done (Inl (XBail ''timed out waiting for default service account''))
           else Ask (XSleep 1) (\<lambda>_. Done (Inr None)))"

definition patch_service_accounts :: "nat \<Rightarrow> kube_init_config \<Rightarrow> unit xio" where
  "patch_service_accounts fuel cfg =
     attempt (poll fuel account_step 1) (\<lambda>_.
       kube_call ''patching default service account''
         (XMerge (XServiceAccounts ''default'') ''default''
           (JObj [(''imagePullSecrets'',
             JArr [JObj [(''name'', JStr (ki_registry_secret_name cfg))]])])) as_kube_unit)"

text \<open>The four jobs that run side by side once the API server answers.\<close>

fun job :: "xtask_lib \<Rightarrow> kube_init_config \<Rightarrow> xtask_job \<Rightarrow> unit xio" where
  "job lib cfg Taint_Job = remove_node_taints lib"
| "job lib cfg Registry_Job =
     attempt (deploy_registry (xl_fuel lib) cfg) (\<lambda>_.
       wait_for_registry_http (xl_fuel lib) (ki_registry_host cfg) (ki_registry_username cfg)
         (ki_registry_password cfg))"
| "job lib cfg Secrets_Job = ensure_pull_secrets lib cfg"
| "job lib cfg Service_Account_Job = patch_service_accounts (xl_fuel lib) cfg"

section \<open>The loops end\<close>

interpretation api_server: bounded_poll api_server_step 61
  by unfold_locales (auto simp: api_server_step_def api_list_nodes_def never_def split: sum.split)

interpretation rollout: bounded_poll rollout_step 301
  by unfold_locales (auto simp: rollout_step_def never_def split: sum.split)

interpretation account: bounded_poll account_step 61
  by unfold_locales (auto simp: account_step_def never_def split: sum.split)

end
