(* ===== verification/Xtask_Dev.thy ===== *)
theory Xtask_Dev
  imports Xtask_Cluster
begin

text \<open>
  The commands \<open>dev-up\<close> and \<open>dev-down\<close> of the development tool (\<open>xtask/src/main.rs\<close>).  \<open>dev-up\<close> is cut
  into the stages of the code: local preparation, the server and its entry in the state file, the
  registry credentials, SSH and k3s, the generated files, the cluster, and the printed environment.
  \<open>XSpawn\<close> starts a job of \<open>Xtask_Cluster\<close> beside the command and \<open>XJoin\<close> waits for its result.
\<close>

section \<open>Arguments\<close>

definition MANAGED_SSH_KEY_PATH :: path where
  [const_defs]: "MANAGED_SSH_KEY_PATH = ''.dev/dev-control-plane-ed25519''"

record dev_up_args =
  ua_bl_api_token :: string
  ua_state_file :: path
  ua_kubeconfig_out :: path
  ua_known_hosts :: path
  ua_docker_config_dir :: path
  ua_tilt_values_out :: path
  ua_region :: string
  ua_size :: string
  ua_image :: string
  ua_ssh_user :: string
  ua_registry_username :: string
  ua_registry_secret_name :: string
  ua_wait_timeout_secs :: nat

text \<open>What the command runs with when only the token is given.\<close>

definition default_dev_up_args :: "string \<Rightarrow> dev_up_args" where
  "default_dev_up_args token =
     \<lparr>ua_bl_api_token = token, ua_state_file = ''.dev/dev-state.json'',
      ua_kubeconfig_out = ''.dev/kubeconfig'', ua_known_hosts = ''.dev/known_hosts'',
      ua_docker_config_dir = ''.dev/docker'', ua_tilt_values_out = ''.dev/tilt-values.generated.yaml'',
      ua_region = ''bne'', ua_size = ''std-1vcpu'', ua_image = ''ubuntu-24.04'', ua_ssh_user = ''root'',
      ua_registry_username = ''dev'', ua_registry_secret_name = ''dev-registry-cred'',
      ua_wait_timeout_secs = 900\<rparr>"

record dev_down_args =
  da_bl_api_token :: "string option"
  da_state_file :: path
  da_kubeconfig_out :: path
  da_known_hosts :: path
  da_docker_config_dir :: path
  da_tilt_values_out :: path

section \<open>dev-up: preparation\<close>

record dev_local =
  lc_cluster_name :: string
  lc_ssh_key_path :: path
  lc_docker_config_dir :: path
  lc_tilt_values_out :: path
  lc_dev_resources_out :: path
  lc_public_key :: string

definition resources_path :: "path \<Rightarrow> path" where
  "resources_path tilt_values_out =
     path_join (unwrap_or (path_parent tilt_values_out) ''.'') ''dev-resources.generated.yaml''"

definition prepare_local :: "dev_up_args \<Rightarrow> dev_local xio" where
  "prepare_local a =
     attempt (ensure_tool ''ssh'' ''install OpenSSH client'') (\<lambda>_.
     attempt get_or_create_cluster_name (\<lambda>cluster_name.
     attempt (ensure_tool ''ssh-keygen'' ''install OpenSSH tools'') (\<lambda>_.
     attempt (for_each [ua_state_file a, ua_kubeconfig_out a, ua_known_hosts a, MANAGED_SSH_KEY_PATH,
       ua_tilt_values_out a] ensure_parent_dir) (\<lambda>_.
     attempt (absolute_path MANAGED_SSH_KEY_PATH) (\<lambda>ssh_key_path.
     attempt (absolute_path (ua_docker_config_dir a)) (\<lambda>docker_config_dir.
     attempt (absolute_path (ua_tilt_values_out a)) (\<lambda>tilt_values_out.
     attempt (ensure_dir docker_config_dir) (\<lambda>_.
     attempt (ensure_managed_ssh_keypair ssh_key_path) (\<lambda>_.
     attempt (read_managed_public_key ssh_key_path) (\<lambda>public_key.
     Done (Inr
       \<lparr>lc_cluster_name = cluster_name, lc_ssh_key_path = ssh_key_path,
        lc_docker_config_dir = docker_config_dir, lc_tilt_values_out = tilt_values_out,
        lc_dev_resources_out = resources_path tilt_values_out, lc_public_key = public_key\<rparr>)))))))))))"

section \<open>dev-up: the server\<close>

definition server_name_of :: "dev_local \<Rightarrow> string" where
  "server_name_of lc = lc_cluster_name lc @ ''-controlplane''"

definition dev_choice :: "dev_up_args \<Rightarrow> server_choice" where
  "dev_choice a = \<lparr>sc_region = ua_region a, sc_size = ua_size a, sc_image = ua_image a\<rparr>"

definition obtain_server ::
  "bl_client \<Rightarrow> dev_up_args \<Rightarrow> dev_local \<Rightarrow> dev_state \<Rightarrow> account_key \<Rightarrow> dev_server xio" where
  "obtain_server cl a lc st account_key =
     (let create = create_dev_server cl (dev_choice a) (server_name_of lc) (ak_fingerprint account_key) in
      case st_server_id st of
        None \<Rightarrow> create
      | Some server_id \<Rightarrow>
          attempt (xget_server cl server_id) (\<lambda>found.
            case found of Some existing \<Rightarrow> Done (Inr existing) | None \<Rightarrow> create))"

definition named_state :: "string \<Rightarrow> dev_state \<Rightarrow> dev_state" where
  "named_state name st = (if st_server_name st = [] then st\<lparr>st_server_name := name\<rparr> else st)"

definition state_with_server ::
  "dev_up_args \<Rightarrow> dev_server \<Rightarrow> account_key \<Rightarrow> string \<Rightarrow> string \<Rightarrow> dev_state \<Rightarrow> dev_state" where
  "state_with_server a server account_key key_path tilt_path st =
     st\<lparr>st_server_id := Some (ds_id server), st_server_name := ds_name server,
        st_region := ds_region server, st_size := ua_size a, st_image := ua_image a,
        st_ssh_key_path := Some key_path, st_ssh_key_id := Some (ak_id account_key),
        st_ssh_key_fingerprint := Some (ak_fingerprint account_key),
        st_ssh_key_name := ak_name account_key, st_tilt_values_path := Some tilt_path\<rparr>"

record dev_cloud =
  dc_client :: bl_client
  dc_key :: account_key
  dc_server :: dev_server
  dc_state :: dev_state

definition prepare_cloud :: "xtask_lib \<Rightarrow> dev_up_args \<Rightarrow> dev_local \<Rightarrow> dev_cloud xio" where
  "prepare_cloud lib a lc =
     attempt (load_state lib (ua_state_file a)) (\<lambda>loaded.
     (let st = named_state (server_name_of lc) loaded in
      attempt (bl_client_new (ua_bl_api_token a)) (\<lambda>cl.
      attempt (ensure_account_ssh_key cl (lc_cluster_name lc @ ''-key'') (lc_public_key lc)
        (st_ssh_key_id st) (st_ssh_key_fingerprint st)) (\<lambda>account_key.
      attempt (obtain_server cl a lc st account_key) (\<lambda>server.
      attempt (path_to_string (lc_ssh_key_path lc)) (\<lambda>key_path.
      attempt (path_to_string (lc_tilt_values_out lc)) (\<lambda>tilt_path.
      (let st' = state_with_server a server account_key key_path tilt_path st in
       attempt (save_state lib (ua_state_file a) st') (\<lambda>_.
       Done (Inr \<lparr>dc_client = cl, dc_key = account_key, dc_server = server, dc_state = st'\<rparr>))))))))))"

section \<open>dev-up: the registry credentials\<close>

record registry_access =
  ra_host :: string
  ra_username :: string
  ra_password :: string
  ra_htpasswd :: string

definition registry_repo :: "string \<Rightarrow> string" where
  "registry_repo host = host @ ''/binarylane-controller''"

definition with_password :: "dev_state \<Rightarrow> (string \<Rightarrow> 'a xprog) \<Rightarrow> 'a xprog" where
  "with_password st k =
     (case st_registry_password st of Some p \<Rightarrow> k p | None \<Rightarrow> generate_registry_password k)"

text \<open>A stored \<open>htpasswd\<close> is kept as long as the password is the stored one.\<close>

definition registry_htpasswd :: "dev_state \<Rightarrow> string \<Rightarrow> string \<Rightarrow> string xio" where
  "registry_htpasswd st username password =
     (let fresh = attempt (with_ctx ''hashing registry password for basic auth''
            (io_call (XBcrypt password 4) as_text)) (\<lambda>hash.
            Done (Inr (username @ '':'' @ hash @ nl))) in
      case st_registry_htpasswd st of
        Some h \<Rightarrow> if st_registry_password st = Some password then Done (Inr h) else fresh
      | None \<Rightarrow> fresh)"

definition state_with_registry ::
  "dev_up_args \<Rightarrow> registry_access \<Rightarrow> string \<Rightarrow> dev_state \<Rightarrow> dev_state" where
  "state_with_registry a ra docker_path st =
     st\<lparr>st_registry_host := Some (ra_host ra), st_registry_username := ra_username ra,
        st_registry_password := Some (ra_password ra), st_registry_htpasswd := Some (ra_htpasswd ra),
        st_registry_pull_secret_name := ua_registry_secret_name a,
        st_docker_config_dir := Some docker_path,
        st_registry_image_repo := Some (registry_repo (ra_host ra))\<rparr>"

definition prepare_registry ::
  "xtask_lib \<Rightarrow> dev_up_args \<Rightarrow> dev_local \<Rightarrow> dev_state \<Rightarrow> string \<Rightarrow> (registry_access \<times> dev_state) xio" where
  "prepare_registry lib a lc st server_ip =
     (let username = (if trim (st_registry_username st) = [] then ua_registry_username a
                      else st_registry_username st) in
      with_password st (\<lambda>password.
      attempt (registry_htpasswd st username password) (\<lambda>htpasswd.
      attempt (path_to_string (lc_docker_config_dir lc)) (\<lambda>docker_path.
      (let ra = \<lparr>ra_host = server_ip @ '':30500'', ra_username = username, ra_password = password,
                 ra_htpasswd = htpasswd\<rparr>;
           st' = state_with_registry a ra docker_path st in
       attempt (save_state lib (ua_state_file a) st') (\<lambda>_. Done (Inr (ra, st'))))))))"

section \<open>dev-up: SSH, k3s and the files of the cluster\<close>

definition ssh_users :: "string \<Rightarrow> string list" where
  "ssh_users user = user # filter (\<lambda>u. u \<noteq> user) [''root'', ''ubuntu'', ''debian'']"

record dev_k3s =
  dk_user :: string
  dk_url :: string
  dk_token :: string
  dk_kubeconfig :: string

definition prepare_k3s ::
  "xtask_lib \<Rightarrow> dev_up_args \<Rightarrow> dev_local \<Rightarrow> registry_access \<Rightarrow> string \<Rightarrow> dev_k3s xio" where
  "prepare_k3s lib a lc ra ip =
     (let key = Some (lc_ssh_key_path lc); kh = ua_known_hosts a; t = ua_wait_timeout_secs a in
      attempt (wait_for_ssh_ready (xl_fuel lib) ip (ssh_users (ua_ssh_user a)) key kh t) (\<lambda>user.
      attempt (ensure_k3s_server (xl_fuel lib) ip user key kh
        \<lparr>kr_host = ra_host ra, kr_username = ra_username ra, kr_password = ra_password ra\<rparr> t
        (server_name_of lc)) (\<lambda>_.
      attempt (with_ctx ''reading kubeconfig from remote control plane''
        (read_remote_file ip user key kh ''/etc/rancher/k3s/k3s.yaml'')) (\<lambda>raw_kubeconfig.
      attempt (with_ctx ''reading k3s node token from remote control plane''
        (read_remote_file ip user key kh ''/var/lib/rancher/k3s/server/node-token'')) (\<lambda>raw_token.
      if trim raw_token = [] then Done (Inl (XBail ''k3s node token is empty''))
      else
        (let url = ''https://'' @ ip @ '':6443'' in
         Done (Inr \<lparr>dk_user = user, dk_url = url, dk_token = trim raw_token,
           dk_kubeconfig = rewrite_kubeconfig_server raw_kubeconfig url\<rparr>)))))))"

definition write_local_files ::
  "xtask_lib \<Rightarrow> dev_up_args \<Rightarrow> dev_local \<Rightarrow> registry_access \<Rightarrow> dev_k3s \<Rightarrow> path xio" where
  "write_local_files lib a lc ra k =
     attempt (absolute_path (ua_kubeconfig_out a)) (\<lambda>kubeconfig.
     attempt (steps
       [write_file (''writing local kubeconfig to '' @ path_display kubeconfig) kubeconfig (dk_kubeconfig k),
        write_docker_config lib (lc_docker_config_dir lc) (ra_host ra) (ra_username ra) (ra_password ra),
        write_dev_tilt_values (lc_tilt_values_out lc),
        write_dev_resources (lc_dev_resources_out lc) (dev_choice a) (dk_url k) (dk_token k)
          (lc_cluster_name lc)]) (\<lambda>_.
     Done (Inr kubeconfig)))"

section \<open>dev-up: the cluster\<close>

definition join_job :: "string \<Rightarrow> xtask_job \<Rightarrow> unit xio" where
  "join_job what j = ask (XJoin j) (as_joined what)"

definition init_cluster :: "xtask_lib \<Rightarrow> path \<Rightarrow> unit xio" where
  "init_cluster lib kubeconfig =
     attempt (with_ctx ''creating tokio runtime'' (io_call XRuntime as_unit_io)) (\<lambda>_.
     with_ctx ''kube cluster init failed'' (steps
       [with_ctx ''reading kubeconfig for kube client'' (io_call (XReadKubeconfig kubeconfig) as_unit_io),
        with_ctx ''building kube config'' (io_call XKubeConfig as_unit_io),
        with_ctx ''building kube client'' (io_call XKubeClient as_unit_io),
        wait_for_api_server (xl_fuel lib),
        xdo (XSpawn Taint_Job), xdo (XSpawn Registry_Job), xdo (XSpawn Secrets_Job),
        xdo (XSpawn Service_Account_Job),
        join_job ''taint'' Taint_Job, join_job ''registry'' Registry_Job,
        join_job ''secrets'' Secrets_Job, join_job ''sa'' Service_Account_Job]))"

section \<open>dev-up: the whole command\<close>

definition path_string :: "path \<Rightarrow> string xio" where
  "path_string p = attempt (absolute_path p) path_to_string"

definition final_state ::
  "dev_up_args \<Rightarrow> dev_cloud \<Rightarrow> registry_access \<Rightarrow> dev_k3s \<Rightarrow> dev_server \<Rightarrow> string \<Rightarrow> string \<Rightarrow> string
    \<Rightarrow> string \<Rightarrow> string \<Rightarrow> string \<Rightarrow> dev_state \<Rightarrow> dev_state" where
  "final_state a dc ra k server ip key_path docker_path tilt_path kubeconfig known_hosts st =
     (state_with_server a server (dc_key dc) key_path tilt_path st)
       \<lparr>st_server_ip := Some ip, st_ssh_user := dk_user k, st_registry_host := Some (ra_host ra),
        st_registry_username := ra_username ra, st_registry_password := Some (ra_password ra),
        st_registry_pull_secret_name := ua_registry_secret_name a,
        st_docker_config_dir := Some docker_path,
        st_registry_image_repo := Some (registry_repo (ra_host ra)),
        st_kubeconfig_path := Some kubeconfig, st_known_hosts_path := Some known_hosts,
        st_k3s_url := Some (dk_url k)\<rparr>"

definition finish_state ::
  "xtask_lib \<Rightarrow> dev_up_args \<Rightarrow> dev_local \<Rightarrow> dev_cloud \<Rightarrow> registry_access \<Rightarrow> dev_k3s \<Rightarrow> dev_server
    \<Rightarrow> string \<Rightarrow> dev_state \<Rightarrow> unit xio" where
  "finish_state lib a lc dc ra k server ip st =
     attempt (path_to_string (lc_ssh_key_path lc)) (\<lambda>key_path.
     attempt (path_to_string (lc_docker_config_dir lc)) (\<lambda>docker_path.
     attempt (path_to_string (lc_tilt_values_out lc)) (\<lambda>tilt_path.
     attempt (path_string (ua_kubeconfig_out a)) (\<lambda>kubeconfig.
     attempt (path_string (ua_known_hosts a)) (\<lambda>known_hosts.
     save_state lib (ua_state_file a)
       (final_state a dc ra k server ip key_path docker_path tilt_path kubeconfig known_hosts st))))))"

definition emit_path :: "string \<Rightarrow> string xio \<Rightarrow> unit xio" where
  "emit_path key p = attempt p (emit_env key)"

definition print_env ::
  "dev_up_args \<Rightarrow> dev_local \<Rightarrow> dev_cloud \<Rightarrow> registry_access \<Rightarrow> dev_k3s \<Rightarrow> dev_server \<Rightarrow> string
    \<Rightarrow> unit xio" where
  "print_env a lc dc ra k server ip = steps
     [emit_path ''KUBECONFIG'' (path_string (ua_kubeconfig_out a)),
      emit_path ''BL_DEV_STATE_FILE'' (path_string (ua_state_file a)),
      emit_env ''BL_API_TOKEN'' (ua_bl_api_token a),
      emit_path ''DOCKER_CONFIG'' (path_to_string (lc_docker_config_dir lc)),
      emit_path ''BL_DEV_TILT_VALUES'' (path_to_string (lc_tilt_values_out lc)),
      emit_env ''BL_DEV_RESOURCES'' (path_display (lc_dev_resources_out lc)),
      emit_env ''BL_DEV_SERVER_ID'' (show_i64 (ds_id server)),
      emit_env ''BL_DEV_SERVER_NAME'' (ds_name server),
      emit_env ''BL_DEV_SERVER_IP'' ip,
      emit_env ''BL_DEV_SSH_USER'' (dk_user k),
      emit_path ''BL_DEV_SSH_KEY_PATH'' (path_to_string (lc_ssh_key_path lc)),
      emit_env ''BL_DEV_SSH_KEY_NAME'' (ak_name (dc_key dc)),
      emit_env ''BL_DEV_SSH_KEY_ID'' (show_i64 (ak_id (dc_key dc))),
      emit_env ''BL_DEV_SSH_KEY_FINGERPRINT'' (ak_fingerprint (dc_key dc)),
      emit_env ''BL_DEV_REGISTRY'' (ra_host ra),
      emit_env ''BL_DEV_REGISTRY_USERNAME'' (ra_username ra),
      emit_env ''BL_DEV_REGISTRY_PASSWORD'' (ra_password ra),
      emit_env ''BL_DEV_REGISTRY_PULL_SECRET'' (ua_registry_secret_name a),
      emit_env ''BL_DEV_CONTROLLER_IMAGE'' (registry_repo (ra_host ra)),
      emit_env ''BL_DEV_AUTOSCALER_GROUP'' DEV_AUTOSCALER_GROUP_ID,
      emit_env ''BL_DEV_K3S_URL'' (dk_url k),
      emit_env ''BL_DEV_K3S_TOKEN'' (dk_token k),
      emit_env ''TMPL_K3S_URL'' (dk_url k),
      emit_env ''TMPL_K3S_TOKEN'' (dk_token k)]"

definition use_server ::
  "xtask_lib \<Rightarrow> dev_up_args \<Rightarrow> dev_local \<Rightarrow> dev_cloud \<Rightarrow> unit xio" where
  "use_server lib a lc dc =
     attempt (wait_for_server_active (xl_fuel lib) (dc_client dc) (ds_id (dc_server dc))
       (ua_wait_timeout_secs a)) (\<lambda>server.
     case public_ipv4 server of
       None \<Rightarrow> Done (Inl (XBail (''server '' @ show_i64 (ds_id server) @ '' has no public IPv4'')))
     | Some ip \<Rightarrow>
         attempt (prepare_registry lib a lc (dc_state dc) ip) (\<lambda>(ra, st).
         attempt (prepare_k3s lib a lc ra ip) (\<lambda>k.
         attempt (write_local_files lib a lc ra k) (\<lambda>kubeconfig.
         attempt (init_cluster lib kubeconfig) (\<lambda>_.
         attempt (finish_state lib a lc dc ra k server ip st) (\<lambda>_.
         print_env a lc dc ra k server ip))))))"

definition cmd_dev_up :: "xtask_lib \<Rightarrow> dev_up_args \<Rightarrow> unit xio" where
  "cmd_dev_up lib a =
     attempt (prepare_local a) (\<lambda>lc.
     attempt (prepare_cloud lib a lc) (\<lambda>dc.
     use_server lib a lc dc))"

definition init_config :: "dev_up_args \<Rightarrow> registry_access \<Rightarrow> kube_init_config" where
  "init_config a ra =
     \<lparr>ki_registry_host = ra_host ra, ki_registry_username = ra_username ra,
      ki_registry_password = ra_password ra, ki_registry_htpasswd = ra_htpasswd ra,
      ki_registry_secret_name = ua_registry_secret_name a\<rparr>"

section \<open>dev-down\<close>

text \<open>\<open>if let Ok(x) = p\<close>\<close>

definition if_ok :: "'a xio \<Rightarrow> ('a \<Rightarrow> unit xio) \<Rightarrow> unit xio" where
  "if_ok p f = bind p (\<lambda>x. case x of Inr y \<Rightarrow> f y | Inl _ \<Rightarrow> Done (Inr ()))"

definition delete_named ::
  "string \<Rightarrow> 'a list xio \<Rightarrow> ('a \<Rightarrow> string) \<Rightarrow> ('a \<Rightarrow> unit xio) \<Rightarrow> unit xio" where
  "delete_named pre listing name delete =
     if_ok listing (\<lambda>xs. for_each xs (\<lambda>x. do_if (prefix pre (name x)) (ignoring (delete x))))"

definition delete_remote :: "bl_client \<Rightarrow> dev_state \<Rightarrow> unit xio" where
  "delete_remote cl st = steps
     [case st_server_id st of
        Some server_id \<Rightarrow> ignoring (xdelete_server cl server_id) | None \<Rightarrow> Done (Inr ()),
      case st_ssh_key_id st of
        Some key_id \<Rightarrow> ignoring (delete_account_ssh_key cl key_id) | None \<Rightarrow> Done (Inr ()),
      if_ok get_or_create_cluster_name (\<lambda>cluster_name.
        (let pre = cluster_name @ ''-'' in steps
          [delete_named pre (xlist_servers cl) ds_name (\<lambda>s. xdelete_server cl (ds_id s)),
           delete_named pre (list_account_ssh_keys cl) ak_name (\<lambda>k. delete_account_ssh_key cl (ak_id k)),
           delete_named pre (list_load_balancers cl) dl_name (\<lambda>l. xdelete_load_balancer cl (dl_id l))]))]"

definition remove_path :: "(path \<Rightarrow> unit xio) \<Rightarrow> path option \<Rightarrow> unit xio" where
  "remove_path f p = (case p of Some q \<Rightarrow> f q | None \<Rightarrow> Done (Inr ()))"

definition remove_local :: "dev_down_args \<Rightarrow> dev_state \<Rightarrow> unit xio" where
  "remove_local a st = steps
     [remove_file_if_exists (da_kubeconfig_out a),
      remove_file_if_exists (da_known_hosts a),
      remove_file_if_exists (da_tilt_values_out a),
      remove_file_if_exists NAME_FILE,
      remove_file_if_exists MANAGED_SSH_KEY_PATH,
      remove_file_if_exists (managed_public_key_path MANAGED_SSH_KEY_PATH),
      remove_path remove_file_if_exists (st_kubeconfig_path st),
      remove_path remove_file_if_exists (st_known_hosts_path st),
      remove_path remove_file_if_exists (st_tilt_values_path st),
      remove_path (\<lambda>p. steps [remove_file_if_exists p, remove_file_if_exists (managed_public_key_path p)])
        (st_ssh_key_path st),
      remove_dir_if_exists (da_docker_config_dir a),
      remove_path remove_dir_if_exists (st_docker_config_dir st),
      remove_file_if_exists (da_state_file a)]"

definition dev_down_client :: "bool \<Rightarrow> dev_down_args \<Rightarrow> bl_client option xio" where
  "dev_down_client needs_api a =
     (if needs_api then
        (case da_bl_api_token a of
           Some token \<Rightarrow> attempt (bl_client_new token) (\<lambda>cl. Done (Inr (Some cl)))
         | None \<Rightarrow> Done (Inr None))
      else Done (Inr None))"

definition cmd_dev_down :: "xtask_lib \<Rightarrow> dev_down_args \<Rightarrow> unit xio" where
  "cmd_dev_down lib a =
     attempt (load_state lib (da_state_file a)) (\<lambda>st.
     bind get_or_create_cluster_name (\<lambda>name.
     (let needs_api = (st_server_id st \<noteq> None \<or> st_ssh_key_id st \<noteq> None \<or> \<not> isl name) in
      attempt (dev_down_client needs_api a) (\<lambda>client.
      attempt (case client of Some cl \<Rightarrow> delete_remote cl st | None \<Rightarrow> Done (Inr ())) (\<lambda>_.
      remove_local a st)))))"

section \<open>The command line\<close>

datatype xtask_command =
    Dev_Up dev_up_args | Dev_Down dev_down_args | Tilt "string list" | Bump string | Gen_Crds

fun xtask_main :: "xtask_lib \<Rightarrow> xtask_command \<Rightarrow> unit xio" where
  "xtask_main lib (Dev_Up a) = cmd_dev_up lib a"
| "xtask_main lib (Dev_Down a) = cmd_dev_down lib a"
| "xtask_main lib (Tilt extra) = cmd_tilt extra"
| "xtask_main lib (Bump version) = cmd_bump lib version"
| "xtask_main lib Gen_Crds = cmd_gen_crds lib"

end
