(* ===== verification/Xtask_Safety.thy ===== *)
theory Xtask_Safety
  imports Xtask_Dev
begin

text \<open>
  What \<open>dev-down\<close> deletes: only what the state file tracks, or what a listing shows under the name of
  the cluster, and nothing at BinaryLane without a token.  A guard on the requests that are not \<open>GET\<close>
  is kept by every part of the command; the parts that send none are harmless.
\<close>

section \<open>Requests that change something\<close>

fun changes_account :: "xcall \<Rightarrow> bool" where
  "changes_account (XHttp rq) = (xq_method rq \<noteq> GET)"
| "changes_account c = False"

abbreviation quiet :: "'a xprog \<Rightarrow> bool" where
  "quiet \<equiv> within (\<lambda>c. \<not> changes_account c)"

lemma quiet_files [simp]:
  "quiet (ensure_dir p)" "quiet (ensure_parent_dir p)" "quiet (write_file what p s)"
  "quiet (remove_file_if_exists p)" "quiet (remove_dir_if_exists p)" "quiet (ensure_tool n hint)"
  "quiet (load_state lib p)" "quiet (absolute_path p)" "quiet (path_to_string p)"
  by (auto simp: ensure_dir_def ensure_parent_dir_def write_file_def remove_file_if_exists_def
      remove_dir_if_exists_def ensure_tool_def load_state_def absolute_path_def path_to_string_def
      intro!: within_attempt split: option.split sum.split)

lemma quiet_save_state [simp]: "quiet (save_state lib p st)"
  by (auto simp: save_state_def intro!: within_attempt split: sum.split)

lemma quiet_random [simp]: "(\<And>s. quiet (k s)) \<Longrightarrow> quiet (random_alnum n k)"
  by (auto simp: random_alnum_def split: option.split)

lemma quiet_cluster_name [simp]: "quiet get_or_create_cluster_name"
  by (auto simp: get_or_create_cluster_name_def Let_def split: sum.split)

lemma quiet_client [simp]: "quiet (bl_client_new token)" "quiet (dev_down_client b a)"
  by (auto simp: bl_client_new_def dev_down_client_def intro!: within_attempt split: option.split sum.split)

lemma quiet_lists [simp]:
  "quiet (xlist_servers cl)" "quiet (list_account_ssh_keys cl)" "quiet (list_load_balancers cl)"
  "quiet (xget_server cl i)"
  by (simp_all add: xclient_defs xreq_def)

lemma quiet_remove_local [simp]: "quiet (remove_local a st)"
  by (auto simp: remove_local_def remove_path_def intro!: within_attempt split: option.split sum.split)

section \<open>dev-down deletes what is its own\<close>

definition state_read :: "xtask_lib \<Rightarrow> path \<Rightarrow> dev_state \<Rightarrow> xhist \<Rightarrow> bool" where
  "state_read lib p st h \<longleftrightarrow> (\<exists>r. (XRead p, r) \<in> set h \<and> state_of lib p r = Inr st)"

definition name_known :: "string \<Rightarrow> xhist \<Rightarrow> bool" where
  "name_known n h \<longleftrightarrow>
     (\<exists>t. (XRead NAME_FILE, XText t) \<in> set h \<and> n = trim t) \<or> (XWrite NAME_FILE n, XOk) \<in> set h"

definition listed_in :: "bl_client \<Rightarrow> string \<Rightarrow> xpayload \<Rightarrow> xhist \<Rightarrow> bool" where
  "listed_in cl p body h \<longleftrightarrow>
     (\<exists>rs. (XHttp (xreq cl GET p XNoBody), XResponse rs) \<in> set h \<and> xs_json rs = body)"

definition named_for :: "xhist \<Rightarrow> string \<Rightarrow> bool" where
  "named_for h name \<longleftrightarrow> (\<exists>n. name_known n h \<and> prefix (n @ ''-'') name)"

text \<open>A request that deletes an element of a listing whose name belongs to the cluster.\<close>

definition deletes_listed ::
  "bl_client \<Rightarrow> string \<Rightarrow> ('a list \<Rightarrow> xpayload) \<Rightarrow> ('a \<Rightarrow> string) \<Rightarrow> ('a \<Rightarrow> xrequest) \<Rightarrow> xhist \<Rightarrow> xrequest
    \<Rightarrow> bool" where
  "deletes_listed cl q body name deletion h rq \<longleftrightarrow>
     (\<exists>xs x. listed_in cl q (body xs) h \<and> x \<in> set xs \<and> named_for h (name x) \<and> rq = deletion x)"

definition server_deletion :: "bl_client \<Rightarrow> i64 \<Rightarrow> xrequest" where
  "server_deletion cl i = xreq cl DELETE (''/servers/'' @ show_i64 i) XNoBody"

definition key_deletion :: "bl_client \<Rightarrow> i64 \<Rightarrow> xrequest" where
  "key_deletion cl i = xreq cl DELETE (''/account/keys/'' @ show_i64 i) XNoBody"

definition load_balancer_deletion :: "bl_client \<Rightarrow> i64 \<Rightarrow> xrequest" where
  "load_balancer_deletion cl i = xreq cl DELETE (trim (''/load_balancers/'' @ show_i64 i @ '' '')) XNoBody"

definition deletes_tracked :: "dev_state \<Rightarrow> bl_client \<Rightarrow> xrequest \<Rightarrow> bool" where
  "deletes_tracked st cl rq \<longleftrightarrow>
     (\<exists>i. st_server_id st = Some i \<and> rq = server_deletion cl i)
   \<or> (\<exists>i. st_ssh_key_id st = Some i \<and> rq = key_deletion cl i)"

definition deletes_named :: "bl_client \<Rightarrow> xhist \<Rightarrow> xrequest \<Rightarrow> bool" where
  "deletes_named cl h rq \<longleftrightarrow>
     deletes_listed cl ''/servers'' XServersBody ds_name (\<lambda>s. server_deletion cl (ds_id s)) h rq
   \<or> deletes_listed cl ''/account/keys'' XKeysBody ak_name (\<lambda>k. key_deletion cl (ak_id k)) h rq
   \<or> deletes_listed cl ''/load_balancers'' XLoadBalancersBody dl_name
       (\<lambda>l. load_balancer_deletion cl (dl_id l)) h rq"

definition down_guard :: "xtask_lib \<Rightarrow> path \<Rightarrow> xhist \<Rightarrow> xcall \<Rightarrow> bool" where
  "down_guard lib p h c \<longleftrightarrow>
     (\<forall>rq. c = XHttp rq \<longrightarrow> xq_method rq \<noteq> GET \<longrightarrow>
        (\<exists>st cl. state_read lib p st h \<and> (deletes_tracked st cl rq \<or> deletes_named cl h rq)))"

lemma down_harmless: "\<not> changes_account c \<Longrightarrow> down_guard lib p h c"
  by (cases c) (auto simp: down_guard_def)

lemma known_grows:
  "state_read lib p st h \<Longrightarrow> state_read lib p st (h @ h')"
  "name_known n h \<Longrightarrow> name_known n (h @ h')"
  "listed_in cl q body h \<Longrightarrow> listed_in cl q body (h @ h')"
  "name_known n h' \<Longrightarrow> name_known n (h @ h')"
  by (auto simp: state_read_def name_known_def listed_in_def)

lemma cluster_name_known:
  "after get_or_create_cluster_name t = Some (Done (Inr n)) \<Longrightarrow> name_known n t"
  by (auto simp: get_or_create_cluster_name_def after_results after_random_alnum Let_def name_known_def
      split: if_splits)

lemma keeps_down:
  "within (\<lambda>c. \<not> changes_account c) q \<Longrightarrow> (\<And>h e. J h \<Longrightarrow> J (h @ [e])) \<Longrightarrow> keeps (down_guard lib p) J q"
  by (rule keeps_within [where P = "\<lambda>c. \<not> changes_account c"]) (auto simp: down_harmless)

text \<open>A deletion the guard allows, whatever its answer.\<close>

lemma keeps_delete:
  assumes "\<And>h. J h \<Longrightarrow> \<exists>st cl. state_read lib p st h \<and> (deletes_tracked st cl rq \<or> deletes_named cl h rq)"
    and "\<And>h e. J h \<Longrightarrow> J (h @ [e])"
  shows "keeps (down_guard lib p) J (ignoring (xhttp rq c f))"
  unfolding ignoring_ask by (rule keeps_Ask) (use assms in \<open>auto simp: down_guard_def\<close>)

lemma keeps_delete_named:
  fixes listing :: "'a list xio"
  assumes quiet: "quiet listing"
    and grows: "\<And>h e. J h \<Longrightarrow> J (h @ [e])"
    and listed: "\<And>h t xs. J h \<Longrightarrow> after listing t = Some (Done (Inr xs)) \<Longrightarrow> K xs (h @ t)"
    and delete: "\<And>xs x. x \<in> set xs \<Longrightarrow> prefix pre (name x) \<Longrightarrow>
      keeps (down_guard lib p) (\<lambda>h. J h \<and> K xs h) (ignoring (delete x) :: unit xio)"
  shows "keeps (down_guard lib p) J (delete_named pre listing name delete)"
  unfolding delete_named_def if_ok_def
proof (rule keeps_bind_run [where K = "\<lambda>r h. \<forall>xs. r = Inr xs \<longrightarrow> K xs h"
        and P = "\<lambda>c. \<not> changes_account c"])
  fix r :: "xerr + 'a list"
  show "keeps (down_guard lib p) (\<lambda>h. J h \<and> (\<forall>xs. r = Inr xs \<longrightarrow> K xs h))
      (case r of Inl e \<Rightarrow> Done (Inr ()) | Inr y \<Rightarrow>
        (for_each y (\<lambda>x. do_if (prefix pre (name x)) (ignoring (delete x))) :: unit xio))"
  proof (cases r)
    case (Inr xs)
    have "keeps (down_guard lib p) (\<lambda>h. J h \<and> K xs h)
        (for_each xs (\<lambda>x. do_if (prefix pre (name x)) (ignoring (delete x) :: unit xio)))"
      by (intro keeps_for_each keeps_do_if delete)
    then show ?thesis by (simp add: Inr)
  qed simp
qed (use quiet grows listed in \<open>auto simp: down_harmless\<close>)

lemma after_listing:
  assumes "after (ask (XHttp rq) (xread_reply c (xread what ctx read))) t = Some (Done (Inr xs))"
  shows "\<exists>rs. t = [(XHttp rq, XResponse rs)] \<and> read (xs_json rs) = Some xs"
  using assms by (auto simp: ask_def after_to_Done xread_reply_Inr_iff xread_Inr_iff)

lemma body_iff [simp]:
  "b_servers body = Some ss \<longleftrightarrow> body = XServersBody ss"
  "b_keys body = Some ks \<longleftrightarrow> body = XKeysBody ks"
  "b_load_balancers body = Some ls \<longleftrightarrow> body = XLoadBalancersBody ls"
  "b_server body = Some sv \<longleftrightarrow> body = XServerBody sv"
  "b_key body = Some ky \<longleftrightarrow> body = XKeyBody ky"
  by (cases body; auto)+

lemma keeps_delete_listed:
  fixes n :: string and name :: "'a \<Rightarrow> string"
  assumes body: "\<And>b xs. read b = Some xs \<longleftrightarrow> b = body xs"
    and covered: "\<And>h rq. deletes_listed cl q body name deletion h rq \<Longrightarrow> deletes_named cl h rq"
  shows "keeps (down_guard lib p) (\<lambda>h. state_read lib p st h \<and> name_known n h)
    (delete_named (n @ ''-'') (xhttp (xreq cl GET q XNoBody) c (xread what ctx read)) name
       (\<lambda>x. xhttp (deletion x) (c' x) (f x)))"
proof (rule keeps_delete_named [where K = "\<lambda>xs. listed_in cl q (body xs)"])
  fix xs x assume "x \<in> set xs" "prefix (n @ ''-'') (name x)"
  then show "keeps (down_guard lib p)
      (\<lambda>h. (state_read lib p st h \<and> name_known n h) \<and> listed_in cl q (body xs) h)
      (ignoring (xhttp (deletion x) (c' x) (f x)))"
  proof (intro keeps_delete)
    fix h assume h: "(state_read lib p st h \<and> name_known n h) \<and> listed_in cl q (body xs) h"
    with \<open>x \<in> set xs\<close> \<open>prefix _ _\<close> have "deletes_listed cl q body name deletion h (deletion x)"
      by (auto simp: deletes_listed_def named_for_def)
    with h show "\<exists>st cl. state_read lib p st h \<and>
        (deletes_tracked st cl (deletion x) \<or> deletes_named cl h (deletion x))"
      using covered by blast
  qed (auto simp: known_grows)
qed (auto simp: known_grows listed_in_def body xreq_def dest!: after_listing)

lemma keeps_delete_all:
  "keeps (down_guard lib p) (\<lambda>h. state_read lib p st h \<and> name_known n h)
     (delete_named (n @ ''-'') (xlist_servers cl) ds_name (\<lambda>s. xdelete_server cl (ds_id s)))"
  "keeps (down_guard lib p) (\<lambda>h. state_read lib p st h \<and> name_known n h)
     (delete_named (n @ ''-'') (list_account_ssh_keys cl) ak_name (\<lambda>k. delete_account_ssh_key cl (ak_id k)))"
  "keeps (down_guard lib p) (\<lambda>h. state_read lib p st h \<and> name_known n h)
     (delete_named (n @ ''-'') (list_load_balancers cl) dl_name (\<lambda>l. xdelete_load_balancer cl (dl_id l)))"
  unfolding xclient_defs server_deletion_def [symmetric] key_deletion_def [symmetric]
    load_balancer_deletion_def [symmetric]
  by (rule keeps_delete_listed; auto simp: deletes_named_def)+

lemma keeps_delete_remote:
  "keeps (down_guard lib p) (state_read lib p st) (delete_remote cl st)"
proof -
  have tracked: "keeps (down_guard lib p) (state_read lib p st) (ignoring (xdelete_server cl i))"
    if "st_server_id st = Some i" for i
    unfolding xdelete_server_def using that
    by (intro keeps_delete) (auto simp: deletes_tracked_def server_deletion_def known_grows)
  have key: "keeps (down_guard lib p) (state_read lib p st) (ignoring (delete_account_ssh_key cl i))"
    if "st_ssh_key_id st = Some i" for i
    unfolding delete_account_ssh_key_def using that
    by (intro keeps_delete) (auto simp: deletes_tracked_def key_deletion_def known_grows)
  have named: "keeps (down_guard lib p) (state_read lib p st)
      (if_ok get_or_create_cluster_name (\<lambda>cluster_name.
        (let pre = cluster_name @ ''-'' in steps
          [delete_named pre (xlist_servers cl) ds_name (\<lambda>s. xdelete_server cl (ds_id s)),
           delete_named pre (list_account_ssh_keys cl) ak_name (\<lambda>k. delete_account_ssh_key cl (ak_id k)),
           delete_named pre (list_load_balancers cl) dl_name (\<lambda>l. xdelete_load_balancer cl (dl_id l))])))"
    unfolding if_ok_def
  proof (rule keeps_bind_run [where K = "\<lambda>r h. \<forall>n. r = Inr n \<longrightarrow> name_known n h"
        and P = "\<lambda>c. \<not> changes_account c"])
    fix r :: "xerr + string"
    show "keeps (down_guard lib p) (\<lambda>h. state_read lib p st h \<and> (\<forall>n. r = Inr n \<longrightarrow> name_known n h))
        (case r of Inl e \<Rightarrow> Done (Inr ()) | Inr cluster_name \<Rightarrow>
          (let pre = cluster_name @ ''-'' in steps
            [delete_named pre (xlist_servers cl) ds_name (\<lambda>s. xdelete_server cl (ds_id s)),
             delete_named pre (list_account_ssh_keys cl) ak_name (\<lambda>k. delete_account_ssh_key cl (ak_id k)),
             delete_named pre (list_load_balancers cl) dl_name (\<lambda>l. xdelete_load_balancer cl (dl_id l))]))"
      by (cases r) (auto simp: Let_def simp del: steps_simps intro!: keeps_steps keeps_delete_all)
  qed (use quiet_cluster_name in \<open>auto simp: down_harmless known_grows dest: cluster_name_known\<close>)
  show ?thesis
    unfolding delete_remote_def
    by (rule keeps_steps) (auto simp del: steps_simps split: option.splits intro: tracked key named)
qed

lemma dev_down_safe: "safe (down_guard lib (da_state_file a)) (\<lambda>_ _. True) [] (cmd_dev_down lib a)"
proof -
  let ?G = "down_guard lib (da_state_file a)" and ?J = "state_read lib (da_state_file a)"
  have client: "keeps ?G (?J st) (attempt (dev_down_client b a) (\<lambda>client.
      attempt (case client of Some cl \<Rightarrow> delete_remote cl st | None \<Rightarrow> Done (Inr ())) (\<lambda>_.
      remove_local a st)))" for b st
  proof (intro keeps_attempt)
    show "keeps ?G (?J st) (case client of Some cl \<Rightarrow> delete_remote cl st | None \<Rightarrow> Done (Inr ()))" for client
      by (cases client) (simp_all add: keeps_delete_remote)
  qed (auto intro!: keeps_down simp: known_grows)
  have rest: "keeps ?G (?J st) (bind get_or_create_cluster_name (\<lambda>name.
      (let needs_api = (st_server_id st \<noteq> None \<or> st_ssh_key_id st \<noteq> None \<or> \<not> isl name) in
       attempt (dev_down_client needs_api a) (\<lambda>client.
       attempt (case client of Some cl \<Rightarrow> delete_remote cl st | None \<Rightarrow> Done (Inr ())) (\<lambda>_.
       remove_local a st)))))" for st
    unfolding Let_def by (rule keeps_bind [OF keeps_down client]) (auto simp: known_grows)
  show ?thesis
    unfolding cmd_dev_down_def
  proof (rule safe_attempt_run [where P = "\<lambda>c. \<not> changes_account c"])
    fix t st
    assume "after (load_state lib (da_state_file a)) t = Some (Done (Inr st))"
    then have "?J st ([] @ t)"
      by (auto simp: load_state_def ask_def after_to_Done state_read_def)
    then show "safe ?G (\<lambda>_ _. True) ([] @ t) (bind get_or_create_cluster_name (\<lambda>name.
      (let needs_api = (st_server_id st \<noteq> None \<or> st_ssh_key_id st \<noteq> None \<or> \<not> isl name) in
       attempt (dev_down_client needs_api a) (\<lambda>client.
       attempt (case client of Some cl \<Rightarrow> delete_remote cl st | None \<Rightarrow> Done (Inr ())) (\<lambda>_.
       remove_local a st)))))"
      by (rule keeps_weaken [OF rest])
  qed (auto simp: down_harmless)
qed

text \<open>
  C36: \<open>dev-down\<close> deletes only what belongs to the cluster: the server and the account key recorded
  in the state file, and the servers, keys and load balancers of a listing whose name starts with
  the name of the cluster and a hyphen.
\<close>

theorem dev_down_deletes_its_own:
  assumes "after (cmd_dev_down lib a) (h @ (XHttp rq, r) # u) = Some q" and "xq_method rq \<noteq> GET"
  shows "\<exists>st cl. state_read lib (da_state_file a) st h \<and> (deletes_tracked st cl rq \<or> deletes_named cl h rq)"
  using safe_guard [OF dev_down_safe assms(1)] assms(2) by (simp add: down_guard_def)

definition sample_lib :: xtask_lib where
  "sample_lib =
     \<lparr>xl_root = ''/w'', xl_crd = \<lparr>crd_annotations = None, crd_rest = JNull\<rparr>, xl_yaml = (\<lambda>c. Inr []),
      xl_parse_state = (\<lambda>t. Inr (default_state\<lparr>st_server_id := Some 7\<rparr>)),
      xl_print_state = (\<lambda>st. Inr ''{}''), xl_pretty = (\<lambda>j. Inr ''{}''), xl_compact = (\<lambda>j. Inr ''{}''),
      xl_base64 = (\<lambda>t. t), xl_name_any = (\<lambda>m. unwrap_or (m_name m) []), xl_fuel = 400\<rparr>"

definition sample_down :: "string option \<Rightarrow> dev_down_args" where
  "sample_down token =
     \<lparr>da_bl_api_token = token, da_state_file = ''s'', da_kubeconfig_out = ''k'', da_known_hosts = ''h'',
      da_docker_config_dir = ''d'', da_tilt_values_out = ''t''\<rparr>"

definition sample_dev_server :: "i64 \<Rightarrow> dev_server" where
  "sample_dev_server i =
     \<lparr>ds_id = i, ds_name = ''bl-x'', ds_status = ''new'', ds_region = ''bne'', ds_networks = []\<rparr>"

definition answered :: "nat \<Rightarrow> xpayload \<Rightarrow> xreply" where
  "answered code body = XResponse \<lparr>xs_code = code, xs_status = [], xs_text = None, xs_json = body\<rparr>"

definition sample_client :: bl_client where
  "sample_client = \<lparr>bc_token = ''t'', bc_api_base = XTASK_API_BASE\<rparr>"

definition down_run :: xhist where
  "down_run =
     [(XRead ''s'', XIoError IoNotFound),
      (XExists NAME_FILE, XBool True), (XRead NAME_FILE, XText ''bl''), (XHttpClient, XOk),
      (XExists NAME_FILE, XBool True), (XRead NAME_FILE, XText ''bl''),
      (XHttp (xreq sample_client GET ''/servers'' XNoBody),
        answered 200 (XServersBody [sample_dev_server 7]))]"

lemma utf8_bl: "utf8_valid ''bl''"
  by (rule utf8_valid_ascii) (simp add: byte_def)

lemma dev_down_deletes_its_own_witness:
  "\<exists>st cl. state_read sample_lib ''s'' st down_run
    \<and> (deletes_tracked st cl (server_deletion sample_client 7)
       \<or> deletes_named cl down_run (server_deletion sample_client 7))"
proof -
  have "after (cmd_dev_down sample_lib (sample_down (Some ''t'')))
      (down_run @ (XHttp (server_deletion sample_client 7), XOk) # []) \<noteq> None"
    by (simp add: cmd_dev_down_def sample_down_def down_run_def load_state_def ask_def state_of_def
        default_state_def get_or_create_cluster_name_def utf8_bl trim_def is_ascii_blank_def
        dev_down_client_def bl_client_new_def delete_remote_def if_ok_def delete_named_def xclient_defs
        sample_client_def [symmetric] answered_def xread_reply_def xread_def xsuccess_def Let_def
        sample_dev_server_def server_deletion_def ignoring_def do_if_def with_ctx_def)
  moreover have "xq_method (server_deletion sample_client 7) \<noteq> GET"
    by (simp add: server_deletion_def xreq_def)
  moreover have "da_state_file (sample_down (Some ''t'')) = ''s''" by (simp add: sample_down_def)
  ultimately show ?thesis using dev_down_deletes_its_own by (metis not_None_eq)
qed

section \<open>dev-down without a token\<close>

text \<open>
  Without a token nothing is sent to BinaryLane, whatever the state file tracks; the local files,
  the state file among them, are removed all the same.
\<close>

lemma within_remove_local:
  assumes "\<And>p. P (XRemoveFile p)" and "\<And>p. P (XRemoveDir p)"
  shows "within P (remove_local a st)"
  using assms by (auto simp: remove_local_def remove_path_def remove_file_if_exists_def
      remove_dir_if_exists_def intro!: within_attempt split: option.split sum.split)

theorem dev_down_without_token_sends_nothing:
  assumes "da_bl_api_token a = None"
  shows "within (\<lambda>c. \<forall>rq. c \<noteq> XHttp rq) (cmd_dev_down lib a)"
  using assms by (auto simp: cmd_dev_down_def load_state_def get_or_create_cluster_name_def random_alnum_def
      dev_down_client_def Let_def intro!: within_attempt within_bind within_remove_local
      split: option.split sum.split)

theorem dev_down_forgets_server:
  "\<exists>t. after (cmd_dev_down sample_lib (sample_down None))
         ([(XRead ''s'', XText ''{}''), (XExists NAME_FILE, XBool True), (XRead NAME_FILE, XText ''bl'')] @ t)
       = Some (Done (Inr ()))
     \<and> (XRemoveFile ''s'', XOk) \<in> set t"
  by (rule exI [of _ "map (\<lambda>c. (c, XOk))
       ([XRemoveFile ''k'', XRemoveFile ''h'', XRemoveFile ''t'', XRemoveFile NAME_FILE,
         XRemoveFile MANAGED_SSH_KEY_PATH, XRemoveFile (managed_public_key_path MANAGED_SSH_KEY_PATH),
         XRemoveDir ''d'', XRemoveFile ''s''])"])
     (simp add: cmd_dev_down_def sample_down_def load_state_def ask_def state_of_def utf8_bl
       utf8_valid_ascii byte_def sample_lib_def default_state_def get_or_create_cluster_name_def Let_def
       dev_down_client_def remove_local_def remove_path_def remove_file_if_exists_def
       remove_dir_if_exists_def removed_def)

end
