(* ===== verification/Xtask_Up.thy ===== *)
theory Xtask_Up
  imports Xtask_Safety
begin

text \<open>
  When \<open>dev-up\<close> creates a server, and what its state file holds from then on.  A part of the command
  is \<open>early\<close> when it creates no server and neither waits nor starts anything on the server or the
  cluster, and \<open>silent\<close> when it creates no server and leaves the state file alone.
\<close>

section \<open>Calls\<close>

fun makes_server :: "xcall \<Rightarrow> bool" where
  "makes_server (XHttp rq) = (case xq_body rq of XCreateServer _ \<Rightarrow> True | _ \<Rightarrow> False)"
| "makes_server c = False"

fun late :: "xcall \<Rightarrow> bool" where
  "late (XSleep n) = True"
| "late (XStart c) = True"
| "late (XSpawn j) = True"
| "late c = False"

definition early_call :: "xcall \<Rightarrow> bool" where
  "early_call c \<longleftrightarrow> \<not> makes_server c \<and> \<not> late c"

lemma early_call_simps [simp]:
  "early_call (XApi c)" "early_call (XExists p)" "early_call (XRead p)" "early_call (XWrite p s)"
  "early_call (XMakeDirs p)" "early_call (XRun k)" "early_call (XChmod p m)" "early_call XCurrentDir"
  "early_call XHttpClient" "early_call XNow" "early_call (XPrintln s)" "early_call (XBcrypt s n)"
  "early_call (XHttp rq) \<longleftrightarrow> \<not> makes_server (XHttp rq)" "\<not> early_call (XSleep n)"
  by (simp_all add: early_call_def)

abbreviation early :: "'a xprog \<Rightarrow> bool" where
  "early \<equiv> within early_call"

section \<open>The parts that create nothing\<close>

lemma early_files [simp]:
  "early (ensure_dir p)" "early (ensure_parent_dir p)" "early (write_file what p s)"
  "early (ensure_tool n hint)" "early (load_state lib p)" "early (absolute_path p)"
  "early (path_to_string p)" "early (path_string p)"
  by (auto simp: ensure_dir_def ensure_parent_dir_def write_file_def ensure_tool_def load_state_def
      absolute_path_def path_to_string_def path_string_def intro!: within_attempt split: option.split sum.split)

lemma early_save_state [simp]: "early (save_state lib p st)"
  by (auto simp: save_state_def intro!: within_attempt split: sum.split)

lemma early_random [simp]: "(\<And>s. early (k s)) \<Longrightarrow> early (random_alnum n k)"
  by (auto simp: random_alnum_def split: option.split)

lemma early_cluster_name [simp]: "early get_or_create_cluster_name"
  by (auto simp: get_or_create_cluster_name_def Let_def split: sum.split)

lemma early_keypair [simp]: "early (ensure_managed_ssh_keypair p)" "early (read_managed_public_key p)"
  by (auto simp: ensure_managed_ssh_keypair_def both_exist_def rebuild_public_key_def
      generate_keypair_def read_managed_public_key_def Let_def intro!: within_attempt split: sum.split)

lemma early_prepare_local [simp]: "early (prepare_local a)"
  by (auto simp: prepare_local_def intro!: within_attempt)

lemma early_client [simp]: "early (bl_client_new token)" "early (xget_server cl i)"
  by (auto simp: bl_client_new_def xget_server_def xreq_def split: sum.split)

lemma early_account_key [simp]: "early (ensure_account_ssh_key cl name public i fp)"
  by (auto simp: ensure_account_ssh_key_def new_account_key_def xclient_defs xreq_def
      split: option.split sum.split)

lemma early_finish [simp]:
  "early (finish_state lib a lc dc ra k server ip st)" "early (print_env a lc dc ra k server ip)"
  by (auto simp: finish_state_def print_env_def emit_path_def emit_env_def intro!: within_attempt)

section \<open>The content of a file\<close>

text \<open>
  What a file holds after a history, as far as the command itself has written it: the text of the last
  write, or nothing known when that write failed or the file was removed.
\<close>

fun effect_on :: "path \<Rightarrow> xcall \<times> xreply \<Rightarrow> string option \<Rightarrow> string option" where
  "effect_on p (XWrite q s, r) held = (if q = p then (if r = XOk then Some s else None) else held)"
| "effect_on p (XRemoveFile q, r) held = (if q = p then None else held)"
| "effect_on p (XRemoveDir q, r) held = None"
| "effect_on p (c, r) held = held"

definition content :: "path \<Rightarrow> xhist \<Rightarrow> string option" where
  "content p h = fold (effect_on p) h None"

lemma content_snoc: "content p (h @ [e]) = effect_on p e (content p h)"
  by (simp add: content_def)

fun touches :: "path \<Rightarrow> xcall \<Rightarrow> bool" where
  "touches p (XWrite q s) = (q = p)"
| "touches p (XRemoveFile q) = (q = p)"
| "touches p (XRemoveDir q) = True"
| "touches p c = False"

lemma content_untouched: "\<not> touches p c \<Longrightarrow> content p (h @ [(c, r)]) = content p h"
  by (cases c) (auto simp: content_snoc)

section \<open>The state file is left alone\<close>

text \<open>
  The state file is a file of its own: none of those the command generates has its path, whatever the
  current directory is.  Paths are compared as they are spelled.
\<close>

definition state_apart :: "dev_up_args \<Rightarrow> bool" where
  "state_apart a \<longleftrightarrow> (\<forall>cwd. ua_state_file a \<notin>
     {path_join cwd (ua_kubeconfig_out a), path_join (path_join cwd (ua_docker_config_dir a)) ''config.json'',
      path_join cwd (ua_tilt_values_out a), resources_path (path_join cwd (ua_tilt_values_out a))})"

lemma state_apartD:
  assumes "state_apart a"
  shows "path_join cwd (ua_kubeconfig_out a) \<noteq> ua_state_file a"
    "path_join (path_join cwd (ua_docker_config_dir a)) ''config.json'' \<noteq> ua_state_file a"
    "path_join cwd (ua_tilt_values_out a) \<noteq> ua_state_file a"
    "resources_path (path_join cwd (ua_tilt_values_out a)) \<noteq> ua_state_file a"
  using assms by (auto simp: state_apart_def eq_commute [of _ "ua_state_file a"])

lemma suffix_path_join: "suffix b (path_join a b)"
  by (auto simp: path_join_def suffix_def)

lemma path_join_ends: "suffix s b \<Longrightarrow> suffix s (path_join a b)"
  using suffix_order.trans [OF _ suffix_path_join] .

lemma default_state_apart: "state_apart (default_dev_up_args token)"
proof -
  have ends: "suffix ''g'' (path_join cwd ''.dev/kubeconfig'')" "suffix ''g.json'' (path_join d ''config.json'')"
    "suffix ''l'' (path_join cwd ''.dev/tilt-values.generated.yaml'')" "suffix ''l'' (resources_path q)"
    for cwd d q
    unfolding resources_path_def by (rule path_join_ends; simp add: suffix_to_prefix)+
  have "\<not> suffix ''g'' ''.dev/dev-state.json''" "\<not> suffix ''g.json'' ''.dev/dev-state.json''"
    "\<not> suffix ''l'' ''.dev/dev-state.json''"
    by (simp_all add: suffix_to_prefix)
  with ends show ?thesis
    unfolding state_apart_def default_dev_up_args_def by (simp, metis)
qed

abbreviation silent :: "dev_up_args \<Rightarrow> 'a xprog \<Rightarrow> bool" where
  "silent u \<equiv> within (\<lambda>c. \<not> makes_server c \<and> (state_apart u \<longrightarrow> \<not> touches (ua_state_file u) c))"

lemma silent_get_server [simp]: "silent u (xget_server cl i)" "silent u (wait_or_fail start n e pause)"
  by (simp_all add: xget_server_def xreq_def wait_or_fail_def)

lemma silent_wait_for_server [simp]: "silent u (wait_for_server_active fuel cl i n)"
  by (auto simp: wait_for_server_active_def from_now_def server_step_def intro!: within_poll within_attempt
      split: option.split)

lemma silent_ssh [simp]:
  "silent u (run_ssh_script host user key kh script mode)" "silent u (ssh_probe host user key kh v)"
  "silent u (probe_users host key kh v users)"
  by (induction users) (auto simp: run_ssh_script_def ssh_probe_def intro!: within_attempt split: sum.split)

lemma silent_prepare_k3s [simp]: "silent u (prepare_k3s lib a lc ra ip)"
  by (auto simp: prepare_k3s_def wait_for_ssh_ready_def ensure_k3s_server_def read_remote_file_def
      from_now_def ssh_step_def k3s_step_def Let_def intro!: within_poll within_attempt within_bind
      split: option.split sum.split)

lemma silent_init_cluster [simp]: "silent u (init_cluster lib q)"
  by (auto simp: init_cluster_def wait_for_api_server_def api_server_step_def api_list_nodes_def join_job_def
      intro!: within_attempt within_poll within_bind split: sum.split)

lemma silent_paths [simp]:
  "silent u (path_to_string q)" "silent u (ensure_parent_dir q)" "silent u (registry_htpasswd st n w)"
  by (auto simp: path_to_string_def ensure_dir_def ensure_parent_dir_def
      registry_htpasswd_def Let_def intro!: within_attempt split: option.split sum.split)

lemma silent_random [simp]: "(\<And>s. silent u (k s)) \<Longrightarrow> silent u (random_alnum n k)"
  by (auto simp: random_alnum_def split: option.split)

text \<open>The files that are generated are where the arguments say.\<close>

definition local_paths :: "dev_up_args \<Rightarrow> dev_local \<Rightarrow> bool" where
  "local_paths a lc \<longleftrightarrow>
     (\<exists>cwd. lc_docker_config_dir lc = path_join cwd (ua_docker_config_dir a))
   \<and> (\<exists>cwd. lc_tilt_values_out lc = path_join cwd (ua_tilt_values_out a))
   \<and> lc_dev_resources_out lc = resources_path (lc_tilt_values_out lc)"

text \<open>The values a program can return.\<close>

definition returns :: "'a xio \<Rightarrow> 'a \<Rightarrow> bool" where
  "returns p y \<longleftrightarrow> (\<exists>t. after p t = Some (Done (Inr y)))"

lemma returns_attempt: "returns (attempt p f) y \<longleftrightarrow> (\<exists>x. returns p x \<and> returns (f x) y)"
  unfolding returns_def by (metis after_attempt(1) after_attempt_DoneE)

lemma returns_Done: "returns (Done (Inr x)) y \<longleftrightarrow> x = y"
  by (simp add: returns_def after_to_Done)

lemma returns_absolute_path: "returns (absolute_path p) q \<Longrightarrow> \<exists>cwd. q = path_join cwd p"
proof (cases "is_absolute p")
  case True
  then show "returns (absolute_path p) q \<Longrightarrow> \<exists>cwd. q = path_join cwd p"
    by (simp add: absolute_path_def returns_Done path_join_def)
next
  case False
  then show "returns (absolute_path p) q \<Longrightarrow> \<exists>cwd. q = path_join cwd p"
    by (auto simp: absolute_path_def returns_attempt returns_Done simp del: with_ctx_ask attempt_ask)
qed

lemma returns_prepare_local: "returns (prepare_local a) lc \<Longrightarrow> local_paths a lc"
  unfolding prepare_local_def returns_attempt returns_Done
  by (elim exE conjE) (auto simp: local_paths_def dest: returns_absolute_path)

lemma prepare_local_paths:
  "after (prepare_local a) t = Some (Done (Inr lc)) \<Longrightarrow> local_paths a lc"
  by (rule returns_prepare_local) (auto simp: returns_def)

lemma silent_absolute_path:
  assumes "\<And>cwd. silent u (f (path_join cwd p))"
  shows "silent u (attempt (absolute_path p) f)"
proof (cases "is_absolute p")
  case True
  then show ?thesis using assms [of "[]"] by (simp add: absolute_path_def path_join_def)
next
  case False
  then show ?thesis
    using assms by (auto simp: absolute_path_def attempt_def ask_def with_ctx_def map_err_def split: sum.split)
qed

lemma silent_write_files:
  assumes "local_paths a lc"
  shows "silent a (write_local_files lib a lc ra k)"
  unfolding write_local_files_def
  using assms
  by (intro silent_absolute_path within_attempt)
     (auto simp: state_apartD local_paths_def write_file_def write_docker_config_def
      write_dev_tilt_values_def write_dev_resources_def ensure_dir_def Let_def
      intro!: within_attempt split: sum.split)

section \<open>What is known of the server\<close>

text \<open>The server with this number was created: a creation was answered with it.\<close>

definition made :: "i64 \<Rightarrow> xhist \<Rightarrow> bool" where
  "made i h \<longleftrightarrow> (\<exists>rq rs sv. (XHttp rq, XResponse rs) \<in> set h \<and> makes_server (XHttp rq) \<and> xsuccess rs
     \<and> xs_json rs = XServerBody sv \<and> ds_id sv = i)"

definition none_made :: "xhist \<Rightarrow> bool" where
  "none_made h \<longleftrightarrow>
     (\<forall>c r. (c, r) \<in> set h \<longrightarrow> makes_server c \<longrightarrow> (\<exists>rs. r = XResponse rs \<and> \<not> xsuccess rs))"

definition gone :: "i64 \<Rightarrow> xhist \<Rightarrow> bool" where
  "gone i h \<longleftrightarrow> (\<exists>cl rs. (XHttp (xreq cl GET (''/servers/'' @ show_i64 i) XNoBody), XResponse rs) \<in> set h
     \<and> xs_code rs = 404)"

definition no_server_yet :: "xtask_lib \<Rightarrow> path \<Rightarrow> xhist \<Rightarrow> bool" where
  "no_server_yet lib p h \<longleftrightarrow>
     (\<exists>st. state_read lib p st h \<and> (\<forall>i. st_server_id st = Some i \<longrightarrow> gone i h))"

text \<open>The file holds a state with the number of this server.\<close>

definition recorded :: "xtask_lib \<Rightarrow> path \<Rightarrow> i64 \<Rightarrow> xhist \<Rightarrow> bool" where
  "recorded lib p i h \<longleftrightarrow>
     (\<exists>st j. st_server_id st = Some i \<and> xl_print_state lib st = Inr j \<and> content p h = Some (j @ nl))"

definition up_guard :: "xtask_lib \<Rightarrow> dev_up_args \<Rightarrow> xhist \<Rightarrow> xcall \<Rightarrow> bool" where
  "up_guard lib a h c \<longleftrightarrow>
     (makes_server c \<longrightarrow> no_server_yet lib (ua_state_file a) h \<and> none_made h)
   \<and> (late c \<and> state_apart a \<longrightarrow> (\<forall>i. made i h \<longrightarrow> recorded lib (ua_state_file a) i h))"

lemma early_harmless: "early_call c \<Longrightarrow> up_guard lib a h c"
  by (simp add: up_guard_def early_call_def)

lemma none_made_early:
  assumes "early p" and "after p t = Some q" and "none_made h"
  shows "none_made (h @ t)"
  using within_history [OF assms(1,2)] assms(3) by (auto simp: none_made_def early_call_def)

lemma none_made_none: "none_made h \<Longrightarrow> \<not> made i h"
  by (fastforce simp: none_made_def made_def)

lemma up_facts_grow:
  "gone i h \<Longrightarrow> gone i (h @ t)"
  by (auto simp: gone_def)

lemma no_server_yet_grows: "no_server_yet lib p h \<Longrightarrow> no_server_yet lib p (h @ t)"
  unfolding no_server_yet_def using known_grows(1) up_facts_grow by blast

lemma made_calm: "\<not> makes_server c \<Longrightarrow> made i (h @ [(c, r)]) \<longleftrightarrow> made i h"
  unfolding made_def by auto

section \<open>Creation, with the regions to fall back to\<close>

lemma refused_creation:
  assumes "xread_reply ''creating server'' (xread ''creating server'' ctx read) r = Inl e"
    and "contains_text no_host (show_xerr e)" and "ctx = ''decoding create server response''"
  shows "\<exists>rs. r = XResponse rs \<and> \<not> xsuccess rs"
proof -
  have "\<not> sublist no_host ''creating server''" "\<not> sublist no_host ''decoding create server response''"
    by (auto simp: no_host_def dest: set_mono_sublist)
  with assms show ?thesis
    by (cases r) (auto simp: xread_reply_def xread_def contains_text_def split: if_splits option.splits)
qed

definition at_most_made :: "i64 \<Rightarrow> xhist \<Rightarrow> bool" where
  "at_most_made i h \<longleftrightarrow> (\<forall>j. made j h \<longrightarrow> j = i)"

lemma at_most_made_none: "none_made h \<Longrightarrow> at_most_made i h"
  by (simp add: at_most_made_def none_made_none)

lemma safe_try_regions:
  assumes "no_server_yet lib (ua_state_file u) h" and "none_made h"
  shows "safe (up_guard lib u)
    (\<lambda>x h'. case x of Returned (Inr sv) \<Rightarrow> at_most_made (ds_id sv) h' | _ \<Rightarrow> True) h
    (try_regions cl req rs)"
  using assms
proof (induction cl req rs arbitrary: h rule: try_regions.induct)
  case (2 cl req r rs)
  let ?c = "XHttp (xreq cl POST ''/servers'' (XCreateServer (req r)))"
  have guard: "up_guard lib u h ?c" using 2 by (simp add: up_guard_def)
  show ?case
  proof (simp add: xcreate_server_def safe_ask effect_simps guard, intro allI)
    fix rp
    show "safe (up_guard lib u)
        (\<lambda>x h'. case x of Returned (Inr sv) \<Rightarrow> at_most_made (ds_id sv) h' | _ \<Rightarrow> True) (h @ [(?c, rp)])
        (case xread_reply ''creating server''
           (xread ''creating server'' ''decoding create server response'' b_server) rp of
           Inl e \<Rightarrow> if contains_text no_host (show_xerr e) \<and> rs \<noteq> [] then try_regions cl req rs
             else Done (Inl (XContext ''creating BinaryLane server'' e))
         | Inr server \<Rightarrow> Done (Inr server))"
      (is "safe _ _ _ (case ?x of Inl e \<Rightarrow> _ e | Inr s \<Rightarrow> _ s)")
    proof (cases ?x)
      case (Inr sv)
      have "made i (h @ [(?c, rp)]) \<Longrightarrow> i = ds_id sv" for i
        using none_made_none [OF "2.prems"(2), of i] Inr
        by (auto simp: made_def xread_reply_Inr_iff xread_Inr_iff)
      then show ?thesis by (simp add: Inr at_most_made_def)
    next
      case (Inl e)
      show ?thesis
      proof (cases "contains_text no_host (show_xerr e) \<and> rs \<noteq> []")
        case True
        with refused_creation [OF Inl] have "\<exists>rs. rp = XResponse rs \<and> \<not> xsuccess rs" by simp
        with "2.prems"(2) have "none_made (h @ [(?c, rp)])" by (auto simp: none_made_def)
        with "2.IH" [OF True no_server_yet_grows [OF "2.prems"(1)]] True show ?thesis by (simp add: Inl)
      qed (simp add: Inl)
    qed
  qed
qed simp

section \<open>The server of dev-up\<close>

lemmas ends_early = ends_run [where P = early_call, OF _ early_harmless]

lemma early_password: "early (api generate_server_password)"
  by (simp add: api_def within_embed)

lemma ends_create:
  assumes "no_server_yet lib (ua_state_file u) h" and "none_made h"
  shows "ends (up_guard lib u) (\<lambda>sv. at_most_made (ds_id sv)) h (create_dev_server cl ch name fp)"
  unfolding create_dev_server_def safe_bind
proof (rule safe_mono [OF safe_trace [OF early_password]])
  fix x h'
  assume "\<exists>t q. h' = h @ t \<and> after (api generate_server_password) t = Some q \<and> finished q = Some x"
  then obtain t q where t: "h' = h @ t" "after (api generate_server_password) t = Some q" by blast
  then have "no_server_yet lib (ua_state_file u) h'" "none_made h'"
    using assms none_made_early [OF early_password] no_server_yet_grows by auto
  then show "then_post (\<lambda>x h'. case x of Returned (Inr sv) \<Rightarrow> at_most_made (ds_id sv) h' | _ \<Rightarrow> True)
      (\<lambda>pw h'. ends (up_guard lib u) (\<lambda>sv. at_most_made (ds_id sv)) h' (try_regions cl (\<lambda>region.
         \<lparr>cd_server_name = name, cd_size = sc_size ch, cd_image = sc_image ch, cd_region = region,
          cd_user_data = None, cd_ssh_keys = Some [fp], cd_password = Some pw\<rparr>)
         (regions_to_try (sc_region ch)))) x h'"
    by (cases x) (simp_all add: safe_try_regions)
qed (simp add: early_harmless)

lemma ends_obtain:
  assumes read: "state_read lib (ua_state_file u) st h" and none: "none_made h"
  shows "ends (up_guard lib u) (\<lambda>sv. at_most_made (ds_id sv)) h
    (obtain_server cl a lc (named_state name st) key)"
proof (cases "st_server_id st")
  case None
  with read have "no_server_yet lib (ua_state_file u) h" by (auto simp: no_server_yet_def)
  with none None show ?thesis by (simp add: obtain_server_def named_state_def ends_create)
next
  case (Some i)
  have "ends (up_guard lib u) (\<lambda>found h'. none_made h' \<and> (found = None \<longrightarrow> no_server_yet lib (ua_state_file u) h')) h
      (xget_server cl i)"
  proof (rule ends_early)
    fix t found assume t: "after (xget_server cl i) t = Some (Done (Inr found))"
    have "gone i (h @ t)" if "found = None"
      using t that by (auto simp: xget_server_def ask_def after_to_Done gone_def xread_reply_Inr_iff
          xread_opt_iff split: if_splits)
    then have "found = None \<longrightarrow> no_server_yet lib (ua_state_file u) (h @ t)"
      unfolding no_server_yet_def using known_grows(1) [OF read, of t] Some by (metis option.inject)
    with none_made_early [OF _ t none] show "none_made (h @ t) \<and> (found = None \<longrightarrow> no_server_yet lib (ua_state_file u) (h @ t))"
      by simp
  qed simp
  then show ?thesis
    unfolding obtain_server_def named_state_def Let_def
    by (auto simp: Some intro!: ends_attempt ends_create split: option.split intro: at_most_made_none)
qed

section \<open>dev-up\<close>

lemma after_ask_Done:
  "after (ask c read) t = Some (Done y) \<longleftrightarrow> (\<exists>r. t = [(c, r)] \<and> read r = y)"
  by (auto simp: ask_def after_to_Done)

lemma content_save_state:
  assumes "after (save_state lib p st) t = Some (Done (Inr ()))"
  shows "\<exists>j. xl_print_state lib st = Inr j \<and> content p (h @ t) = Some (j @ nl)"
proof -
  from assms obtain j t' where "xl_print_state lib st = Inr j" "t = t' @ [(XWrite p (j @ nl), XOk)]"
    by (auto simp: save_state_def ensure_parent_dir_def ensure_dir_def write_file_def after_ask_Done
        after_results split: option.splits sum.splits)
  then show ?thesis by (simp add: content_snoc flip: append_assoc)
qed

lemma at_most_made_early:
  assumes "early p" and "after p t = Some q" and "at_most_made i h"
  shows "at_most_made i (h @ t)"
  using within_history [OF assms(1,2)] assms(3) by (fastforce simp: at_most_made_def made_def early_call_def)

text \<open>No server but this one has been made, and the state file holds its number.\<close>

definition tracked :: "xtask_lib \<Rightarrow> dev_up_args \<Rightarrow> i64 \<Rightarrow> xhist \<Rightarrow> bool" where
  "tracked lib a i h \<longleftrightarrow>
     at_most_made i h \<and> (made i h \<and> state_apart a \<longrightarrow> recorded lib (ua_state_file a) i h)"

lemma ends_save:
  assumes "at_most_made i h" and "st_server_id st = Some i"
  shows "ends (up_guard lib a) (\<lambda>_. tracked lib a i) h (save_state lib (ua_state_file a) st)"
proof (rule ends_early)
  fix t y assume t: "after (save_state lib (ua_state_file a) st) t = Some (Done (Inr y))"
  have "recorded lib (ua_state_file a) i (h @ t)"
    using content_save_state [of lib "ua_state_file a" st t h] t assms(2) by (auto simp: recorded_def)
  with at_most_made_early [OF early_save_state t assms(1)] show "tracked lib a i (h @ t)"
    by (simp add: tracked_def)
qed simp

lemma keeps_silent:
  assumes "silent a q"
  shows "keeps (up_guard lib a) (tracked lib a i) q"
  by (rule keeps_within [OF assms])
     (auto simp: up_guard_def tracked_def at_most_made_def made_calm recorded_def content_untouched)

lemma ends_silent:
  assumes "silent a q" and "tracked lib a i h"
  shows "ends (up_guard lib a) (\<lambda>_. tracked lib a i) h q"
proof -
  have "safe (up_guard lib a) (\<lambda>_. tracked lib a i) h q"
    using keeps_silent [OF assms(1)] assms(2) by (simp add: keeps_def)
  then show ?thesis by (rule safe_mono) (auto split: outcome.split sum.split)
qed

lemma ends_cloud:
  assumes "none_made h"
  shows "ends (up_guard lib a)
    (\<lambda>dc h'. \<exists>i. st_server_id (dc_state dc) = Some i \<and> tracked lib a i h') h (prepare_cloud lib a lc)"
    (is "ends ?G _ _ _")
proof -
  let ?K = "\<lambda>st h. state_read lib (ua_state_file a) st h \<and> none_made h"
  have loaded: "ends ?G ?K h (load_state lib (ua_state_file a))"
    by (rule ends_early)
       (auto simp: load_state_def ask_def after_to_Done state_read_def
        intro: none_made_early [OF early_files(5) _ assms])
  have carry: "ends ?G (\<lambda>_. ?K st) h' q" if "?K st h'" "early q" for st h' and q :: "'b xio"
    by (rule ends_early [OF that(2)]) (use that none_made_early in \<open>auto intro: known_grows\<close>)
  have path: "ends ?G (\<lambda>_. at_most_made i) h' (path_to_string q)" if "at_most_made i h'" for i h' q
    by (rule ends_early) (use that in \<open>auto intro: at_most_made_early [OF early_files(7)]\<close>)
  show ?thesis
    unfolding prepare_cloud_def Let_def
    by (intro ends_attempt [OF loaded] ends_attempt [OF carry] early_client early_account_key
         ends_attempt [OF ends_obtain] ends_attempt [OF path] ends_attempt [OF ends_save])
       (auto simp: state_with_server_def)
qed

lemma ends_random:
  assumes "\<And>s h'. tracked lib a i h' \<Longrightarrow> ends (up_guard lib a) R h' (k s)" and "tracked lib a i h"
  shows "ends (up_guard lib a) R h (random_alnum n k)"
proof -
  have "ends (up_guard lib a) (\<lambda>_. tracked lib a i) h (ask (XApi (RandomAlnum n)) Inr :: xreply xio)"
    by (rule ends_silent [OF _ assms(2)]) simp
  then show ?thesis
    using assms(1) by (auto simp: random_alnum_def ask_def split: option.split)
qed

lemma ends_registry:
  assumes "tracked lib a i h" and "st_server_id st = Some i"
  shows "ends (up_guard lib a) (\<lambda>(_, _). tracked lib a i) h (prepare_registry lib a lc st ip)"
proof -
  have made: "at_most_made i h'" if "tracked lib a i h'" for h' using that by (simp add: tracked_def)
  have "ends (up_guard lib a) (\<lambda>(_, _). tracked lib a i) h'
      (attempt (registry_htpasswd st u w) (\<lambda>htpasswd.
       attempt (path_to_string (lc_docker_config_dir lc)) (\<lambda>docker_path.
       attempt (save_state lib (ua_state_file a) (state_with_registry a (ra htpasswd) docker_path st))
         (\<lambda>_. Done (Inr (ra htpasswd, state_with_registry a (ra htpasswd) docker_path st))))))"
    if "tracked lib a i h'" for h' u w ra
    by (intro ends_attempt [OF ends_silent [OF _ that]] ends_attempt [OF ends_silent]
          ends_attempt [OF ends_save])
       (auto simp: made state_with_registry_def assms(2))
  then show ?thesis
    using assms(1)
    by (auto simp: prepare_registry_def with_password_def generate_registry_password_def Let_def
        intro!: ends_random split: option.split)
qed

lemma ends_use_server:
  assumes "tracked lib a i h" and "st_server_id (dc_state dc) = Some i" and "local_paths a lc"
  shows "ends (up_guard lib a) (\<lambda>_ _. True) h (use_server lib a lc dc)"
proof -
  let ?G = "up_guard lib a" and ?K = "tracked lib a i"
  have finish: "ends ?G (\<lambda>_ _. True) h' (attempt (finish_state lib a lc dc ra k server ip st)
      (\<lambda>_. print_env a lc dc ra k server ip))" for h' ra k server ip st
    by (rule ends_early) (auto intro!: within_attempt)
  have cluster: "ends ?G (\<lambda>_ _. True) h'
      (attempt (prepare_k3s lib a lc ra ip) (\<lambda>k.
       attempt (write_local_files lib a lc ra k) (\<lambda>kubeconfig.
       attempt (init_cluster lib kubeconfig) (\<lambda>_.
       attempt (finish_state lib a lc dc ra k server ip st) (\<lambda>_.
       print_env a lc dc ra k server ip)))))" if "?K h'" for h' ra ip st server
    by (intro ends_attempt [OF ends_silent [OF _ that]] ends_attempt [OF ends_silent] finish
          silent_write_files assms(3)) simp_all
  show ?thesis
    unfolding use_server_def
    by (intro ends_attempt [OF ends_silent [OF _ assms(1)]])
       (auto split: option.split intro!: ends_attempt [OF ends_registry [OF _ assms(2)]] cluster)
qed

lemma dev_up_safe: "safe (up_guard lib a) (\<lambda>_ _. True) [] (cmd_dev_up lib a)"
proof -
  let ?G = "up_guard lib a"
  have start: "ends ?G (\<lambda>lc h. none_made h \<and> local_paths a lc) [] (prepare_local a)"
    by (rule ends_early)
       (auto dest: none_made_early [OF early_prepare_local, of _ _ _ "[]"] prepare_local_paths
        simp: none_made_def)
  have "ends ?G (\<lambda>_ _. True) [] (cmd_dev_up lib a)"
    unfolding cmd_dev_up_def
    by (intro ends_attempt [OF start] ends_attempt [OF ends_cloud]) (auto intro: ends_use_server)
  then show ?thesis by (rule safe_mono) auto
qed

text \<open>
  C34: \<open>dev-up\<close> sends a request that creates a server only when the state file it has read tracks no
  server, or the tracked one answered 404, and only while every such request before it was refused:
  one run creates at most one server.
\<close>

theorem dev_up_creates_server_once:
  assumes "after (cmd_dev_up lib a) (h @ (XHttp rq, r) # u) = Some q"
    and "xq_body rq = XCreateServer req"
  shows "no_server_yet lib (ua_state_file a) h \<and> none_made h"
  using safe_guard [OF dev_up_safe assms(1)] assms(2) by (simp add: up_guard_def)

text \<open>
  C35: when \<open>dev-up\<close> sleeps, starts a process or spawns a job, the state file holds, as \<open>dev-up\<close> last
  wrote it, a state with the id of the server it has created, if it has created one: a run that is
  stopped while it waits leaves a server that \<open>dev-down\<close> can delete.  The state file must not be one
  of the other files that \<open>dev-up\<close> writes (\<open>state_apart\<close>), which the default paths are not.
\<close>

theorem dev_up_records_before_waiting:
  assumes "after (cmd_dev_up lib a) (h @ (c, r) # u) = Some q" and "late c" and "made i h"
    and "state_apart a"
  shows "recorded lib (ua_state_file a) i h"
  using safe_guard [OF dev_up_safe assms(1)] assms(2,3,4) by (simp add: up_guard_def)

section \<open>A run\<close>

definition up_lib :: xtask_lib where
  "up_lib = sample_lib\<lparr>xl_fuel := 1\<rparr>"

definition sample_up :: dev_up_args where
  "sample_up = (default_dev_up_args ''t'')
     \<lparr>ua_state_file := ''s'', ua_kubeconfig_out := ''/k'', ua_known_hosts := ''/h'',
      ua_docker_config_dir := ''/d'', ua_tilt_values_out := ''/t''\<rparr>"

definition sample_key :: account_key where
  "sample_key = \<lparr>ak_id = 3, ak_fingerprint = ''f'', ak_public_key = ''K'', ak_name = ''bl-key''\<rparr>"

definition key_file :: path where
  "key_file = ''/.dev/dev-control-plane-ed25519''"

definition found_tool :: xreply where
  "found_tool = XOutput
     \<lparr>ou_success = True, ou_status = [], ou_code = Some 0, ou_stdout = [], ou_stderr = []\<rparr>"

definition sample_creation :: xrequest where
  "sample_creation = xreq sample_client POST ''/servers'' (XCreateServer
     \<lparr>cd_server_name = ''bl-controlplane'', cd_size = ''std-1vcpu'', cd_image = ''ubuntu-24.04'',
      cd_region = ''bne'', cd_user_data = None, cd_ssh_keys = Some [''f''], cd_password = Some ''BlcA1x''\<rparr>)"

definition up_local_run :: xhist where
  "up_local_run =
     [(XRun (cmd ''which'' [''ssh'']), found_tool),
      (XExists NAME_FILE, XBool True), (XRead NAME_FILE, XText ''bl''),
      (XRun (cmd ''which'' [''ssh-keygen'']), found_tool),
      (XMakeDirs [], XOk), (XMakeDirs ''/'', XOk), (XMakeDirs ''/'', XOk), (XMakeDirs ''.dev'', XOk),
      (XMakeDirs ''/'', XOk), (XCurrentDir, XText ''/''), (XMakeDirs ''/d'', XOk),
      (XMakeDirs ''/.dev'', XOk), (XExists key_file, XBool True), (XExists (key_file @ ''.pub''), XBool True),
      (XRead (key_file @ ''.pub''), XText ''K'')]"

definition up_cloud_run :: xhist where
  "up_cloud_run =
     [(XRead ''s'', XIoError IoNotFound), (XHttpClient, XOk),
      (XHttp (xreq sample_client GET ''/account/keys'' XNoBody), answered 200 (XKeysBody [sample_key])),
      (XApi (RandomAlnum 36), XReply (RChars ''x''))]"

definition sample_local :: dev_local where
  "sample_local =
     \<lparr>lc_cluster_name = ''bl'', lc_ssh_key_path = key_file, lc_docker_config_dir = ''/d'',
      lc_tilt_values_out = ''/t'', lc_dev_resources_out = ''/dev-resources.generated.yaml'',
      lc_public_key = ''K''\<rparr>"

lemma utf8_samples:
  "utf8_valid ''bl''" "utf8_valid ''K''" "utf8_valid key_file" "utf8_valid ''/t''"
  by (rule utf8_valid_ascii; simp add: byte_def key_file_def)+

lemma lossy_samples: "path_display key_file = key_file"
  by code_simp

lemma parent_samples:
  "path_parent ''s'' = Some []" "path_parent ''/k'' = Some ''/''" "path_parent ''/h'' = Some ''/''"
  "path_parent ''/t'' = Some ''/''" "path_parent MANAGED_SSH_KEY_PATH = Some ''.dev''"
  "path_parent key_file = Some ''/.dev''"
  by code_simp+

lemma absolute_samples:
  "absolute_path ''/d'' = Done (Inr ''/d'')" "absolute_path ''/t'' = Done (Inr ''/t'')"
  "\<not> is_absolute MANAGED_SSH_KEY_PATH" "path_join ''/'' MANAGED_SSH_KEY_PATH = key_file"
  "path_join ''/'' ''dev-resources.generated.yaml'' = ''/dev-resources.generated.yaml''"
  by (simp_all add: absolute_path_def is_absolute_def path_join_def MANAGED_SSH_KEY_PATH_def key_file_def)

lemma up_args:
  "ua_state_file sample_up = ''s''" "ua_kubeconfig_out sample_up = ''/k''"
  "ua_known_hosts sample_up = ''/h''" "ua_docker_config_dir sample_up = ''/d''"
  "ua_tilt_values_out sample_up = ''/t''" "ua_bl_api_token sample_up = ''t''" "ua_region sample_up = ''bne''"
  "ua_size sample_up = ''std-1vcpu''" "ua_image sample_up = ''ubuntu-24.04''"
  "ua_wait_timeout_secs sample_up = 900"
  by (simp_all add: sample_up_def default_dev_up_args_def)

lemma up_local: "after (prepare_local sample_up) up_local_run = Some (Done (Inr sample_local))"
  by (simp add: prepare_local_def up_local_run_def ensure_tool_def found_tool_def up_args
      get_or_create_cluster_name_def utf8_samples trim_def is_ascii_blank_def ensure_parent_dir_def
      parent_samples ensure_dir_def absolute_samples absolute_path_def [of MANAGED_SSH_KEY_PATH]
      ensure_managed_ssh_keypair_def both_exist_def read_managed_public_key_def Let_def lossy_samples
      managed_public_key_path_def resources_path_def sample_local_def)

lemma up_creation:
  "after (prepare_cloud up_lib sample_up sample_local) (up_cloud_run @ [(XHttp sample_creation, r)]) \<noteq> None"
  by (simp add: prepare_cloud_def up_cloud_run_def up_args load_state_def state_of_def Let_def
      bl_client_new_def sample_client_def [symmetric] ensure_account_ssh_key_def xclient_defs answered_def
      xread_reply_def xread_def xsuccess_def key_candidate_def sample_key_def named_state_def
      default_state_def normalize_public_key_def sample_local_def trim_def is_ascii_blank_def
      obtain_server_def create_dev_server_def api_def generate_server_password_def regions_to_try_def
      dev_choice_def server_name_of_def sample_creation_def)

text \<open>The server is created, recorded, and not active yet.\<close>

definition sample_cloud :: dev_cloud where
  "sample_cloud =
     \<lparr>dc_client = sample_client, dc_key = sample_key, dc_server = sample_dev_server 7,
      dc_state = state_with_server sample_up (sample_dev_server 7) sample_key key_file ''/t''
        (named_state ''bl-controlplane'' default_state)\<rparr>"

definition up_created_run :: xhist where
  "up_created_run = up_cloud_run @
     [(XHttp sample_creation, answered 200 (XServerBody (sample_dev_server 7))),
      (XMakeDirs [], XOk), (XWrite ''s'' (''{}'' @ nl), XOk)]"

definition up_waiting_run :: xhist where
  "up_waiting_run =
     [(XNow, XInstant 0),
      (XHttp (xreq sample_client GET (''/servers/'' @ show_i64 7) XNoBody),
        answered 200 (XServerBody (sample_dev_server 7))),
      (XNow, XInstant 0)]"

lemma up_created:
  "after (prepare_cloud up_lib sample_up sample_local) up_created_run = Some (Done (Inr sample_cloud))"
  by (simp add: prepare_cloud_def up_created_run_def up_cloud_run_def up_args load_state_def state_of_def
      Let_def bl_client_new_def sample_client_def [symmetric] ensure_account_ssh_key_def xclient_defs
      answered_def xread_reply_def xread_def xsuccess_def key_candidate_def sample_key_def named_state_def
      default_state_def normalize_public_key_def sample_local_def trim_def is_ascii_blank_def
      obtain_server_def create_dev_server_def api_def generate_server_password_def regions_to_try_def
      dev_choice_def server_name_of_def sample_creation_def path_to_string_def utf8_samples
      save_state_def ensure_parent_dir_def parent_samples ensure_dir_def write_file_def up_lib_def
      sample_lib_def sample_cloud_def after_ask_Done)

lemma up_waiting:
  "after (use_server up_lib sample_up sample_local sample_cloud) (up_waiting_run @ [(XSleep 5, XOk)]) \<noteq> None"
  by (simp add: use_server_def wait_for_server_active_def from_now_def up_waiting_run_def up_lib_def
      sample_lib_def server_step_def sample_cloud_def xget_server_def sample_dev_server_def answered_def
      xread_reply_def xread_opt_def xread_def xsuccess_def wait_or_fail_def timed_out_def up_args)

lemma after_attempt_Some: "after p h = Some q \<Longrightarrow> after (attempt p f) h = Some (attempt q f)"
  unfolding attempt_def by (induction p h rule: after.induct) (auto split: if_splits)

lemma dev_up_creates_server_once_witness:
  "no_server_yet up_lib ''s'' (up_local_run @ up_cloud_run) \<and> none_made (up_local_run @ up_cloud_run)"
proof -
  obtain q where "after (prepare_cloud up_lib sample_up sample_local)
      (up_cloud_run @ [(XHttp sample_creation, XOk)]) = Some q"
    using up_creation by blast
  then have "after (cmd_dev_up up_lib sample_up)
      ((up_local_run @ up_cloud_run) @ (XHttp sample_creation, XOk) # [])
      = Some (attempt q (use_server up_lib sample_up sample_local))"
    by (simp add: cmd_dev_up_def after_attempt(1) [OF up_local] after_attempt_Some)
  from dev_up_creates_server_once [OF this] show ?thesis
    by (simp add: sample_creation_def xreq_def up_args)
qed

lemma dev_up_records_before_waiting_witness:
  "recorded up_lib ''s'' 7 (up_local_run @ up_created_run @ up_waiting_run)"
proof -
  obtain q where "after (use_server up_lib sample_up sample_local sample_cloud)
      (up_waiting_run @ [(XSleep 5, XOk)]) = Some q"
    using up_waiting by blast
  then have "after (cmd_dev_up up_lib sample_up)
      ((up_local_run @ up_created_run @ up_waiting_run) @ (XSleep 5, XOk) # []) = Some q"
    by (simp add: cmd_dev_up_def after_attempt(1) [OF up_local] after_attempt(1) [OF up_created])
  moreover have "made 7 (up_local_run @ up_created_run @ up_waiting_run)"
    unfolding made_def
    by (rule exI [of _ sample_creation])
       (auto simp: up_created_run_def answered_def sample_creation_def xreq_def xsuccess_def sample_dev_server_def)
  moreover have "state_apart sample_up"
    by (simp add: state_apart_def up_args path_join_def is_absolute_def resources_path_def parent_samples)
  ultimately show ?thesis using dev_up_records_before_waiting [of up_lib sample_up _ "XSleep 5" XOk "[]" q 7] by (simp add: up_args)
qed

end
