(* ===== verification/Xtask_Waiting.thy ===== *)
theory Xtask_Waiting
  imports Xtask_Cluster
begin

text \<open>
  The loops of the development tool end.  Those over the API of the cluster count their attempts
  (\<open>bounded_poll\<close>, interpreted in \<open>Xtask_Cluster\<close>).  The others read the clock: the locale \<open>timed_poll\<close>
  derives their end from a clock that is \<open>honest\<close>, one on which a sleep takes at least its time.
\<close>

section \<open>The clock\<close>

fun sleep_of :: "xcall \<Rightarrow> nat" where
  "sleep_of (XSleep n) = n"
| "sleep_of c = 0"

definition slept :: "xhist \<Rightarrow> nat" where
  "slept h = sum_list (map (\<lambda>e. sleep_of (fst e)) h)"

lemma slept_simps [simp]:
  "slept [] = 0" "slept ((c, r) # h) = sleep_of c + slept h" "slept (g @ h) = slept g + slept h"
  by (simp_all add: slept_def)

text \<open>\<open>honest_from start k h\<close>: the clock showed \<open>start\<close>, and \<open>k\<close> seconds have been slept since.\<close>

fun honest_from :: "nat \<Rightarrow> nat \<Rightarrow> xhist \<Rightarrow> bool" where
  "honest_from start k [] = True"
| "honest_from start k ((c, r) # h) =
     ((c = XNow \<longrightarrow> start + k * 10 ^ 9 \<le> as_now r) \<and> honest_from start (k + sleep_of c) h)"

fun honest :: "xhist \<Rightarrow> bool" where
  "honest [] = True"
| "honest ((c, r) # h) = (if c = XNow then honest_from (as_now r) 0 h else honest h)"

lemma honest_from_reading:
  "honest_from start k (a @ (XNow, r) # b) \<Longrightarrow> start + (k + slept a) * 10 ^ 9 \<le> as_now r"
  by (induction start k a rule: honest_from.induct) (auto simp: add.assoc)

abbreviation sleepless :: "'a xprog \<Rightarrow> bool" where
  "sleepless \<equiv> within (\<lambda>c. sleep_of c = 0)"

lemma sleepless_slept: "sleepless p \<Longrightarrow> after p t = Some q \<Longrightarrow> slept t = 0"
  by (induction p t rule: after.induct) (auto split: if_splits)

text \<open>A step that goes on has read the clock, found time left, and slept.\<close>

definition waited :: "nat \<Rightarrow> nat \<Rightarrow> nat \<Rightarrow> xhist \<Rightarrow> bool" where
  "waited start seconds pause t \<longleftrightarrow> (\<exists>a r s. t = a @ [(XNow, r), (XSleep pause, s)] \<and> slept a = 0
     \<and> \<not> timed_out start seconds (as_now r))"

lemma waited_prefix: "slept a = 0 \<Longrightarrow> waited start seconds pause t \<Longrightarrow> waited start seconds pause (a @ t)"
  unfolding waited_def by (metis append.assoc slept_simps(3) add_0)

lemma wait_or_fail_waited:
  "after (wait_or_fail start seconds e pause) t = Some (Done (Inr x)) \<Longrightarrow> waited start seconds pause t"
  by (auto simp: wait_or_fail_def waited_def after_to_Done split: if_splits)

lemma bind_waited:
  assumes "after (bind p f) t = Some (Done (Inr x))" and "sleepless p"
    and "\<And>y u. after (f y) u = Some (Done (Inr x)) \<Longrightarrow> waited start seconds pause u"
  shows "waited start seconds pause t"
  using assms(1)
proof (rule after_bind_DoneE)
  fix y t1 t2
  assume "t = t1 @ t2" "after p t1 = Some (Done y)" "after (f y) t2 = Some (Done (Inr x))"
  then show ?thesis using assms(3) [of y t2] sleepless_slept [OF assms(2)] waited_prefix by auto
qed

section \<open>Loops that read the clock\<close>

lemma hang_free_not_Hang: "hang_free p \<Longrightarrow> after p t \<noteq> Some Hang"
  using hang_free_after [of p t Hang] by auto

lemma after_bind_Hang:
  assumes "after (bind p f) t = Some Hang" and "hang_free p"
  obtains y t1 t2 where "t = t1 @ t2" "after p t1 = Some (Done y)" "after (f y) t2 = Some Hang"
proof -
  have "\<exists>y t1 t2. t = t1 @ t2 \<and> after p t1 = Some (Done y) \<and> after (f y) t2 = Some Hang"
    using assms
  proof (induction p arbitrary: t)
    case (Done y)
    then show ?case by (intro exI [of _ y] exI [of _ "[]"] exI [of _ t]) simp
  next
    case (Ask c k)
    then obtain r u where t: "t = (c, r) # u" "after (bind (k r) f) u = Some Hang"
      by (cases t) (auto split: if_splits)
    from Ask.IH [OF rangeI t(2)] Ask.prems(2) obtain y t1 t2 where "u = t1 @ t2"
      "after (k r) t1 = Some (Done y)" "after (f y) t2 = Some Hang" by auto
    then show ?case by (intro exI [of _ y] exI [of _ "(c, r) # t1"] exI [of _ t2]) (simp add: t)
  next
    case (Panic s)
    then show ?case by (cases t) simp_all
  qed simp
  with that show thesis by blast
qed

locale timed_poll =
  fixes step :: "nat \<Rightarrow> nat \<Rightarrow> 'b option xio" and seconds :: nat and pause :: nat
  assumes step_returns: "hang_free (step start i)"
    and step_waits: "after (step start i) t = Some (Done (Inr None)) \<Longrightarrow> waited start seconds pause t"
begin

lemma last_reading:
  "after (poll (Suc n) (step start) i) t = Some Hang \<Longrightarrow>
     \<exists>a r b. t = a @ (XNow, r) # b \<and> slept a = n * pause \<and> \<not> timed_out start seconds (as_now r)"
proof (induction n arbitrary: i t)
  case 0
  then obtain x t1 t2 where t: "t = t1 @ t2" "after (step start i) t1 = Some (Done x)"
      "after (case x of Inl e \<Rightarrow> Done (Inl e) | Inr z \<Rightarrow> case z of Some b \<Rightarrow> Done (Inr b) | None \<Rightarrow> Hang) t2
        = Some Hang"
    unfolding poll.simps attempt_def by (rule after_bind_Hang [OF _ step_returns])
  then have "x = Inr None" by (cases t2) (auto split: sum.splits option.splits)
  with t step_waits show ?case by (fastforce simp: waited_def)
next
  case (Suc n)
  from Suc.prems obtain x t1 t2 where t: "t = t1 @ t2" "after (step start i) t1 = Some (Done x)"
      "after (case x of Inl e \<Rightarrow> Done (Inl e) | Inr z \<Rightarrow> case z of Some b \<Rightarrow> Done (Inr b)
         | None \<Rightarrow> poll (Suc n) (step start) (Suc i)) t2 = Some Hang"
    unfolding poll.simps(2) [of "Suc n"] attempt_def by (rule after_bind_Hang [OF _ step_returns])
  have x: "x = Inr None" using t(3) by (cases t2) (auto split: sum.splits option.splits)
  with t(3) Suc.IH obtain a r b where "t2 = a @ (XNow, r) # b" "slept a = n * pause"
    "\<not> timed_out start seconds (as_now r)" by fastforce
  moreover have "waited start seconds pause t1" using step_waits t(2) x by simp
  then have "slept t1 = pause" by (auto simp: waited_def)
  ultimately show ?case using t(1) by (intro exI [of _ "t1 @ a"]) auto
qed

lemma ends_in_time:
  assumes "honest_from start 0 t" and "seconds < (n - 1) * pause"
  shows "after (poll n (step start) i) t \<noteq> Some Hang"
proof
  assume hang: "after (poll n (step start) i) t = Some Hang"
  obtain m where n: "n = Suc m" using assms(2) by (cases n) auto
  from last_reading [OF hang [unfolded n]] obtain a r b where r: "t = a @ (XNow, r) # b"
    "slept a = m * pause" "\<not> timed_out start seconds (as_now r)" by blast
  have "start + m * pause * 10 ^ 9 \<le> as_now r"
    using honest_from_reading assms(1) r(1,2) by fastforce
  moreover have "as_now r \<le> start + seconds * 10 ^ 9" using r(3) by (simp add: timed_out_def)
  ultimately have "m * pause \<le> seconds" by simp
  with assms(2) n show False by simp
qed

lemma loop_ends:
  assumes "honest h" and "seconds < (n - 1) * pause"
  shows "after (from_now (\<lambda>start. poll n (step start) i)) h \<noteq> Some Hang"
proof (cases h)
  case (Cons e t)
  then show ?thesis using assms ends_in_time by (cases e) (auto simp: from_now_def)
qed (simp add: from_now_def)

end

section \<open>The loops of the tool\<close>

lemma sleepless_parts [simp]:
  "sleepless (xget_server cl i)" "sleepless (run_ssh_script host user key kh script mode)"
  "sleepless (ssh_probe host user key kh v)" "sleepless (probe_users host key kh v users)"
  by (induction users) (auto simp: xget_server_def run_ssh_script_def ssh_probe_def
      intro!: within_attempt split: sum.split)

lemma hang_free_wait [simp]: "hang_free (wait_or_fail start n e pause)"
  by (simp add: wait_or_fail_def)

lemma hang_free_parts [simp]:
  "hang_free (xget_server cl i)" "hang_free (run_ssh_script host user key kh script mode)"
  "hang_free (ssh_probe host user key kh v)" "hang_free (probe_users host key kh v users)"
  by (induction users) (auto simp: xget_server_def run_ssh_script_def ssh_probe_def
      intro!: hang_free_attempt split: sum.split)

lemma attempt_waited:
  assumes "after (attempt p f) t = Some (Done (Inr None))" and "sleepless p"
    and "\<And>y u. after (f y) u = Some (Done (Inr None)) \<Longrightarrow> waited start seconds pause u"
  shows "waited start seconds pause t"
  using assms(1,2) unfolding attempt_def
  by (rule bind_waited) (auto simp: after_case_Inr after_to_Done intro: assms(3) split: sum.splits)

interpretation server_wait: timed_poll "server_step cl server_id seconds" seconds 5
  for cl server_id seconds
proof unfold_locales
  fix start i t
  show "hang_free (server_step cl server_id seconds start i)"
    by (auto simp: server_step_def intro!: hang_free_attempt split: option.split)
  show "waited start seconds 5 t"
    if "after (server_step cl server_id seconds start i) t = Some (Done (Inr None))"
    using that unfolding server_step_def
    by (rule attempt_waited)
       (auto split: option.splits if_splits simp: after_to_Done intro: wait_or_fail_waited)
qed

interpretation ssh_wait: timed_poll "ssh_step host users key kh seconds" seconds 5
  for host users key kh seconds
proof unfold_locales
  fix start i t
  show "hang_free (ssh_step host users key kh seconds start i)"
    by (auto simp: ssh_step_def intro!: hang_free_attempt split: option.split)
  show "waited start seconds 5 t"
    if "after (ssh_step host users key kh seconds start i) t = Some (Done (Inr None))"
    using that unfolding ssh_step_def
    by (rule attempt_waited) (auto split: option.splits simp: after_to_Done intro: wait_or_fail_waited)
qed

interpretation k3s_wait: timed_poll "k3s_step host user key kh script seconds" seconds 8
  for host user key kh script seconds
proof unfold_locales
  fix start i t
  show "hang_free (k3s_step host user key kh script seconds start i)"
    by (auto simp: k3s_step_def intro!: hang_free_bind split: sum.split)
  show "waited start seconds 8 t"
    if "after (k3s_step host user key kh script seconds start i) t = Some (Done (Inr None))"
    using that unfolding k3s_step_def
    by (rule bind_waited) (auto split: sum.splits simp: after_to_Done intro: wait_or_fail_waited)
qed

interpretation registry_wait: timed_poll "probe_step host username password" 300 2
  for host username password
proof unfold_locales
  fix start i t
  show "hang_free (probe_step host username password start i)"
    by (auto simp: probe_step_def)
  show "waited start 300 2 t"
    if "after (probe_step host username password start i) t = Some (Done (Inr None))"
  proof -
    from that obtain r u where t: "t = (XProbe host username password, r) # u"
      "waited start 300 2 u"
      by (auto simp: probe_step_def after_to_Done split: if_splits dest!: wait_or_fail_waited)
    then show ?thesis using waited_prefix [of "[(XProbe host username password, r)]"] by simp
  qed
qed

text \<open>
  C37: the loops of \<open>dev-up\<close> that wait for the server, for SSH, for k3s and for the registry end on a
  clock on which a sleep takes at least its time.  With \<open>fuel\<close> iterations allowed, the first three, which
  sleep 5, 5 and 8 seconds, never use up the allowance if their timeout is less than \<open>5 * (fuel - 1)\<close>
  seconds; the last one, which waits 300 seconds with sleeps of 2, does not if \<open>fuel - 1\<close> is more than
  150.
\<close>

theorem waiting_ends_in_time:
  assumes "honest h"
  shows "(seconds < (fuel - 1) * 5 \<longrightarrow>
        after (wait_for_server_active fuel cl server_id seconds) h \<noteq> Some Hang
      \<and> after (wait_for_ssh_ready fuel host users key kh seconds) h \<noteq> Some Hang
      \<and> after (ensure_k3s_server fuel host user key kh registry seconds node_name) h \<noteq> Some Hang)
    \<and> (150 < fuel - 1 \<longrightarrow>
        after (wait_for_registry_http fuel host username password) h \<noteq> Some Hang)"
proof -
  have "after (wait_for_server_active fuel cl server_id seconds) h \<noteq> Some Hang
      \<and> after (wait_for_ssh_ready fuel host users key kh seconds) h \<noteq> Some Hang
      \<and> after (ensure_k3s_server fuel host user key kh registry seconds node_name) h \<noteq> Some Hang"
    if "seconds < (fuel - 1) * 5"
  proof -
    have "seconds < (fuel - 1) * 8" using that by linarith
    with that show ?thesis
      by (simp add: wait_for_server_active_def wait_for_ssh_ready_def ensure_k3s_server_def
          server_wait.loop_ends ssh_wait.loop_ends k3s_wait.loop_ends assms)
  qed
  moreover have "after (wait_for_registry_http fuel host username password) h \<noteq> Some Hang"
    if fuel: "150 < fuel - 1"
  proof (cases h)
    case (Cons e t)
    moreover have "honest t" if "fst e = XHttpClient" using assms that Cons by (cases e) auto
    ultimately show ?thesis
      using registry_wait.loop_ends [of t fuel host username password 1] fuel
      by (cases e; cases t) (auto simp: wait_for_registry_http_def split: sum.split)
  qed (simp add: wait_for_registry_http_def)
  ultimately show ?thesis by blast
qed

text \<open>A run of two attempts: the server is still \<open>new\<close>, and the loop sleeps twice.\<close>

definition waiting_client :: bl_client where
  "waiting_client = \<lparr>bc_token = ''t'', bc_api_base = XTASK_API_BASE\<rparr>"

definition new_server_seen :: "xcall \<times> xreply" where
  "new_server_seen =
     (XHttp (xreq waiting_client GET (''/servers/'' @ show_i64 7) XNoBody),
      XResponse \<lparr>xs_code = 200, xs_status = [], xs_text = None, xs_json = XServerBody
        \<lparr>ds_id = 7, ds_name = ''bl-controlplane'', ds_status = ''new'', ds_region = ''bne'', ds_networks = []\<rparr>\<rparr>)"

definition waiting_run :: xhist where
  "waiting_run = (XNow, XInstant 9) #
     [new_server_seen, (XNow, XInstant 1000000009), (XSleep 5, XOk)]
     @ [new_server_seen, (XNow, XInstant 7000000000), (XSleep 5, XOk)]"

lemma waiting_step:
  assumes "t \<le> 900 * 10 ^ 9"
  shows "after (server_step waiting_client 7 900 9 i) [new_server_seen, (XNow, XInstant t), (XSleep 5, XOk)]
    = Some (Done (Inr None))"
  using assms
  by (simp add: server_step_def new_server_seen_def xget_server_def xread_reply_def
      xread_opt_def xread_def xsuccess_def wait_or_fail_def timed_out_def)

lemma waiting_run_goes_on:
  "after (wait_for_server_active 400 waiting_client 7 900) waiting_run
     = Some (poll 398 (server_step waiting_client 7 900 9) 3)"
proof -
  let ?step = "server_step waiting_client 7 900 9"
  have go_on: "after (poll (Suc n) ?step i) ([new_server_seen, (XNow, XInstant t), (XSleep 5, XOk)] @ u)
      = after (poll n ?step (Suc i)) u" if "t \<le> 900 * 10 ^ 9" for n i t u
    by (simp add: after_attempt(1) [OF waiting_step [OF that]] del: append_Cons append_Nil)
  have "after (poll 400 ?step 1) (tl waiting_run) = Some (poll 398 ?step 3)"
    using go_on [of 1000000009 399 1] go_on [of 7000000000 398 2 "[]"]
    by (simp add: waiting_run_def numeral_2_eq_2 numeral_3_eq_3)
  then show ?thesis
    by (simp add: wait_for_server_active_def from_now_def waiting_run_def)
qed

lemma waiting_ends_in_time_witness:
  "honest waiting_run \<and> slept waiting_run = 10
   \<and> (\<exists>q. after (wait_for_server_active 400 waiting_client 7 900) waiting_run = Some q \<and> q \<noteq> Hang)"
proof -
  have honest: "honest waiting_run" by (simp add: waiting_run_def new_server_seen_def)
  then have "after (wait_for_server_active 400 waiting_client 7 900) waiting_run \<noteq> Some Hang"
    using waiting_ends_in_time [of waiting_run 900 400] by simp
  then have "poll 398 (server_step waiting_client 7 900 9) 3 \<noteq> Hang"
    using waiting_run_goes_on by simp
  moreover have "slept waiting_run = 10" by (simp add: waiting_run_def new_server_seen_def)
  ultimately show ?thesis using honest waiting_run_goes_on by blast
qed

text \<open>
  C40: the loops of \<open>dev-up\<close> over the API of the cluster end whatever it answers, an error or nothing
  at all included: after at most 61 attempts for the nodes to register and for the service account to
  appear, and 301 for the rollout of the registry.
\<close>

theorem cluster_loops_end:
  "hang_free (wait_for_api_server (61 + n)) \<and> hang_free (deploy_registry (301 + n) cfg)
   \<and> hang_free (patch_service_accounts (61 + n) cfg)"
proof -
  have "hang_free (poll (61 + n) api_server_step 1)" by (rule api_server.enough_fuel) simp_all
  moreover have "hang_free (poll (301 + n) rollout_step 1)" by (rule rollout.enough_fuel) simp_all
  moreover have "hang_free (poll (61 + n) account_step 1)" by (rule account.enough_fuel) simp_all
  ultimately show ?thesis
    by (auto simp: wait_for_api_server_def deploy_registry_def patch_service_accounts_def apply_object_def
        intro!: hang_free_attempt split: sum.split)
qed

end
