(* ===== verification/Spec2Isabelle.thy ===== *)
theory Spec2Isabelle
  imports Interleaving Service_Lb Scaling Dns_Records Main_Program Xtask_Up Xtask_Waiting
begin

text \<open>
  A verification library for the BinaryLane controller, a Rust program that joins a Kubernetes
  cluster to the BinaryLane cloud.

  The program is one process of three services over one API client.
  \<^item> Controllers (\<open>src/controllers/\<close>) reconcile Nodes and Services: \<open>node_sync\<close> copies facts of a
    server to its Node, \<open>node_bind\<close> adopts an existing server, \<open>node_provision\<close> creates one,
    \<open>node_deletion\<close> deletes server and Secrets before a Node goes, \<open>service\<close> keeps load balancers.
  \<^item> The autoscaler (\<open>src/autoscaler.rs\<close>, \<open>src/user_data.rs\<close>) answers the gRPC calls of the cluster
    autoscaler by creating and deleting Node objects and their Secrets; the controllers above do
    the rest.
  \<^item> The webhook (\<open>src/dns_webhook.rs\<close>) lets external-dns manage the records of BinaryLane domains.

  The client is \<open>binarylane-client/src/lib.rs\<close>, the custom resource \<open>src/crd.rs\<close>; \<open>src/main.rs\<close> reads
  the TLS files and starts the tasks.  Beside the process there is the development tool
  (\<open>xtask/src/main.rs\<close>): \<open>dev-up\<close> makes a server and turns it into a cluster with a registry, \<open>dev-down\<close>
  undoes it, and the smaller commands edit the source tree.

  How code becomes definitions.  An asynchronous function is a program (\<open>Effects.prog\<close>): a tree
  that asks the environment, waits for a reply, and ends in a result, a panic or, when the fuel of
  a loop is used up, in \<open>Hang\<close>.  \<open>bind\<close> is sequencing, \<open>attempt\<close> is \<open>?\<close>, \<open>for_each\<close> a loop with \<open>?\<close> in
  its body.  A history is the list of calls and replies so far; \<open>after p h\<close> is what is left of \<open>p\<close>
  after \<open>h\<close>, so \<open>after p (h @ (c, r) # u) = Some q\<close> says that \<open>p\<close> makes the call \<open>c\<close> after \<open>h\<close>.  The
  replies are not constrained: every property is about all replies, or about those its hypotheses
  name.  Errors are values of a sum type; machine integers are words that wrap as in the release
  build; strings are lists of bytes written as characters.

  Theories, from the bottom up.
  \<^item> \<open>Prelude\<close>: options, sorted maps (\<open>BTreeMap\<close>), strings, printing and parsing of integers.
  \<^item> \<open>Effects\<close>: programs and their runs; \<open>safe\<close>, a guard on every call given the history before it;
    \<open>ends\<close>, a guard with what is known of a successful result; \<open>within\<close>, a guard without history;
    \<open>panic_free\<close>; \<open>pool_run\<close>, the interleaving of tasks.
  \<^item> \<open>Utf8\<close>: \<open>String::from_utf8\<close> and \<open>from_utf8_lossy\<close>.
  \<^item> \<open>Kube_Types\<close>, \<open>Crd\<close>, \<open>Bl_Types\<close>: the data; \<open>Api\<close>: the calls, the replies and how they are read.
  \<^item> \<open>Bl_Client\<close>: one definition per method of the client; the locale \<open>paged_endpoint\<close> states what a
    listing promises and is interpreted for the six listings.  A listing takes fuel, the number of
    pages it may fetch; as much fuel as the service has pages is enough.
  \<^item> \<open>Controllers\<close>: \<open>controllers/mod.rs\<close>, with the catalog behind its lock; the locale
    \<open>node_reconciler\<close> states the scope of a controller of Nodes and is interpreted by all four.
  \<^item> \<open>Node_Sync\<close>, \<open>Node_Bind\<close>, \<open>Node_Provision\<close>, \<open>Node_Deletion\<close>, \<open>Service_Lb\<close>: one controller each,
    from the handler down, with what must have happened before each of its writes.  \<open>Node_Sync\<close> also
    runs its pass against a Node that a merge patch changes as RFC 7386 says (\<open>node_world\<close>).
  \<^item> \<open>User_Data\<close>: template variables; \<open>Asg_Provider\<close> and \<open>Autoscaler\<close>: the helpers and the handlers of
    the gRPC service; \<open>Scaling\<close>: its properties.
  \<^item> \<open>Dns_Webhook\<close>: the handlers of the webhook; \<open>Dns_Records\<close>: its properties.
  \<^item> \<open>Interleaving\<close>: passes of the four Node controllers running concurrently.
  \<^item> \<open>Embedding\<close>: programs run inside a larger program, sequences of steps, and \<open>poll\<close>, the loop that
    repeats a step; the locale \<open>bounded_poll\<close> says when its fuel is never used up.
  \<^item> \<open>Main_Program\<close>: \<open>main\<close>, its tasks and signals, the gRPC server, and the listener of the webhook
    with its TLS handshakes (the end of \<open>src/dns_webhook.rs\<close>); the passes of the controllers are
    embedded in it.
  \<^item> \<open>Xtask_Env\<close> to \<open>Xtask_Dev\<close>: the development tool: its environment, texts, client, local state, SSH,
    set-up of the cluster, and commands.  \<open>Xtask_Safety\<close>, \<open>Xtask_Up\<close> and \<open>Xtask_Waiting\<close> hold its
    properties; in the last one the locale \<open>timed_poll\<close> is interpreted for the four loops that read
    the clock.

  What the lemmas show.  For each controller a guard theorem (\<open>*_guarded\<close>) says, call by call, what
  has happened before; the properties are read off it: a server or a load balancer is created once
  everything it needs is in place, and a finalizer is released once everything it protects is gone.
  The autoscaler stores Secrets before the Node that reads them, and stays within the limits asked
  for.  The webhook changes the records it was asked to and reports those there are.  The sockets
  are protected exactly as configured.  The development tool creates at most one server, has
  its id in the state file whenever it waits, and deletes only what belongs to its cluster; its output is read back by a shell.

  Fuel.  A loop over pages needs as many units as there are pages (\<open>listing_returns_every_page\<close>).
  The loops of \<open>dev-up\<close> over the API of the cluster stop by themselves after 61 or 301 attempts
  (\<open>cluster_loops_end\<close>); those that read the clock stop, on a clock on which a sleep takes its time,
  within more iterations than the timeout has pauses (\<open>waiting_ends_in_time\<close>: for the default of 900
  seconds and the 300 seconds of the registry, 182).  The accept loop of the webhook runs for ever by intention and has fuel only to be
  total; the reconcile loops of the libraries are modelled pass by pass.

  Abstractions.  Logging is left out.  The futures of \<open>try_join_all\<close>, which only read, run one after
  the other.  The order of a \<open>HashSet\<close> is a reply.  A lock is a pair of calls, and other tasks may
  run between any two calls.  The template engine (\<open>minijinja\<close>), the protobuf encoding of a Node
  and the fallback of \<open>name_any\<close> are parameters, since their code is not in the repository; so are
  the parsing of socket addresses and PEM files, the printing of JSON, YAML and base64, and the
  schema of the custom resource.

  Not modelled: the build script and the code it generates, the module declarations, the helpers of
  the integration tests, and the messages on standard error.
\<close>

section \<open>From the autoscaler to a server\<close>

lemma scaled_labels:
  assumes "k \<in> set RESERVED_LABELS" and "k \<noteq> LABEL_HOSTNAME"
  shows "meta_label (n_meta (scaled_node (su\<lparr>su_attrs := build_node_labels_and_taints g spec\<rparr>) name)) k
    = map_of (base_labels g spec) k"
  using assms by (simp add: reserved_label_kept)

text \<open>
  C16: the Nodes the autoscaler creates are ready for the provisioning controller: whatever the
  template of the group says, they have the three labels with the size, the region and the image of
  the group, no server id label, and the finalizer that keeps them until their server is deleted;
  so a pass over one leaves it alone only if the template itself carries the failure annotation.
\<close>

theorem scaled_node_is_provisionable:
  fixes a :: asg and su :: scale_up and g name :: string
  defines "n \<equiv> scaled_node (su\<lparr>su_attrs := build_node_labels_and_taints g (asg_spec a)\<rparr>) name"
  shows "node_config n = (as_size (asg_spec a), as_region (asg_spec a), as_image (asg_spec a))
    \<and> missing_labels (n_meta n) = [] \<and> \<not> has_label (n_meta n) LABEL_SERVER_ID
    \<and> has_finalizer FINALIZER (n_meta n)
    \<and> (finished (node_provision_reconcile ctx n) = Some (Returned (Inr AwaitChange)) \<longleftrightarrow>
         meta_annotation (n_meta n) ANNOTATION_PROVISION_FAILED = Some (config_hash (n_meta n)))"
proof -
  have keys: "LABEL_SIZE \<in> set RESERVED_LABELS" "LABEL_REGION \<in> set RESERVED_LABELS"
    "LABEL_IMAGE \<in> set RESERVED_LABELS" "LABEL_SERVER_ID \<in> set RESERVED_LABELS"
    "LABEL_SIZE \<noteq> LABEL_HOSTNAME" "LABEL_REGION \<noteq> LABEL_HOSTNAME" "LABEL_IMAGE \<noteq> LABEL_HOSTNAME"
    "LABEL_SERVER_ID \<noteq> LABEL_HOSTNAME"
    by (simp_all add: RESERVED_LABELS_def const_defs)
  have labels: "meta_label (n_meta n) LABEL_SIZE = Some (as_size (asg_spec a))"
    "meta_label (n_meta n) LABEL_REGION = Some (as_region (asg_spec a))"
    "meta_label (n_meta n) LABEL_IMAGE = Some (as_image (asg_spec a))"
    unfolding n_def using keys by (simp_all add: scaled_labels base_labels_values del: scaled_node_meta)
  have "map_of (base_labels g (asg_spec a)) LABEL_SERVER_ID = None"
    by (simp add: map_of_base_labels owned_labels_def const_defs)
  then have unbound: "\<not> has_label (n_meta n) LABEL_SERVER_ID"
    unfolding n_def has_label_iff using keys by (simp add: scaled_labels del: scaled_node_meta)
  have missing: "missing_labels (n_meta n) = []"
    by (simp add: missing_labels_def provision_keys_def labels)
  have live: "m_deletion_timestamp (n_meta n) = None"
    by (simp add: n_def scaled_node_def empty_meta_def)
  have "provision_keys \<noteq> []" by (simp add: provision_keys_def)
  then show ?thesis
    using unbound missing live
    by (simp add: provision_idle_iff node_config_def labels) (simp add: n_def has_finalizer_def)
qed

end
